(* ===== verification/Relay_Prelude.thy ===== *)
theory Relay_Prelude
  imports Main "HOL-Library.Code_Target_Numeral" "HOL-Library.Word" "HOL-Library.AList"
begin

text \<open>
  Shared vocabulary of the development: names for the machine types of the Rust code, its
  saturating, wrapping and checked integer operations, the programs with state and errors that
  model its asynchronous methods, a small calculus for state invariants of such programs, and
  the list and association-list lemmas several components use.
\<close>

named_theorems prog_simps \<open>unfolding rules of stateful programs\<close>
named_theorems pres_intros \<open>introduction rules for invariant preservation\<close>

section \<open>Machine types\<close>

text \<open>
  A byte is an \<open>8 word\<close>. Counters of Rust type \<open>u64\<close>, \<open>usize\<close> and \<open>i64\<close> are natural numbers or
  integers with the wrap-around, saturation or range check written out at each operation.
  A \<open>DateTime<Utc>\<close> and a \<open>Duration\<close> are integers counting nanoseconds.
\<close>

type_synonym byte = "8 word"
type_synonym instant = int
type_synonym duration = int

abbreviation u64_max :: nat where "u64_max \<equiv> 2 ^ 64 - 1"
abbreviation usize_max :: nat where "usize_max \<equiv> 2 ^ 64 - 1"
abbreviation i64_max :: nat where "i64_max \<equiv> 2 ^ 63 - 1"
abbreviation i32_max :: nat where "i32_max \<equiv> 2 ^ 31 - 1"

definition wrapping_add_u64 :: "nat \<Rightarrow> nat \<Rightarrow> nat" where
  "wrapping_add_u64 a b = (a + b) mod 2 ^ 64"

definition saturating_add_usize :: "nat \<Rightarrow> nat \<Rightarrow> nat" where
  "saturating_add_usize a b = min (a + b) usize_max"

definition saturating_sub_usize :: "nat \<Rightarrow> nat \<Rightarrow> nat" where
  "saturating_sub_usize a b = a - b"

definition i64_try_from :: "nat \<Rightarrow> int option" where
  "i64_try_from n = (if n \<le> i64_max then Some (int n) else None)"

definition i32_try_from :: "nat \<Rightarrow> int option" where
  "i32_try_from n = (if n \<le> i32_max then Some (int n) else None)"

definition seconds :: "int \<Rightarrow> duration" where
  "seconds n = n * 1000000000"

text \<open>\<open>Duration::num_seconds\<close> truncates towards zero.\<close>

definition num_seconds :: "duration \<Rightarrow> int" where
  "num_seconds d = (if d < 0 then - ((- d) div 1000000000) else d div 1000000000)"

lemma unat_byte_less: "unat (b :: byte) < 256"
  using unsigned_less [of b, where ?'a = nat] by simp

lemma unat_u64_less: "unat (w :: 64 word) < 2 ^ 64"
  using unsigned_less [of w, where ?'a = nat] by simp

section \<open>Programs with state and errors\<close>

text \<open>
  An \<open>async fn\<close> that returns \<open>Result<A, E>\<close> over shared state is a function from the state to
  the result and the new state. An error keeps the effects made before it, as an early return
  with the question-mark operator does.
\<close>

type_synonym ('s, 'e, 'a) prog = "'s \<Rightarrow> ('e + 'a) \<times> 's"

definition retP :: "'a \<Rightarrow> ('s, 'e, 'a) prog" where
  "retP x = (\<lambda>s. (Inr x, s))"

definition raiseP :: "'e \<Rightarrow> ('s, 'e, 'a) prog" where
  "raiseP e = (\<lambda>s. (Inl e, s))"

definition bindP :: "('s, 'e, 'a) prog \<Rightarrow> ('a \<Rightarrow> ('s, 'e, 'b) prog) \<Rightarrow> ('s, 'e, 'b) prog" where
  "bindP m k = (\<lambda>s. case m s of (Inl e, t) \<Rightarrow> (Inl e, t) | (Inr x, t) \<Rightarrow> k x t)"

text \<open>\<open>attemptP\<close> hands the whole \<open>Result\<close> to the continuation, for \<open>match\<close> and \<open>let _ =\<close>.\<close>

definition attemptP :: "('s, 'e, 'a) prog \<Rightarrow> ('s, 'f, 'e + 'a) prog" where
  "attemptP m = (\<lambda>s. case m s of (r, t) \<Rightarrow> (Inr r, t))"

definition mapErrP :: "('e \<Rightarrow> 'f) \<Rightarrow> ('s, 'e, 'a) prog \<Rightarrow> ('s, 'f, 'a) prog" where
  "mapErrP f m = (\<lambda>s. case m s of (Inl e, t) \<Rightarrow> (Inl (f e), t) | (Inr x, t) \<Rightarrow> (Inr x, t))"

definition readP :: "('s \<Rightarrow> 'a) \<Rightarrow> ('s, 'e, 'a) prog" where
  "readP f = (\<lambda>s. (Inr (f s), s))"

definition modifyP :: "('s \<Rightarrow> 's) \<Rightarrow> ('s, 'e, unit) prog" where
  "modifyP f = (\<lambda>s. (Inr (), f s))"

definition okOrP :: "'a option \<Rightarrow> 'e \<Rightarrow> ('s, 'e, 'a) prog" where
  "okOrP x e = (case x of None \<Rightarrow> raiseP e | Some a \<Rightarrow> retP a)"

definition guardP :: "bool \<Rightarrow> 'e \<Rightarrow> ('s, 'e, unit) prog" where
  "guardP b e = (if b then retP () else raiseP e)"

lemmas prog_defs = retP_def raiseP_def bindP_def attemptP_def mapErrP_def readP_def modifyP_def
  okOrP_def guardP_def

lemma retP_run [prog_simps, simp]: "retP x s = (Inr x, s)"
  by (simp add: retP_def)

lemma raiseP_run [prog_simps, simp]: "raiseP e s = (Inl e, s)"
  by (simp add: raiseP_def)

lemma readP_run [prog_simps, simp]: "readP f s = (Inr (f s), s)"
  by (simp add: readP_def)

lemma modifyP_run [prog_simps, simp]: "modifyP f s = (Inr (), f s)"
  by (simp add: modifyP_def)

lemma okOrP_simps [prog_simps, simp]:
  "okOrP None e = raiseP e" "okOrP (Some a) e = retP a"
  by (simp_all add: okOrP_def)

lemma guardP_simps [prog_simps, simp]:
  "guardP True e = retP ()" "guardP False e = raiseP e"
  by (simp_all add: guardP_def)

lemma bindP_run [prog_simps]:
  "bindP m k s = (case m s of (Inl e, t) \<Rightarrow> (Inl e, t) | (Inr x, t) \<Rightarrow> k x t)"
  by (simp add: bindP_def)

lemma attemptP_run [prog_simps]: "attemptP m s = (Inr (fst (m s)), snd (m s))"
  by (simp add: attemptP_def split: prod.splits)

lemma mapErrP_run [prog_simps]:
  "mapErrP f m s = (case m s of (Inl e, t) \<Rightarrow> (Inl (f e), t) | (Inr x, t) \<Rightarrow> (Inr x, t))"
  by (simp add: mapErrP_def)

text \<open>The monad laws, used to bring the gate of a composed operation to the front.\<close>

lemma bindP_assoc: "bindP (bindP m k) h = bindP m (\<lambda>x. bindP (k x) h)"
  by (auto simp: bindP_def fun_eq_iff split: prod.splits sum.splits)

lemma bindP_ret: "bindP (retP x) k = k x"
  by (simp add: bindP_def fun_eq_iff)

lemma bindP_raise: "bindP (raiseP e) k = raiseP e"
  by (simp add: bindP_def fun_eq_iff)

lemma bindP_if: "bindP (if b then m else n) k = (if b then bindP m k else bindP n k)"
  by simp

lemma bindP_Inr: "m s = (Inr x, t) \<Longrightarrow> bindP m k s = k x t"
  by (simp add: bindP_def)

lemma bindP_Inl: "m s = (Inl e, t) \<Longrightarrow> bindP m k s = (Inl e, t)"
  by (simp add: bindP_def)

lemmas bindP_laws = bindP_assoc bindP_ret bindP_raise bindP_if

text \<open>What a successful run of each combinator says.\<close>

lemma bindP_Inr_iff: "bindP m k s = (Inr y, t) \<longleftrightarrow> (\<exists>x u. m s = (Inr x, u) \<and> k x u = (Inr y, t))"
  by (auto simp: bindP_def split: prod.splits sum.splits)

lemma mapErrP_Inr_iff: "mapErrP f m s = (Inr x, t) \<longleftrightarrow> m s = (Inr x, t)"
  by (auto simp: mapErrP_def split: prod.splits sum.splits)

lemma attemptP_Inr_iff: "attemptP m s = (Inr r, t) \<longleftrightarrow> m s = (r, t)"
  by (cases "m s") (simp add: attemptP_def)

lemma okOrP_Inr_iff: "okOrP x e s = (Inr a, t) \<longleftrightarrow> x = Some a \<and> t = s"
  by (cases x) auto

lemma guardP_Inr_iff: "guardP b e s = (Inr a, t) \<longleftrightarrow> b \<and> t = s"
  by (cases b) auto

lemmas Inr_iffs = bindP_Inr_iff mapErrP_Inr_iff attemptP_Inr_iff okOrP_Inr_iff guardP_Inr_iff

section \<open>Invariant preservation\<close>

text \<open>
  \<open>preserves I m\<close>: whatever \<open>m\<close> returns, an error included, it keeps \<open>I\<close>. The rules below
  decompose a program along its combinators, so that a component proves one fact for every
  primitive operation and the composed operations follow.
\<close>

definition preserves :: "('s \<Rightarrow> bool) \<Rightarrow> ('s, 'e, 'a) prog \<Rightarrow> bool" where
  "preserves I m \<longleftrightarrow> (\<forall>s. I s \<longrightarrow> I (snd (m s)))"

lemma preservesI: "(\<And>s. I s \<Longrightarrow> I (snd (m s))) \<Longrightarrow> preserves I m"
  by (simp add: preserves_def)

lemma preservesD: "preserves I m \<Longrightarrow> I s \<Longrightarrow> I (snd (m s))"
  by (simp add: preserves_def)

lemma preserves_ret [pres_intros]: "preserves I (retP x)"
  by (simp add: preserves_def)

lemma preserves_raise [pres_intros]: "preserves I (raiseP e)"
  by (simp add: preserves_def)

lemma preserves_read [pres_intros]: "preserves I (readP f)"
  by (simp add: preserves_def)

lemma preserves_okOr [pres_intros]: "preserves I (okOrP x e)"
  by (cases x) (simp_all add: preserves_ret preserves_raise)

lemma preserves_guard [pres_intros]: "preserves I (guardP b e)"
  by (cases b) (simp_all add: preserves_ret preserves_raise)

lemma preserves_modify: "(\<And>s. I s \<Longrightarrow> I (f s)) \<Longrightarrow> preserves I (modifyP f)"
  by (simp add: preserves_def)

lemma preserves_bind [pres_intros]:
  assumes "preserves I m" and "\<And>x. preserves I (k x)"
  shows "preserves I (bindP m k)"
proof (rule preservesI)
  fix s assume "I s"
  then have "I (snd (m s))" using assms(1) by (simp add: preservesD)
  then show "I (snd (bindP m k s))"
    using assms(2) by (auto simp: bindP_def preserves_def split: prod.splits sum.splits)
qed

text \<open>After a prefix that keeps \<open>I\<close>, the rest of a program may establish something else.\<close>

definition establishes :: "('s \<Rightarrow> bool) \<Rightarrow> ('s \<Rightarrow> bool) \<Rightarrow> ('s, 'e, 'a) prog \<Rightarrow> bool" where
  "establishes I J m \<longleftrightarrow> (\<forall>s. I s \<longrightarrow> J (snd (m s)))"

lemma establishesI: "(\<And>s. I s \<Longrightarrow> J (snd (m s))) \<Longrightarrow> establishes I J m"
  by (simp add: establishes_def)

lemma establishesD: "establishes I J m \<Longrightarrow> I s \<Longrightarrow> J (snd (m s))"
  by (simp add: establishes_def)

lemma establishes_bind:
  assumes "preserves I m" and "\<And>u. I u \<Longrightarrow> J u" and "\<And>x. establishes I J (k x)"
  shows "establishes I J (bindP m k)"
proof (rule establishesI)
  fix s assume "I s"
  then have "I (snd (m s))" using assms(1) by (simp add: preservesD)
  then show "J (snd (bindP m k s))"
    using assms(2,3) by (auto simp: bindP_def establishes_def split: prod.splits sum.splits)
qed

lemma establishes_if:
  "(b \<Longrightarrow> establishes I J m) \<Longrightarrow> (\<not> b \<Longrightarrow> establishes I J n) \<Longrightarrow> establishes I J (if b then m else n)"
  by simp

lemma establishes_stop:
  "(\<And>u. I u \<Longrightarrow> J u) \<Longrightarrow> establishes I J (raiseP e)"
  "(\<And>u. I u \<Longrightarrow> J u) \<Longrightarrow> establishes I J (retP x)"
  by (simp_all add: establishes_def)

lemma preserves_attempt [pres_intros]: "preserves I m \<Longrightarrow> preserves I (attemptP m)"
  by (auto simp: preserves_def attemptP_run)

lemma preserves_mapErr [pres_intros]: "preserves I m \<Longrightarrow> preserves I (mapErrP f m)"
  by (fastforce simp: preserves_def mapErrP_def split: prod.splits sum.splits)

lemma preserves_if [pres_intros]:
  "(b \<Longrightarrow> preserves I m) \<Longrightarrow> (\<not> b \<Longrightarrow> preserves I n) \<Longrightarrow> preserves I (if b then m else n)"
  by simp

lemma preserves_case_option [pres_intros]:
  "preserves I m \<Longrightarrow> (\<And>x. preserves I (k x)) \<Longrightarrow>
    preserves I (case v of None \<Rightarrow> m | Some x \<Rightarrow> k x)"
  by (cases v) simp_all

lemma preserves_case_sum [pres_intros]:
  "(\<And>e. preserves I (h e)) \<Longrightarrow> (\<And>x. preserves I (k x)) \<Longrightarrow>
    preserves I (case v of Inl e \<Rightarrow> h e | Inr x \<Rightarrow> k x)"
  by (cases v) simp_all

lemma preserves_case_list [pres_intros]:
  "preserves I m \<Longrightarrow> (\<And>x xs. preserves I (k x xs)) \<Longrightarrow>
    preserves I (case v of [] \<Rightarrow> m | x # xs \<Rightarrow> k x xs)"
  by (cases v) simp_all

lemma preserves_case_prod [pres_intros]:
  "(\<And>x y. preserves I (k x y)) \<Longrightarrow> preserves I (case v of (x, y) \<Rightarrow> k x y)"
  by (cases v) simp

section \<open>Triples\<close>

text \<open>
  Where the result of one step matters to the next: precondition, postcondition on the result,
  and the condition every error leaves.
\<close>

definition triple ::
  "('s \<Rightarrow> bool) \<Rightarrow> ('s, 'e, 'a) prog \<Rightarrow> ('a \<Rightarrow> 's \<Rightarrow> bool) \<Rightarrow> ('s \<Rightarrow> bool) \<Rightarrow> bool" where
  "triple P m Q E \<longleftrightarrow> (\<forall>s. P s \<longrightarrow> (case m s of (Inl e, t) \<Rightarrow> E t | (Inr x, t) \<Rightarrow> Q x t))"

lemma tripleI:
  assumes "\<And>s e t. P s \<Longrightarrow> m s = (Inl e, t) \<Longrightarrow> E t" and "\<And>s x t. P s \<Longrightarrow> m s = (Inr x, t) \<Longrightarrow> Q x t"
  shows "triple P m Q E"
  using assms by (auto simp: triple_def split: prod.splits sum.splits)

lemma triple_bind:
  "triple P m R E \<Longrightarrow> (\<And>x. triple (R x) (k x) Q E) \<Longrightarrow> triple P (bindP m k) Q E"
  by (fastforce simp: triple_def bindP_def split: prod.splits sum.splits)

lemma triple_mapErr: "triple P m Q E \<Longrightarrow> triple P (mapErrP f m) Q E"
  by (fastforce simp: triple_def mapErrP_def split: prod.splits sum.splits)

lemma triple_preserves: "preserves I m \<Longrightarrow> triple I m (\<lambda>_. I) I"
  by (rule tripleI) (metis preservesD snd_conv)+

lemma triple_weaken:
  "triple P m Q E \<Longrightarrow> (\<And>s. P' s \<Longrightarrow> P s) \<Longrightarrow> (\<And>x s. Q x s \<Longrightarrow> Q' x s) \<Longrightarrow> (\<And>s. E s \<Longrightarrow> E' s) \<Longrightarrow>
    triple P' m Q' E'"
  by (fastforce simp: triple_def split: prod.splits sum.splits)

lemma preserves_triple:
  assumes "triple I m (\<lambda>_. I) I"
  shows "preserves I m"
proof (rule preservesI)
  fix s assume "I s"
  with assms show "I (snd (m s))" by (cases "m s"; cases "fst (m s)") (auto simp: triple_def)
qed

lemma triple_InrD: "triple P m Q E \<Longrightarrow> P s \<Longrightarrow> m s = (Inr x, t) \<Longrightarrow> Q x t"
  by (fastforce simp: triple_def)

section \<open>State machines\<close>

text \<open>
  The contract every component with a state invariant meets: its start states satisfy the
  invariant and each of its labelled steps keeps it. The conclusion, that every state of every
  run satisfies it, is proved once.
\<close>

primrec legal :: "('s \<Rightarrow> 'l \<Rightarrow> 's) \<Rightarrow> ('s \<Rightarrow> 'l \<Rightarrow> bool) \<Rightarrow> 's \<Rightarrow> 'l list \<Rightarrow> bool" where
  "legal step enabled s [] = True"
| "legal step enabled s (l # ls) = (enabled s l \<and> legal step enabled (step s l) ls)"

lemma legal_always [simp]: "legal step (\<lambda>_ _. True) s ls"
  by (induction ls arbitrary: s) simp_all

locale step_machine =
  fixes step :: "'s \<Rightarrow> 'l \<Rightarrow> 's"
    and invar :: "'s \<Rightarrow> bool"
    and enabled :: "'s \<Rightarrow> 'l \<Rightarrow> bool"
  assumes step_invar: "invar s \<Longrightarrow> enabled s l \<Longrightarrow> invar (step s l)"
begin

lemma fold_step_invar: "invar s \<Longrightarrow> legal step enabled s ls \<Longrightarrow> invar (foldl step s ls)"
  by (induction ls arbitrary: s) (simp_all add: step_invar)

end

section \<open>Lists\<close>

lemma filter_append_split:
  assumes "\<forall>x \<in> set xs. \<not> P x" and "\<forall>y \<in> set ys. P y"
  shows "filter P (xs @ ys) = ys"
  using assms by (simp add: filter_id_conv)

lemma find_map_same_key:
  assumes "\<And>x. key (f x) = key x"
  shows "find (\<lambda>x. key x = k) (map f xs) = map_option f (find (\<lambda>x. key x = k) xs)"
  by (induction xs) (auto simp: assms)

lemma find_append_fresh:
  "k \<notin> key ` set xs \<Longrightarrow> find (\<lambda>x. key x = k) (xs @ [y]) = (if key y = k then Some y else None)"
  by (induction xs) auto

lemma find_append_old:
  "key y \<noteq> k \<Longrightarrow> find (\<lambda>x. key x = k) (xs @ [y]) = find (\<lambda>x. key x = k) xs"
  by (induction xs) auto

lemma find_append_Some: "find P xs = Some x \<Longrightarrow> find P (xs @ ys) = Some x"
  by (induction xs) (auto split: if_splits)

lemma find_SomeD: "find P xs = Some x \<Longrightarrow> x \<in> set xs \<and> P x"
  by (auto simp: find_Some_iff)

lemma find_key_distinct:
  "distinct (map key xs) \<Longrightarrow> x \<in> set xs \<Longrightarrow> find (\<lambda>y. key y = key x) xs = Some x"
  by (induction xs) force+

end
