(* ===== verification/Core_Types.thy ===== *)
theory Core_Types
  imports Relay_Prelude
begin

text \<open>
  The domain vocabulary of \<^verbatim>\<open>crates/relayterm-core\<close>: identifiers, the lifecycle enumerations
  with their persisted tags, repository errors, JSON payloads and the persisted rows. The
  contract between a tag printer and its parser is the locale \<open>tag_codec\<close>; each enumeration
  interprets it.
\<close>

section \<open>Identifiers and payloads\<close>

text \<open>
  Identifiers are UUIDs in the source; only their identity matters, so they are natural
  numbers. Fresh ones come from a counter of the store that mints them.
\<close>

type_synonym user_id = nat
type_synonym terminal_session_id = nat
type_synonym attachment_id = nat
type_synonym server_profile_id = nat
type_synonym user_session_id = nat
type_synonym host_id = nat
type_synonym ssh_identity_id = nat
type_synonym known_host_entry_id = nat

datatype json = JNull | JBool bool | JNum int | JStr string | JObj "(string \<times> json) list"

text \<open>Repository errors: \<open>RepositoryError\<close> of \<^verbatim>\<open>repository.rs\<close>.\<close>

datatype repository_error =
    RE_NotFound string
  | RE_Conflict string string
  | RE_Validation string string
  | RE_Database string

text \<open>What a violated \<open>CHECK\<close> constraint turns into.\<close>

definition check_failed :: "string \<Rightarrow> string \<Rightarrow> repository_error" where
  "check_failed entity constraint = RE_Database (entity @ '': database constraint failed ('' @ constraint @ '')'')"

section \<open>Lifecycle enumerations and their tags\<close>

text \<open>\<open>TerminalSessionStatus\<close>: the persisted lifecycle status.\<close>

datatype terminal_session_status =
    TS_Starting
  | TS_Active
  | TS_Detached
  | TS_Closed

primrec status_as_str :: "terminal_session_status \<Rightarrow> string" where
    "status_as_str TS_Starting = ''starting''"
  | "status_as_str TS_Active = ''active''"
  | "status_as_str TS_Detached = ''detached''"
  | "status_as_str TS_Closed = ''closed''"

definition status_from_str_tag :: "string \<Rightarrow> terminal_session_status option" where
  "status_from_str_tag value =
     (if value = ''starting'' then Some TS_Starting
      else if value = ''active'' then Some TS_Active
      else if value = ''detached'' then Some TS_Detached
      else if value = ''closed'' then Some TS_Closed
      else None)"

text \<open>\<open>SessionEventKind\<close>: the kind of an append-only lifecycle event.\<close>

datatype session_event_kind =
    EV_Created
  | EV_Attached
  | EV_Detached
  | EV_Reattached
  | EV_Resized
  | EV_ReplayStarted
  | EV_ReplayCompleted
  | EV_Closed

primrec event_kind_as_str :: "session_event_kind \<Rightarrow> string" where
    "event_kind_as_str EV_Created = ''created''"
  | "event_kind_as_str EV_Attached = ''attached''"
  | "event_kind_as_str EV_Detached = ''detached''"
  | "event_kind_as_str EV_Reattached = ''reattached''"
  | "event_kind_as_str EV_Resized = ''resized''"
  | "event_kind_as_str EV_ReplayStarted = ''replay_started''"
  | "event_kind_as_str EV_ReplayCompleted = ''replay_completed''"
  | "event_kind_as_str EV_Closed = ''closed''"

definition event_kind_from_str_tag :: "string \<Rightarrow> session_event_kind option" where
  "event_kind_from_str_tag value =
     (if value = ''created'' then Some EV_Created
      else if value = ''attached'' then Some EV_Attached
      else if value = ''detached'' then Some EV_Detached
      else if value = ''reattached'' then Some EV_Reattached
      else if value = ''resized'' then Some EV_Resized
      else if value = ''replay_started'' then Some EV_ReplayStarted
      else if value = ''replay_completed'' then Some EV_ReplayCompleted
      else if value = ''closed'' then Some EV_Closed
      else None)"

text \<open>\<open>TerminalRecordingMarkerKind\<close>: the kind of a recording marker row.\<close>

datatype marker_kind =
    MK_Started
  | MK_Attached
  | MK_Detached
  | MK_Reattached
  | MK_Resized
  | MK_Closed
  | MK_ReplayGap

primrec marker_kind_as_str :: "marker_kind \<Rightarrow> string" where
    "marker_kind_as_str MK_Started = ''started''"
  | "marker_kind_as_str MK_Attached = ''attached''"
  | "marker_kind_as_str MK_Detached = ''detached''"
  | "marker_kind_as_str MK_Reattached = ''reattached''"
  | "marker_kind_as_str MK_Resized = ''resized''"
  | "marker_kind_as_str MK_Closed = ''closed''"
  | "marker_kind_as_str MK_ReplayGap = ''replay_gap''"

definition marker_kind_from_str_tag :: "string \<Rightarrow> marker_kind option" where
  "marker_kind_from_str_tag value =
     (if value = ''started'' then Some MK_Started
      else if value = ''attached'' then Some MK_Attached
      else if value = ''detached'' then Some MK_Detached
      else if value = ''reattached'' then Some MK_Reattached
      else if value = ''resized'' then Some MK_Resized
      else if value = ''closed'' then Some MK_Closed
      else if value = ''replay_gap'' then Some MK_ReplayGap
      else None)"

definition allows_seq_zero :: "marker_kind \<Rightarrow> bool" where
  "allows_seq_zero k = (k = MK_Started)"

text \<open>\<open>AuditEventKind\<close>: the kind of a security audit row.\<close>

datatype audit_event_kind =
    AK_LoginSucceeded
  | AK_LoginFailed
  | AK_LogoutSucceeded
  | AK_FirstUserCreated
  | AK_PasswordChanged
  | AK_SessionRevoked
  | AK_SessionsRevoked
  | AK_KeyVaultAccess
  | AK_KeyVaultDecryptFailed
  | AK_HostKeyAccepted
  | AK_HostKeyMismatch
  | AK_HostKeyRevoked
  | AK_ServerProfileCreated
  | AK_ServerProfileUpdated
  | AK_ServerProfileDisabled
  | AK_ServerProfileEnabled
  | AK_ServerProfileDeleted
  | AK_SshIdentityCreated
  | AK_SshIdentityDeleted
  | AK_SessionOpened
  | AK_SessionClosed
  | AK_RecordingPurged
  | AK_Other

primrec audit_kind_as_str :: "audit_event_kind \<Rightarrow> string" where
    "audit_kind_as_str AK_LoginSucceeded = ''login_succeeded''"
  | "audit_kind_as_str AK_LoginFailed = ''login_failed''"
  | "audit_kind_as_str AK_LogoutSucceeded = ''logout_succeeded''"
  | "audit_kind_as_str AK_FirstUserCreated = ''first_user_created''"
  | "audit_kind_as_str AK_PasswordChanged = ''password_changed''"
  | "audit_kind_as_str AK_SessionRevoked = ''session_revoked''"
  | "audit_kind_as_str AK_SessionsRevoked = ''sessions_revoked''"
  | "audit_kind_as_str AK_KeyVaultAccess = ''key_vault_access''"
  | "audit_kind_as_str AK_KeyVaultDecryptFailed = ''key_vault_decrypt_failed''"
  | "audit_kind_as_str AK_HostKeyAccepted = ''host_key_accepted''"
  | "audit_kind_as_str AK_HostKeyMismatch = ''host_key_mismatch''"
  | "audit_kind_as_str AK_HostKeyRevoked = ''host_key_revoked''"
  | "audit_kind_as_str AK_ServerProfileCreated = ''server_profile_created''"
  | "audit_kind_as_str AK_ServerProfileUpdated = ''server_profile_updated''"
  | "audit_kind_as_str AK_ServerProfileDisabled = ''server_profile_disabled''"
  | "audit_kind_as_str AK_ServerProfileEnabled = ''server_profile_enabled''"
  | "audit_kind_as_str AK_ServerProfileDeleted = ''server_profile_deleted''"
  | "audit_kind_as_str AK_SshIdentityCreated = ''ssh_identity_created''"
  | "audit_kind_as_str AK_SshIdentityDeleted = ''ssh_identity_deleted''"
  | "audit_kind_as_str AK_SessionOpened = ''session_opened''"
  | "audit_kind_as_str AK_SessionClosed = ''session_closed''"
  | "audit_kind_as_str AK_RecordingPurged = ''recording_purged''"
  | "audit_kind_as_str AK_Other = ''other''"

definition audit_kind_from_str_tag :: "string \<Rightarrow> audit_event_kind option" where
  "audit_kind_from_str_tag value =
     (if value = ''login_succeeded'' then Some AK_LoginSucceeded
      else if value = ''login_failed'' then Some AK_LoginFailed
      else if value = ''logout_succeeded'' then Some AK_LogoutSucceeded
      else if value = ''first_user_created'' then Some AK_FirstUserCreated
      else if value = ''password_changed'' then Some AK_PasswordChanged
      else if value = ''session_revoked'' then Some AK_SessionRevoked
      else if value = ''sessions_revoked'' then Some AK_SessionsRevoked
      else if value = ''key_vault_access'' then Some AK_KeyVaultAccess
      else if value = ''key_vault_decrypt_failed'' then Some AK_KeyVaultDecryptFailed
      else if value = ''host_key_accepted'' then Some AK_HostKeyAccepted
      else if value = ''host_key_mismatch'' then Some AK_HostKeyMismatch
      else if value = ''host_key_revoked'' then Some AK_HostKeyRevoked
      else if value = ''server_profile_created'' then Some AK_ServerProfileCreated
      else if value = ''server_profile_updated'' then Some AK_ServerProfileUpdated
      else if value = ''server_profile_disabled'' then Some AK_ServerProfileDisabled
      else if value = ''server_profile_enabled'' then Some AK_ServerProfileEnabled
      else if value = ''server_profile_deleted'' then Some AK_ServerProfileDeleted
      else if value = ''ssh_identity_created'' then Some AK_SshIdentityCreated
      else if value = ''ssh_identity_deleted'' then Some AK_SshIdentityDeleted
      else if value = ''session_opened'' then Some AK_SessionOpened
      else if value = ''session_closed'' then Some AK_SessionClosed
      else if value = ''recording_purged'' then Some AK_RecordingPurged
      else if value = ''other'' then Some AK_Other
      else None)"

text \<open>\<open>SshKeyType\<close>: the algorithm of an SSH key.\<close>

datatype ssh_key_type =
    KT_Ed25519
  | KT_Rsa
  | KT_EcdsaP256
  | KT_EcdsaP384
  | KT_EcdsaP521

primrec key_type_as_str :: "ssh_key_type \<Rightarrow> string" where
    "key_type_as_str KT_Ed25519 = ''ed25519''"
  | "key_type_as_str KT_Rsa = ''rsa''"
  | "key_type_as_str KT_EcdsaP256 = ''ecdsa_p256''"
  | "key_type_as_str KT_EcdsaP384 = ''ecdsa_p384''"
  | "key_type_as_str KT_EcdsaP521 = ''ecdsa_p521''"

definition key_type_from_str_tag :: "string \<Rightarrow> ssh_key_type option" where
  "key_type_from_str_tag value =
     (if value = ''ed25519'' then Some KT_Ed25519
      else if value = ''rsa'' then Some KT_Rsa
      else if value = ''ecdsa_p256'' then Some KT_EcdsaP256
      else if value = ''ecdsa_p384'' then Some KT_EcdsaP384
      else if value = ''ecdsa_p521'' then Some KT_EcdsaP521
      else None)"

text \<open>The algorithm of a key as the SSH library names it.\<close>

datatype ecdsa_curve = NistP256 | NistP384 | NistP521

datatype ssh_algorithm = Alg_Ed25519 | Alg_Rsa | Alg_Dsa | Alg_Ecdsa ecdsa_curve | Alg_Other

text \<open>\<open>KnownHostRevocationReason\<close>: why a pinned host key was revoked.\<close>

datatype revocation_reason =
    RR_ServerReinstalled
  | RR_HostKeyRotated
  | RR_LabTargetRecreated
  | RR_OperatorOther

primrec revocation_reason_as_str :: "revocation_reason \<Rightarrow> string" where
    "revocation_reason_as_str RR_ServerReinstalled = ''server_reinstalled''"
  | "revocation_reason_as_str RR_HostKeyRotated = ''host_key_rotated''"
  | "revocation_reason_as_str RR_LabTargetRecreated = ''lab_target_recreated''"
  | "revocation_reason_as_str RR_OperatorOther = ''operator_other''"

definition revocation_reason_from_str_tag :: "string \<Rightarrow> revocation_reason option" where
  "revocation_reason_from_str_tag value =
     (if value = ''server_reinstalled'' then Some RR_ServerReinstalled
      else if value = ''host_key_rotated'' then Some RR_HostKeyRotated
      else if value = ''lab_target_recreated'' then Some RR_LabTargetRecreated
      else if value = ''operator_other'' then Some RR_OperatorOther
      else None)"

section \<open>Persisted rows\<close>

text \<open>The random id of a session event is never read and is left out.\<close>

record terminal_session =
  ts_id :: terminal_session_id
  ts_owner_id :: user_id
  ts_server_profile_id :: server_profile_id
  ts_status :: terminal_session_status
  ts_cols :: nat
  ts_rows :: nat
  ts_created_at :: instant
  ts_last_seen_at :: instant
  ts_closed_at :: "instant option"

record session_attachment =
  sa_id :: attachment_id
  sa_session_id :: terminal_session_id
  sa_attached_at :: instant
  sa_detached_at :: "instant option"
  sa_client_info :: "string option"
  sa_remote_addr :: "string option"
  sa_last_seen_seq :: "int option"

record session_event =
  se_session_id :: terminal_session_id
  se_kind :: session_event_kind
  se_payload :: json
  se_recorded_at :: instant

record audit_event =
  ae_id :: nat
  ae_actor_id :: "user_id option"
  ae_kind :: audit_event_kind
  ae_payload :: json
  ae_remote_addr :: "string option"
  ae_recorded_at :: instant

record reconciled_session =
  rs_session_id :: terminal_session_id
  rs_previous_status :: terminal_session_status

record host =
  ho_id :: host_id
  ho_owner_id :: user_id
  ho_display_name :: string
  ho_hostname :: string
  ho_port :: nat
  ho_default_username :: string
  ho_created_at :: instant
  ho_updated_at :: instant

record ssh_identity =
  si_id :: ssh_identity_id
  si_owner_id :: user_id
  si_name :: string
  si_key_type :: ssh_key_type
  si_public_key :: "byte list"
  si_encrypted_private_key :: "byte list"
  si_fingerprint_sha256 :: string
  si_created_at :: instant
  si_last_used_at :: "instant option"

record server_profile =
  sp_id :: server_profile_id
  sp_owner_id :: user_id
  sp_name :: string
  sp_host_id :: host_id
  sp_ssh_identity_id :: ssh_identity_id
  sp_username_override :: "string option"
  sp_tags :: "string list"
  sp_created_at :: instant
  sp_updated_at :: instant
  sp_last_connected_at :: "instant option"
  sp_disabled_at :: "instant option"

definition is_disabled :: "server_profile \<Rightarrow> bool" where
  "is_disabled p = (sp_disabled_at p \<noteq> None)"

record known_host_entry =
  kh_id :: known_host_entry_id
  kh_host_id :: host_id
  kh_key_type :: ssh_key_type
  kh_fingerprint_sha256 :: string
  kh_public_key :: "byte list"
  kh_first_seen_at :: instant
  kh_trusted_at :: "instant option"
  kh_revoked_at :: "instant option"
  kh_revoked_by :: "user_id option"
  kh_revoked_reason_code :: "revocation_reason option"
  kh_replaced_by_id :: "known_host_entry_id option"

section \<open>The tag contract\<close>

locale tag_codec =
  fixes as_str :: "'k \<Rightarrow> string"
    and from_str_tag :: "string \<Rightarrow> 'k option"
  assumes tag_roundtrip: "from_str_tag (as_str k) = Some k"
    and tag_canonical: "from_str_tag t = Some k \<Longrightarrow> t = as_str k"
begin

lemma parse_iff: "from_str_tag t = Some k \<longleftrightarrow> t = as_str k"
  using tag_roundtrip tag_canonical by auto

lemma print_inj: "inj as_str"
  by (rule injI) (metis tag_roundtrip option.inject)

lemma parse_None_iff: "from_str_tag t = None \<longleftrightarrow> t \<notin> range as_str"
  by (metis image_iff not_Some_eq parse_iff rangeI)

end

interpretation status_tag: tag_codec status_as_str status_from_str_tag
proof unfold_locales
  show "status_from_str_tag (status_as_str k) = Some k" for k
    by (cases k) (simp_all add: status_from_str_tag_def)
  show "status_from_str_tag t = Some k \<Longrightarrow> t = status_as_str k" for t k
    by (auto simp: status_from_str_tag_def split: if_splits)
qed

interpretation event_tag: tag_codec event_kind_as_str event_kind_from_str_tag
proof unfold_locales
  show "event_kind_from_str_tag (event_kind_as_str k) = Some k" for k
    by (cases k) (simp_all add: event_kind_from_str_tag_def)
  show "event_kind_from_str_tag t = Some k \<Longrightarrow> t = event_kind_as_str k" for t k
    by (auto simp: event_kind_from_str_tag_def split: if_splits)
qed

interpretation marker_tag: tag_codec marker_kind_as_str marker_kind_from_str_tag
proof unfold_locales
  show "marker_kind_from_str_tag (marker_kind_as_str k) = Some k" for k
    by (cases k) (simp_all add: marker_kind_from_str_tag_def)
  show "marker_kind_from_str_tag t = Some k \<Longrightarrow> t = marker_kind_as_str k" for t k
    by (auto simp: marker_kind_from_str_tag_def split: if_splits)
qed

interpretation audit_tag: tag_codec audit_kind_as_str audit_kind_from_str_tag
proof unfold_locales
  show "audit_kind_from_str_tag (audit_kind_as_str k) = Some k" for k
    by (cases k) (simp_all add: audit_kind_from_str_tag_def)
  show "audit_kind_from_str_tag t = Some k \<Longrightarrow> t = audit_kind_as_str k" for t k
    by (auto simp: audit_kind_from_str_tag_def split: if_splits)
qed

interpretation key_type_tag: tag_codec key_type_as_str key_type_from_str_tag
proof unfold_locales
  show "key_type_from_str_tag (key_type_as_str k) = Some k" for k
    by (cases k) (simp_all add: key_type_from_str_tag_def)
  show "key_type_from_str_tag t = Some k \<Longrightarrow> t = key_type_as_str k" for t k
    by (auto simp: key_type_from_str_tag_def split: if_splits)
qed

interpretation reason_tag: tag_codec revocation_reason_as_str revocation_reason_from_str_tag
proof unfold_locales
  show "revocation_reason_from_str_tag (revocation_reason_as_str k) = Some k" for k
    by (cases k) (simp_all add: revocation_reason_from_str_tag_def)
  show "revocation_reason_from_str_tag t = Some k \<Longrightarrow> t = revocation_reason_as_str k" for t k
    by (auto simp: revocation_reason_from_str_tag_def split: if_splits)
qed

text \<open>
  The string tags the database stores are canonical for all six persisted enumerations: a
  stored text parses to a kind exactly when it is that kind's tag, so every written row reads
  back as the same kind and no other text is accepted.
\<close>

theorem persisted_tags_are_canonical:
  "(status_from_str_tag t = Some k1 \<longleftrightarrow> t = status_as_str k1)
   \<and> (event_kind_from_str_tag t = Some k2 \<longleftrightarrow> t = event_kind_as_str k2)
   \<and> (marker_kind_from_str_tag t = Some k3 \<longleftrightarrow> t = marker_kind_as_str k3)
   \<and> (audit_kind_from_str_tag t = Some k4 \<longleftrightarrow> t = audit_kind_as_str k4)
   \<and> (key_type_from_str_tag t = Some k5 \<longleftrightarrow> t = key_type_as_str k5)
   \<and> (revocation_reason_from_str_tag t = Some k6 \<longleftrightarrow> t = revocation_reason_as_str k6)"
  by (intro conjI status_tag.parse_iff event_tag.parse_iff marker_tag.parse_iff audit_tag.parse_iff
      key_type_tag.parse_iff reason_tag.parse_iff)

end
