(* ===== verification/Recording_Writer.thy ===== *)
theory Recording_Writer
  imports Core_Types
begin

text \<open>
  The recording tee of \<^verbatim>\<open>crates/relayterm-terminal/src/recording.rs\<close>: the producer side
  (\<open>record_output\<close>, \<open>record_marker\<close>, the pending gap), the bounded command queue and the writer
  task that batches frames into chunks and brackets dropped ranges with \<open>replay_gap\<close> markers.
  The two row tables are kept as one list in insertion order.
\<close>

section \<open>Rows and the repository\<close>

record recording_chunk =
  ck_session :: terminal_session_id
  ck_seq_start :: int
  ck_seq_end :: int
  ck_byte_len :: int
  ck_payload :: "byte list"

record recording_marker =
  mr_session :: terminal_session_id
  mr_kind :: marker_kind
  mr_seq :: int
  mr_payload :: json

datatype recording_row = RowChunk recording_chunk | RowMarker recording_marker

text \<open>
  The repository the writer task appends to. An insert either lands or fails as a whole; the
  two fault lists decide the outcome of the next inserts, and an exhausted list means success.
\<close>

record recording_store =
  rc_rows :: "recording_row list"
  rc_chunk_faults :: "bool list"
  rc_marker_faults :: "bool list"

definition append_chunk :: "recording_chunk \<Rightarrow> recording_store \<Rightarrow> bool \<times> recording_store" where
  "append_chunk input st =
     (case rc_chunk_faults st of
        True # fs \<Rightarrow> (False, st\<lparr>rc_chunk_faults := fs\<rparr>)
      | fs \<Rightarrow> (True, st\<lparr>rc_rows := rc_rows st @ [RowChunk input], rc_chunk_faults := tl fs\<rparr>))"

definition append_marker :: "recording_marker \<Rightarrow> recording_store \<Rightarrow> bool \<times> recording_store" where
  "append_marker input st =
     (case rc_marker_faults st of
        True # fs \<Rightarrow> (False, st\<lparr>rc_marker_faults := fs\<rparr>)
      | fs \<Rightarrow> (True, st\<lparr>rc_rows := rc_rows st @ [RowMarker input], rc_marker_faults := tl fs\<rparr>))"

section \<open>Producer side\<close>

record recording_writer_config =
  chunk_target_bytes :: nat
  chunk_hard_cap_bytes :: nat

definition RECORDING_DEFAULT :: recording_writer_config where
  "RECORDING_DEFAULT =
     \<lparr>chunk_target_bytes = 64 * 1024, chunk_hard_cap_bytes = 2 * 1024 * 1024\<rparr>"

definition QUEUE_CAPACITY :: nat where
  "QUEUE_CAPACITY = 256"

definition WRITER_OVERFLOW :: string where "WRITER_OVERFLOW = ''writer_overflow''"
definition WRITER_ERROR :: string where "WRITER_ERROR = ''writer_error''"
definition FRAME_OVERSIZED :: string where "FRAME_OVERSIZED = ''frame_oversized''"

record pending_gap =
  pg_from_seq :: nat
  pg_to_seq :: nat
  pg_reason :: string

datatype writer_command =
    WC_Output nat "byte list" "pending_gap option"
  | WC_Marker marker_kind int json
  | WC_Shutdown int

text \<open>
  The enabled handle: the command channel (its queued commands and whether the receiver is
  still there), the pending gap and the hard cap captured at construction.
\<close>

record enabled_handle =
  eh_queue :: "writer_command list"
  eh_closed :: bool
  eh_pending_gap :: "pending_gap option"
  eh_hard_cap_bytes :: nat

datatype recording_writer = RW_Disabled | RW_Enabled enabled_handle

datatype send_outcome = Sent | SendFull | SendClosed

definition try_send :: "writer_command \<Rightarrow> enabled_handle \<Rightarrow> send_outcome \<times> enabled_handle" where
  "try_send cmd h =
     (if eh_closed h then (SendClosed, h)
      else if length (eh_queue h) \<ge> QUEUE_CAPACITY then (SendFull, h)
      else (Sent, h\<lparr>eh_queue := eh_queue h @ [cmd]\<rparr>))"

definition merge_gaps :: "pending_gap \<Rightarrow> pending_gap \<Rightarrow> pending_gap" where
  "merge_gaps a b =
     \<lparr>pg_from_seq = min (pg_from_seq a) (pg_from_seq b),
      pg_to_seq = max (pg_to_seq a) (pg_to_seq b), pg_reason = pg_reason a\<rparr>"

definition restore_gap :: "pending_gap option \<Rightarrow> pending_gap \<Rightarrow> pending_gap option" where
  "restore_gap slot gap =
     Some (case slot of Some existing \<Rightarrow> merge_gaps existing gap | None \<Rightarrow> gap)"

definition extend_gap :: "pending_gap option \<Rightarrow> nat \<Rightarrow> string \<Rightarrow> pending_gap option" where
  "extend_gap slot seq reason =
     Some (case slot of
         Some existing \<Rightarrow> \<lparr>pg_from_seq = min (pg_from_seq existing) seq,
                           pg_to_seq = max (pg_to_seq existing) seq,
                           pg_reason = pg_reason existing\<rparr>
       | None \<Rightarrow> \<lparr>pg_from_seq = seq, pg_to_seq = seq, pg_reason = reason\<rparr>)"

definition handle_record_output :: "nat \<Rightarrow> byte list \<Rightarrow> enabled_handle \<Rightarrow> enabled_handle" where
  "handle_record_output seq bytes h =
     (if length bytes > eh_hard_cap_bytes h then
        h\<lparr>eh_pending_gap := extend_gap (eh_pending_gap h) seq FRAME_OVERSIZED\<rparr>
      else
        let gap_before = eh_pending_gap h;
            h1 = h\<lparr>eh_pending_gap := None\<rparr>
        in case try_send (WC_Output seq bytes gap_before) h1 of
             (Sent, h2) \<Rightarrow> h2
           | (SendFull, h2) \<Rightarrow>
               let slot = (case gap_before of
                             Some g \<Rightarrow> restore_gap (eh_pending_gap h2) g
                           | None \<Rightarrow> eh_pending_gap h2)
               in h2\<lparr>eh_pending_gap := extend_gap slot seq WRITER_OVERFLOW\<rparr>
           | (SendClosed, h2) \<Rightarrow> h2)"

definition record_output :: "nat \<Rightarrow> byte list \<Rightarrow> recording_writer \<Rightarrow> recording_writer" where
  "record_output seq bytes w =
     (case w of RW_Disabled \<Rightarrow> RW_Disabled
      | RW_Enabled h \<Rightarrow> RW_Enabled (handle_record_output seq bytes h))"

definition handle_record_marker ::
  "marker_kind \<Rightarrow> nat \<Rightarrow> json \<Rightarrow> enabled_handle \<Rightarrow> enabled_handle" where
  "handle_record_marker kind seq payload h =
     (if seq = 0 \<and> \<not> allows_seq_zero kind then h
      else case i64_try_from seq of
             None \<Rightarrow> h
           | Some seq_i64 \<Rightarrow> snd (try_send (WC_Marker kind seq_i64 payload) h))"

definition record_marker ::
  "marker_kind \<Rightarrow> nat \<Rightarrow> json \<Rightarrow> recording_writer \<Rightarrow> recording_writer" where
  "record_marker kind seq payload w =
     (case w of RW_Disabled \<Rightarrow> RW_Disabled
      | RW_Enabled h \<Rightarrow> RW_Enabled (handle_record_marker kind seq payload h))"

text \<open>\<open>RecordingWriter::enabled\<close>: an empty channel seeded with the \<open>started\<close> marker.\<close>

definition writer_enabled :: "recording_writer_config \<Rightarrow> enabled_handle" where
  "writer_enabled config =
     snd (try_send (WC_Marker MK_Started 0 (JObj []))
       \<lparr>eh_queue = [], eh_closed = False, eh_pending_gap = None,
        eh_hard_cap_bytes = chunk_hard_cap_bytes config\<rparr>)"

text \<open>The command \<open>shutdown\<close> sends: the last sequence number saturates at \<open>i64::MAX\<close>.\<close>

definition shutdown_command :: "nat \<Rightarrow> writer_command" where
  "shutdown_command last_seq =
     WC_Shutdown (case i64_try_from last_seq of Some v \<Rightarrow> v | None \<Rightarrow> int i64_max)"

section \<open>Writer task\<close>

record chunk_batch =
  cb_seq_start :: nat
  cb_seq_end :: nat
  cb_payload :: "byte list"

definition batch_open :: "nat \<Rightarrow> byte list \<Rightarrow> chunk_batch" where
  "batch_open seq data = \<lparr>cb_seq_start = seq, cb_seq_end = seq, cb_payload = data\<rparr>"

definition batch_append :: "chunk_batch \<Rightarrow> nat \<Rightarrow> byte list \<Rightarrow> chunk_batch" where
  "batch_append b seq data = b\<lparr>cb_seq_end := seq, cb_payload := cb_payload b @ data\<rparr>"

definition would_overshoot_hard_cap :: "chunk_batch \<Rightarrow> nat \<Rightarrow> nat \<Rightarrow> bool" where
  "would_overshoot_hard_cap b frame_len hard_cap =
     (saturating_add_usize (length (cb_payload b)) frame_len > hard_cap)"

definition write_marker ::
  "terminal_session_id \<Rightarrow> marker_kind \<Rightarrow> int \<Rightarrow> json \<Rightarrow> recording_store \<Rightarrow> recording_store" where
  "write_marker sid kind seq payload st =
     snd (append_marker \<lparr>mr_session = sid, mr_kind = kind, mr_seq = seq, mr_payload = payload\<rparr> st)"

definition gap_payload :: "int \<Rightarrow> int \<Rightarrow> string \<Rightarrow> json" where
  "gap_payload from_seq to_seq reason =
     JObj [(''from_seq'', JNum from_seq), (''to_seq'', JNum to_seq), (''reason'', JStr reason)]"

definition write_replay_gap ::
  "terminal_session_id \<Rightarrow> pending_gap \<Rightarrow> recording_store \<Rightarrow> recording_store" where
  "write_replay_gap sid gap st =
     (case i64_try_from (pg_from_seq gap) of
        None \<Rightarrow> st
      | Some from_seq \<Rightarrow> (case i64_try_from (pg_to_seq gap) of
          None \<Rightarrow> st
        | Some to_seq \<Rightarrow>
            write_marker sid MK_ReplayGap (max to_seq 1)
              (gap_payload from_seq to_seq (pg_reason gap)) st))"

definition flush_chunk ::
  "terminal_session_id \<Rightarrow> chunk_batch option \<Rightarrow> recording_store \<Rightarrow> recording_store" where
  "flush_chunk sid batch st =
     (case batch of
        None \<Rightarrow> st
      | Some b \<Rightarrow>
          if cb_payload b = [] then st
          else case (i32_try_from (length (cb_payload b)), i64_try_from (cb_seq_start b),
                     i64_try_from (cb_seq_end b)) of
            (Some byte_len, Some seq_start, Some seq_end) \<Rightarrow>
              (case append_chunk \<lparr>ck_session = sid, ck_seq_start = seq_start, ck_seq_end = seq_end,
                     ck_byte_len = byte_len, ck_payload = cb_payload b\<rparr> st of
                 (True, st1) \<Rightarrow> st1
               | (False, st1) \<Rightarrow>
                   write_replay_gap sid
                     \<lparr>pg_from_seq = cb_seq_start b, pg_to_seq = cb_seq_end b,
                      pg_reason = WRITER_ERROR\<rparr> st1)
          | _ \<Rightarrow> st)"

record writer_task_state =
  wt_open :: "chunk_batch option"
  wt_highest_seq_observed :: nat
  wt_store :: recording_store

definition flush_open :: "terminal_session_id \<Rightarrow> writer_task_state \<Rightarrow> writer_task_state" where
  "flush_open sid t = t\<lparr>wt_store := flush_chunk sid (wt_open t) (wt_store t), wt_open := None\<rparr>"

text \<open>The \<open>Output\<close> branch of the task's loop.\<close>

definition task_output ::
  "recording_writer_config \<Rightarrow> terminal_session_id \<Rightarrow> nat \<Rightarrow> byte list \<Rightarrow> pending_gap option
     \<Rightarrow> writer_task_state \<Rightarrow> writer_task_state" where
  "task_output config sid seq data gap_before t0 =
     (let target = chunk_target_bytes config;
          hard_cap = chunk_hard_cap_bytes config;
          t1 = (case gap_before of
                  None \<Rightarrow> t0
                | Some gap \<Rightarrow>
                    let t = flush_open sid t0
                    in t\<lparr>wt_store := write_replay_gap sid gap (wt_store t)\<rparr>)
      in if length data > hard_cap then
           let t2 = flush_open sid t1
           in t2\<lparr>wt_store := write_replay_gap sid
                    \<lparr>pg_from_seq = seq, pg_to_seq = seq, pg_reason = FRAME_OVERSIZED\<rparr> (wt_store t2),
                 wt_highest_seq_observed := max (wt_highest_seq_observed t2) seq\<rparr>
         else
           let t2 = (case wt_open t1 of
                       Some batch \<Rightarrow>
                         if would_overshoot_hard_cap batch (length data) hard_cap then
                           (flush_open sid t1)\<lparr>wt_open := Some (batch_open seq data)\<rparr>
                         else t1\<lparr>wt_open := Some (batch_append batch seq data)\<rparr>
                     | None \<Rightarrow> t1\<lparr>wt_open := Some (batch_open seq data)\<rparr>);
               t3 = (case wt_open t2 of
                       Some batch \<Rightarrow>
                         if length (cb_payload batch) \<ge> target then flush_open sid t2 else t2
                     | None \<Rightarrow> t2)
           in t3\<lparr>wt_highest_seq_observed := max (wt_highest_seq_observed t3) seq\<rparr>)"

text \<open>The \<open>Marker\<close> branch of the task's loop.\<close>

definition task_marker ::
  "terminal_session_id \<Rightarrow> marker_kind \<Rightarrow> int \<Rightarrow> json \<Rightarrow> writer_task_state \<Rightarrow> writer_task_state" where
  "task_marker sid kind seq payload t0 =
     (let t1 = flush_open sid t0;
          t2 = t1\<lparr>wt_store := write_marker sid kind seq payload (wt_store t1)\<rparr>
      in if seq \<ge> 0 then
           t2\<lparr>wt_highest_seq_observed := max (wt_highest_seq_observed t2) (nat seq)\<rparr>
         else t2)"

text \<open>
  The drain loop a \<open>Shutdown\<close> runs over the commands still queued. It handles output frames as
  the main loop does; its marker branch leaves the highest sequence number alone; a second
  \<open>Shutdown\<close> is only acknowledged.
\<close>

fun task_drain ::
  "recording_writer_config \<Rightarrow> terminal_session_id \<Rightarrow> writer_command list \<Rightarrow> writer_task_state
     \<Rightarrow> writer_task_state" where
  "task_drain config sid [] t = t"
| "task_drain config sid (WC_Output seq data gap_before # cmds) t =
     task_drain config sid cmds (task_output config sid seq data gap_before t)"
| "task_drain config sid (WC_Marker kind seq payload # cmds) t =
     (let t1 = flush_open sid t
      in task_drain config sid cmds (t1\<lparr>wt_store := write_marker sid kind seq payload (wt_store t1)\<rparr>))"
| "task_drain config sid (WC_Shutdown last_seq # cmds) t = task_drain config sid cmds t"

definition task_shutdown ::
  "recording_writer_config \<Rightarrow> terminal_session_id \<Rightarrow> int \<Rightarrow> writer_command list \<Rightarrow> writer_task_state
     \<Rightarrow> writer_task_state" where
  "task_shutdown config sid last_seq queued t =
     (let t1 = flush_open sid (task_drain config sid queued t);
          close_seq = (if last_seq \<ge> 1 then last_seq else 1)
      in t1\<lparr>wt_store := write_marker sid MK_Closed close_seq
               (JObj [(''reason'', JStr ''session_close'')]) (wt_store t1)\<rparr>)"

text \<open>The exit of the loop when every sender is gone without a \<open>Shutdown\<close>.\<close>

definition task_dropped :: "terminal_session_id \<Rightarrow> writer_task_state \<Rightarrow> writer_task_state" where
  "task_dropped sid t =
     (let t1 = flush_open sid t;
          close_seq = max (wt_highest_seq_observed t1) 1
      in t1\<lparr>wt_store := write_marker sid MK_Closed
               (case i64_try_from close_seq of Some v \<Rightarrow> v | None \<Rightarrow> int i64_max)
               (JObj [(''reason'', JStr ''writer_dropped'')]) (wt_store t1)\<rparr>)"

text \<open>
  The whole task over the commands it receives: a \<open>Shutdown\<close> drains what is queued behind it
  and ends the task.
\<close>

fun writer_task ::
  "recording_writer_config \<Rightarrow> terminal_session_id \<Rightarrow> writer_command list \<Rightarrow> writer_task_state
     \<Rightarrow> writer_task_state" where
  "writer_task config sid [] t = task_dropped sid t"
| "writer_task config sid (WC_Output seq data gap_before # cmds) t =
     writer_task config sid cmds (task_output config sid seq data gap_before t)"
| "writer_task config sid (WC_Marker kind seq payload # cmds) t =
     writer_task config sid cmds (task_marker sid kind seq payload t)"
| "writer_task config sid (WC_Shutdown last_seq # cmds) t =
     task_shutdown config sid last_seq cmds t"

end
