(* ===== verification/Recording_Coverage.thy ===== *)
theory Recording_Coverage
  imports Recording_Writer
begin

text \<open>
  Correctness of the recording tee under every interleaving of the producer and the writer
  task. The system below steps the two against each other; its invariant says that the persisted
  rows, the open batch, the queued commands and the pending gap account for every stamped frame
  exactly once and in order, and that every persisted chunk holds exactly the bytes of the
  frames in its range.
\<close>

section \<open>Producer and task stepping against each other\<close>

record rec_system =
  sy_handle :: enabled_handle
  sy_task :: writer_task_state
  sy_offered :: "byte list list"

datatype rec_label = RL_Output "byte list" | RL_Marker marker_kind json | RL_Consume

definition rec_init :: "recording_writer_config \<Rightarrow> bool list \<Rightarrow> rec_system" where
  "rec_init config chunk_faults =
     \<lparr>sy_handle = writer_enabled config,
      sy_task = \<lparr>wt_open = None, wt_highest_seq_observed = 0,
                 wt_store = \<lparr>rc_rows = [], rc_chunk_faults = chunk_faults, rc_marker_faults = []\<rparr>\<rparr>,
      sy_offered = []\<rparr>"

text \<open>
  The forwarder stamps consecutive numbers from one, so frame \<open>i\<close> of \<open>sy_offered\<close> carries
  number \<open>i + 1\<close>. A consume step is one turn of the task's loop.
\<close>

definition rec_step ::
  "recording_writer_config \<Rightarrow> terminal_session_id \<Rightarrow> rec_system \<Rightarrow> rec_label \<Rightarrow> rec_system" where
  "rec_step config sid s l =
     (case l of
        RL_Output d \<Rightarrow>
          s\<lparr>sy_handle := handle_record_output (Suc (length (sy_offered s))) d (sy_handle s),
            sy_offered := sy_offered s @ [d]\<rparr>
      | RL_Marker k p \<Rightarrow>
          s\<lparr>sy_handle := handle_record_marker k (max (length (sy_offered s)) 1) p (sy_handle s)\<rparr>
      | RL_Consume \<Rightarrow>
          (case eh_queue (sy_handle s) of
             WC_Output seq data gap # cmds \<Rightarrow>
               s\<lparr>sy_handle := (sy_handle s)\<lparr>eh_queue := cmds\<rparr>,
                 sy_task := task_output config sid seq data gap (sy_task s)\<rparr>
           | WC_Marker k seq p # cmds \<Rightarrow>
               s\<lparr>sy_handle := (sy_handle s)\<lparr>eh_queue := cmds\<rparr>,
                 sy_task := task_marker sid k seq p (sy_task s)\<rparr>
           | _ \<Rightarrow> s))"

definition rec_enabled :: "rec_system \<Rightarrow> rec_label \<Rightarrow> bool" where
  "rec_enabled s l =
     (case l of
        RL_Output d \<Rightarrow> d \<noteq> [] \<and> length (sy_offered s) < i64_max
      | RL_Marker k p \<Rightarrow> k \<noteq> MK_ReplayGap
      | RL_Consume \<Rightarrow> True)"

text \<open>
  What \<open>shutdown\<close> leaves behind: its command goes to the end of the queue and the task runs
  until it has handled it.
\<close>

definition rec_finish ::
  "recording_writer_config \<Rightarrow> terminal_session_id \<Rightarrow> rec_system \<Rightarrow> recording_store" where
  "rec_finish config sid s =
     wt_store (writer_task config sid
       (eh_queue (sy_handle s) @ [shutdown_command (length (sy_offered s))]) (sy_task s))"

section \<open>What the rows cover\<close>

fun gap_range :: "json \<Rightarrow> nat list" where
  "gap_range (JObj ((k1, JNum a) # (k2, JNum b) # _)) = [nat a..<Suc (nat b)]"
| "gap_range _ = []"

fun row_cover :: "recording_row \<Rightarrow> nat list" where
  "row_cover (RowChunk c) = [nat (ck_seq_start c)..<Suc (nat (ck_seq_end c))]"
| "row_cover (RowMarker m) = (if mr_kind m = MK_ReplayGap then gap_range (mr_payload m) else [])"

definition rows_cover :: "recording_row list \<Rightarrow> nat list" where
  "rows_cover rows = concat (map row_cover rows)"

fun batch_cover :: "chunk_batch option \<Rightarrow> nat list" where
  "batch_cover None = []"
| "batch_cover (Some b) = [cb_seq_start b..<Suc (cb_seq_end b)]"

fun gap_cover :: "pending_gap option \<Rightarrow> nat list" where
  "gap_cover None = []"
| "gap_cover (Some g) = [pg_from_seq g..<Suc (pg_to_seq g)]"

fun cmd_cover :: "writer_command \<Rightarrow> nat list" where
  "cmd_cover (WC_Output seq data g) = gap_cover g @ [seq]"
| "cmd_cover _ = []"

definition task_cover :: "writer_task_state \<Rightarrow> nat list" where
  "task_cover t = rows_cover (rc_rows (wt_store t)) @ batch_cover (wt_open t)"

text \<open>The bytes of the frames numbered \<open>a\<close> to \<open>b\<close>.\<close>

definition segment :: "byte list list \<Rightarrow> nat \<Rightarrow> nat \<Rightarrow> byte list" where
  "segment off a b = concat (map (\<lambda>s. off ! (s - 1)) [a..<Suc b])"

definition range_ok :: "byte list list \<Rightarrow> nat \<Rightarrow> nat \<Rightarrow> byte list \<Rightarrow> bool" where
  "range_ok off a b p \<longleftrightarrow> 1 \<le> a \<and> a \<le> b \<and> b \<le> length off \<and> p = segment off a b"

fun row_ok :: "nat \<Rightarrow> byte list list \<Rightarrow> recording_row \<Rightarrow> bool" where
  "row_ok cap off (RowChunk c) \<longleftrightarrow>
     range_ok off (nat (ck_seq_start c)) (nat (ck_seq_end c)) (ck_payload c)
     \<and> ck_byte_len c = int (length (ck_payload c)) \<and> length (ck_payload c) \<le> cap"
| "row_ok cap off (RowMarker m) \<longleftrightarrow> True"

fun gap_ok :: "nat \<Rightarrow> pending_gap option \<Rightarrow> bool" where
  "gap_ok n None \<longleftrightarrow> True"
| "gap_ok n (Some g) \<longleftrightarrow> 1 \<le> pg_from_seq g \<and> pg_from_seq g \<le> pg_to_seq g \<and> pg_to_seq g \<le> n"

fun batch_ok :: "nat \<Rightarrow> byte list list \<Rightarrow> chunk_batch option \<Rightarrow> bool" where
  "batch_ok cap off None \<longleftrightarrow> True"
| "batch_ok cap off (Some b) \<longleftrightarrow>
     range_ok off (cb_seq_start b) (cb_seq_end b) (cb_payload b)
     \<and> cb_payload b \<noteq> [] \<and> length (cb_payload b) \<le> cap"

fun cmd_ok :: "nat \<Rightarrow> byte list list \<Rightarrow> writer_command \<Rightarrow> bool" where
  "cmd_ok cap off (WC_Output seq data g) \<longleftrightarrow>
     range_ok off seq seq data \<and> data \<noteq> [] \<and> length data \<le> cap \<and> gap_ok (length off) g"
| "cmd_ok cap off (WC_Marker k seq p) \<longleftrightarrow> k \<noteq> MK_ReplayGap"
| "cmd_ok cap off (WC_Shutdown s) \<longleftrightarrow> False"

definition task_ok :: "nat \<Rightarrow> byte list list \<Rightarrow> writer_task_state \<Rightarrow> bool" where
  "task_ok cap off t \<longleftrightarrow> cap \<le> i32_max \<and> length off \<le> i64_max
     \<and> True \<notin> set (rc_marker_faults (wt_store t))
     \<and> batch_ok cap off (wt_open t) \<and> list_all (row_ok cap off) (rc_rows (wt_store t))"

definition rec_ok :: "recording_writer_config \<Rightarrow> rec_system \<Rightarrow> bool" where
  "rec_ok config s \<longleftrightarrow>
     (let cap = chunk_hard_cap_bytes config; off = sy_offered s; h = sy_handle s in
       task_ok cap off (sy_task s) \<and> eh_hard_cap_bytes h = cap \<and> \<not> eh_closed h
       \<and> gap_ok (length off) (eh_pending_gap h) \<and> list_all (cmd_ok cap off) (eh_queue h)
       \<and> task_cover (sy_task s) @ concat (map cmd_cover (eh_queue h)) @ gap_cover (eh_pending_gap h)
           = [1..<Suc (length off)])"

section \<open>Runs of consecutive numbers\<close>

lemma upt_prefix: "xs @ ys = [1..<Suc n] \<Longrightarrow> xs = [1..<Suc (length xs)]"
proof -
  assume a: "xs @ ys = [1..<Suc n]"
  then have "length (xs @ ys) = n" by simp
  then have "take (length xs) [1..<Suc n] = [1..<1 + length xs]"
    by (intro take_upt) simp
  with a show ?thesis by (metis append_eq_conv_conj plus_1_eq_Suc)
qed

lemma upt_next:
  assumes "xs @ [s] = [1..<Suc n]"
  shows "s = n" and "length xs = n - 1" and "0 < n"
proof -
  have l: "length (xs @ [s]) = n" by (simp only: assms length_upt)
  then show "length xs = n - 1" and "0 < n" by simp_all
  then show "s = n"
    using nth_append_length [of xs s "[]"] assms by (simp del: upt_Suc)
qed

lemma run_last:
  assumes "xs @ [a..<Suc e] = [1..<Suc n]" and "a \<le> e"
  shows "e = n"
proof -
  have "(xs @ [a..<e]) @ [e] = [1..<Suc n]" using assms by simp
  then show ?thesis by (rule upt_next)
qed

lemma run_step:
  assumes "xs @ [a..<Suc e] @ [s] = [1..<Suc n]" and "a \<le> e"
  shows "s = Suc e"
proof -
  have 1: "(xs @ [a..<Suc e]) @ [s] = [1..<Suc n]" using assms(1) by simp
  then have "xs @ [a..<Suc e] = [1..<Suc (length (xs @ [a..<Suc e]))]" by (rule upt_prefix)
  then have "e = length (xs @ [a..<Suc e])" using assms(2) by (rule run_last)
  with upt_next [OF 1] show ?thesis by linarith
qed

section \<open>Segments\<close>

lemma segment_single [simp]: "segment off a a = off ! (a - 1)"
  by (simp add: segment_def)

lemma segment_Suc: "a \<le> b \<Longrightarrow> segment off a (Suc b) = segment off a b @ off ! b"
  by (simp add: segment_def)

lemma segment_grow: "1 \<le> a \<Longrightarrow> b \<le> length off \<Longrightarrow> segment (off @ [d]) a b = segment off a b"
  unfolding segment_def by (intro arg_cong [where f = concat] map_cong) (auto simp: nth_append)

lemma range_ok_grow: "range_ok off a b p \<Longrightarrow> range_ok (off @ [d]) a b p"
  by (auto simp: range_ok_def segment_grow)

lemma row_ok_grow: "row_ok cap off r \<Longrightarrow> row_ok cap (off @ [d]) r"
  by (cases r) (auto simp: range_ok_grow)

lemma batch_ok_grow: "batch_ok cap off b \<Longrightarrow> batch_ok cap (off @ [d]) b"
  by (cases b) (auto simp: range_ok_grow)

lemma gap_ok_mono: "gap_ok n g \<Longrightarrow> n \<le> m \<Longrightarrow> gap_ok m g"
  by (cases g) auto

lemma cmd_ok_grow: "cmd_ok cap off c \<Longrightarrow> cmd_ok cap (off @ [d]) c"
  by (cases c) (auto simp: range_ok_grow intro: gap_ok_mono)

lemma task_ok_grow: "task_ok cap off t \<Longrightarrow> length off < i64_max \<Longrightarrow> task_ok cap (off @ [d]) t"
  by (auto simp: task_ok_def batch_ok_grow row_ok_grow list_all_iff)

section \<open>The task's operations\<close>

lemma rows_cover_simps [simp]:
  "rows_cover [] = []" "rows_cover (rs @ [r]) = rows_cover rs @ row_cover r"
  by (simp_all add: rows_cover_def)

lemma append_marker_lands:
  assumes "True \<notin> set (rc_marker_faults st)"
  shows "append_marker m st =
     (True, st\<lparr>rc_rows := rc_rows st @ [RowMarker m], rc_marker_faults := tl (rc_marker_faults st)\<rparr>)"
  using assms by (cases "rc_marker_faults st") (auto simp: append_marker_def split: bool.splits)

lemma no_fault_tl: "True \<notin> set fs \<Longrightarrow> True \<notin> set (tl fs)"
  by (cases fs) auto

lemma write_marker_ok:
  assumes "True \<notin> set (rc_marker_faults st)"
  shows "rc_rows (write_marker sid k s p st) =
           rc_rows st @ [RowMarker \<lparr>mr_session = sid, mr_kind = k, mr_seq = s, mr_payload = p\<rparr>]"
    and "True \<notin> set (rc_marker_faults (write_marker sid k s p st))"
  using assms by (simp_all add: write_marker_def append_marker_lands no_fault_tl)

lemma i64_ok: "n \<le> i64_max \<Longrightarrow> i64_try_from n = Some (int n)"
  by (simp add: i64_try_from_def)

lemma write_replay_gap_ok:
  assumes "True \<notin> set (rc_marker_faults st)" and "gap_ok n (Some g)" and "n \<le> i64_max"
  shows "rows_cover (rc_rows (write_replay_gap sid g st)) = rows_cover (rc_rows st) @ gap_cover (Some g)"
    and "True \<notin> set (rc_marker_faults (write_replay_gap sid g st))"
    and "list_all (row_ok cap off) (rc_rows st) \<Longrightarrow>
         list_all (row_ok cap off) (rc_rows (write_replay_gap sid g st))"
proof -
  have w: "write_replay_gap sid g st = write_marker sid MK_ReplayGap (max (int (pg_to_seq g)) 1)
            (gap_payload (int (pg_from_seq g)) (int (pg_to_seq g)) (pg_reason g)) st"
    using assms(2,3) by (simp add: write_replay_gap_def i64_ok)
  show "rows_cover (rc_rows (write_replay_gap sid g st)) = rows_cover (rc_rows st) @ gap_cover (Some g)"
    unfolding w write_marker_ok(1) [OF assms(1)] by (simp add: gap_payload_def)
  show "True \<notin> set (rc_marker_faults (write_replay_gap sid g st))"
    unfolding w by (rule write_marker_ok(2) [OF assms(1)])
  show "list_all (row_ok cap off) (rc_rows st) \<Longrightarrow>
         list_all (row_ok cap off) (rc_rows (write_replay_gap sid g st))"
    unfolding w write_marker_ok(1) [OF assms(1)] by simp
qed

lemma flush_open_ok:
  assumes "task_ok cap off t"
  shows "task_ok cap off (flush_open sid t)" and "task_cover (flush_open sid t) = task_cover t"
proof -
  have "task_ok cap off (flush_open sid t) \<and> task_cover (flush_open sid t) = task_cover t"
  proof (cases "wt_open t")
    case None
    with assms show ?thesis
      by (simp add: flush_open_def flush_chunk_def task_ok_def task_cover_def)
  next
    case (Some b)
    let ?g = "\<lparr>pg_from_seq = cb_seq_start b, pg_to_seq = cb_seq_end b, pg_reason = WRITER_ERROR\<rparr>"
    let ?c = "\<lparr>ck_session = sid, ck_seq_start = int (cb_seq_start b), ck_seq_end = int (cb_seq_end b),
               ck_byte_len = int (length (cb_payload b)), ck_payload = cb_payload b\<rparr>"
    from assms Some have b: "range_ok off (cb_seq_start b) (cb_seq_end b) (cb_payload b)"
        "cb_payload b \<noteq> []" "length (cb_payload b) \<le> cap" "cap \<le> i32_max" "length off \<le> i64_max"
        and mf: "True \<notin> set (rc_marker_faults (wt_store t))"
        and rows: "list_all (row_ok cap off) (rc_rows (wt_store t))"
      by (simp_all add: task_ok_def)
    from b(1,5) have ends: "cb_seq_start b \<le> i64_max" "cb_seq_end b \<le> i64_max"
        and g: "gap_ok (length off) (Some ?g)"
      by (auto simp: range_ok_def)
    have i: "i32_try_from (length (cb_payload b)) = Some (int (length (cb_payload b)))"
      using b(3,4) by (simp add: i32_try_from_def)
    have f: "flush_chunk sid (Some b) (wt_store t) =
        (case append_chunk ?c (wt_store t) of (True, st1) \<Rightarrow> st1
           | (False, st1) \<Rightarrow> write_replay_gap sid ?g st1)"
      using b(2) by (simp add: flush_chunk_def i i64_ok [OF ends(1)] i64_ok [OF ends(2)])
    have c: "row_ok cap off (RowChunk ?c)" using b by simp
    show ?thesis
    proof (cases "rc_chunk_faults (wt_store t)")
      case Nil
      with f c b(4,5) mf rows Some show ?thesis
        by (simp add: flush_open_def append_chunk_def task_ok_def task_cover_def)
    next
      case (Cons x fs)
      show ?thesis
      proof (cases x)
        case True
        let ?st = "(wt_store t)\<lparr>rc_chunk_faults := fs\<rparr>"
        have "True \<notin> set (rc_marker_faults ?st)" using mf by simp
        note w = write_replay_gap_ok [OF this g b(5)]
        from True Cons f w mf rows b(4,5) Some show ?thesis
          by (simp add: flush_open_def append_chunk_def task_ok_def task_cover_def del: gap_ok.simps)
      next
        case False
        with Cons f c b(4,5) mf rows Some show ?thesis
          by (simp add: flush_open_def append_chunk_def task_ok_def task_cover_def)
      qed
    qed
  qed
  then show "task_ok cap off (flush_open sid t)" and "task_cover (flush_open sid t) = task_cover t"
    by simp_all
qed

lemma flush_open_closes [simp]: "wt_open (flush_open sid t) = None"
  by (simp add: flush_open_def)

lemma gap_after_flush_ok:
  assumes "task_ok cap off t" and "wt_open t = None" and "gap_ok (length off) (Some g)"
  shows "task_ok cap off (t\<lparr>wt_store := write_replay_gap sid g (wt_store t)\<rparr>)"
    and "task_cover (t\<lparr>wt_store := write_replay_gap sid g (wt_store t)\<rparr>) = task_cover t @ gap_cover (Some g)"
proof -
  have mf: "True \<notin> set (rc_marker_faults (wt_store t))" and n: "length off \<le> i64_max"
      and rows: "list_all (row_ok cap off) (rc_rows (wt_store t))" and cap: "cap \<le> i32_max"
    using assms(1) by (simp_all add: task_ok_def)
  note w = write_replay_gap_ok [OF mf assms(3) n]
  show "task_ok cap off (t\<lparr>wt_store := write_replay_gap sid g (wt_store t)\<rparr>)"
    using w rows n cap assms(2) by (simp add: task_ok_def)
  show "task_cover (t\<lparr>wt_store := write_replay_gap sid g (wt_store t)\<rparr>) = task_cover t @ gap_cover (Some g)"
    using w(1) assms(2) by (simp add: task_cover_def)
qed

text \<open>A frame joins the open batch, or starts a new one after a flush.\<close>

lemma batch_append_ok:
  assumes "batch_ok cap off (Some b)" and "cmd_ok cap off (WC_Output (Suc (cb_seq_end b)) data g)"
    and "\<not> would_overshoot_hard_cap b (length data) cap" and "cap \<le> i32_max"
  shows "batch_ok cap off (Some (batch_append b (Suc (cb_seq_end b)) data))"
    and "batch_cover (Some (batch_append b (Suc (cb_seq_end b)) data)) =
         batch_cover (Some b) @ [Suc (cb_seq_end b)]"
proof -
  have "length (cb_payload b) + length data \<le> cap"
    using assms(1-4) by (simp add: would_overshoot_hard_cap_def saturating_add_usize_def)
  with assms(1,2) show "batch_ok cap off (Some (batch_append b (Suc (cb_seq_end b)) data))"
    by (auto simp: batch_append_def range_ok_def segment_Suc)
  show "batch_cover (Some (batch_append b (Suc (cb_seq_end b)) data)) =
         batch_cover (Some b) @ [Suc (cb_seq_end b)]"
    using assms(1) by (auto simp: batch_append_def range_ok_def)
qed

lemma batch_open_ok:
  "cmd_ok cap off (WC_Output seq data g) \<Longrightarrow> batch_ok cap off (Some (batch_open seq data))"
  "batch_cover (Some (batch_open seq data)) = [seq]"
  by (simp_all add: batch_open_def)

definition place_frame ::
  "nat \<Rightarrow> terminal_session_id \<Rightarrow> nat \<Rightarrow> byte list \<Rightarrow> writer_task_state \<Rightarrow> writer_task_state" where
  "place_frame hard_cap sid seq data t1 =
     (case wt_open t1 of
        Some batch \<Rightarrow>
          if would_overshoot_hard_cap batch (length data) hard_cap then
            (flush_open sid t1)\<lparr>wt_open := Some (batch_open seq data)\<rparr>
          else t1\<lparr>wt_open := Some (batch_append batch seq data)\<rparr>
      | None \<Rightarrow> t1\<lparr>wt_open := Some (batch_open seq data)\<rparr>)"

lemma place_frame_ok:
  assumes t: "task_ok cap off t" and c: "cmd_ok cap off (WC_Output seq data g)"
    and run: "task_cover t @ [seq] = [1..<Suc n]"
  shows "task_ok cap off (place_frame cap sid seq data t)"
    and "task_cover (place_frame cap sid seq data t) = task_cover t @ [seq]"
proof -
  have fresh: "task_ok cap off (t'\<lparr>wt_open := Some (batch_open seq data)\<rparr>)
      \<and> task_cover (t'\<lparr>wt_open := Some (batch_open seq data)\<rparr>) = task_cover t' @ [seq]"
    if "task_ok cap off t'" "wt_open t' = None" for t'
    using that batch_open_ok(1) [OF c] batch_open_ok(2) [of seq data]
    by (simp add: task_ok_def task_cover_def)
  have "task_ok cap off (place_frame cap sid seq data t)
      \<and> task_cover (place_frame cap sid seq data t) = task_cover t @ [seq]"
  proof (cases "wt_open t")
    case None
    with fresh [OF t] show ?thesis by (simp add: place_frame_def)
  next
    case (Some b)
    show ?thesis
    proof (cases "would_overshoot_hard_cap b (length data) cap")
      case True
      with Some fresh [OF flush_open_ok(1) [OF t, of sid] flush_open_closes] flush_open_ok(2) [OF t, of sid]
      show ?thesis by (simp add: place_frame_def)
    next
      case False
      from t Some have b: "batch_ok cap off (Some b)" and cap: "cap \<le> i32_max"
        by (simp_all add: task_ok_def)
      have "seq = Suc (cb_seq_end b)"
        using run Some b by (intro run_step [of "rows_cover (rc_rows (wt_store t))" "cb_seq_start b"])
          (auto simp: task_cover_def range_ok_def simp del: upt_Suc)
      note a = batch_append_ok [OF b c [unfolded \<open>seq = Suc (cb_seq_end b)\<close>] False cap]
      from a Some False t \<open>seq = Suc (cb_seq_end b)\<close> show ?thesis
        by (simp add: place_frame_def task_ok_def task_cover_def del: batch_ok.simps batch_cover.simps)
    qed
  qed
  then show "task_ok cap off (place_frame cap sid seq data t)"
    and "task_cover (place_frame cap sid seq data t) = task_cover t @ [seq]" by simp_all
qed

lemma highest_irrelevant [simp]:
  "task_ok cap off (t\<lparr>wt_highest_seq_observed := m\<rparr>) = task_ok cap off t"
  "task_cover (t\<lparr>wt_highest_seq_observed := m\<rparr>) = task_cover t"
  by (simp_all add: task_ok_def task_cover_def)

lemma task_output_ok:
  assumes t: "task_ok (chunk_hard_cap_bytes config) off t"
    and c: "cmd_ok (chunk_hard_cap_bytes config) off (WC_Output seq data g)"
    and run: "task_cover t @ cmd_cover (WC_Output seq data g) = [1..<Suc n]"
  shows "task_ok (chunk_hard_cap_bytes config) off (task_output config sid seq data g t)"
    and "task_cover (task_output config sid seq data g t) = task_cover t @ cmd_cover (WC_Output seq data g)"
proof -
  let ?cap = "chunk_hard_cap_bytes config"
  define t1 where "t1 = (case g of None \<Rightarrow> t
      | Some gap \<Rightarrow> let u = flush_open sid t in u\<lparr>wt_store := write_replay_gap sid gap (wt_store u)\<rparr>)"
  define t2 where "t2 = place_frame ?cap sid seq data t1"
  define t3 where "t3 = (case wt_open t2 of
      Some batch \<Rightarrow> if length (cb_payload batch) \<ge> chunk_target_bytes config then flush_open sid t2 else t2
    | None \<Rightarrow> t2)"
  have out: "task_output config sid seq data g t = t3\<lparr>wt_highest_seq_observed := max (wt_highest_seq_observed t3) seq\<rparr>"
    using c unfolding task_output_def Let_def t3_def t2_def place_frame_def t1_def by simp
  have s1: "task_ok ?cap off t1 \<and> task_cover t1 = task_cover t @ gap_cover g"
  proof (cases g)
    case None
    with t show ?thesis by (simp add: t1_def)
  next
    case (Some gap)
    with c have "gap_ok (length off) (Some gap)" by (simp del: gap_ok.simps)
    with Some gap_after_flush_ok [OF flush_open_ok(1) [OF t, of sid] flush_open_closes] flush_open_ok(2) [OF t, of sid]
    show ?thesis by (simp add: t1_def Let_def)
  qed
  have "task_cover t1 @ [seq] = [1..<Suc n]" using s1 run by (simp del: upt_Suc)
  then have s2: "task_ok ?cap off t2 \<and> task_cover t2 = task_cover t1 @ [seq]"
    using place_frame_ok [OF _ c] s1 unfolding t2_def by blast
  then have s3: "task_ok ?cap off t3 \<and> task_cover t3 = task_cover t2"
    using flush_open_ok(1) [of ?cap off t2 sid] flush_open_ok(2) [of ?cap off t2 sid]
    by (simp add: t3_def split: option.splits)
  show "task_ok ?cap off (task_output config sid seq data g t)" using s3 by (simp add: out)
  show "task_cover (task_output config sid seq data g t) = task_cover t @ cmd_cover (WC_Output seq data g)"
    using s1 s2 s3 by (simp add: out)
qed

lemma marker_after_flush_ok:
  assumes "task_ok cap off t" and "k \<noteq> MK_ReplayGap" and "wt_open t = None"
  shows "task_ok cap off (t\<lparr>wt_store := write_marker sid k s p (wt_store t)\<rparr>)"
    and "task_cover (t\<lparr>wt_store := write_marker sid k s p (wt_store t)\<rparr>) = task_cover t"
  using assms write_marker_ok [of "wt_store t" sid k s p]
  by (simp_all add: task_ok_def task_cover_def)

lemma task_marker_ok:
  assumes "task_ok cap off t" and "k \<noteq> MK_ReplayGap"
  shows "task_ok cap off (task_marker sid k s p t)" and "task_cover (task_marker sid k s p t) = task_cover t"
  using marker_after_flush_ok [OF flush_open_ok(1) [OF assms(1), of sid] assms(2) flush_open_closes]
    flush_open_ok(2) [OF assms(1), of sid]
  by (simp_all add: task_marker_def Let_def)

section \<open>Every step keeps the account\<close>

lemma extend_gap_ok:
  assumes "gap_ok n g" and "xs @ gap_cover g = [1..<Suc n]"
  shows "gap_ok (Suc n) (extend_gap g (Suc n) r)"
    and "xs @ gap_cover (extend_gap g (Suc n) r) = [1..<Suc (Suc n)]"
proof -
  have "gap_ok (Suc n) (extend_gap g (Suc n) r)
      \<and> xs @ gap_cover (extend_gap g (Suc n) r) = [1..<Suc (Suc n)]"
  proof (cases g)
    case None
    with assms show ?thesis by (simp add: extend_gap_def)
  next
    case (Some e)
    with assms have "pg_to_seq e = n"
      by (intro run_last [of xs "pg_from_seq e"]) (simp_all del: upt_Suc)
    with Some assms have "xs @ [pg_from_seq e..<Suc n] @ [Suc n] = [1..<Suc (Suc n)]"
      by simp
    with Some assms \<open>pg_to_seq e = n\<close> show ?thesis
      by (simp add: extend_gap_def max_def min_def)
  qed
  then show "gap_ok (Suc n) (extend_gap g (Suc n) r)"
    and "xs @ gap_cover (extend_gap g (Suc n) r) = [1..<Suc (Suc n)]" by simp_all
qed

lemma rec_init_ok:
  assumes "chunk_hard_cap_bytes config \<le> i32_max"
  shows "rec_ok config (rec_init config faults)"
  using assms
  by (simp add: rec_ok_def rec_init_def writer_enabled_def try_send_def QUEUE_CAPACITY_def
      task_ok_def task_cover_def)

lemma rec_output_ok:
  assumes "rec_ok config s" and "rec_enabled s (RL_Output d)"
  shows "rec_ok config (rec_step config sid s (RL_Output d))"
proof -
  let ?h = "sy_handle s" and ?n = "length (sy_offered s)" and ?cap = "chunk_hard_cap_bytes config"
  let ?xs = "task_cover (sy_task s) @ concat (map cmd_cover (eh_queue ?h))"
  have d: "d \<noteq> []" and n: "?n < i64_max" using assms(2) by (simp_all add: rec_enabled_def)
  have t: "task_ok ?cap (sy_offered s) (sy_task s)" and hc: "eh_hard_cap_bytes ?h = ?cap" "\<not> eh_closed ?h"
      and g: "gap_ok ?n (eh_pending_gap ?h)" and q: "list_all (cmd_ok ?cap (sy_offered s)) (eh_queue ?h)"
      and run: "?xs @ gap_cover (eh_pending_gap ?h) = [1..<Suc ?n]"
    using assms(1) by (simp_all add: rec_ok_def Let_def del: upt_Suc)
  have t': "task_ok ?cap (sy_offered s @ [d]) (sy_task s)" by (rule task_ok_grow [OF t n])
  have q': "list_all (cmd_ok ?cap (sy_offered s @ [d])) (eh_queue ?h)"
    using q by (auto simp: list_all_iff intro: cmd_ok_grow)
  have dropped: "rec_ok config (s\<lparr>sy_handle := ?h\<lparr>eh_pending_gap := extend_gap (eh_pending_gap ?h) (Suc ?n) r\<rparr>,
      sy_offered := sy_offered s @ [d]\<rparr>)" for r
    using extend_gap_ok [OF g run, of r] t' q' hc by (simp add: rec_ok_def Let_def del: upt_Suc)
  show ?thesis
  proof (cases "?cap < length d")
    case True
    then show ?thesis using dropped hc by (simp add: rec_step_def handle_record_output_def)
  next
    case small: False
    show ?thesis
    proof (cases "QUEUE_CAPACITY \<le> length (eh_queue ?h)")
      case True
      have "rec_step config sid s (RL_Output d) =
          s\<lparr>sy_handle := ?h\<lparr>eh_pending_gap := extend_gap (eh_pending_gap ?h) (Suc ?n) WRITER_OVERFLOW\<rparr>,
            sy_offered := sy_offered s @ [d]\<rparr>"
        using True small hc
        by (simp add: rec_step_def handle_record_output_def try_send_def restore_gap_def Let_def
            split: option.splits)
      then show ?thesis using dropped by simp
    next
      case False
      have "cmd_ok ?cap (sy_offered s @ [d]) (WC_Output (Suc ?n) d (eh_pending_gap ?h))"
        using d small g by (simp add: range_ok_def nth_append gap_ok_mono)
      moreover have "?xs @ cmd_cover (WC_Output (Suc ?n) d (eh_pending_gap ?h)) = [1..<Suc (Suc ?n)]"
        using run by simp
      ultimately show ?thesis using False small hc t' q'
        by (simp add: rec_step_def handle_record_output_def try_send_def rec_ok_def Let_def
            del: upt_Suc cmd_ok.simps)
    qed
  qed
qed

lemma rec_marker_ok:
  assumes "rec_ok config s" and "rec_enabled s (RL_Marker k p)"
  shows "rec_ok config (rec_step config sid s (RL_Marker k p))"
  using assms
  by (auto simp: rec_ok_def rec_step_def rec_enabled_def handle_record_marker_def try_send_def Let_def
      simp del: upt_Suc split: option.splits)

lemma rec_consume_ok:
  assumes "rec_ok config s"
  shows "rec_ok config (rec_step config sid s RL_Consume)"
proof (cases "eh_queue (sy_handle s)")
  case Nil
  then show ?thesis using assms by (simp add: rec_step_def)
next
  case (Cons c cmds)
  let ?cap = "chunk_hard_cap_bytes config"
  have t: "task_ok ?cap (sy_offered s) (sy_task s)" and c: "cmd_ok ?cap (sy_offered s) c"
      and run: "task_cover (sy_task s) @ cmd_cover c @ concat (map cmd_cover cmds) @
        gap_cover (eh_pending_gap (sy_handle s)) = [1..<Suc (length (sy_offered s))]"
    using assms Cons by (simp_all add: rec_ok_def Let_def del: upt_Suc)
  show ?thesis
  proof (cases c)
    case (WC_Output seq data g)
    have "(task_cover (sy_task s) @ cmd_cover c) @ concat (map cmd_cover cmds) @
        gap_cover (eh_pending_gap (sy_handle s)) = [1..<Suc (length (sy_offered s))]"
      using run by simp
    from upt_prefix [OF this] WC_Output
    have "task_cover (sy_task s) @ cmd_cover (WC_Output seq data g)
        = [1..<Suc (length (task_cover (sy_task s) @ cmd_cover c))]" by (simp only:)
    note out = task_output_ok [OF t c [unfolded WC_Output] this, of sid]
    show ?thesis using assms Cons WC_Output out
      by (simp add: rec_step_def rec_ok_def Let_def del: upt_Suc)
  next
    case (WC_Marker k seq p)
    with c task_marker_ok [OF t, of k sid seq p] assms Cons show ?thesis
      by (simp add: rec_step_def rec_ok_def Let_def del: upt_Suc)
  next
    case (WC_Shutdown x)
    with c show ?thesis by simp
  qed
qed

text \<open>The recording tee is a state machine whose invariant is the account of the frames.\<close>

interpretation rec_sys: step_machine "rec_step config sid" "rec_ok config" rec_enabled
  for config sid
proof unfold_locales
  fix s l assume "rec_ok config s" and "rec_enabled s l"
  then show "rec_ok config (rec_step config sid s l)"
    by (cases l) (simp_all add: rec_output_ok rec_marker_ok rec_consume_ok)
qed

section \<open>Shutdown\<close>

lemma writer_task_ok:
  assumes "task_ok (chunk_hard_cap_bytes config) off t"
    and "list_all (cmd_ok (chunk_hard_cap_bytes config) off) cmds"
    and "task_cover t @ concat (map cmd_cover cmds) @ zs = [1..<Suc n]"
  shows "list_all (row_ok (chunk_hard_cap_bytes config) off)
           (rc_rows (wt_store (writer_task config sid (cmds @ [WC_Shutdown l]) t)))
       \<and> rows_cover (rc_rows (wt_store (writer_task config sid (cmds @ [WC_Shutdown l]) t)))
           = task_cover t @ concat (map cmd_cover cmds)"
  using assms
proof (induction cmds arbitrary: t)
  case Nil
  let ?t = "flush_open sid t"
  have "True \<notin> set (rc_marker_faults (wt_store ?t))"
      and "list_all (row_ok (chunk_hard_cap_bytes config) off) (rc_rows (wt_store ?t))"
      and "rows_cover (rc_rows (wt_store ?t)) = task_cover t"
    using flush_open_ok [OF Nil.prems(1), of sid] by (simp_all add: task_ok_def task_cover_def)
  then show ?case by (simp add: task_shutdown_def Let_def write_marker_ok(1))
next
  case (Cons c cmds)
  from Cons.prems have c: "cmd_ok (chunk_hard_cap_bytes config) off c"
      and cs: "list_all (cmd_ok (chunk_hard_cap_bytes config) off) cmds" by simp_all
  show ?case
  proof (cases c)
    case (WC_Output seq data g)
    have "(task_cover t @ cmd_cover c) @ (concat (map cmd_cover cmds) @ zs) = [1..<Suc n]"
      using Cons.prems(3) by simp
    from upt_prefix [OF this] WC_Output
    have "task_cover t @ cmd_cover (WC_Output seq data g) = [1..<Suc (length (task_cover t @ cmd_cover c))]"
      by (simp only:)
    note out = task_output_ok [OF Cons.prems(1) c [unfolded WC_Output] this, of sid]
    show ?thesis using Cons.IH [OF out(1) cs] Cons.prems(3) WC_Output out(2)
      by (simp del: upt_Suc)
  next
    case (WC_Marker k seq p)
    with c have "k \<noteq> MK_ReplayGap" by simp
    note m = task_marker_ok [OF Cons.prems(1) this, of sid seq p]
    show ?thesis using Cons.IH [OF m(1) cs] Cons.prems(3) WC_Marker m(2) by (simp del: upt_Suc)
  next
    case (WC_Shutdown x)
    with c show ?thesis by simp
  qed
qed

lemma rec_finish_ok:
  assumes "rec_ok config s"
  shows "list_all (row_ok (chunk_hard_cap_bytes config) (sy_offered s)) (rc_rows (rec_finish config sid s))
       \<and> rows_cover (rc_rows (rec_finish config sid s)) @ gap_cover (eh_pending_gap (sy_handle s))
           = [1..<Suc (length (sy_offered s))]"
proof -
  have t: "task_ok (chunk_hard_cap_bytes config) (sy_offered s) (sy_task s)"
      and q: "list_all (cmd_ok (chunk_hard_cap_bytes config) (sy_offered s)) (eh_queue (sy_handle s))"
      and run: "task_cover (sy_task s) @ concat (map cmd_cover (eh_queue (sy_handle s))) @
        gap_cover (eh_pending_gap (sy_handle s)) = [1..<Suc (length (sy_offered s))]"
    using assms by (simp_all add: rec_ok_def Let_def del: upt_Suc)
  show ?thesis
    using writer_task_ok [OF t q run] run
    by (simp add: rec_finish_def shutdown_command_def del: upt_Suc)
qed

section \<open>What a recording holds\<close>

fun row_payload :: "recording_row \<Rightarrow> byte list" where
  "row_payload (RowChunk c) = ck_payload c"
| "row_payload (RowMarker m) = []"

fun is_gap_row :: "recording_row \<Rightarrow> bool" where
  "is_gap_row (RowChunk c) = False"
| "is_gap_row (RowMarker m) = (mr_kind m = MK_ReplayGap)"

fun offered_by :: "rec_label list \<Rightarrow> byte list list" where
  "offered_by [] = []"
| "offered_by (RL_Output d # ls) = d # offered_by ls"
| "offered_by (l # ls) = offered_by ls"

lemma offered_run: "sy_offered (foldl (rec_step config sid) s ls) = sy_offered s @ offered_by ls"
  by (induction ls arbitrary: s rule: offered_by.induct)
     (simp_all add: rec_step_def split: list.splits writer_command.splits)

lemma payloads_by_cover:
  assumes "list_all (row_ok cap off) rows" and "list_all (\<lambda>r. \<not> is_gap_row r) rows"
  shows "concat (map row_payload rows) = concat (map (\<lambda>i. off ! (i - 1)) (rows_cover rows))"
  using assms
proof (induction rows)
  case (Cons r rows)
  then show ?case
    by (cases r) (simp_all add: rows_cover_def range_ok_def segment_def del: upt_Suc)
qed simp

lemma map_nth_from_one: "map (\<lambda>i. xs ! (i - 1)) [1..<Suc (length xs)] = xs"
  by (rule nth_equalityI) (simp_all del: upt_Suc)

lemmas rec_run_ok = rec_sys.fold_step_invar [OF rec_init_ok]



text \<open>
  A recording without a \<open>replay_gap\<close> marker and without a pending gap reproduces the
  terminal's byte stream verbatim: concatenating the chunk payloads in order gives the
  concatenation of all the frames offered to the writer.
\<close>

theorem gap_free_recording_is_verbatim:
  assumes "chunk_hard_cap_bytes config \<le> i32_max"
    and "legal (rec_step config sid) rec_enabled (rec_init config faults) ls"
    and "eh_pending_gap (sy_handle (foldl (rec_step config sid) (rec_init config faults) ls)) = None"
    and "list_all (\<lambda>r. \<not> is_gap_row r)
           (rc_rows (rec_finish config sid (foldl (rec_step config sid) (rec_init config faults) ls)))"
  shows "concat (map row_payload
           (rc_rows (rec_finish config sid (foldl (rec_step config sid) (rec_init config faults) ls))))
         = concat (offered_by ls)"
proof -
  let ?s = "foldl (rec_step config sid) (rec_init config faults) ls"
  have off: "sy_offered ?s = offered_by ls" by (simp add: offered_run rec_init_def)
  note fin = rec_finish_ok [OF rec_run_ok [OF assms(1,2)], of sid, unfolded off]
  have "rows_cover (rc_rows (rec_finish config sid ?s)) = [1..<Suc (length (offered_by ls))]"
    using fin assms(3) by (simp del: upt_Suc)
  with payloads_by_cover [OF conjunct1 [OF fin] assms(4)] show ?thesis
    by (simp only: map_nth_from_one)
qed

theorem gap_free_recording_witness:
  "let config = \<lparr>chunk_target_bytes = 4, chunk_hard_cap_bytes = 4\<rparr>;
       ls = [RL_Output [1, 2], RL_Output [3], RL_Consume, RL_Marker MK_Resized JNull, RL_Output [4, 5, 6, 7]]
   in concat (map row_payload (rc_rows (rec_finish config 9
        (foldl (rec_step config 9) (rec_init config []) ls)))) = [1, 2, 3, 4, 5, 6, 7]"
  using gap_free_recording_is_verbatim [of "\<lparr>chunk_target_bytes = 4, chunk_hard_cap_bytes = 4\<rparr>" 9
      "[]" "[RL_Output [1, 2], RL_Output [3], RL_Consume, RL_Marker MK_Resized JNull, RL_Output [4, 5, 6, 7]]"]
  by code_simp


end
