(* ===== verification/Session_Store.thy ===== *)
theory Session_Store
  imports Recording_Writer
begin

text \<open>
  The Postgres repositories behind the session manager
  (\<^verbatim>\<open>crates/relayterm-db/src/repositories/terminal_session.rs\<close> and \<^verbatim>\<open>session_event.rs\<close>).
  A table is the list of its rows in insertion order and a statement is a function on the whole
  database. Every call may fail: the fault list decides the outcome of the next calls, an error
  leaving the tables as they were.
\<close>

section \<open>The database\<close>

record session_db =
  db_sessions :: "terminal_session list"
  db_attachments :: "session_attachment list"
  db_events :: "session_event list"
  db_chunks :: "recording_chunk list"
  db_markers :: "recording_marker list"
  db_next_id :: nat
  db_now :: instant
  db_faults :: "repository_error option list"

type_synonym 'a db = "(session_db, repository_error, 'a) prog"

definition db_call :: "'a db \<Rightarrow> 'a db" where
  "db_call body = (\<lambda>s.
     case db_faults s of
       [] \<Rightarrow> body s
     | None # fs \<Rightarrow> body (s\<lparr>db_faults := fs\<rparr>)
     | Some e # fs \<Rightarrow> (Inl e, s\<lparr>db_faults := fs\<rparr>))"

definition session_row :: "session_db \<Rightarrow> terminal_session_id \<Rightarrow> terminal_session option" where
  "session_row s sid = find (\<lambda>r. ts_id r = sid) (db_sessions s)"

definition attachment_row :: "session_db \<Rightarrow> attachment_id \<Rightarrow> session_attachment option" where
  "attachment_row s aid = find (\<lambda>r. sa_id r = aid) (db_attachments s)"

section \<open>Terminal sessions\<close>

definition dims_chk :: "nat \<Rightarrow> bool" where
  "dims_chk v = (1 \<le> v \<and> v \<le> 4096)"

record create_terminal_session =
  cs_owner_id :: user_id
  cs_server_profile_id :: server_profile_id
  cs_status :: terminal_session_status
  cs_cols :: nat
  cs_rows :: nat

definition sessions_create :: "create_terminal_session \<Rightarrow> terminal_session db" where
  "sessions_create input = db_call (\<lambda>s.
     if \<not> dims_chk (cs_cols input)
     then (Inl (RE_Database ''terminal_session: database constraint failed (terminal_sessions_cols_chk)''), s)
     else if \<not> dims_chk (cs_rows input)
     then (Inl (RE_Database ''terminal_session: database constraint failed (terminal_sessions_rows_chk)''), s)
     else let row = \<lparr>ts_id = db_next_id s, ts_owner_id = cs_owner_id input,
                     ts_server_profile_id = cs_server_profile_id input,
                     ts_status = cs_status input, ts_cols = cs_cols input, ts_rows = cs_rows input,
                     ts_created_at = db_now s, ts_last_seen_at = db_now s, ts_closed_at = None\<rparr>
          in (Inr row, s\<lparr>db_sessions := db_sessions s @ [row], db_next_id := Suc (db_next_id s)\<rparr>))"

definition sessions_get :: "terminal_session_id \<Rightarrow> terminal_session option db" where
  "sessions_get sid = db_call (\<lambda>s. (Inr (session_row s sid), s))"

text \<open>\<open>ORDER BY created_at DESC\<close>; the order of equal stamps is unspecified in SQL, here the later insert comes first.\<close>

definition sessions_list_for_user :: "user_id \<Rightarrow> terminal_session list db" where
  "sessions_list_for_user owner = db_call (\<lambda>s.
     (Inr (rev (sort_key ts_created_at (filter (\<lambda>r. ts_owner_id r = owner) (db_sessions s)))), s))"

definition sessions_set_status ::
  "terminal_session_id \<Rightarrow> terminal_session_status \<Rightarrow> instant option \<Rightarrow> unit db" where
  "sessions_set_status sid status closed_at = db_call (\<lambda>s.
     if session_row s sid = None then (Inl (RE_NotFound ''terminal_session''), s)
     else (Inr (), s\<lparr>db_sessions := map (\<lambda>r. if ts_id r = sid
              then r\<lparr>ts_status := status, ts_closed_at := closed_at, ts_last_seen_at := db_now s\<rparr>
              else r) (db_sessions s)\<rparr>))"

section \<open>Attachments\<close>

definition sessions_create_attachment ::
  "terminal_session_id \<Rightarrow> string option \<Rightarrow> string option \<Rightarrow> session_attachment db" where
  "sessions_create_attachment sid client_info remote_addr = db_call (\<lambda>s.
     if session_row s sid = None
     then (Inl (RE_Conflict ''terminal_session_attachment''
                  ''terminal_session_attachments_session_id_fkey''), s)
     else let row = \<lparr>sa_id = db_next_id s, sa_session_id = sid, sa_attached_at = db_now s,
                     sa_detached_at = None, sa_client_info = client_info,
                     sa_remote_addr = remote_addr, sa_last_seen_seq = None\<rparr>
          in (Inr row, s\<lparr>db_attachments := db_attachments s @ [row], db_next_id := Suc (db_next_id s)\<rparr>))"

definition sessions_list_attachments :: "terminal_session_id \<Rightarrow> session_attachment list db" where
  "sessions_list_attachments sid = db_call (\<lambda>s.
     (Inr (sort_key sa_attached_at (filter (\<lambda>r. sa_session_id r = sid) (db_attachments s))), s))"

definition sessions_get_attachment :: "attachment_id \<Rightarrow> session_attachment option db" where
  "sessions_get_attachment aid = db_call (\<lambda>s. (Inr (attachment_row s aid), s))"

definition coalesce :: "'a option \<Rightarrow> 'a option \<Rightarrow> 'a option" where
  "coalesce a b = (case a of None \<Rightarrow> b | Some x \<Rightarrow> Some x)"

definition stamp_detached :: "instant \<Rightarrow> int option \<Rightarrow> session_attachment \<Rightarrow> session_attachment" where
  "stamp_detached detached_at last_seen_seq r =
     r\<lparr>sa_detached_at := coalesce (sa_detached_at r) (Some detached_at),
       sa_last_seen_seq := coalesce (sa_last_seen_seq r) last_seen_seq\<rparr>"

definition sessions_mark_attachment_detached ::
  "attachment_id \<Rightarrow> instant \<Rightarrow> int option \<Rightarrow> unit db" where
  "sessions_mark_attachment_detached aid detached_at last_seen_seq = db_call (\<lambda>s.
     if attachment_row s aid = None then (Inl (RE_NotFound ''terminal_session_attachment''), s)
     else if (case last_seen_seq of Some q \<Rightarrow> q < 0 | None \<Rightarrow> False)
             \<and> (\<exists>r \<in> set (db_attachments s). sa_id r = aid \<and> sa_last_seen_seq r = None)
     then (Inl (RE_Database ''terminal_session_attachment: database constraint failed (tsa_last_seen_seq_chk)''), s)
     else (Inr (), s\<lparr>db_attachments := map (\<lambda>r. if sa_id r = aid
              then stamp_detached detached_at last_seen_seq r else r) (db_attachments s)\<rparr>))"

section \<open>Session events\<close>

definition events_create :: "terminal_session_id \<Rightarrow> session_event_kind \<Rightarrow> json \<Rightarrow> session_event db" where
  "events_create sid kind payload = db_call (\<lambda>s.
     if session_row s sid = None
     then (Inl (RE_Conflict ''session_event'' ''session_events_session_id_fkey''), s)
     else let row = \<lparr>se_session_id = sid, se_kind = kind, se_payload = payload, se_recorded_at = db_now s\<rparr>
          in (Inr row, s\<lparr>db_events := db_events s @ [row]\<rparr>))"

definition events_list_for_session :: "terminal_session_id \<Rightarrow> session_event list db" where
  "events_list_for_session sid = db_call (\<lambda>s.
     (Inr (sort_key se_recorded_at (filter (\<lambda>e. se_session_id e = sid) (db_events s))), s))"

section \<open>Startup reconciliation\<close>

text \<open>
  One transaction: the candidate rows in id order, and for each the status update, its event
  and, when the session has recorded chunks, a closed marker at the highest recorded number
  unless one is there already. A failed statement rolls everything back, so the transaction
  consumes one entry of the fault list.
\<close>

definition reconcile_payload :: "terminal_session_status \<Rightarrow> instant \<Rightarrow> json" where
  "reconcile_payload previous at =
     JObj [(''reason'', JStr ''startup_reconciliation''),
           (''previous_status'', JStr (status_as_str previous)), (''reconciled_at'', JNum at)]"

definition max_seq_end :: "terminal_session_id \<Rightarrow> session_db \<Rightarrow> int option" where
  "max_seq_end sid s =
     (case map ck_seq_end (filter (\<lambda>c. ck_session c = sid) (db_chunks s)) of
        [] \<Rightarrow> None | x # xs \<Rightarrow> Some (foldl max x xs))"

definition insert_closed_marker :: "recording_marker \<Rightarrow> session_db \<Rightarrow> session_db" where
  "insert_closed_marker m s =
     (if list_ex (\<lambda>x. mr_session x = mr_session m \<and> mr_seq x = mr_seq m \<and> mr_kind x = MK_Closed)
           (db_markers s)
      then s else s\<lparr>db_markers := db_markers s @ [m]\<rparr>)"

definition reconcile_one :: "instant \<Rightarrow> session_db \<Rightarrow> terminal_session \<Rightarrow> session_db" where
  "reconcile_one at s c =
     (let previous = ts_status c;
          s1 = s\<lparr>db_sessions := map (\<lambda>r. if ts_id r = ts_id c
                  then r\<lparr>ts_status := TS_Closed, ts_closed_at := Some at, ts_last_seen_at := db_now s\<rparr>
                  else r) (db_sessions s)\<rparr>;
          s2 = s1\<lparr>db_events := db_events s1 @
                 [\<lparr>se_session_id = ts_id c, se_kind = EV_Closed,
                   se_payload = reconcile_payload previous at, se_recorded_at = db_now s1\<rparr>]\<rparr>
      in case max_seq_end (ts_id c) s2 of
           None \<Rightarrow> s2
         | Some last_seq \<Rightarrow>
             insert_closed_marker
               \<lparr>mr_session = ts_id c, mr_kind = MK_Closed, mr_seq = last_seq,
                mr_payload = reconcile_payload previous at\<rparr> s2)"

definition orphaned :: "session_db \<Rightarrow> terminal_session list" where
  "orphaned s = sort_key ts_id (filter (\<lambda>r. ts_status r \<in> {TS_Starting, TS_Active, TS_Detached}) (db_sessions s))"

definition reconcile_orphaned_on_startup :: "instant \<Rightarrow> reconciled_session list db" where
  "reconcile_orphaned_on_startup at = db_call (\<lambda>s.
     let candidates = orphaned s
     in (Inr (map (\<lambda>c. \<lparr>rs_session_id = ts_id c, rs_previous_status = ts_status c\<rparr>) candidates),
         foldl (reconcile_one at) s candidates))"

section \<open>Frame rules\<close>

lemma preserves_db_call:
  assumes "\<And>s fs. I s \<Longrightarrow> I (s\<lparr>db_faults := fs\<rparr>)" and "preserves I body"
  shows "preserves I (db_call body)"
  using assms by (auto simp: preserves_def db_call_def split: list.splits option.splits)

lemma session_row_faults [simp]: "session_row (s\<lparr>db_faults := fs\<rparr>) sid = session_row s sid"
  by (simp add: session_row_def)

lemma attachment_row_faults [simp]: "attachment_row (s\<lparr>db_faults := fs\<rparr>) aid = attachment_row s aid"
  by (simp add: attachment_row_def)

lemma session_row_id: "session_row s sid = Some r \<Longrightarrow> ts_id r = sid"
  by (auto simp: session_row_def dest: find_SomeD)

lemma attachment_row_id: "attachment_row s aid = Some r \<Longrightarrow> sa_id r = aid"
  by (auto simp: attachment_row_def dest: find_SomeD)

section \<open>Write-once stamps\<close>

text \<open>
  The contract of a \<open>COALESCE\<close> update: the first stamp of a row stays. It is what makes the
  detach and the revocation calls safe to repeat.
\<close>

locale write_once =
  fixes stamp :: "'v \<Rightarrow> 'r \<Rightarrow> 'r"
    and stamp_of :: "'r \<Rightarrow> 't option"
    and time_of :: "'v \<Rightarrow> 't"
  assumes stamp_first: "stamp_of (stamp v r) = coalesce (stamp_of r) (Some (time_of v))"
begin

lemma fold_keeps: "stamp_of r = Some t \<Longrightarrow> stamp_of (fold stamp vs r) = Some t"
  by (induction vs arbitrary: r) (simp_all add: stamp_first coalesce_def)

lemma fold_first: "stamp_of r = None \<Longrightarrow> stamp_of (fold stamp (v # vs) r) = Some (time_of v)"
  by (simp add: fold_keeps stamp_first coalesce_def)

end

interpretation detach_stamp: write_once "\<lambda>(t, q). stamp_detached t q" sa_detached_at fst
  by unfold_locales (simp add: stamp_detached_def split: prod.splits)

section \<open>Reconciliation\<close>

definition close_row :: "instant \<Rightarrow> instant \<Rightarrow> terminal_session \<Rightarrow> terminal_session" where
  "close_row at now r = r\<lparr>ts_status := TS_Closed, ts_closed_at := Some at, ts_last_seen_at := now\<rparr>"

definition closed_event :: "instant \<Rightarrow> instant \<Rightarrow> terminal_session \<Rightarrow> session_event" where
  "closed_event at now c = \<lparr>se_session_id = ts_id c, se_kind = EV_Closed,
     se_payload = reconcile_payload (ts_status c) at, se_recorded_at = now\<rparr>"

definition closed_markers_unique :: "session_db \<Rightarrow> bool" where
  "closed_markers_unique s \<longleftrightarrow>
     distinct (map (\<lambda>m. (mr_session m, mr_seq m)) (filter (\<lambda>m. mr_kind m = MK_Closed) (db_markers s)))"

lemma close_row_id [simp]: "ts_id (close_row at now r) = ts_id r"
  by (simp add: close_row_def)

lemma close_row_idem [simp]: "close_row at now (close_row at now r) = close_row at now r"
  by (simp add: close_row_def)

lemma insert_closed_marker_fields [simp]:
  "db_sessions (insert_closed_marker m s) = db_sessions s"
  "db_events (insert_closed_marker m s) = db_events s"
  "db_now (insert_closed_marker m s) = db_now s"
  "db_chunks (insert_closed_marker m s) = db_chunks s"
  "db_faults (insert_closed_marker m s) = db_faults s"
  "db_attachments (insert_closed_marker m s) = db_attachments s"
  by (simp_all add: insert_closed_marker_def)

lemma reconcile_one_fields [simp]:
  "db_sessions (reconcile_one at s c) =
     map (\<lambda>r. if ts_id r = ts_id c then close_row at (db_now s) r else r) (db_sessions s)"
  "db_events (reconcile_one at s c) = db_events s @ [closed_event at (db_now s) c]"
  "db_now (reconcile_one at s c) = db_now s"
  "db_chunks (reconcile_one at s c) = db_chunks s"
  "db_faults (reconcile_one at s c) = db_faults s"
  "db_attachments (reconcile_one at s c) = db_attachments s"
  by (simp_all add: reconcile_one_def Let_def close_row_def closed_event_def split: option.splits)

lemma reconcile_fold_fields:
  "db_sessions (foldl (reconcile_one at) s cs) =
     map (\<lambda>r. if ts_id r \<in> ts_id ` set cs then close_row at (db_now s) r else r) (db_sessions s)"
  "db_events (foldl (reconcile_one at) s cs) = db_events s @ map (closed_event at (db_now s)) cs"
  "db_faults (foldl (reconcile_one at) s cs) = db_faults s"
  by (induction cs arbitrary: s) auto

lemma insert_closed_marker_unique:
  "closed_markers_unique s \<Longrightarrow> mr_kind m = MK_Closed \<Longrightarrow> closed_markers_unique (insert_closed_marker m s)"
  by (auto simp: closed_markers_unique_def insert_closed_marker_def list_ex_iff)

lemma reconcile_one_unique:
  assumes "closed_markers_unique s"
  shows "closed_markers_unique (reconcile_one at s c)"
proof -
  have "closed_markers_unique (s\<lparr>db_sessions := xs, db_events := ys\<rparr>)" for xs ys
    using assms by (simp add: closed_markers_unique_def)
  then show ?thesis
    by (auto simp: reconcile_one_def Let_def insert_closed_marker_unique split: option.splits)
qed

lemma reconcile_fold_unique:
  "closed_markers_unique s \<Longrightarrow> closed_markers_unique (foldl (reconcile_one at) s cs)"
  by (induction cs arbitrary: s) (simp_all add: reconcile_one_unique)

lemma orphaned_iff:
  assumes "distinct (map ts_id (db_sessions s))" and "r \<in> set (db_sessions s)"
  shows "ts_id r \<in> ts_id ` set (orphaned s) \<longleftrightarrow> ts_status r \<noteq> TS_Closed"
proof -
  have "ts_status r \<noteq> TS_Closed \<longleftrightarrow> ts_status r \<in> {TS_Starting, TS_Active, TS_Detached}" for r
    by (cases "ts_status r") simp_all
  then show ?thesis
    using assms by (auto simp: orphaned_def distinct_map inj_on_def)
qed

lemma orphaned_Nil: "orphaned s = [] \<longleftrightarrow> (\<forall>r \<in> set (db_sessions s). ts_status r = TS_Closed)"
proof -
  have "set (orphaned s) = {r \<in> set (db_sessions s). ts_status r \<noteq> TS_Closed}"
    by (auto simp: orphaned_def intro: terminal_session_status.exhaust)
  then show ?thesis by (metis (mono_tags, lifting) empty_Collect_eq set_empty)
qed

text \<open>
  Startup reconciliation, on a reachable table (ids are a primary key): every session row
  that was not closed becomes closed with the given stamp, closed rows are untouched, one
  \<open>closed\<close> event naming the previous status is appended for each in id order, the report lists
  exactly those rows, the closed markers stay unique, and a second pass reports and changes
  nothing.
\<close>

theorem reconcile_closes_every_orphan:
  assumes "distinct (map ts_id (db_sessions s))" and "closed_markers_unique s" and "db_faults s = []"
  shows "let (recs, t) = reconcile_orphaned_on_startup at s in
           recs = Inr (map (\<lambda>c. \<lparr>rs_session_id = ts_id c, rs_previous_status = ts_status c\<rparr>) (orphaned s))
           \<and> db_sessions t = map (\<lambda>r. if ts_status r = TS_Closed then r else close_row at (db_now s) r)
                                (db_sessions s)
           \<and> db_events t = db_events s @ map (closed_event at (db_now s)) (orphaned s)
           \<and> closed_markers_unique t
           \<and> reconcile_orphaned_on_startup at' t = (Inr [], t)"
proof -
  let ?t = "foldl (reconcile_one at) s (orphaned s)"
  have rows: "db_sessions ?t = map (\<lambda>r. if ts_status r = TS_Closed then r else close_row at (db_now s) r)
      (db_sessions s)"
    unfolding reconcile_fold_fields by (rule map_cong [OF refl]) (simp add: orphaned_iff [OF assms(1)])
  then have "orphaned ?t = []" by (auto simp: orphaned_Nil close_row_def)
  with rows assms(2,3) show ?thesis
    by (simp add: reconcile_orphaned_on_startup_def db_call_def Let_def reconcile_fold_fields
        reconcile_fold_unique)
qed

theorem reconcile_closes_every_orphan_witness:
  "let row = \<lparr>ts_id = 1, ts_owner_id = 7, ts_server_profile_id = 3, ts_status = TS_Active, ts_cols = 80,
              ts_rows = 24, ts_created_at = 0, ts_last_seen_at = 0, ts_closed_at = None\<rparr>;
       s = \<lparr>db_sessions = [row], db_attachments = [], db_events = [], db_chunks = [], db_markers = [],
            db_next_id = 2, db_now = 50, db_faults = []\<rparr>
   in db_sessions (snd (reconcile_orphaned_on_startup 40 s)) = [close_row 40 50 row]
      \<and> map se_kind (db_events (snd (reconcile_orphaned_on_startup 40 s))) = [EV_Closed]"
  using reconcile_closes_every_orphan [of "\<lparr>db_sessions = [\<lparr>ts_id = 1, ts_owner_id = 7,
      ts_server_profile_id = 3, ts_status = TS_Active, ts_cols = 80, ts_rows = 24, ts_created_at = 0,
      ts_last_seen_at = 0, ts_closed_at = None\<rparr>], db_attachments = [], db_events = [], db_chunks = [],
      db_markers = [], db_next_id = 2, db_now = 50, db_faults = []\<rparr>" 40 60]
  by code_simp

end
