(* ===== verification/Replay_Buffer.thy ===== *)
theory Replay_Buffer
  imports Relay_Prelude
begin

text \<open>
  The bounded in-memory replay ring of \<^verbatim>\<open>crates/relayterm-terminal/src/replay.rs\<close>. Its
  specification is the full history of stamped frames: the ring keeps a non-empty suffix of it
  within the configured bounds, and a resume query either returns every frame after the
  bookmark or reports that the window is lost. The contract the socket handler relies on is the
  locale \<open>replay_log\<close>, interpreted at the end.
\<close>

section \<open>State and operations\<close>

record output_frame =
  of_seq :: nat
  of_data :: "byte list"

record replay_range =
  rr_frames :: "output_frame list"
  rr_latest_seq :: nat

record replay_window_lost =
  wl_requested :: nat
  wl_oldest_available :: "nat option"
  wl_latest :: nat

record replay_buffer_config =
  max_frames :: nat
  max_bytes :: nat

definition REPLAY_DEFAULT :: replay_buffer_config where
  "REPLAY_DEFAULT = \<lparr>max_frames = 1024, max_bytes = 2 ^ 20\<rparr>"

record replay_buffer =
  rb_config :: replay_buffer_config
  rb_frames :: "output_frame list"
  rb_bytes :: nat
  rb_latest_seq :: nat

definition rb_new :: "replay_buffer_config \<Rightarrow> replay_buffer" where
  "rb_new config = \<lparr>rb_config = config, rb_frames = [], rb_bytes = 0, rb_latest_seq = 0\<rparr>"

text \<open>The eviction loop of \<open>push\<close>: pop from the front while a bound is exceeded, never the last frame.\<close>

fun evict :: "replay_buffer_config \<Rightarrow> output_frame list \<Rightarrow> nat \<Rightarrow> output_frame list \<times> nat" where
  "evict config [] bytes = ([], bytes)"
| "evict config (dropped # fs) bytes =
     (if length (dropped # fs) > max_frames config \<or> bytes > max_bytes config then
        if length (dropped # fs) \<le> 1 then (dropped # fs, bytes)
        else evict config fs (saturating_sub_usize bytes (length (of_data dropped)))
      else (dropped # fs, bytes))"

definition rb_push :: "replay_buffer \<Rightarrow> output_frame \<Rightarrow> replay_buffer" where
  "rb_push b frame =
     (let bytes = saturating_add_usize (rb_bytes b) (length (of_data frame));
          (fs, bytes') = evict (rb_config b) (rb_frames b @ [frame]) bytes
      in b\<lparr>rb_frames := fs, rb_bytes := bytes', rb_latest_seq := of_seq frame\<rparr>)"

definition replay_since :: "replay_buffer \<Rightarrow> nat option \<Rightarrow> replay_window_lost + replay_range" where
  "replay_since b last_seen_seq =
     (let bookmark = (case last_seen_seq of None \<Rightarrow> 0 | Some s \<Rightarrow> s);
          oldest_available = (case rb_frames b of [] \<Rightarrow> None | f # _ \<Rightarrow> Some (of_seq f))
      in case oldest_available of
           None \<Rightarrow> Inr \<lparr>rr_frames = [], rr_latest_seq = rb_latest_seq b\<rparr>
         | Some oldest \<Rightarrow>
             if bookmark \<ge> rb_latest_seq b then
               Inr \<lparr>rr_frames = [], rr_latest_seq = rb_latest_seq b\<rparr>
             else if bookmark > 0 \<and> wrapping_add_u64 bookmark 1 < oldest then
               Inl \<lparr>wl_requested = bookmark, wl_oldest_available = oldest_available,
                    wl_latest = rb_latest_seq b\<rparr>
             else Inr \<lparr>rr_frames = filter (\<lambda>f. of_seq f > bookmark) (rb_frames b),
                      rr_latest_seq = rb_latest_seq b\<rparr>)"

section \<open>Histories\<close>

text \<open>
  The manager stamps frames \<open>1, 2, \<dots>\<close>. A frame is well formed when its data fits a Rust
  allocation, at most \<open>isize::MAX\<close> bytes.
\<close>

definition stamped :: "output_frame list \<Rightarrow> bool" where
  "stamped h \<longleftrightarrow> map of_seq h = [1..<Suc (length h)] \<and> length h \<le> u64_max
     \<and> (\<forall>f \<in> set h. length (of_data f) \<le> i64_max)"

definition total_bytes :: "output_frame list \<Rightarrow> nat" where
  "total_bytes fs = sum_list (map (\<lambda>f. length (of_data f)) fs)"

definition within_bounds :: "replay_buffer_config \<Rightarrow> output_frame list \<Rightarrow> bool" where
  "within_bounds c fs \<longleftrightarrow> length fs \<le> max_frames c \<and> total_bytes fs \<le> max_bytes c"

text \<open>
  \<open>retains b h\<close>: the ring \<open>b\<close> is what remains of the history \<open>h\<close>. It keeps the longest
  suffix within the bounds, and one frame at least.
\<close>

definition retains :: "replay_buffer \<Rightarrow> output_frame list \<Rightarrow> bool" where
  "retains b h \<longleftrightarrow> stamped h \<and> max_bytes (rb_config b) \<le> i64_max
     \<and> (\<exists>k. rb_frames b = drop k h) \<and> (h \<noteq> [] \<longrightarrow> rb_frames b \<noteq> [])
     \<and> rb_bytes b = total_bytes (rb_frames b) \<and> rb_latest_seq b = length h
     \<and> (within_bounds (rb_config b) (rb_frames b) \<or> length (rb_frames b) = 1)"

lemma total_bytes_simps [simp]:
  "total_bytes [] = 0"
  "total_bytes (f # fs) = length (of_data f) + total_bytes fs"
  "total_bytes (fs @ gs) = total_bytes fs + total_bytes gs"
  by (simp_all add: total_bytes_def)

lemma of_seq_nth: "stamped h \<Longrightarrow> i < length h \<Longrightarrow> of_seq (h ! i) = Suc i"
  using nth_map [of i h of_seq] by (simp add: stamped_def del: upt_Suc)

lemma stamped_append: "stamped (h @ g) \<Longrightarrow> stamped h"
proof -
  assume st: "stamped (h @ g)"
  then have "map of_seq (h @ g) = [1..<Suc (length h + length g)]"
    by (simp add: stamped_def del: upt_Suc)
  then have "take (length h) (map of_seq (h @ g)) = [1..<1 + length h]"
    by (simp only: take_upt)
  then have "map of_seq h = [1..<Suc (length h)]"
    by (simp del: upt_Suc)
  with st show "stamped h" by (simp add: stamped_def del: upt_Suc)
qed

lemma stamped_seq_iff:
  assumes "stamped h" and "f \<in> set (drop k h)"
  shows "k < of_seq f \<and> of_seq f \<le> length h"
proof -
  from assms(2) obtain i where i: "i < length h - k" "f = drop k h ! i"
    by (auto simp: in_set_conv_nth)
  then show ?thesis using of_seq_nth [OF assms(1), of "k + i"] by simp
qed

lemma take_seq_le:
  assumes "stamped h" and "f \<in> set (take k h)"
  shows "of_seq f \<le> k"
proof -
  from assms(2) obtain i where i: "i < min (length h) k" "f = h ! i"
    by (auto simp: in_set_conv_nth)
  then show ?thesis using of_seq_nth [OF assms(1), of i] by simp
qed

text \<open>The frames after a bookmark are the tail of the history.\<close>

lemma filter_after_bookmark:
  assumes "stamped h"
  shows "filter (\<lambda>f. n < of_seq f) h = drop n h"
proof -
  have "filter (\<lambda>f. n < of_seq f) (take n h @ drop n h) = drop n h"
    using take_seq_le [OF assms] stamped_seq_iff [OF assms]
    by (intro filter_append_split) (auto simp: not_less)
  then show ?thesis by simp
qed

lemma filter_drop_after_bookmark:
  assumes "stamped h"
  shows "filter (\<lambda>f. n < of_seq f) (drop k h) = drop (max k n) h"
proof (cases "k \<le> n")
  case True
  then have "drop k h = take (n - k) (drop k h) @ drop n h"
    using append_take_drop_id [of "n - k" "drop k h"] by simp
  moreover have "\<forall>f \<in> set (take (n - k) (drop k h)). \<not> n < of_seq f"
    using take_seq_le [OF assms, of _ n] True by (auto simp: take_drop not_less dest!: in_set_dropD)
  moreover have "\<forall>f \<in> set (drop n h). n < of_seq f"
    using stamped_seq_iff [OF assms] by blast
  ultimately have "filter (\<lambda>f. n < of_seq f) (drop k h) = drop n h"
    by (metis filter_append_split)
  with True show ?thesis by (simp add: max_def)
next
  case False
  then have "\<forall>f \<in> set (drop k h). n < of_seq f"
    using stamped_seq_iff [OF assms, of _ k] by fastforce
  with False show ?thesis by (simp add: max_def filter_id_conv)
qed

section \<open>Eviction\<close>

lemma evict_drop:
  assumes "bytes = total_bytes fs" and "fs \<noteq> []"
  shows "\<exists>k. evict c fs bytes = (drop k fs, total_bytes (drop k fs)) \<and> drop k fs \<noteq> []
           \<and> (within_bounds c (drop k fs) \<or> length (drop k fs) = 1)
           \<and> (\<forall>j < k. \<not> within_bounds c (drop j fs))"
  using assms
proof (induction c fs bytes rule: evict.induct)
  case (1 c bytes)
  then show ?case by simp
next
  case (2 c d fs bytes)
  let ?over = "length (d # fs) > max_frames c \<or> bytes > max_bytes c"
  show ?case
  proof (cases "?over \<and> fs \<noteq> []")
    case True
    then obtain k where k: "evict c fs (total_bytes fs) = (drop k fs, total_bytes (drop k fs))"
        "drop k fs \<noteq> []" "within_bounds c (drop k fs) \<or> length (drop k fs) = 1"
        "\<forall>j < k. \<not> within_bounds c (drop j fs)"
      using "2.IH" "2.prems" by (auto simp: saturating_sub_usize_def)
    have "\<forall>j < Suc k. \<not> within_bounds c (drop j (d # fs))"
      using k(4) True "2.prems"(1) by (auto simp: less_Suc_eq_0_disj within_bounds_def)
    with k True "2.prems"(1) show ?thesis
      by (intro exI [of _ "Suc k"]) (simp add: saturating_sub_usize_def)
  next
    case False
    with "2.prems"(1) show ?thesis
      by (intro exI [of _ 0]) (auto simp: within_bounds_def)
  qed
qed

lemma retains_new: "max_bytes c \<le> i64_max \<Longrightarrow> retains (rb_new c) []"
  by (simp add: retains_def rb_new_def stamped_def within_bounds_def)

lemma retained_size:
  assumes "retains b h"
  shows "total_bytes (rb_frames b) \<le> i64_max"
proof -
  from assms obtain k where k: "rb_frames b = drop k h"
      and "stamped h" and c: "max_bytes (rb_config b) \<le> i64_max"
      and w: "within_bounds (rb_config b) (rb_frames b) \<or> length (rb_frames b) = 1"
    by (auto simp: retains_def)
  then have small: "\<forall>f \<in> set (rb_frames b). length (of_data f) \<le> i64_max"
    by (auto simp: stamped_def dest: in_set_dropD)
  from w show ?thesis
  proof
    assume "within_bounds (rb_config b) (rb_frames b)"
    with c show ?thesis by (simp add: within_bounds_def)
  next
    assume "length (rb_frames b) = 1"
    then obtain f where "rb_frames b = [f]" by (auto simp: length_Suc_conv)
    with small show ?thesis by simp
  qed
qed

text \<open>A push extends the history; what it evicts is the least that restores the bounds.\<close>

lemma push_evicts_least:
  assumes r: "retains b h" and st: "stamped (h @ [f])"
  shows "\<exists>k. rb_frames (rb_push b f) = drop k (rb_frames b @ [f])
           \<and> rb_bytes (rb_push b f) = total_bytes (rb_frames (rb_push b f))
           \<and> rb_frames (rb_push b f) \<noteq> []
           \<and> (within_bounds (rb_config b) (rb_frames (rb_push b f))
                \<or> length (rb_frames (rb_push b f)) = 1)
           \<and> (\<forall>j < k. \<not> within_bounds (rb_config b) (drop j (rb_frames b @ [f])))"
proof -
  have "length (of_data f) \<le> i64_max" using st by (simp add: stamped_def)
  then have "saturating_add_usize (rb_bytes b) (length (of_data f)) = total_bytes (rb_frames b @ [f])"
    using retained_size [OF r] r by (simp add: saturating_add_usize_def retains_def)
  note bytes = this
  obtain k where k: "evict (rb_config b) (rb_frames b @ [f]) (total_bytes (rb_frames b @ [f]))
        = (drop k (rb_frames b @ [f]), total_bytes (drop k (rb_frames b @ [f])))"
      and rest: "drop k (rb_frames b @ [f]) \<noteq> []"
        "within_bounds (rb_config b) (drop k (rb_frames b @ [f]))
           \<or> length (drop k (rb_frames b @ [f])) = 1"
        "\<forall>j < k. \<not> within_bounds (rb_config b) (drop j (rb_frames b @ [f]))"
    using evict_drop [OF refl, of "rb_frames b @ [f]" "rb_config b"] by blast
  have "rb_frames (rb_push b f) = drop k (rb_frames b @ [f])"
      and "rb_bytes (rb_push b f) = total_bytes (drop k (rb_frames b @ [f]))"
    unfolding rb_push_def Let_def bytes k by simp_all
  with rest show ?thesis by (intro exI [of _ k]) (simp only: simp_thms)
qed

lemma retains_push:
  assumes r: "retains b h" and st: "stamped (h @ [f])"
  shows "retains (rb_push b f) (h @ [f])"
proof -
  obtain k where k: "rb_frames (rb_push b f) = drop k (rb_frames b @ [f])"
      "rb_bytes (rb_push b f) = total_bytes (rb_frames (rb_push b f))"
      "rb_frames (rb_push b f) \<noteq> []"
      "within_bounds (rb_config b) (rb_frames (rb_push b f)) \<or> length (rb_frames (rb_push b f)) = 1"
    using push_evicts_least [OF r st] by blast
  from r obtain j where j: "rb_frames b = drop j h" by (auto simp: retains_def)
  have "\<exists>i. rb_frames b @ [f] = drop i (h @ [f])"
    by (rule exI [of _ "min j (length h)"]) (simp add: j min_def)
  then obtain i where "rb_frames b @ [f] = drop i (h @ [f])" ..
  then have d: "\<exists>i. rb_frames (rb_push b f) = drop i (h @ [f])"
    using k(1) by (metis drop_drop)
  have "of_seq f = Suc (length h)"
    using of_seq_nth [OF st, of "length h"] by simp
  then have "rb_latest_seq (rb_push b f) = length (h @ [f])"
      and "rb_config (rb_push b f) = rb_config b"
    by (simp_all add: rb_push_def Let_def split: prod.splits)
  with d k r st show ?thesis by (simp add: retains_def)
qed

section \<open>Resume queries\<close>

lemma oldest_seq:
  assumes "stamped h" and "rb_frames b = drop k h" and "rb_frames b = f # fs"
  shows "of_seq f = Suc k" and "k < length h"
proof -
  show "k < length h" using assms(2,3) by (metis drop_all leI list.distinct(1))
  then show "of_seq f = Suc k"
    using of_seq_nth [OF assms(1)] assms(2,3) by (metis hd_drop_conv_nth list.sel(1))
qed

text \<open>
  The successor of the bookmark never wraps: it is only computed below the latest stamp.
\<close>

lemma bookmark_no_wrap:
  "stamped h \<Longrightarrow> n < length h \<Longrightarrow> wrapping_add_u64 n 1 = Suc n"
  by (simp add: wrapping_add_u64_def stamped_def)

lemma replay_since_some:
  assumes r: "retains b h" and k: "rb_frames b = drop k h"
  shows "replay_since b (Some n) =
     (if 0 < n \<and> n < k \<and> k < length h then
        Inl \<lparr>wl_requested = n, wl_oldest_available = Some (Suc k), wl_latest = length h\<rparr>
      else Inr \<lparr>rr_frames = drop (max k n) h, rr_latest_seq = length h\<rparr>)"
proof (cases "rb_frames b")
  case Nil
  with r k show ?thesis
    by (auto simp: replay_since_def retains_def max_def)
next
  case (Cons f fs)
  from r have st: "stamped h" and lat: "rb_latest_seq b = length h"
    by (simp_all add: retains_def)
  note o = oldest_seq [OF st k Cons]
  show ?thesis
  proof (cases "length h \<le> n")
    case True
    with o Cons lat show ?thesis by (simp add: replay_since_def max_def)
  next
    case False
    with bookmark_no_wrap [OF st, of n] o Cons lat filter_drop_after_bookmark [OF st, of n k] k
    show ?thesis by (auto simp: replay_since_def)
  qed
qed

section \<open>The contract of a replay log\<close>

locale replay_log =
  fixes push :: "'b \<Rightarrow> output_frame \<Rightarrow> 'b"
    and since :: "'b \<Rightarrow> nat option \<Rightarrow> replay_window_lost + replay_range"
    and holds :: "'b \<Rightarrow> output_frame list \<Rightarrow> bool"
  assumes holds_stamped: "holds b h \<Longrightarrow> stamped h"
    and holds_push: "holds b h \<Longrightarrow> stamped (h @ [f]) \<Longrightarrow> holds (push b f) (h @ [f])"
    and since_complete: "holds b h \<Longrightarrow> 0 < n \<Longrightarrow> since b (Some n) = Inr r \<Longrightarrow>
      rr_frames r = drop n h \<and> rr_latest_seq r = length h"
    and since_lost: "holds b h \<Longrightarrow> since b (Some n) = Inl l \<Longrightarrow>
      0 < n \<and> n < length h \<and> wl_requested l = n \<and> wl_latest l = length h"
begin

lemma holds_fold:
  "holds b h \<Longrightarrow> stamped (h @ fs) \<Longrightarrow> holds (foldl push b fs) (h @ fs)"
proof (induction fs arbitrary: b h)
  case Nil
  then show ?case by simp
next
  case (Cons f fs)
  then have "stamped (h @ [f])" using stamped_append [of "h @ [f]" fs] by simp
  with Cons show ?case using holds_push by fastforce
qed

text \<open>
  The resume handshake. A client with bookmark \<open>n\<close> whose subscription has queued every frame
  stamped after position \<open>k\<close> receives the replayed range and then the queued and later frames
  above the replay's latest stamp. Together they are every frame after the bookmark, once each
  and in order.
\<close>

lemma replay_then_live_exactly_once:
  assumes h: "holds b h" and n: "0 < n" and r: "since b (Some n) = Inr r"
    and st: "stamped (h @ later)" and k: "k \<le> length h" and le: "n \<le> length h"
  shows "rr_frames r @ filter (\<lambda>f. \<not> of_seq f \<le> rr_latest_seq r) (drop k (h @ later))
           = drop n (h @ later)"
proof -
  have r': "rr_frames r = drop n h" "rr_latest_seq r = length h"
    using since_complete [OF h n r] by simp_all
  have "filter (\<lambda>f. length h < of_seq f) (drop k (h @ later)) = later"
    using filter_drop_after_bookmark [OF st, of "length h" k] k by (simp add: max_def)
  with le show ?thesis by (simp add: r' not_le)
qed

end

interpretation ring: replay_log rb_push replay_since retains
proof unfold_locales
  show "retains b h \<Longrightarrow> stamped h" for b h
    by (simp add: retains_def)
  show "retains b h \<Longrightarrow> stamped (h @ [f]) \<Longrightarrow> retains (rb_push b f) (h @ [f])" for b h f
    by (rule retains_push)
next
  fix b h n r
  assume h: "retains b h" and n: "0 < n" and r: "replay_since b (Some n) = Inr r"
  from h obtain k where k: "rb_frames b = drop k h" by (auto simp: retains_def)
  from h k have ne: "h \<noteq> [] \<Longrightarrow> k < length h" by (auto simp: retains_def)
  from r n replay_since_some [OF h k, of n] ne
  show "rr_frames r = drop n h \<and> rr_latest_seq r = length h"
    by (cases "h = []") (auto simp: max_def split: if_splits)
next
  fix b h n l
  assume h: "retains b h" and l: "replay_since b (Some n) = Inl l"
  from h obtain k where k: "rb_frames b = drop k h" by (auto simp: retains_def)
  from l replay_since_some [OF h k, of n]
  show "0 < n \<and> n < length h \<and> wl_requested l = n \<and> wl_latest l = length h"
    by (auto split: if_splits)
qed

section \<open>The ring against its reference\<close>

text \<open>The reference: the longest suffix of the history within both bounds, one frame at least.\<close>

fun keep_suffix :: "replay_buffer_config \<Rightarrow> output_frame list \<Rightarrow> output_frame list" where
  "keep_suffix c [] = []"
| "keep_suffix c (f # fs) =
     (if within_bounds c (f # fs) \<or> fs = [] then f # fs else keep_suffix c fs)"

lemma evict_keep: "fst (evict c fs (total_bytes fs)) = keep_suffix c fs"
  by (induction fs) (auto simp: within_bounds_def saturating_sub_usize_def)

lemma keep_suffix_snoc: "keep_suffix c (keep_suffix c h @ [f]) = keep_suffix c (h @ [f])"
  by (induction h) (auto simp: within_bounds_def)

lemma keep_suffix_drop: "keep_suffix c h = drop (length h - length (keep_suffix c h)) h"
proof (induction h)
  case (Cons f h)
  have "length (keep_suffix c h) \<le> length h" by (metis Cons.IH diff_le_self length_drop)
  with Cons show ?case by (simp add: Suc_diff_le)
qed simp

lemma ring_after:
  assumes "stamped h" and "max_bytes c \<le> i64_max"
  shows "retains (foldl rb_push (rb_new c) h) h"
  using ring.holds_fold [OF retains_new [OF assms(2)], of h] assms(1) by simp

lemma foldl_rb_config [simp]: "rb_config (foldl rb_push b h) = rb_config b"
  by (induction h arbitrary: b) (simp_all add: rb_push_def Let_def split: prod.splits)

lemma ring_frames:
  assumes "stamped h" and "max_bytes c \<le> i64_max"
  shows "rb_frames (foldl rb_push (rb_new c) h) = keep_suffix c h"
  using assms(1)
proof (induction h rule: rev_induct)
  case Nil
  then show ?case by (simp add: rb_new_def)
next
  case (snoc f h)
  let ?b = "foldl rb_push (rb_new c) h"
  have h: "stamped h" using snoc.prems by (rule stamped_append)
  note r = ring_after [OF h assms(2)]
  have "length (of_data f) \<le> i64_max" using snoc.prems by (simp add: stamped_def)
  then have "saturating_add_usize (rb_bytes ?b) (length (of_data f)) = total_bytes (rb_frames ?b @ [f])"
    using retained_size [OF r] r by (simp add: saturating_add_usize_def retains_def)
  then have "rb_frames (rb_push ?b f) = keep_suffix c (rb_frames ?b @ [f])"
    by (simp add: rb_push_def Let_def evict_keep [symmetric] rb_new_def split: prod.splits)
  then show ?case by (simp add: snoc.IH [OF h] keep_suffix_snoc)
qed

text \<open>
  C8. The bounded ring refines the full history: after any run of stamped pushes it holds
  exactly the longest suffix of the history that is within both bounds (one frame at least), its
  running byte counter is the exact total, and its high-water mark is the last stamp.
\<close>

theorem ring_holds_longest_suffix:
  assumes "stamped h" and "max_bytes c \<le> i64_max"
  shows "let b = foldl rb_push (rb_new c) h
         in rb_frames b = keep_suffix c h \<and> rb_bytes b = total_bytes (keep_suffix c h)
            \<and> rb_latest_seq b = length h"
  using ring_after [OF assms] ring_frames [OF assms] by (simp add: retains_def Let_def)

theorem ring_holds_longest_suffix_witness:
  "let h = [\<lparr>of_seq = 1, of_data = [1, 2]\<rparr>, \<lparr>of_seq = 2, of_data = [3]\<rparr>, \<lparr>of_seq = 3, of_data = [4]\<rparr>];
       b = foldl rb_push (rb_new \<lparr>max_frames = 2, max_bytes = 3\<rparr>) h
   in stamped h \<and> rb_frames b = tl h \<and> rb_bytes b = 2 \<and> rb_latest_seq b = 3"
  using ring_holds_longest_suffix [of "[\<lparr>of_seq = 1, of_data = [1, 2]\<rparr>, \<lparr>of_seq = 2, of_data = [3]\<rparr>,
      \<lparr>of_seq = 3, of_data = [4]\<rparr>]" "\<lparr>max_frames = 2, max_bytes = 3\<rparr>"]
  by code_simp

text \<open>
  C9. A resume query never returns a hole. After any history, a bookmark is answered either with
  every frame stamped after it, or, exactly when one of those frames has been evicted, with a
  window-lost error naming the oldest frame still held; the first attach (bookmark zero) gets
  all that is held.
\<close>

theorem replay_is_complete_or_lost:
  assumes "stamped h" and "max_bytes c \<le> i64_max"
  shows "let b = foldl rb_push (rb_new c) h;
             evicted = length h - length (keep_suffix c h)
         in replay_since b (Some n) =
              (if n = 0 then Inr \<lparr>rr_frames = keep_suffix c h, rr_latest_seq = length h\<rparr>
               else if n < evicted then
                 Inl \<lparr>wl_requested = n, wl_oldest_available = Some (Suc evicted), wl_latest = length h\<rparr>
               else Inr \<lparr>rr_frames = drop n h, rr_latest_seq = length h\<rparr>)
            \<and> replay_since b None = replay_since b (Some 0)"
proof -
  let ?b = "foldl rb_push (rb_new c) h" and ?e = "length h - length (keep_suffix c h)"
  note r = ring_after [OF assms]
  have k: "rb_frames ?b = drop ?e h"
    using ring_frames [OF assms] keep_suffix_drop by metis
  have "rb_frames ?b = [] \<longrightarrow> h = []" using r by (auto simp: retains_def)
  then have e: "?e < length h \<or> h = []" using k by auto
  have "drop ?e h = keep_suffix c h" by (rule keep_suffix_drop [symmetric])
  then show ?thesis
    using replay_since_some [OF r k, of n] e
    by (auto simp: Let_def max_def replay_since_def)
qed

theorem replay_is_complete_or_lost_witness:
  "let h = [\<lparr>of_seq = 1, of_data = [1, 2]\<rparr>, \<lparr>of_seq = 2, of_data = [3]\<rparr>, \<lparr>of_seq = 3, of_data = [4]\<rparr>];
       b = foldl rb_push (rb_new \<lparr>max_frames = 1, max_bytes = 3\<rparr>) h
   in stamped h
      \<and> replay_since b (Some 1)
          = Inl \<lparr>wl_requested = 1, wl_oldest_available = Some 3, wl_latest = 3\<rparr>"
  using replay_is_complete_or_lost [of "[\<lparr>of_seq = 1, of_data = [1, 2]\<rparr>, \<lparr>of_seq = 2, of_data = [3]\<rparr>,
      \<lparr>of_seq = 3, of_data = [4]\<rparr>]" "\<lparr>max_frames = 1, max_bytes = 3\<rparr>" 1]
  by (simp add: stamped_def upt_rec within_bounds_def Let_def)

end
