(* ===== verification/Pty_Bridge.thy ===== *)
theory Pty_Bridge
  imports Relay_Prelude
begin

text \<open>
  The live PTY bridge (\<^verbatim>\<open>crates/relayterm-ssh/src/pty.rs\<close> and \<^verbatim>\<open>russh_pty.rs\<close>): the handle's
  senders, the bounded channels and the driver task that multiplexes the SSH channel. The SSH
  channel itself is third-party code: what \<open>channel.wait()\<close> and \<open>channel.data()\<close> return are
  inputs of the driver's steps.
\<close>

section \<open>Events, errors and the bridge state\<close>

datatype closed_reason = CR_RemoteEof | CR_LocalClose | CR_TransportError

datatype ssh_pty_event =
    PtyOutput "byte list"
  | PtyExit int
  | PtyClosed closed_reason

datatype probe_error = PR_Unreachable | PR_Timeout | PR_BadHostKey | PR_Transport

datatype ssh_pty_error =
    PE_InvalidIdentity
  | PE_Transport probe_error
  | PE_HostKeyNotTrusted
  | PE_AuthenticationFailed
  | PE_PtyStartFailed
  | PE_BridgeClosed

datatype channel_msg =
    CM_Data "byte list"
  | CM_ExtendedData "byte list" nat
  | CM_ExitStatus "32 word"
  | CM_Eof
  | CM_Close
  | CM_Other

text \<open>
  \<open>pb_senders\<close>: the handle still holds its senders. \<open>pb_driver\<close>: the driver task runs.
  \<open>pb_receiver\<close>: the orchestrator still holds \<open>output_rx\<close>. \<open>pb_remote_in\<close> and
  \<open>pb_remote_size\<close> are what the driver has handed to the SSH channel.
\<close>

record pty_bridge =
  pb_senders :: bool
  pb_driver :: bool
  pb_receiver :: bool
  pb_input :: "byte list list"
  pb_resize :: "(nat \<times> nat) list"
  pb_output_rx :: "ssh_pty_event list"
  pb_remote_in :: "byte list list"
  pb_remote_size :: "(nat \<times> nat) list"

definition bridge_start :: pty_bridge where
  "bridge_start = \<lparr>pb_senders = True, pb_driver = True, pb_receiver = True, pb_input = [],
     pb_resize = [], pb_output_rx = [], pb_remote_in = [], pb_remote_size = []\<rparr>"

section \<open>The handle\<close>

definition handle_write_input :: "byte list \<Rightarrow> pty_bridge \<Rightarrow> (ssh_pty_error + unit) \<times> pty_bridge" where
  "handle_write_input bytes b =
     (if \<not> pb_senders b then (Inl PE_BridgeClosed, b)
      else if pb_driver b then (Inr (), b\<lparr>pb_input := pb_input b @ [bytes]\<rparr>)
      else (Inl PE_BridgeClosed, b))"

definition handle_resize :: "nat \<Rightarrow> nat \<Rightarrow> pty_bridge \<Rightarrow> (ssh_pty_error + unit) \<times> pty_bridge" where
  "handle_resize cols rows b =
     (if \<not> pb_senders b then (Inl PE_BridgeClosed, b)
      else if pb_driver b then (Inr (), b\<lparr>pb_resize := pb_resize b @ [(cols, rows)]\<rparr>)
      else (Inl PE_BridgeClosed, b))"

definition handle_close :: "pty_bridge \<Rightarrow> pty_bridge" where
  "handle_close b = b\<lparr>pb_senders := False\<rparr>"

section \<open>The driver\<close>

definition emit :: "ssh_pty_event \<Rightarrow> pty_bridge \<Rightarrow> pty_bridge option" where
  "emit e b = (if pb_receiver b then Some (b\<lparr>pb_output_rx := pb_output_rx b @ [e]\<rparr>) else None)"

text \<open>Leaving the loop: the final \<open>Closed\<close> event is sent and the receivers are dropped.\<close>

definition drive_stop :: "closed_reason \<Rightarrow> pty_bridge \<Rightarrow> pty_bridge" where
  "drive_stop reason b =
     (let b1 = (case emit (PtyClosed reason) b of Some b' \<Rightarrow> b' | None \<Rightarrow> b)
      in b1\<lparr>pb_driver := False, pb_input := [], pb_resize := []\<rparr>)"

definition drive_data :: "byte list \<Rightarrow> pty_bridge \<Rightarrow> pty_bridge" where
  "drive_data d b = (case emit (PtyOutput d) b of Some b' \<Rightarrow> b' | None \<Rightarrow> drive_stop CR_LocalClose b)"

definition drive_msg :: "channel_msg option \<Rightarrow> pty_bridge \<Rightarrow> pty_bridge" where
  "drive_msg m b =
     (case m of
        Some (CM_Data d) \<Rightarrow> drive_data d b
      | Some (CM_ExtendedData d ext) \<Rightarrow> if ext = 1 then drive_data d b else b
      | Some (CM_ExitStatus exit_status) \<Rightarrow>
          (case emit (PtyExit (sint exit_status)) b of Some b' \<Rightarrow> b' | None \<Rightarrow> b)
      | Some CM_Eof \<Rightarrow> drive_stop CR_RemoteEof b
      | Some CM_Close \<Rightarrow> drive_stop CR_RemoteEof b
      | Some CM_Other \<Rightarrow> b
      | None \<Rightarrow> drive_stop CR_TransportError b)"

definition drive_input :: "bool \<Rightarrow> pty_bridge \<Rightarrow> pty_bridge" where
  "drive_input data_ok b =
     (case pb_input b of
        bytes # rest \<Rightarrow>
          if data_ok then b\<lparr>pb_input := rest, pb_remote_in := pb_remote_in b @ [bytes]\<rparr>
          else drive_stop CR_TransportError b
      | [] \<Rightarrow> if pb_senders b then b else drive_stop CR_LocalClose b)"

definition drive_resize :: "pty_bridge \<Rightarrow> pty_bridge" where
  "drive_resize b =
     (case pb_resize b of
        dims # rest \<Rightarrow> b\<lparr>pb_resize := rest, pb_remote_size := pb_remote_size b @ [dims]\<rparr>
      | [] \<Rightarrow> if pb_senders b then b else drive_stop CR_LocalClose b)"

datatype drive_label = DL_Msg "channel_msg option" | DL_Input bool | DL_Resize

definition drive_channel :: "drive_label \<Rightarrow> pty_bridge \<Rightarrow> pty_bridge" where
  "drive_channel l b =
     (if \<not> pb_driver b then b
      else case l of
             DL_Msg m \<Rightarrow> drive_msg m b
           | DL_Input ok \<Rightarrow> drive_input ok b
           | DL_Resize \<Rightarrow> drive_resize b)"

section \<open>Traffic over a bridge\<close>

text \<open>
  A run of the bridge: handle calls and driver steps in any order. The state remembers which
  input writes were acknowledged.
\<close>

datatype bridge_label =
    BL_Write "byte list"
  | BL_Resize nat nat
  | BL_Close
  | BL_Drive drive_label

definition bridge_step :: "pty_bridge \<times> byte list list \<Rightarrow> bridge_label \<Rightarrow> pty_bridge \<times> byte list list" where
  "bridge_step s l =
     (let (b, acked) = s in
      case l of
        BL_Write bytes \<Rightarrow>
          (case handle_write_input bytes b of
             (Inr _, b') \<Rightarrow> (b', acked @ [bytes]) | (Inl _, b') \<Rightarrow> (b', acked))
      | BL_Resize c r \<Rightarrow> (snd (handle_resize c r b), acked)
      | BL_Close \<Rightarrow> (handle_close b, acked)
      | BL_Drive d \<Rightarrow> (drive_channel d b, acked))"

definition is_closed_event :: "ssh_pty_event \<Rightarrow> bool" where
  "is_closed_event e = (case e of PtyClosed _ \<Rightarrow> True | _ \<Rightarrow> False)"

definition bridge_ok :: "pty_bridge \<times> byte list list \<Rightarrow> bool" where
  "bridge_ok s \<longleftrightarrow>
     (let (b, acked) = s in
      (pb_driver b \<longrightarrow> acked = pb_remote_in b @ pb_input b
         \<and> (\<forall>e \<in> set (pb_output_rx b). \<not> is_closed_event e))
      \<and> (\<not> pb_driver b \<longrightarrow> pb_input b = [] \<and> (\<exists>lost. acked = pb_remote_in b @ lost)
         \<and> (\<exists>es r. pb_output_rx b = es @ [PtyClosed r] \<and> (\<forall>e \<in> set es. \<not> is_closed_event e)))
      \<and> pb_receiver b)"

lemmas drive_defs = drive_channel_def drive_msg_def drive_input_def drive_resize_def drive_data_def
  drive_stop_def emit_def handle_write_input_def handle_resize_def handle_close_def

lemma closed_event_simps [simp]:
  "\<not> is_closed_event (PtyOutput d)" "\<not> is_closed_event (PtyExit n)" "is_closed_event (PtyClosed r)"
  by (simp_all add: is_closed_event_def)

lemma drive_ok:
  assumes "bridge_ok (b, acked)"
  shows "bridge_ok (drive_channel l b, acked)"
  using assms
  by (auto simp: bridge_ok_def drive_defs Let_def split: drive_label.splits option.splits
      channel_msg.splits list.splits)

interpretation bridge: step_machine bridge_step bridge_ok "\<lambda>_ _. True"
proof unfold_locales
  fix s l assume ok: "bridge_ok s"
  obtain b acked where s: "s = (b, acked)" by (cases s)
  show "bridge_ok (bridge_step s l)"
  proof (cases l)
    case (BL_Drive d)
    then show ?thesis using drive_ok ok s by (simp add: bridge_step_def)
  qed (use ok s in \<open>auto simp: bridge_step_def bridge_ok_def drive_defs Let_def\<close>)
qed

lemma bridge_run_ok: "bridge_ok (foldl bridge_step (bridge_start, []) ls)"
  by (rule bridge.fold_step_invar)
     (simp_all add: bridge_ok_def bridge_start_def)

text \<open>
  Keystrokes are delivered in order and without loss or duplication: under every
  interleaving of handle calls and driver steps, the acknowledged writes are exactly what the
  driver has handed to the SSH channel followed by what is still queued, while the driver runs,
  and the delivered ones are a prefix of the acknowledged ones after it stopped.
\<close>

theorem input_is_fifo:
  "let (b, acked) = foldl bridge_step (bridge_start, []) ls
   in if pb_driver b then acked = pb_remote_in b @ pb_input b
      else take (length (pb_remote_in b)) acked = pb_remote_in b"
  using bridge_run_ok [of ls]
  by (auto simp: bridge_ok_def Let_def split: prod.splits)

text \<open>
  The driver announces its end exactly once, as the last event: while it runs no
  \<open>Closed\<close> event is on the output channel, and once it has stopped the last event, and only
  the last, is \<open>Closed\<close>; from then on writes and resizes are refused as \<open>BridgeClosed\<close>.
\<close>

theorem closed_event_is_last_and_unique:
  "let (b, acked) = foldl bridge_step (bridge_start, []) ls
   in (if pb_driver b then filter is_closed_event (pb_output_rx b) = []
       else \<exists>es r. pb_output_rx b = es @ [PtyClosed r] \<and> filter is_closed_event es = [])
      \<and> (fst (handle_write_input d b) = Inr () \<longleftrightarrow> pb_senders b \<and> pb_driver b)
      \<and> (fst (handle_resize c r b) = Inl PE_BridgeClosed \<longleftrightarrow> \<not> (pb_senders b \<and> pb_driver b))"
  using bridge_run_ok [of ls]
  by (auto simp: bridge_ok_def Let_def filter_empty_conv handle_write_input_def handle_resize_def
      split: prod.splits)

end
