(* ===== verification/Session_Manager.thy ===== *)
theory Session_Manager
  imports Session_Store Replay_Buffer Pty_Bridge
begin

text \<open>
  \<open>TerminalSessionManager\<close> of \<^verbatim>\<open>crates/relayterm-terminal/src/manager.rs\<close>: the runtime registry,
  the attachment registry, the detach TTL and the PTY forwarder over the repositories of
  \<open>Session_Store\<close>, the bridge of \<open>Pty_Bridge\<close>, the ring of \<open>Replay_Buffer\<close> and the tee of
  \<open>Recording_Writer\<close>. Each asynchronous method is a program on the manager's state; an error
  keeps the effects made before it.
\<close>

section \<open>Constants\<close>

definition MIN_DIM :: nat where "MIN_DIM = 1"
definition MAX_DIM :: nat where "MAX_DIM = 4096"

definition STUB_PTY_NOT_IMPLEMENTED_MESSAGE :: string where
  "STUB_PTY_NOT_IMPLEMENTED_MESSAGE =
     ''session metadata created; PTY startup is not implemented yet''"

definition STUB_PTY_NOT_IMPLEMENTED_ATTACH_MESSAGE :: string where
  "STUB_PTY_NOT_IMPLEMENTED_ATTACH_MESSAGE =
     ''attached to RelayTerm session placeholder; PTY streaming is not implemented yet''"

definition LIVE_PTY_ATTACH_MESSAGE :: string where
  "LIVE_PTY_ATTACH_MESSAGE =
     ''attached to live RelayTerm session; replay across reconnects is not yet implemented''"

definition DETACHED_LIVE_PTY_TTL :: duration where "DETACHED_LIVE_PTY_TTL = seconds 30"
definition DEFAULT_MAX_LIVE_PTY_PER_USER :: nat where "DEFAULT_MAX_LIVE_PTY_PER_USER = 8"
definition DEFAULT_MAX_STARTING_PER_USER :: nat where "DEFAULT_MAX_STARTING_PER_USER = 4"
definition DEFAULT_MAX_LIVE_PTY_PER_DEPLOYMENT :: nat where "DEFAULT_MAX_LIVE_PTY_PER_DEPLOYMENT = 64"

section \<open>State\<close>

datatype runtime_status = RT_Starting | RT_Live | RT_Ended

record terminal_session_runtime =
  rt_id :: terminal_session_id
  rt_owner_id :: user_id
  rt_server_profile_id :: server_profile_id
  rt_status :: runtime_status
  rt_created_at :: instant
  rt_cols :: nat
  rt_rows :: nat

record detach_info =
  di_detached_at :: instant
  di_expires_at :: instant

text \<open>
  \<open>lv_output\<close> is everything sent on the broadcast channel, in order; a subscriber is a position
  in it. \<open>lv_forwarder\<close> says that the forwarder task still runs and \<open>lv_closed_reason\<close> is its
  local variable.
\<close>

record live_runtime =
  lv_bridge :: pty_bridge
  lv_output :: "output_frame list"
  lv_replay :: replay_buffer
  lv_forwarder :: bool
  lv_closed_reason :: "closed_reason option"
  lv_detach_close :: "detach_info option"
  lv_recording :: recording_writer
  lv_last_seq :: nat

record runtime_entry =
  re_snapshot :: terminal_session_runtime
  re_live :: "live_runtime option"
  re_next_seq :: nat

record attachment_runtime =
  at_id :: attachment_id
  at_session_id :: terminal_session_id
  at_owner_id :: user_id
  at_attached_at :: instant
  at_client_info :: "string option"
  at_remote_addr :: "string option"

text \<open>
  \<open>mg_shut_writers\<close> collects the recording channels handed to their tasks with the final
  \<open>Shutdown\<close>; \<open>mg_orphans\<close> the forwarders spawned by a \<open>start_live_pty\<close> that failed before
  it installed them.
\<close>

record manager =
  mg_db :: session_db
  mg_runtimes :: "(terminal_session_id \<times> runtime_entry) list"
  mg_attachments :: "(attachment_id \<times> attachment_runtime) list"
  mg_detach_ttl :: duration
  mg_max_live_pty_per_user :: nat
  mg_max_starting_per_user :: nat
  mg_max_live_pty_per_deployment :: nat
  mg_recording :: "recording_writer_config option"
  mg_shut_writers :: "(terminal_session_id \<times> enabled_handle) list"
  mg_orphans :: "(terminal_session_id \<times> user_id) list"

definition manager_new :: "session_db \<Rightarrow> duration \<Rightarrow> manager" where
  "manager_new db detach_ttl =
     \<lparr>mg_db = db, mg_runtimes = [], mg_attachments = [], mg_detach_ttl = detach_ttl,
      mg_max_live_pty_per_user = DEFAULT_MAX_LIVE_PTY_PER_USER,
      mg_max_starting_per_user = DEFAULT_MAX_STARTING_PER_USER,
      mg_max_live_pty_per_deployment = DEFAULT_MAX_LIVE_PTY_PER_DEPLOYMENT,
      mg_recording = None, mg_shut_writers = [], mg_orphans = []\<rparr>"

datatype manager_error =
    ME_InvalidDimensions string nat
  | ME_NotFound
  | ME_SessionClosed
  | ME_PtyNotLive
  | ME_PtyStart ssh_pty_error
  | ME_Repository repository_error

type_synonym 'a mgr = "(manager, manager_error, 'a) prog"

record create_session_request =
  cr_owner_id :: user_id
  cr_server_profile_id :: server_profile_id
  cr_cols :: nat
  cr_rows :: nat

record create_session_outcome =
  co_session :: terminal_session
  co_message :: string
  co_pty_live :: bool

record close_session_outcome =
  cl_session :: terminal_session
  cl_already_closed :: bool

record attach_session_request =
  ar_owner_id :: user_id
  ar_session_id :: terminal_session_id
  ar_client_info :: "string option"
  ar_remote_addr :: "string option"

record attach_session_outcome =
  ao_session :: terminal_session
  ao_attachment :: session_attachment
  ao_message :: string
  ao_live :: bool

record detach_session_outcome =
  do_session :: terminal_session
  do_attachment :: session_attachment
  do_already_detached :: bool

record detach_outcome =
  dt_detach :: detach_session_outcome
  dt_detached_pending_close :: "detach_info option"

record resize_session_outcome =
  ro_session :: terminal_session
  ro_cols :: nat
  ro_rows :: nat

section \<open>Registry access\<close>

definition liftDb :: "'a db \<Rightarrow> 'a mgr" where
  "liftDb m = (\<lambda>s. case m (mg_db s) of
      (Inl e, d) \<Rightarrow> (Inl (ME_Repository e), s\<lparr>mg_db := d\<rparr>)
    | (Inr x, d) \<Rightarrow> (Inr x, s\<lparr>mg_db := d\<rparr>))"

definition utc_now :: "instant mgr" where
  "utc_now = readP (\<lambda>s. db_now (mg_db s))"

definition owned_by :: "user_id \<Rightarrow> terminal_session option \<Rightarrow> terminal_session option" where
  "owned_by owner r = (case r of Some x \<Rightarrow> if ts_owner_id x = owner then Some x else None | None \<Rightarrow> None)"

text \<open>The gate every method opens with: fetch the row, treat a foreign one as missing.\<close>

definition get_owned :: "terminal_session_id \<Rightarrow> user_id \<Rightarrow> terminal_session mgr" where
  "get_owned sid owner =
     bindP (liftDb (sessions_get sid)) (\<lambda>r. okOrP (owned_by owner r) ME_NotFound)"

definition live_of :: "terminal_session_id \<Rightarrow> manager \<Rightarrow> live_runtime option" where
  "live_of sid s = (case map_of (mg_runtimes s) sid of Some e \<Rightarrow> re_live e | None \<Rightarrow> None)"

definition set_entry :: "terminal_session_id \<Rightarrow> (runtime_entry \<Rightarrow> runtime_entry) \<Rightarrow> manager \<Rightarrow> manager" where
  "set_entry sid f s = s\<lparr>mg_runtimes := AList.map_entry sid f (mg_runtimes s)\<rparr>"

definition set_live :: "terminal_session_id \<Rightarrow> (live_runtime \<Rightarrow> live_runtime) \<Rightarrow> manager \<Rightarrow> manager" where
  "set_live sid f = set_entry sid (\<lambda>e. e\<lparr>re_live := map_option f (re_live e)\<rparr>)"

definition drop_runtime :: "terminal_session_id \<Rightarrow> manager \<Rightarrow> manager" where
  "drop_runtime sid s = s\<lparr>mg_runtimes := AList.delete sid (mg_runtimes s)\<rparr>"

definition drop_attachments :: "terminal_session_id \<Rightarrow> manager \<Rightarrow> manager" where
  "drop_attachments sid s =
     s\<lparr>mg_attachments := filter (\<lambda>(_, a). at_session_id a \<noteq> sid) (mg_attachments s)\<rparr>"

definition validate_dim :: "string \<Rightarrow> nat \<Rightarrow> unit mgr" where
  "validate_dim field v = guardP (MIN_DIM \<le> v \<and> v \<le> MAX_DIM) (ME_InvalidDimensions field v)"

definition opt_str :: "string option \<Rightarrow> json" where
  "opt_str x = (case x of None \<Rightarrow> JNull | Some v \<Rightarrow> JStr v)"

definition opt_num :: "int option \<Rightarrow> json" where
  "opt_num x = (case x of None \<Rightarrow> JNull | Some v \<Rightarrow> JNum v)"

section \<open>Creation and PTY start\<close>

definition placeholder_entry :: "terminal_session \<Rightarrow> runtime_entry" where
  "placeholder_entry session =
     \<lparr>re_snapshot = \<lparr>rt_id = ts_id session, rt_owner_id = ts_owner_id session,
        rt_server_profile_id = ts_server_profile_id session, rt_status = RT_Starting,
        rt_created_at = ts_created_at session, rt_cols = ts_cols session, rt_rows = ts_rows session\<rparr>,
      re_live = None, re_next_seq = 1\<rparr>"

definition create_session :: "create_session_request \<Rightarrow> create_session_outcome mgr" where
  "create_session req =
     bindP (validate_dim ''cols'' (cr_cols req)) (\<lambda>_.
     bindP (validate_dim ''rows'' (cr_rows req)) (\<lambda>_.
     bindP (liftDb (sessions_create \<lparr>cs_owner_id = cr_owner_id req,
              cs_server_profile_id = cr_server_profile_id req, cs_status = TS_Starting,
              cs_cols = cr_cols req, cs_rows = cr_rows req\<rparr>)) (\<lambda>session.
     bindP (liftDb (events_create (ts_id session) EV_Created
              (JObj [(''cols'', JNum (int (ts_cols session))), (''rows'', JNum (int (ts_rows session))),
                     (''stub'', JBool True)]))) (\<lambda>_.
     bindP (modifyP (\<lambda>s. s\<lparr>mg_runtimes :=
              AList.update (ts_id session) (placeholder_entry session) (mg_runtimes s)\<rparr>)) (\<lambda>_.
     retP \<lparr>co_session = session, co_message = STUB_PTY_NOT_IMPLEMENTED_MESSAGE,
           co_pty_live = False\<rparr>)))))"

definition recording_writer_for :: "manager \<Rightarrow> recording_writer" where
  "recording_writer_for s =
     (case mg_recording s of Some config \<Rightarrow> RW_Enabled (writer_enabled config) | None \<Rightarrow> RW_Disabled)"

definition live_candidate :: "pty_bridge \<Rightarrow> recording_writer \<Rightarrow> live_runtime" where
  "live_candidate start writer =
     \<lparr>lv_bridge = start, lv_output = [], lv_replay = rb_new REPLAY_DEFAULT, lv_forwarder = True,
      lv_closed_reason = None, lv_detach_close = None, lv_recording = writer, lv_last_seq = 0\<rparr>"

definition orphan_forwarder :: "terminal_session_id \<Rightarrow> user_id \<Rightarrow> 'a mgr \<Rightarrow> 'a mgr" where
  "orphan_forwarder sid owner m = (\<lambda>s. case m s of
      (Inl e, t) \<Rightarrow> (Inl e, t\<lparr>mg_orphans := mg_orphans t @ [(sid, owner)]\<rparr>)
    | (Inr x, t) \<Rightarrow> (Inr x, t))"

definition start_live_pty ::
  "user_id \<Rightarrow> terminal_session_id \<Rightarrow> pty_bridge \<Rightarrow> terminal_session mgr" where
  "start_live_pty owner sid start =
     bindP (get_owned sid owner) (\<lambda>session.
     if ts_status session = TS_Closed then raiseP ME_SessionClosed
     else
     bindP (readP (\<lambda>s. map_of (mg_runtimes s) sid)) (\<lambda>entry.
     bindP (okOrP entry ME_NotFound) (\<lambda>_.
     bindP (readP recording_writer_for) (\<lambda>writer.
     bindP (orphan_forwarder sid owner
              (bindP (liftDb (sessions_set_status sid TS_Active None)) (\<lambda>_. get_owned sid owner)))
       (\<lambda>updated.
     bindP (readP (\<lambda>s. map_of (mg_runtimes s) sid)) (\<lambda>entry'.
     case entry' of
       None \<Rightarrow> raiseP ME_NotFound
     | Some _ \<Rightarrow>
         bindP (modifyP (set_entry sid (\<lambda>e. e\<lparr>re_snapshot := (re_snapshot e)\<lparr>rt_status := RT_Live\<rparr>,
                  re_live := Some (live_candidate start writer)\<rparr>))) (\<lambda>_.
         retP updated)))))))"

definition record_pty_start_failed ::
  "user_id \<Rightarrow> terminal_session_id \<Rightarrow> string \<Rightarrow> unit mgr" where
  "record_pty_start_failed owner sid category =
     bindP (modifyP (set_entry sid (\<lambda>e. e\<lparr>re_live := None,
              re_snapshot := (re_snapshot e)\<lparr>rt_status := RT_Ended\<rparr>\<rparr>))) (\<lambda>_.
     bindP (get_owned sid owner) (\<lambda>session.
     if ts_status session = TS_Closed then retP ()
     else
     bindP utc_now (\<lambda>now.
     bindP (liftDb (sessions_set_status sid TS_Closed (Some now))) (\<lambda>_.
     bindP (attemptP (liftDb (events_create sid EV_Closed
              (JObj [(''reason'', JStr ''ssh_start_failed''), (''category'', JStr category)])))) (\<lambda>_.
     bindP (modifyP (drop_attachments sid)) (\<lambda>_.
     modifyP (drop_runtime sid)))))))"

section \<open>The forwarder\<close>

text \<open>One \<open>Output\<close> event: stamp, mirror into the ring, fan out, note the stamp, tee into the recording.\<close>

definition forward_output :: "byte list \<Rightarrow> runtime_entry \<Rightarrow> runtime_entry" where
  "forward_output bytes e =
     (case re_live e of
        None \<Rightarrow> e
      | Some lv \<Rightarrow>
          let seq = re_next_seq e; frame = \<lparr>of_seq = seq, of_data = bytes\<rparr>
          in e\<lparr>re_next_seq := wrapping_add_u64 seq 1,
               re_live := Some (lv\<lparr>lv_replay := rb_push (lv_replay lv) frame,
                 lv_output := lv_output lv @ [frame], lv_last_seq := seq,
                 lv_recording := record_output seq bytes (lv_recording lv)\<rparr>)\<rparr>)"

definition forward_event :: "ssh_pty_event \<Rightarrow> runtime_entry \<Rightarrow> runtime_entry" where
  "forward_event evt e =
     (case evt of
        PtyOutput bytes \<Rightarrow> forward_output bytes e
      | PtyExit status \<Rightarrow> e
      | PtyClosed reason \<Rightarrow>
          e\<lparr>re_live := map_option (\<lambda>lv. lv\<lparr>lv_closed_reason := Some reason\<rparr>) (re_live e)\<rparr>)"

definition teardown_category :: "closed_reason option \<Rightarrow> string" where
  "teardown_category r =
     (case r of Some CR_RemoteEof \<Rightarrow> ''remote_eof'' | Some CR_TransportError \<Rightarrow> ''transport_error''
      | Some CR_LocalClose \<Rightarrow> ''local_close'' | None \<Rightarrow> ''local_close'')"

text \<open>What the forwarder does once the bridge is gone. Every error is logged and dropped.\<close>

definition forward_teardown ::
  "terminal_session_id \<Rightarrow> user_id \<Rightarrow> closed_reason option \<Rightarrow> unit mgr" where
  "forward_teardown sid owner reason =
     bindP (attemptP (liftDb (sessions_get sid))) (\<lambda>r.
     case r of
       Inl e \<Rightarrow> retP ()
     | Inr None \<Rightarrow> retP ()
     | Inr (Some session) \<Rightarrow>
         if ts_owner_id session = owner \<and> ts_status session \<noteq> TS_Closed then
           bindP utc_now (\<lambda>now.
           bindP (attemptP (liftDb (sessions_set_status sid TS_Closed (Some now)))) (\<lambda>_.
           bindP (attemptP (liftDb (events_create sid EV_Closed
                    (JObj [(''reason'', JStr ''pty_teardown''),
                           (''category'', JStr (teardown_category reason))])))) (\<lambda>_.
           retP ())))
         else retP ())"

text \<open>
  One turn of the forwarder of a registered session: it takes the next event, or, when the
  channel is empty and the driver has gone, it leaves its loop.
\<close>

definition take_event :: "live_runtime \<Rightarrow> live_runtime" where
  "take_event lv = lv\<lparr>lv_bridge := (lv_bridge lv)\<lparr>pb_output_rx := tl (pb_output_rx (lv_bridge lv))\<rparr>\<rparr>"

definition forward_pty_output :: "terminal_session_id \<Rightarrow> unit mgr" where
  "forward_pty_output sid =
     bindP (readP (\<lambda>s. map_of (mg_runtimes s) sid)) (\<lambda>entry.
     case entry of
       None \<Rightarrow> retP ()
     | Some e \<Rightarrow>
         (case re_live e of
            None \<Rightarrow> retP ()
          | Some lv \<Rightarrow>
              if \<not> lv_forwarder lv then retP ()
              else (case pb_output_rx (lv_bridge lv) of
                 evt # _ \<Rightarrow> modifyP (set_entry sid
                     (\<lambda>e. forward_event evt (e\<lparr>re_live := map_option take_event (re_live e)\<rparr>)))
               | [] \<Rightarrow>
                   if pb_driver (lv_bridge lv) then retP ()
                   else bindP (modifyP (set_live sid (\<lambda>lv. lv\<lparr>lv_forwarder := False\<rparr>))) (\<lambda>_.
                        forward_teardown sid (rt_owner_id (re_snapshot e)) (lv_closed_reason lv)))))"

text \<open>An orphaned forwarder: its bridge closes with the dropped handle, and it tears down.\<close>

definition orphan_teardown :: "unit mgr" where
  "orphan_teardown =
     bindP (readP mg_orphans) (\<lambda>os.
     case os of
       [] \<Rightarrow> retP ()
     | (sid, owner) # rest \<Rightarrow>
         bindP (modifyP (\<lambda>s. s\<lparr>mg_orphans := rest\<rparr>)) (\<lambda>_.
         forward_teardown sid owner (Some CR_LocalClose)))"

section \<open>Close\<close>

text \<open>
  \<open>shutdown_runtime\<close> works on an entry already removed from the registry: it closes the
  handle, waits for the forwarder to drain what the bridge has sent and to tear down, and
  sends the recording writer its shutdown.
\<close>

definition bridge_closed :: "pty_bridge \<Rightarrow> pty_bridge" where
  "bridge_closed b = (let b1 = handle_close b in if pb_driver b1 then drive_stop CR_LocalClose b1 else b1)"

definition forward_drain :: "runtime_entry \<Rightarrow> runtime_entry" where
  "forward_drain e =
     (case re_live e of
        None \<Rightarrow> e
      | Some lv \<Rightarrow>
          let b = bridge_closed (lv_bridge lv)
          in if lv_forwarder lv then
               foldl (\<lambda>e evt. forward_event evt e)
                 (e\<lparr>re_live := Some (lv\<lparr>lv_bridge := b\<lparr>pb_output_rx := []\<rparr>, lv_forwarder := False\<rparr>)\<rparr>)
                 (pb_output_rx b)
             else e\<lparr>re_live := Some (lv\<lparr>lv_bridge := b\<rparr>)\<rparr>)"

definition shutdown_writer :: "terminal_session_id \<Rightarrow> nat \<Rightarrow> recording_writer \<Rightarrow> manager \<Rightarrow> manager" where
  "shutdown_writer sid last_seq w s =
     (case w of
        RW_Disabled \<Rightarrow> s
      | RW_Enabled h \<Rightarrow>
          if eh_closed h then s
          else s\<lparr>mg_shut_writers := mg_shut_writers s @
                 [(sid, h\<lparr>eh_queue := eh_queue h @ [shutdown_command last_seq]\<rparr>)]\<rparr>)"

definition shutdown_runtime :: "terminal_session_id \<Rightarrow> runtime_entry \<Rightarrow> unit mgr" where
  "shutdown_runtime sid entry =
     (case re_live entry of
        None \<Rightarrow> retP ()
      | Some lv0 \<Rightarrow>
          (case re_live (forward_drain entry) of
             None \<Rightarrow> retP ()
           | Some lv \<Rightarrow>
               bindP (if lv_forwarder lv0
                      then forward_teardown sid (rt_owner_id (re_snapshot entry)) (lv_closed_reason lv)
                      else retP ()) (\<lambda>_.
               modifyP (shutdown_writer sid (lv_last_seq lv) (lv_recording lv)))))"

definition remove_and_shutdown :: "terminal_session_id \<Rightarrow> unit mgr" where
  "remove_and_shutdown sid =
     bindP (readP (\<lambda>s. map_of (mg_runtimes s) sid)) (\<lambda>removed.
     bindP (modifyP (drop_runtime sid)) (\<lambda>_.
     case removed of None \<Rightarrow> retP () | Some entry \<Rightarrow> shutdown_runtime sid entry))"

definition close_session :: "terminal_session_id \<Rightarrow> user_id \<Rightarrow> close_session_outcome mgr" where
  "close_session sid owner =
     bindP (get_owned sid owner) (\<lambda>session.
     if ts_status session = TS_Closed then
       bindP (remove_and_shutdown sid) (\<lambda>_.
       retP \<lparr>cl_session = session, cl_already_closed = True\<rparr>)
     else
       bindP utc_now (\<lambda>now.
       bindP (liftDb (sessions_set_status sid TS_Closed (Some now))) (\<lambda>_.
       bindP (liftDb (events_create sid EV_Closed (JObj [(''reason'', JStr ''client_requested'')]))) (\<lambda>_.
       bindP (get_owned sid owner) (\<lambda>updated.
       bindP (remove_and_shutdown sid) (\<lambda>_.
       bindP (modifyP (drop_attachments sid)) (\<lambda>_.
       retP \<lparr>cl_session = updated, cl_already_closed = False\<rparr>)))))))"

section \<open>Attach\<close>

definition cancel_pending_close :: "terminal_session_id \<Rightarrow> bool mgr" where
  "cancel_pending_close sid =
     bindP (readP (live_of sid)) (\<lambda>live.
     bindP (modifyP (set_live sid (\<lambda>lv. lv\<lparr>lv_detach_close := None\<rparr>))) (\<lambda>_.
     retP (case live of Some lv \<Rightarrow> lv_detach_close lv \<noteq> None | None \<Rightarrow> False)))"

text \<open>
  \<open>attach_session\<close> in the two parts its first database write separates: up to the
  cancellation of a pending close, and from the attachment row to the registration.
\<close>

definition attach_begin :: "attach_session_request \<Rightarrow> (terminal_session \<times> bool) mgr" where
  "attach_begin req =
     bindP (get_owned (ar_session_id req) (ar_owner_id req)) (\<lambda>session.
     if ts_status session = TS_Closed then raiseP ME_SessionClosed
     else bindP (cancel_pending_close (ts_id session)) (\<lambda>was_detached_pending_close.
          retP (session, was_detached_pending_close)))"

definition attach_finish ::
  "attach_session_request \<Rightarrow> terminal_session \<times> bool \<Rightarrow> attach_session_outcome mgr" where
  "attach_finish req begun =
     (let (session, was_detached_pending_close) = begun; sid = ts_id session in
     bindP (liftDb (sessions_create_attachment sid (ar_client_info req) (ar_remote_addr req)))
       (\<lambda>attachment.
     bindP (readP (\<lambda>s. live_of sid s \<noteq> None)) (\<lambda>live.
     bindP (liftDb (events_create sid EV_Attached
              (JObj [(''attachment_id'', JNum (int (sa_id attachment))),
                     (''client_info'', opt_str (ar_client_info req)),
                     (''remote_addr'', opt_str (ar_remote_addr req)),
                     (''stub'', JBool (\<not> live)), (''live'', JBool live)]))) (\<lambda>_.
     bindP (if was_detached_pending_close then
              bindP (liftDb (sessions_set_status sid TS_Active None)) (\<lambda>_.
              bindP (attemptP (liftDb (events_create sid EV_Reattached
                       (JObj [(''attachment_id'', JNum (int (sa_id attachment)))])))) (\<lambda>_.
              retP ()))
            else retP ()) (\<lambda>_.
     bindP (modifyP (\<lambda>s. s\<lparr>mg_attachments := AList.update (sa_id attachment)
              \<lparr>at_id = sa_id attachment, at_session_id = sid, at_owner_id = ts_owner_id session,
               at_attached_at = sa_attached_at attachment, at_client_info = ar_client_info req,
               at_remote_addr = ar_remote_addr req\<rparr> (mg_attachments s)\<rparr>)) (\<lambda>_.
     retP \<lparr>ao_session = session, ao_attachment = attachment,
           ao_message = (if live then LIVE_PTY_ATTACH_MESSAGE
                         else STUB_PTY_NOT_IMPLEMENTED_ATTACH_MESSAGE),
           ao_live = live\<rparr>))))))"

definition attach_session :: "attach_session_request \<Rightarrow> attach_session_outcome mgr" where
  "attach_session req = bindP (attach_begin req) (attach_finish req)"

section \<open>Input, resize and replay\<close>

definition live_handle_for ::
  "user_id \<Rightarrow> terminal_session_id \<Rightarrow> manager \<Rightarrow> manager_error + live_runtime option" where
  "live_handle_for owner sid s =
     (case map_of (mg_runtimes s) sid of
        None \<Rightarrow> Inl ME_NotFound
      | Some e \<Rightarrow> if rt_owner_id (re_snapshot e) = owner then Inr (re_live e) else Inl ME_NotFound)"

definition with_bridge ::
  "terminal_session_id \<Rightarrow> (pty_bridge \<Rightarrow> (ssh_pty_error + unit) \<times> pty_bridge) \<Rightarrow> live_runtime
     \<Rightarrow> (manager, manager_error, ssh_pty_error + unit) prog" where
  "with_bridge sid call lv =
     (let (r, b) = call (lv_bridge lv)
      in bindP (modifyP (set_live sid (\<lambda>lv. lv\<lparr>lv_bridge := b\<rparr>))) (\<lambda>_. retP r))"

definition write_pty_input :: "user_id \<Rightarrow> terminal_session_id \<Rightarrow> byte list \<Rightarrow> unit mgr" where
  "write_pty_input owner sid bytes =
     bindP (readP (live_handle_for owner sid)) (\<lambda>h.
     case h of
       Inl e \<Rightarrow> raiseP e
     | Inr None \<Rightarrow> raiseP ME_PtyNotLive
     | Inr (Some lv) \<Rightarrow>
         bindP (with_bridge sid (handle_write_input bytes) lv) (\<lambda>r.
         case r of
           Inr _ \<Rightarrow> retP ()
         | Inl e \<Rightarrow> if e = PE_BridgeClosed then raiseP ME_PtyNotLive else raiseP (ME_PtyStart e)))"

definition apply_pty_resize :: "user_id \<Rightarrow> terminal_session_id \<Rightarrow> nat \<Rightarrow> nat \<Rightarrow> bool mgr" where
  "apply_pty_resize owner sid cols rows =
     bindP (readP (live_handle_for owner sid)) (\<lambda>h.
     case h of
       Inl e \<Rightarrow> raiseP e
     | Inr None \<Rightarrow> retP False
     | Inr (Some lv) \<Rightarrow>
         bindP (with_bridge sid (handle_resize cols rows) lv) (\<lambda>r.
         case r of
           Inr _ \<Rightarrow> retP True
         | Inl e \<Rightarrow> if e = PE_BridgeClosed then retP False else raiseP (ME_PtyStart e)))"

definition manager_replay_since ::
  "terminal_session_id \<Rightarrow> nat option \<Rightarrow> manager \<Rightarrow> (replay_window_lost + replay_range) option" where
  "manager_replay_since sid last_seen_seq s =
     map_option (\<lambda>lv. replay_since (lv_replay lv) last_seen_seq) (live_of sid s)"

definition resize_session ::
  "user_id \<Rightarrow> terminal_session_id \<Rightarrow> nat \<Rightarrow> nat \<Rightarrow> resize_session_outcome mgr" where
  "resize_session owner sid cols rows =
     bindP (validate_dim ''cols'' cols) (\<lambda>_.
     bindP (validate_dim ''rows'' rows) (\<lambda>_.
     bindP (get_owned sid owner) (\<lambda>session.
     if ts_status session = TS_Closed then raiseP ME_SessionClosed
     else
     bindP (modifyP (set_entry (ts_id session)
              (\<lambda>e. e\<lparr>re_snapshot := (re_snapshot e)\<lparr>rt_cols := cols, rt_rows := rows\<rparr>\<rparr>))) (\<lambda>_.
     bindP (modifyP (set_live (ts_id session) (\<lambda>lv. lv\<lparr>lv_recording :=
              record_marker MK_Resized (max (lv_last_seq lv) 1)
                (JObj [(''cols'', JNum (int cols)), (''rows'', JNum (int rows))])
                (lv_recording lv)\<rparr>))) (\<lambda>_.
     bindP (liftDb (events_create (ts_id session) EV_Resized
              (JObj [(''cols'', JNum (int cols)), (''rows'', JNum (int rows))]))) (\<lambda>_.
     retP \<lparr>ro_session = session, ro_cols = cols, ro_rows = rows\<rparr>))))))"

section \<open>Detach\<close>

definition detach_session ::
  "user_id \<Rightarrow> terminal_session_id \<Rightarrow> attachment_id \<Rightarrow> int option \<Rightarrow> detach_session_outcome mgr" where
  "detach_session owner sid aid last_seen_seq =
     bindP (get_owned sid owner) (\<lambda>session.
     bindP (liftDb (sessions_get_attachment aid)) (\<lambda>found.
     bindP (okOrP (case found of
              Some a \<Rightarrow> if sa_session_id a = ts_id session then Some a else None
            | None \<Rightarrow> None) ME_NotFound) (\<lambda>attachment.
     if sa_detached_at attachment \<noteq> None then
       bindP (modifyP (\<lambda>s. s\<lparr>mg_attachments := AList.delete aid (mg_attachments s)\<rparr>)) (\<lambda>_.
       retP \<lparr>do_session = session, do_attachment = attachment, do_already_detached = True\<rparr>)
     else
       bindP utc_now (\<lambda>now.
       bindP (liftDb (sessions_mark_attachment_detached aid now last_seen_seq)) (\<lambda>_.
       bindP (liftDb (events_create (ts_id session) EV_Detached
                (JObj [(''attachment_id'', JNum (int aid)), (''last_seen_seq'', opt_num last_seen_seq)]))) (\<lambda>_.
       bindP (liftDb (sessions_get_attachment aid)) (\<lambda>refound.
       bindP (okOrP (case refound of
                Some a \<Rightarrow> if sa_session_id a = ts_id session then Some a else None
              | None \<Rightarrow> None) ME_NotFound) (\<lambda>updated.
       bindP (modifyP (\<lambda>s. s\<lparr>mg_attachments := AList.delete aid (mg_attachments s)\<rparr>)) (\<lambda>_.
       retP \<lparr>do_session = session, do_attachment = updated, do_already_detached = False\<rparr>)))))))))"

definition schedule_detach_close :: "terminal_session_id \<Rightarrow> detach_info option mgr" where
  "schedule_detach_close sid =
     bindP (attemptP (liftDb (sessions_set_status sid TS_Detached None))) (\<lambda>_.
     bindP utc_now (\<lambda>now.
     bindP (readP mg_detach_ttl) (\<lambda>ttl.
     let info = \<lparr>di_detached_at = now, di_expires_at = now + ttl\<rparr> in
     bindP (readP (live_of sid)) (\<lambda>live.
     case live of
       None \<Rightarrow> retP None
     | Some lv \<Rightarrow>
         (case lv_detach_close lv of
            Some existing \<Rightarrow> retP (Some existing)
          | None \<Rightarrow>
              bindP (modifyP (set_live sid (\<lambda>lv. lv\<lparr>lv_detach_close := Some info\<rparr>))) (\<lambda>_.
              retP (Some info)))))))"

definition any_attachment :: "terminal_session_id \<Rightarrow> manager \<Rightarrow> bool" where
  "any_attachment sid s = list_ex (\<lambda>(_, a). at_session_id a = sid) (mg_attachments s)"

definition detach_attachment ::
  "user_id \<Rightarrow> terminal_session_id \<Rightarrow> attachment_id \<Rightarrow> int option \<Rightarrow> detach_outcome mgr" where
  "detach_attachment owner sid aid last_seen_seq =
     bindP (detach_session owner sid aid last_seen_seq) (\<lambda>detach.
     bindP (readP (\<lambda>s. \<not> do_already_detached detach \<and> \<not> any_attachment sid s \<and> live_of sid s \<noteq> None))
       (\<lambda>should_schedule.
     bindP (if should_schedule then schedule_detach_close sid else retP None)
       (\<lambda>detached_pending_close.
     retP \<lparr>dt_detach = detach, dt_detached_pending_close = detached_pending_close\<rparr>)))"

definition detach_state :: "terminal_session_id \<Rightarrow> manager \<Rightarrow> detach_info option" where
  "detach_state sid s = (case live_of sid s of Some lv \<Rightarrow> lv_detach_close lv | None \<Rightarrow> None)"

definition expire_detach_close :: "terminal_session_id \<Rightarrow> user_id \<Rightarrow> unit mgr" where
  "expire_detach_close sid owner =
     bindP (readP (\<lambda>s. detach_state sid s \<noteq> None)) (\<lambda>still_pending.
     if \<not> still_pending then retP ()
     else bindP (attemptP (close_session sid owner)) (\<lambda>_. retP ()))"

section \<open>Counters\<close>

definition count_live_pty_for_user :: "user_id \<Rightarrow> manager \<Rightarrow> nat" where
  "count_live_pty_for_user owner s =
     length (filter (\<lambda>(_, e). rt_owner_id (re_snapshot e) = owner \<and> re_live e \<noteq> None) (mg_runtimes s))"

definition count_starting_for_user :: "user_id \<Rightarrow> manager \<Rightarrow> nat" where
  "count_starting_for_user owner s =
     length (filter (\<lambda>(_, e). rt_owner_id (re_snapshot e) = owner \<and> re_live e = None
                        \<and> rt_status (re_snapshot e) = RT_Starting) (mg_runtimes s))"

definition count_live_pty_total :: "manager \<Rightarrow> nat" where
  "count_live_pty_total s = length (filter (\<lambda>(_, e). re_live e \<noteq> None) (mg_runtimes s))"

end
