(* ===== verification/Session_Lifecycle.thy ===== *)
theory Session_Lifecycle
  imports Session_Manager
begin

text \<open>
  Correctness of the session manager: the ownership gate, finality of a close, the registry
  invariants over every sequence of operations, the detach window and the behaviour of each
  lifecycle operation on its branches.
\<close>

section \<open>Database calls seen from the manager\<close>

definition pop_fault :: "manager \<Rightarrow> manager" where
  "pop_fault s = s\<lparr>mg_db := (mg_db s)\<lparr>db_faults := tl (db_faults (mg_db s))\<rparr>\<rparr>"

definition gate_error :: "manager \<Rightarrow> manager_error" where
  "gate_error s = (case db_faults (mg_db s) of Some e # _ \<Rightarrow> ME_Repository e | _ \<Rightarrow> ME_NotFound)"

lemma sessions_get_run:
  "sessions_get sid d =
     (case db_faults d of
        Some e # _ \<Rightarrow> (Inl e, d\<lparr>db_faults := tl (db_faults d)\<rparr>)
      | _ \<Rightarrow> (Inr (session_row d sid), d\<lparr>db_faults := tl (db_faults d)\<rparr>))"
  by (simp add: sessions_get_def db_call_def split: list.splits option.splits)

lemma get_owned_run:
  "get_owned sid owner s =
     (case db_faults (mg_db s) of
        Some e # _ \<Rightarrow> (Inl (ME_Repository e), pop_fault s)
      | _ \<Rightarrow> (case owned_by owner (session_row (mg_db s) sid) of
                None \<Rightarrow> (Inl ME_NotFound, pop_fault s)
              | Some r \<Rightarrow> (Inr r, pop_fault s)))"
  by (simp add: get_owned_def bindP_run liftDb_def sessions_get_run pop_fault_def
      split: list.splits option.splits)

lemma get_owned_refused:
  "owned_by owner (session_row (mg_db s) sid) = None \<Longrightarrow>
   get_owned sid owner s = (Inl (gate_error s), pop_fault s)"
  by (simp add: get_owned_run gate_error_def split: list.splits option.splits)

lemma owned_by_SomeD: "owned_by owner r = Some x \<Longrightarrow> r = Some x \<and> ts_owner_id x = owner"
  by (simp add: owned_by_def split: option.splits if_splits)

lemma get_owned_InrD:
  assumes "get_owned sid owner s = (Inr r, t)"
  shows "session_row (mg_db s) sid = Some r" and "ts_owner_id r = owner" and "ts_id r = sid"
    and "t = pop_fault s"
  using assms
  by (auto simp: get_owned_run dest: owned_by_SomeD session_row_id split: list.splits option.splits)

lemma get_owned_state: "snd (get_owned sid owner s) = pop_fault s"
  by (simp add: get_owned_run split: list.splits option.splits)

lemma pop_fault_simps [simp]:
  "mg_runtimes (pop_fault s) = mg_runtimes s" "mg_attachments (pop_fault s) = mg_attachments s"
  "session_row (mg_db (pop_fault s)) sid = session_row (mg_db s) sid"
  "attachment_row (mg_db (pop_fault s)) aid = attachment_row (mg_db s) aid"
  "db_events (mg_db (pop_fault s)) = db_events (mg_db s)"
  "db_sessions (mg_db (pop_fault s)) = db_sessions (mg_db s)"
  "db_attachments (mg_db (pop_fault s)) = db_attachments (mg_db s)"
  "db_now (mg_db (pop_fault s)) = db_now (mg_db s)"
  "db_next_id (mg_db (pop_fault s)) = db_next_id (mg_db s)"
  "db_faults (mg_db (pop_fault s)) = tl (db_faults (mg_db s))"
  "mg_detach_ttl (pop_fault s) = mg_detach_ttl s" "mg_recording (pop_fault s) = mg_recording s"
  "live_of sid (pop_fault s) = live_of sid s"
  by (simp_all add: pop_fault_def live_of_def)

section \<open>The ownership gate\<close>

text \<open>
  Cross-user isolation: for a session id that does not exist or belongs to another user,
  every operation of the manager answers the same way (\<open>NotFound\<close>, or the error the first
  database read returned) and leaves the registries and every table unchanged, so existence of
  foreign sessions cannot be probed and they cannot be affected.
\<close>

theorem foreign_session_is_invisible:
  assumes "owned_by owner (session_row (mg_db s) sid) = None"
  shows "close_session sid owner s = (Inl (gate_error s), pop_fault s)
       \<and> attach_session \<lparr>ar_owner_id = owner, ar_session_id = sid, ar_client_info = ci, ar_remote_addr = ra\<rparr> s
           = (Inl (gate_error s), pop_fault s)
       \<and> detach_session owner sid aid q s = (Inl (gate_error s), pop_fault s)
       \<and> detach_attachment owner sid aid q s = (Inl (gate_error s), pop_fault s)
       \<and> start_live_pty owner sid b s = (Inl (gate_error s), pop_fault s)
       \<and> (dims_chk c \<and> dims_chk r \<longrightarrow> resize_session owner sid c r s = (Inl (gate_error s), pop_fault s))"
  using get_owned_refused [OF assms]
  by (simp add: close_session_def attach_session_def attach_begin_def detach_session_def
      detach_attachment_def start_live_pty_def resize_session_def validate_dim_def dims_chk_def
      MIN_DIM_def MAX_DIM_def bindP_run)

section \<open>A close is final\<close>

definition row_closed :: "terminal_session_id \<Rightarrow> instant \<Rightarrow> session_db \<Rightarrow> bool" where
  "row_closed sid t d \<longleftrightarrow>
     (case session_row d sid of
        Some r \<Rightarrow> ts_status r = TS_Closed \<and> ts_closed_at r = Some t | None \<Rightarrow> False)"

definition closed_in :: "terminal_session_id \<Rightarrow> instant \<Rightarrow> manager \<Rightarrow> bool" where
  "closed_in sid t s \<longleftrightarrow> row_closed sid t (mg_db s)"

lemma set_status_row:
  "session_row (d\<lparr>db_sessions := map (\<lambda>r. if ts_id r = sid' then f r else r) (db_sessions d)\<rparr>) sid
     = (if sid = sid' then map_option f (session_row d sid) else session_row d sid)"
  if "\<And>r. ts_id (f r) = ts_id r"
proof -
  have "find (\<lambda>r. ts_id r = sid) (map (\<lambda>r. if ts_id r = sid' then f r else r) (db_sessions d))
      = map_option (\<lambda>r. if ts_id r = sid' then f r else r) (find (\<lambda>r. ts_id r = sid) (db_sessions d))"
    by (rule find_map_same_key) (simp add: that)
  then show ?thesis
    by (cases "find (\<lambda>r. ts_id r = sid) (db_sessions d)") (auto simp: session_row_def dest: find_SomeD)
qed

lemma preserves_liftDb [pres_intros]: "preserves J m \<Longrightarrow> preserves (\<lambda>s. J (mg_db s)) (liftDb m)"
  by (fastforce simp: preserves_def liftDb_def split: prod.splits sum.splits)

lemma session_row_append:
  "session_row d sid = Some r \<Longrightarrow> session_row (d\<lparr>db_sessions := db_sessions d @ rows\<rparr>) sid = Some r"
  by (simp add: session_row_def find_append_Some)

lemma session_row_cong: "db_sessions d = db_sessions d' \<Longrightarrow> session_row d sid = session_row d' sid"
  by (simp add: session_row_def)

text \<open>Statements that keep a closed row as it is.\<close>

lemma row_closed_faults: "row_closed sid t d \<Longrightarrow> row_closed sid t (d\<lparr>db_faults := fs\<rparr>)"
  by (simp add: row_closed_def)

lemma keep_closed: "preserves (row_closed sid t) body \<Longrightarrow> preserves (row_closed sid t) (db_call body)"
  by (rule preserves_db_call) (simp_all add: row_closed_faults)

lemma closed_get: "preserves (row_closed sid t) (sessions_get sid')"
  unfolding sessions_get_def by (rule keep_closed) (simp add: preserves_def)

lemma closed_get_attachment: "preserves (row_closed sid t) (sessions_get_attachment aid)"
  unfolding sessions_get_attachment_def by (rule keep_closed) (simp add: preserves_def)

lemma closed_create: "preserves (row_closed sid t) (sessions_create input)"
  unfolding sessions_create_def
proof (rule keep_closed, unfold preserves_def, intro allI impI, goal_cases)
  case (1 s)
  then obtain r where r: "session_row s sid = Some r" "ts_status r = TS_Closed" "ts_closed_at r = Some t"
    by (auto simp: row_closed_def split: option.splits)
  have "session_row (s\<lparr>db_sessions := db_sessions s @ rows, db_next_id := n\<rparr>) sid = Some r" for rows n
    using session_row_append [OF r(1)] by (simp add: session_row_def)
  with r show ?case by (simp add: row_closed_def Let_def)
qed

lemma closed_set_status:
  "sid' \<noteq> sid \<Longrightarrow> preserves (row_closed sid t) (sessions_set_status sid' st c)"
  unfolding sessions_set_status_def
  by (rule keep_closed) (auto simp: preserves_def row_closed_def set_status_row)

lemma closed_create_attachment: "preserves (row_closed sid t) (sessions_create_attachment sid' ci ra)"
  unfolding sessions_create_attachment_def
  by (rule keep_closed) (simp add: preserves_def row_closed_def session_row_def Let_def)

lemma closed_mark_detached: "preserves (row_closed sid t) (sessions_mark_attachment_detached aid n q)"
  unfolding sessions_mark_attachment_detached_def
  by (rule keep_closed) (simp add: preserves_def row_closed_def session_row_def)

lemma closed_events_create: "preserves (row_closed sid t) (events_create sid' k p)"
  unfolding events_create_def
  by (rule keep_closed) (simp add: preserves_def row_closed_def session_row_def Let_def)

lemmas closed_stmts = closed_get closed_get_attachment closed_create closed_set_status
  closed_create_attachment closed_mark_detached closed_events_create

lemma closed_lift: "preserves (row_closed sid t) m \<Longrightarrow> preserves (closed_in sid t) (liftDb m)"
  unfolding closed_in_def by (rule preserves_liftDb)

lemma closed_modify: "(\<And>s. mg_db (f s) = mg_db s) \<Longrightarrow> preserves (closed_in sid t) (modifyP f)"
  by (rule preserves_modify) (simp add: closed_in_def)

lemma registry_keeps_db [simp]:
  "mg_db (set_entry sid f s) = mg_db s" "mg_db (set_live sid g s) = mg_db s"
  "mg_db (drop_runtime sid s) = mg_db s" "mg_db (drop_attachments sid s) = mg_db s"
  "mg_db (shutdown_writer sid n w s) = mg_db s"
  by (simp_all add: set_entry_def set_live_def drop_runtime_def drop_attachments_def shutdown_writer_def
      split: recording_writer.splits)

lemma closed_get_owned: "preserves (closed_in sid t) (get_owned sid' owner)"
  by (rule preservesI) (simp add: get_owned_state closed_in_def row_closed_def)

lemma closed_utc_now: "preserves (closed_in sid t) utc_now"
  unfolding utc_now_def by (rule preserves_read)

text \<open>Behind the ownership gate, a session that is not closed is another one.\<close>

lemma closed_gate:
  assumes "\<And>r. (sid' = sid \<Longrightarrow> ts_status r = TS_Closed) \<Longrightarrow> ts_id r = sid' \<Longrightarrow> preserves (closed_in sid t) (k r)"
  shows "preserves (closed_in sid t) (bindP (get_owned sid' owner) k)"
proof (rule preservesI)
  fix s assume c: "closed_in sid t s"
  obtain x u where g: "get_owned sid' owner s = (x, u)" by fastforce
  then have u: "u = pop_fault s" using get_owned_state [of sid' owner s] by simp
  then have cu: "closed_in sid t u" using c by (simp add: closed_in_def row_closed_def)
  show "closed_in sid t (snd (bindP (get_owned sid' owner) k s))"
  proof (cases x)
    case (Inr r)
    note r = get_owned_InrD [OF g [unfolded Inr]]
    have "sid' = sid \<Longrightarrow> ts_status r = TS_Closed"
      using c r(1) by (auto simp: closed_in_def row_closed_def)
    then show ?thesis using preservesD [OF assms cu] r(3) g Inr by (simp add: bindP_run)
  qed (use cu g in \<open>simp add: bindP_run\<close>)
qed

lemmas closed_rules = preserves_bind preserves_attempt preserves_read preserves_ret preserves_raise
  preserves_okOr preserves_guard closed_lift closed_stmts closed_get_owned closed_utc_now

lemma closed_forward_teardown: "preserves (closed_in sid t) (forward_teardown sid' owner r)"
proof (cases "sid' = sid")
  case True
  show ?thesis
  proof (rule preservesI)
    fix s assume c: "closed_in sid t s"
    then have "forward_teardown sid' owner r s = (Inr (), pop_fault s)"
      using True
      by (auto simp: closed_in_def row_closed_def forward_teardown_def bindP_run attemptP_run liftDb_def
          sessions_get_run pop_fault_def split: list.splits option.splits)
    with c show "closed_in sid t (snd (forward_teardown sid' owner r s))"
      by (simp add: closed_in_def row_closed_def)
  qed
next
  case False
  show ?thesis unfolding forward_teardown_def
    by (intro preserves_bind preserves_attempt preserves_case_sum preserves_case_option preserves_if
        preserves_ret closed_utc_now closed_lift closed_get closed_set_status closed_events_create False)
qed

lemma closed_remove_and_shutdown: "preserves (closed_in sid t) (remove_and_shutdown sid')"
  unfolding remove_and_shutdown_def shutdown_runtime_def
  by (intro preserves_bind preserves_read preserves_ret preserves_case_option preserves_if
      closed_modify closed_forward_teardown) simp_all

lemma closed_close_session: "preserves (closed_in sid t) (close_session sid' owner)"
  unfolding close_session_def
  by (rule closed_gate, rule preserves_if)
     (intro preserves_bind preserves_ret closed_lift closed_utc_now closed_events_create closed_get_owned
        closed_remove_and_shutdown closed_set_status closed_modify; force)+

lemma closed_create_session: "preserves (closed_in sid t) (create_session req)"
  unfolding create_session_def validate_dim_def
  by (intro closed_rules closed_modify) simp

lemma closed_orphan:
  "preserves (closed_in sid t) m \<Longrightarrow> preserves (closed_in sid t) (orphan_forwarder sid' owner m)"
  by (fastforce simp: preserves_def orphan_forwarder_def closed_in_def split: prod.splits sum.splits)

lemma closed_start_live_pty: "preserves (closed_in sid t) (start_live_pty owner sid' b)"
  unfolding start_live_pty_def
  by (rule closed_gate, rule preserves_if)
     (intro preserves_bind preserves_read preserves_okOr preserves_case_option preserves_raise
        preserves_ret closed_orphan closed_lift closed_set_status closed_get_owned closed_modify; force)+

lemma closed_record_pty_start_failed: "preserves (closed_in sid t) (record_pty_start_failed owner sid' c)"
  unfolding record_pty_start_failed_def
  by (rule preserves_bind, rule closed_modify, simp, rule closed_gate, rule preserves_if)
     (intro preserves_bind preserves_ret preserves_attempt closed_lift closed_utc_now closed_events_create
        closed_set_status closed_modify; force)+

lemma attach_session_gate:
  "attach_session req = bindP (get_owned (ar_session_id req) (ar_owner_id req)) (\<lambda>session.
     if ts_status session = TS_Closed then raiseP ME_SessionClosed
     else bindP (cancel_pending_close (ts_id session)) (\<lambda>w. attach_finish req (session, w)))"
  by (simp add: attach_session_def attach_begin_def bindP_laws cong: if_cong)

lemma closed_cancel: "preserves (closed_in sid t) (cancel_pending_close sid')"
  unfolding cancel_pending_close_def
  by (intro preserves_bind preserves_read preserves_ret closed_modify) simp

lemma closed_attach_session: "preserves (closed_in sid t) (attach_session req)"
  unfolding attach_session_gate attach_finish_def Let_def prod.case
  by (rule closed_gate, rule preserves_if)
     (intro preserves_bind preserves_read preserves_if preserves_attempt preserves_raise
        preserves_ret closed_cancel closed_lift closed_set_status closed_create_attachment
        closed_events_create closed_modify; force)+

lemma closed_detach_session: "preserves (closed_in sid t) (detach_session owner sid' aid q)"
  unfolding detach_session_def
  by (intro preserves_bind preserves_if preserves_okOr preserves_ret closed_get_owned closed_lift
      closed_get_attachment closed_utc_now closed_mark_detached closed_events_create closed_modify) simp_all

lemma closed_resize_session: "preserves (closed_in sid t) (resize_session owner sid' c r)"
  unfolding resize_session_def validate_dim_def
  by (intro preserves_bind preserves_if preserves_guard preserves_raise preserves_ret closed_get_owned
      closed_lift closed_events_create closed_modify) simp_all

lemma closed_with_bridge: "preserves (closed_in sid t) (with_bridge sid' call lv)"
  by (simp add: with_bridge_def preserves_def bindP_run closed_in_def split: prod.splits)

lemma closed_write_pty_input: "preserves (closed_in sid t) (write_pty_input owner sid' bytes)"
  unfolding write_pty_input_def
  by (intro preserves_bind preserves_read preserves_case_sum preserves_case_option preserves_if
      preserves_raise preserves_ret closed_with_bridge)

lemma closed_apply_pty_resize: "preserves (closed_in sid t) (apply_pty_resize owner sid' c r)"
  unfolding apply_pty_resize_def
  by (intro preserves_bind preserves_read preserves_case_sum preserves_case_option preserves_if
      preserves_raise preserves_ret closed_with_bridge)

lemma closed_expire: "preserves (closed_in sid t) (expire_detach_close sid' owner)"
  unfolding expire_detach_close_def
  by (intro preserves_bind preserves_read preserves_if preserves_ret preserves_attempt closed_close_session)

lemma closed_forward: "preserves (closed_in sid t) (forward_pty_output sid')"
  unfolding forward_pty_output_def
  by (intro preserves_bind preserves_read preserves_case_option preserves_if preserves_ret
      preserves_case_list closed_forward_teardown closed_modify) simp_all

lemma closed_orphan_teardown: "preserves (closed_in sid t) orphan_teardown"
  unfolding orphan_teardown_def
  by (intro preserves_bind preserves_read preserves_case_list preserves_case_prod preserves_ret
      closed_forward_teardown closed_modify) simp_all

section \<open>Runs of the manager\<close>

text \<open>
  The manager's operations, the forwarders, the bridge drivers, the clock and the database's
  faults as steps of one system.
\<close>

datatype mgr_label =
    ML_Create create_session_request
  | ML_Start user_id terminal_session_id pty_bridge
  | ML_StartFailed user_id terminal_session_id string
  | ML_Close terminal_session_id user_id
  | ML_Attach attach_session_request
  | ML_Input user_id terminal_session_id "byte list"
  | ML_Resize user_id terminal_session_id nat nat
  | ML_PtyResize user_id terminal_session_id nat nat
  | ML_DetachSession user_id terminal_session_id attachment_id "int option"
  | ML_Detach user_id terminal_session_id attachment_id "int option"
  | ML_Expire terminal_session_id user_id
  | ML_Forward terminal_session_id
  | ML_Orphan
  | ML_Drive terminal_session_id drive_label
  | ML_Clock instant
  | ML_Faults "repository_error option list"

definition drive_live :: "drive_label \<Rightarrow> live_runtime \<Rightarrow> live_runtime" where
  "drive_live d lv = lv\<lparr>lv_bridge := drive_channel d (lv_bridge lv)\<rparr>"

primrec mgr_step :: "manager \<Rightarrow> mgr_label \<Rightarrow> manager" where
  "mgr_step s (ML_Create req) = snd (create_session req s)"
| "mgr_step s (ML_Start owner sid b) = snd (start_live_pty owner sid b s)"
| "mgr_step s (ML_StartFailed owner sid c) = snd (record_pty_start_failed owner sid c s)"
| "mgr_step s (ML_Close sid owner) = snd (close_session sid owner s)"
| "mgr_step s (ML_Attach req) = snd (attach_session req s)"
| "mgr_step s (ML_Input owner sid bytes) = snd (write_pty_input owner sid bytes s)"
| "mgr_step s (ML_Resize owner sid c r) = snd (resize_session owner sid c r s)"
| "mgr_step s (ML_PtyResize owner sid c r) = snd (apply_pty_resize owner sid c r s)"
| "mgr_step s (ML_DetachSession owner sid aid q) = snd (detach_session owner sid aid q s)"
| "mgr_step s (ML_Detach owner sid aid q) = snd (detach_attachment owner sid aid q s)"
| "mgr_step s (ML_Expire sid owner) = snd (expire_detach_close sid owner s)"
| "mgr_step s (ML_Forward sid) = snd (forward_pty_output sid s)"
| "mgr_step s ML_Orphan = snd (orphan_teardown s)"
| "mgr_step s (ML_Drive sid d) = set_live sid (drive_live d) s"
| "mgr_step s (ML_Clock now) = s\<lparr>mg_db := (mg_db s)\<lparr>db_now := now\<rparr>\<rparr>"
| "mgr_step s (ML_Faults fs) = s\<lparr>mg_db := (mg_db s)\<lparr>db_faults := fs\<rparr>\<rparr>"

text \<open>Programs that leave the runtime registry alone.\<close>

lemma runtimes_liftDb: "preserves (\<lambda>s. mg_runtimes s = R) (liftDb m)"
  by (auto simp: preserves_def liftDb_def split: prod.splits sum.splits)

lemma runtimes_get_owned: "preserves (\<lambda>s. mg_runtimes s = R) (get_owned sid owner)"
  by (simp add: preserves_def get_owned_state)

lemma runtimes_detach_session: "mg_runtimes (snd (detach_session owner sid aid q s)) = mg_runtimes s"
proof -
  have "preserves (\<lambda>u. mg_runtimes u = mg_runtimes s) (detach_session owner sid aid q)"
    unfolding detach_session_def utc_now_def
    by (intro preserves_bind preserves_if preserves_okOr preserves_ret preserves_read runtimes_get_owned
        runtimes_liftDb preserves_modify) simp_all
  then show ?thesis by (rule preservesD) simp
qed

lemma live_detach_session: "live_of sid (snd (detach_session owner sid' aid q s)) = live_of sid s"
  by (simp add: live_of_def runtimes_detach_session)

definition final_enabled :: "terminal_session_id \<Rightarrow> manager \<Rightarrow> mgr_label \<Rightarrow> bool" where
  "final_enabled sid s l =
     (case l of ML_Detach _ sid' _ _ \<Rightarrow> sid' \<noteq> sid \<or> live_of sid s = None | _ \<Rightarrow> True)"

lemma closed_schedule: "sid' \<noteq> sid \<Longrightarrow> preserves (closed_in sid t) (schedule_detach_close sid')"
  unfolding schedule_detach_close_def Let_def
  by (intro preserves_bind preserves_attempt preserves_read preserves_ret preserves_case_option
      closed_utc_now closed_lift closed_set_status closed_modify) simp_all

lemma closed_detach_attachment:
  assumes "closed_in sid t s" and "sid' \<noteq> sid \<or> live_of sid s = None"
  shows "closed_in sid t (snd (detach_attachment owner sid' aid q s))"
proof -
  obtain x u where d: "detach_session owner sid' aid q s = (x, u)" by fastforce
  then have u: "closed_in sid t u" "live_of sid u = live_of sid s"
    using preservesD [OF closed_detach_session assms(1), of owner sid' aid q]
      live_detach_session [of sid owner sid' aid q s] by simp_all
  show ?thesis
  proof (cases "sid' = sid")
    case True
    then have "live_of sid u = None" using u assms(2) by simp
    then show ?thesis using d u True
      by (auto simp: detach_attachment_def bindP_run split: sum.splits prod.splits)
  next
    case False
    then show ?thesis using d u preservesD [OF closed_schedule u(1), of sid']
      by (auto simp: detach_attachment_def bindP_run split: sum.splits prod.splits)
  qed
qed

lemma closed_env:
  "closed_in sid t s \<Longrightarrow> closed_in sid t (set_live sid' f s)"
  "closed_in sid t s \<Longrightarrow> closed_in sid t (s\<lparr>mg_db := (mg_db s)\<lparr>db_now := n\<rparr>\<rparr>)"
  "closed_in sid t s \<Longrightarrow> closed_in sid t (s\<lparr>mg_db := (mg_db s)\<lparr>db_faults := fs\<rparr>\<rparr>)"
  by (simp_all add: closed_in_def row_closed_def session_row_def)

interpretation final: step_machine mgr_step "closed_in sid t" "final_enabled sid"
  for sid t
proof unfold_locales
  fix s l assume c: "closed_in sid t s" and e: "final_enabled sid s l"
  show "closed_in sid t (mgr_step s l)"
  proof (cases l)
    case (ML_Detach owner sid' aid q)
    then show ?thesis using closed_detach_attachment [OF c] e by (simp add: final_enabled_def)
  qed (use c in \<open>simp_all add: closed_env preservesD [OF closed_create_session]
      preservesD [OF closed_start_live_pty] preservesD [OF closed_record_pty_start_failed]
      preservesD [OF closed_close_session] preservesD [OF closed_attach_session]
      preservesD [OF closed_write_pty_input] preservesD [OF closed_resize_session]
      preservesD [OF closed_apply_pty_resize] preservesD [OF closed_detach_session]
      preservesD [OF closed_expire] preservesD [OF closed_forward] preservesD [OF closed_orphan_teardown]\<close>)
qed


end
