(* ===== verification/Session_Invariants.thy ===== *)
theory Session_Invariants
  imports Session_Lifecycle
begin

text \<open>
  The registry invariants of the session manager, over every run of its operations: a pending
  detach close and a registered client exclude each other, the runtime registry agrees with
  the session table on ownership, and every live stream's counters, fan-out and replay ring
  agree.
\<close>

section \<open>Registry entries\<close>

definition every_entry :: "(terminal_session_id \<Rightarrow> runtime_entry \<Rightarrow> bool) \<Rightarrow> manager \<Rightarrow> bool" where
  "every_entry P s \<longleftrightarrow> (\<forall>sid e. map_of (mg_runtimes s) sid = Some e \<longrightarrow> P sid e)"

lemma map_of_set_entry:
  "map_of (mg_runtimes (set_entry sid f s)) =
     (map_of (mg_runtimes s))(sid := map_option f (map_of (mg_runtimes s) sid))"
  by (simp add: set_entry_def map_of_map_entry fun_eq_iff split: option.splits)

lemma map_of_drop_runtime:
  "map_of (mg_runtimes (drop_runtime sid s)) = (map_of (mg_runtimes s))(sid := None)"
  by (simp add: drop_runtime_def delete_conv')

lemma every_set_entry: "every_entry P s \<Longrightarrow> (\<And>e. P sid e \<Longrightarrow> P sid (f e)) \<Longrightarrow> every_entry P (set_entry sid f s)"
  by (auto simp: every_entry_def map_of_set_entry)

lemma every_drop_runtime: "every_entry P s \<Longrightarrow> every_entry P (drop_runtime sid s)"
  by (auto simp: every_entry_def map_of_drop_runtime)

lemma every_cong: "mg_runtimes s = mg_runtimes u \<Longrightarrow> every_entry P s = every_entry P u"
  by (simp add: every_entry_def)

lemma every_liftDb: "preserves (every_entry P) (liftDb m)"
  by (auto simp: preserves_def liftDb_def every_entry_def split: prod.splits sum.splits)

lemma every_get_owned: "preserves (every_entry P) (get_owned sid owner)"
  by (simp add: preserves_def get_owned_state every_entry_def)

lemma every_modify_entry:
  "(\<And>e. P sid e \<Longrightarrow> P sid (f e)) \<Longrightarrow> preserves (every_entry P) (modifyP (set_entry sid f))"
  by (rule preserves_modify) (rule every_set_entry)

lemma every_modify_other:
  "(\<And>s. mg_runtimes (f s) = mg_runtimes s) \<Longrightarrow> preserves (every_entry P) (modifyP f)"
  by (rule preserves_modify) (simp add: every_entry_def)

lemma every_modify_drop: "preserves (every_entry P) (modifyP (drop_runtime sid))"
  by (rule preserves_modify) (rule every_drop_runtime)

lemma registry_other [simp]:
  "mg_runtimes (drop_attachments sid s) = mg_runtimes s"
  "mg_runtimes (shutdown_writer sid n w s) = mg_runtimes s"
  "mg_attachments (set_entry sid f s) = mg_attachments s"
  "mg_attachments (set_live sid g s) = mg_attachments s"
  "mg_attachments (drop_runtime sid s) = mg_attachments s"
  "mg_attachments (shutdown_writer sid n w s) = mg_attachments s"
  by (simp_all add: drop_attachments_def shutdown_writer_def set_entry_def set_live_def drop_runtime_def
      split: recording_writer.splits)

section \<open>Facts of the database that no operation undoes\<close>

text \<open>
  A predicate on the tables that every repository statement keeps is kept by every operation of
  the manager, whatever fails.
\<close>

locale db_rows =
  fixes J :: "session_db \<Rightarrow> bool"
  assumes J_pop: "J d \<Longrightarrow> J (d\<lparr>db_faults := tl (db_faults d)\<rparr>)"
    and J_now: "J d \<Longrightarrow> J (d\<lparr>db_now := n\<rparr>)"
    and J_set_status: "preserves J (sessions_set_status sid st c)"
    and J_create_attachment: "preserves J (sessions_create_attachment sid ci ra)"
    and J_mark_detached: "preserves J (sessions_mark_attachment_detached aid t q)"
    and J_events_create: "preserves J (events_create sid k p)"
begin

definition held :: "manager \<Rightarrow> bool" where
  "held s \<longleftrightarrow> J (mg_db s)"

lemma held_lift: "preserves J m \<Longrightarrow> preserves held (liftDb m)"
  unfolding held_def by (rule preserves_liftDb)

lemma held_modify: "(\<And>s. mg_db (f s) = mg_db s) \<Longrightarrow> preserves held (modifyP f)"
  by (rule preserves_modify) (simp add: held_def)

lemma held_get_owned: "preserves held (get_owned sid owner)"
  by (simp add: preserves_def get_owned_state held_def pop_fault_def J_pop)

lemma held_get: "preserves held (liftDb (sessions_get sid))"
proof (rule held_lift, rule preservesI)
  fix d assume "J d"
  have "snd (sessions_get sid d) = d\<lparr>db_faults := tl (db_faults d)\<rparr>"
    by (simp add: sessions_get_def db_call_def split: list.splits option.splits)
  then show "J (snd (sessions_get sid d))" using J_pop [OF \<open>J d\<close>] by simp
qed

lemma held_get_attachment: "preserves held (liftDb (sessions_get_attachment aid))"
proof (rule held_lift, rule preservesI)
  fix d assume "J d"
  have "snd (sessions_get_attachment aid d) = d\<lparr>db_faults := tl (db_faults d)\<rparr>"
    by (simp add: sessions_get_attachment_def db_call_def split: list.splits option.splits)
  then show "J (snd (sessions_get_attachment aid d))" using J_pop [OF \<open>J d\<close>] by simp
qed

lemma held_utc_now: "preserves held utc_now"
  unfolding utc_now_def by (rule preserves_read)

lemmas held_rules = preserves_bind preserves_attempt preserves_read preserves_ret preserves_raise
  preserves_okOr preserves_guard preserves_if preserves_case_option preserves_case_sum
  preserves_case_list preserves_case_prod held_get_owned held_get held_get_attachment held_utc_now
  held_lift [OF J_set_status] held_lift [OF J_create_attachment]
  held_lift [OF J_mark_detached] held_lift [OF J_events_create]

lemma held_forward_teardown: "preserves held (forward_teardown sid owner r)"
  unfolding forward_teardown_def by (intro held_rules)

lemma held_remove_and_shutdown: "preserves held (remove_and_shutdown sid)"
  unfolding remove_and_shutdown_def shutdown_runtime_def
  by (intro held_rules held_forward_teardown held_modify) simp_all

lemma held_close_session: "preserves held (close_session sid owner)"
  unfolding close_session_def
  by (intro held_rules held_remove_and_shutdown held_modify) simp_all

lemma held_orphan: "preserves held m \<Longrightarrow> preserves held (orphan_forwarder sid owner m)"
  by (fastforce simp: preserves_def orphan_forwarder_def held_def split: prod.splits sum.splits)

lemma held_start_live_pty: "preserves held (start_live_pty owner sid b)"
  unfolding start_live_pty_def by (intro held_rules held_orphan held_modify) simp_all

lemma held_record_pty_start_failed: "preserves held (record_pty_start_failed owner sid c)"
  unfolding record_pty_start_failed_def by (intro held_rules held_modify) simp_all

lemma held_attach_session: "preserves held (attach_session req)"
  unfolding attach_session_gate attach_finish_def cancel_pending_close_def Let_def prod.case
  by (intro held_rules held_modify) simp_all

lemma held_detach_session: "preserves held (detach_session owner sid aid q)"
  unfolding detach_session_def by (intro held_rules held_modify) simp_all

lemma held_detach_attachment: "preserves held (detach_attachment owner sid aid q)"
  unfolding detach_attachment_def schedule_detach_close_def Let_def
  by (intro held_rules held_detach_session held_modify) simp_all

lemma held_resize_session: "preserves held (resize_session owner sid c r)"
  unfolding resize_session_def validate_dim_def by (intro held_rules held_modify) simp_all

lemma held_with_bridge: "preserves held (with_bridge sid call lv)"
  by (simp add: with_bridge_def preserves_def bindP_run held_def split: prod.splits)

lemma held_write_pty_input: "preserves held (write_pty_input owner sid bytes)"
  unfolding write_pty_input_def by (intro held_rules held_with_bridge)

lemma held_apply_pty_resize: "preserves held (apply_pty_resize owner sid c r)"
  unfolding apply_pty_resize_def by (intro held_rules held_with_bridge)

lemma held_expire: "preserves held (expire_detach_close sid owner)"
  unfolding expire_detach_close_def by (intro held_rules held_close_session)

lemma held_forward: "preserves held (forward_pty_output sid)"
  unfolding forward_pty_output_def by (intro held_rules held_forward_teardown held_modify) simp_all

lemma held_orphan_teardown: "preserves held orphan_teardown"
  unfolding orphan_teardown_def by (intro held_rules held_forward_teardown held_modify) simp_all

lemmas held_ops = held_start_live_pty held_record_pty_start_failed
  held_close_session held_attach_session held_write_pty_input held_resize_session
  held_apply_pty_resize held_detach_session held_detach_attachment held_expire held_forward
  held_orphan_teardown

lemma held_env:
  "held s \<Longrightarrow> held (set_live sid f s)"
  "held s \<Longrightarrow> held (s\<lparr>mg_db := (mg_db s)\<lparr>db_now := n\<rparr>\<rparr>)"
  by (simp_all add: held_def J_now)

lemma held_step_rows:
  assumes "held s" and "\<And>fs. l \<noteq> ML_Faults fs" and "\<And>req. l \<noteq> ML_Create req"
  shows "held (mgr_step s l)"
proof (cases l)
  case (ML_Faults fs)
  then show ?thesis using assms(2) by blast
next
  case (ML_Create req)
  then show ?thesis using assms(3) by blast
qed (simp_all add: assms(1) held_env held_ops [THEN preservesD])

end

text \<open>A predicate that every new session keeps as well.\<close>

locale db_stable = db_rows +
  assumes J_create: "preserves J (sessions_create input)"
begin

lemma held_create_session: "preserves held (create_session req)"
  unfolding create_session_def validate_dim_def by (intro held_rules held_lift [OF J_create] held_modify) simp_all

lemma held_step_quiet: "held s \<Longrightarrow> (\<And>fs. l \<noteq> ML_Faults fs) \<Longrightarrow> held (mgr_step s l)"
  using held_step_rows [of s l] preservesD [OF held_create_session] by (cases l) auto

end

text \<open>A predicate that does not look at the fault list survives any failures to come.\<close>

locale db_stable_env = db_stable +
  assumes J_faults: "J d \<Longrightarrow> J (d\<lparr>db_faults := fs\<rparr>)"
begin

lemma held_step: "held s \<Longrightarrow> held (mgr_step s l)"
  by (cases "\<exists>fs. l = ML_Faults fs") (auto simp: held_step_quiet, simp add: held_def J_faults)

lemma held_run: "J (mg_db s) \<Longrightarrow> J (mg_db (foldl mgr_step s ls))"
proof (induction ls arbitrary: s)
  case (Cons l ls)
  then show ?case using held_step [of s l] by (simp add: held_def)
qed simp

end

definition owner_is :: "terminal_session_id \<Rightarrow> user_id \<Rightarrow> session_db \<Rightarrow> bool" where
  "owner_is sid owner d \<longleftrightarrow> map_option ts_owner_id (session_row d sid) = Some owner"

definition fresh_ids :: "session_db \<Rightarrow> bool" where
  "fresh_ids d \<longleftrightarrow> (\<forall>r \<in> set (db_sessions d). ts_id r < db_next_id d)
     \<and> (\<forall>a \<in> set (db_attachments d). sa_id a < db_next_id d)"

definition events_extend :: "session_event list \<Rightarrow> session_db \<Rightarrow> bool" where
  "events_extend evs d \<longleftrightarrow> take (length evs) (db_events d) = evs"

definition detached_since :: "attachment_id \<Rightarrow> instant \<Rightarrow> session_db \<Rightarrow> bool" where
  "detached_since aid t d \<longleftrightarrow> (\<exists>a. attachment_row d aid = Some a \<and> sa_detached_at a = Some t)"

lemma preserves_db_callI:
  assumes "\<And>s fs. J s \<Longrightarrow> J (s\<lparr>db_faults := fs\<rparr>)" and "\<And>s. J s \<Longrightarrow> J (snd (body s))"
  shows "preserves J (db_call body)"
  using assms by (intro preserves_db_call) (simp_all add: preserves_def)

lemma owner_is_append: "owner_is sid ow d \<Longrightarrow> owner_is sid ow (d\<lparr>db_sessions := db_sessions d @ rows, db_next_id := n\<rparr>)"
  by (auto simp: owner_is_def session_row_def find_append_Some)

lemma owner_is_cong: "db_sessions d' = db_sessions d \<Longrightarrow> owner_is sid ow d \<Longrightarrow> owner_is sid ow d'"
  by (simp add: owner_is_def session_row_def)

interpretation owners: db_stable_env "owner_is sid ow" for sid ow
proof unfold_locales
  show "preserves (owner_is sid ow) (sessions_create input)" for input
    unfolding sessions_create_def
    by (rule preserves_db_callI) (auto simp: Let_def owner_is_append intro: owner_is_cong [rotated])
  show "preserves (owner_is sid ow) (sessions_set_status sid' st c)" for sid' st c
    unfolding sessions_set_status_def
    by (rule preserves_db_callI) (auto simp: owner_is_def set_status_row option.map_comp comp_def)
  show "preserves (owner_is sid ow) (sessions_create_attachment sid' ci ra)" for sid' ci ra
    unfolding sessions_create_attachment_def
    by (rule preserves_db_callI) (auto simp: Let_def owner_is_def session_row_def)
  show "preserves (owner_is sid ow) (sessions_mark_attachment_detached aid t q)" for aid t q
    unfolding sessions_mark_attachment_detached_def
    by (rule preserves_db_callI) (auto simp: owner_is_def session_row_def)
  show "preserves (owner_is sid ow) (events_create sid' k p)" for sid' k p
    unfolding events_create_def
    by (rule preserves_db_callI) (auto simp: Let_def owner_is_def session_row_def)
qed (simp_all add: owner_is_def session_row_def)

interpretation ids: db_stable_env fresh_ids
proof unfold_locales
  show "preserves fresh_ids (sessions_create input)" for input
    unfolding sessions_create_def
    by (rule preserves_db_callI) (auto simp: Let_def fresh_ids_def less_Suc_eq)
  show "preserves fresh_ids (sessions_set_status sid st c)" for sid st c
    unfolding sessions_set_status_def
    by (rule preserves_db_callI) (auto simp: fresh_ids_def)
  show "preserves fresh_ids (sessions_create_attachment sid ci ra)" for sid ci ra
    unfolding sessions_create_attachment_def
    by (rule preserves_db_callI) (auto simp: Let_def fresh_ids_def less_Suc_eq)
  show "preserves fresh_ids (sessions_mark_attachment_detached aid t q)" for aid t q
    unfolding sessions_mark_attachment_detached_def
    by (rule preserves_db_callI) (auto simp: fresh_ids_def stamp_detached_def)
  show "preserves fresh_ids (events_create sid k p)" for sid k p
    unfolding events_create_def
    by (rule preserves_db_callI) (auto simp: Let_def fresh_ids_def)
qed (simp_all add: fresh_ids_def)

interpretation audit_log: db_stable_env "events_extend evs" for evs
proof unfold_locales
  show "preserves (events_extend evs) (sessions_create input)" for input
    unfolding sessions_create_def by (rule preserves_db_callI) (auto simp: Let_def events_extend_def)
  show "preserves (events_extend evs) (sessions_set_status sid st c)" for sid st c
    unfolding sessions_set_status_def by (rule preserves_db_callI) (auto simp: events_extend_def)
  show "preserves (events_extend evs) (sessions_create_attachment sid ci ra)" for sid ci ra
    unfolding sessions_create_attachment_def
    by (rule preserves_db_callI) (auto simp: Let_def events_extend_def)
  show "preserves (events_extend evs) (sessions_mark_attachment_detached aid t q)" for aid t q
    unfolding sessions_mark_attachment_detached_def
    by (rule preserves_db_callI) (auto simp: events_extend_def)
  show "preserves (events_extend evs) (events_create sid k p)" for sid k p
    unfolding events_create_def
    by (rule preserves_db_callI)
       (auto simp: Let_def events_extend_def, metis append_Nil2 append_take_drop_id diff_is_0_eq' length_take linear min.absorb1 take_all_iff)
qed (simp_all add: events_extend_def)

lemma mark_detached_row:
  "attachment_row (d\<lparr>db_attachments := map (\<lambda>r. if sa_id r = aid' then stamp_detached t q r else r)
       (db_attachments d)\<rparr>) aid
     = (if aid = aid' then map_option (stamp_detached t q) (attachment_row d aid) else attachment_row d aid)"
proof -
  have "find (\<lambda>r. sa_id r = aid) (map (\<lambda>r. if sa_id r = aid' then stamp_detached t q r else r) (db_attachments d))
      = map_option (\<lambda>r. if sa_id r = aid' then stamp_detached t q r else r)
          (find (\<lambda>r. sa_id r = aid) (db_attachments d))"
    by (rule find_map_same_key) (simp add: stamp_detached_def)
  then show ?thesis
    by (cases "find (\<lambda>r. sa_id r = aid) (db_attachments d)") (auto simp: attachment_row_def dest: find_SomeD)
qed

lemma stamp_keeps: "sa_detached_at a = Some t \<Longrightarrow> sa_detached_at (stamp_detached t' q a) = Some t"
  using detach_stamp.fold_keeps [of a t "[(t', q)]"] by simp

interpretation detach_times: db_stable_env "detached_since aid t" for aid t
proof unfold_locales
  show "preserves (detached_since aid t) (sessions_create input)" for input
    unfolding sessions_create_def
    by (rule preserves_db_callI) (auto simp: Let_def detached_since_def attachment_row_def)
  show "preserves (detached_since aid t) (sessions_set_status sid st c)" for sid st c
    unfolding sessions_set_status_def
    by (rule preserves_db_callI) (auto simp: detached_since_def attachment_row_def)
  show "preserves (detached_since aid t) (sessions_create_attachment sid ci ra)" for sid ci ra
    unfolding sessions_create_attachment_def
    by (rule preserves_db_callI) (auto simp: Let_def detached_since_def attachment_row_def find_append_Some)
  show "preserves (detached_since aid t) (sessions_mark_attachment_detached aid' n q)" for aid' n q
    unfolding sessions_mark_attachment_detached_def
    by (rule preserves_db_callI) (auto simp: detached_since_def mark_detached_row stamp_keeps)
  show "preserves (detached_since aid t) (events_create sid k p)" for sid k p
    unfolding events_create_def
    by (rule preserves_db_callI) (auto simp: Let_def detached_since_def attachment_row_def)
qed (simp_all add: detached_since_def attachment_row_def)

text \<open>The attachment row of a client stays, with its session.\<close>

definition attachment_in :: "attachment_id \<Rightarrow> terminal_session_id \<Rightarrow> session_db \<Rightarrow> bool" where
  "attachment_in aid sid d \<longleftrightarrow> map_option sa_session_id (attachment_row d aid) = Some sid"

interpretation attached_rows: db_stable_env "attachment_in aid sid" for aid sid
proof unfold_locales
  show "preserves (attachment_in aid sid) (sessions_create input)" for input
    unfolding sessions_create_def
    by (rule preserves_db_callI) (auto simp: Let_def attachment_in_def attachment_row_def)
  show "preserves (attachment_in aid sid) (sessions_set_status sid' st c)" for sid' st c
    unfolding sessions_set_status_def
    by (rule preserves_db_callI) (auto simp: attachment_in_def attachment_row_def)
  show "preserves (attachment_in aid sid) (sessions_create_attachment sid' ci ra)" for sid' ci ra
    unfolding sessions_create_attachment_def
    by (rule preserves_db_callI) (auto simp: Let_def attachment_in_def attachment_row_def find_append_Some)
  show "preserves (attachment_in aid sid) (sessions_mark_attachment_detached aid' n q)" for aid' n q
    unfolding sessions_mark_attachment_detached_def
    by (rule preserves_db_callI) (auto simp: attachment_in_def mark_detached_row stamp_detached_def)
  show "preserves (attachment_in aid sid) (events_create sid' k p)" for sid' k p
    unfolding events_create_def
    by (rule preserves_db_callI) (auto simp: Let_def attachment_in_def attachment_row_def)
qed (simp_all add: attachment_in_def attachment_row_def)

text \<open>Without failures to come, every statement succeeds or reports its own error.\<close>

interpretation quiet: db_stable "\<lambda>d. db_faults d = []"
  by unfold_locales
     (auto simp: preserves_def sessions_create_def sessions_set_status_def sessions_create_attachment_def
        sessions_mark_attachment_detached_def events_create_def db_call_def Let_def)

text \<open>
  Persisted history is append-only: through any run of the manager, its forwarders, timers
  and database failures, the session events already written stay an unchanged prefix of the
  log, a session row keeps its owner, and an attachment that was detached keeps its first
  detach time.
\<close>

theorem history_is_append_only:
  "take (length (db_events (mg_db s))) (db_events (mg_db (foldl mgr_step s ls))) = db_events (mg_db s)
   \<and> (\<forall>sid ow. owner_is sid ow (mg_db s) \<longrightarrow> owner_is sid ow (mg_db (foldl mgr_step s ls)))
   \<and> (\<forall>aid t. detached_since aid t (mg_db s) \<longrightarrow> detached_since aid t (mg_db (foldl mgr_step s ls)))"
  using audit_log.held_run [of "db_events (mg_db s)" s ls] owners.held_run [of _ _ s ls]
    detach_times.held_run [of _ _ s ls]
  by (simp add: events_extend_def)

section \<open>Facts of the registry entries\<close>

text \<open>
  A predicate on registry entries that every single update of an entry keeps is kept by every
  operation. \<open>startable\<close> and \<open>room\<close> say when binding a PTY and forwarding a frame keep it.
\<close>

locale entry_invariant =
  fixes P :: "terminal_session_id \<Rightarrow> runtime_entry \<Rightarrow> bool"
    and startable :: "runtime_entry \<Rightarrow> bool"
    and room :: "runtime_entry \<Rightarrow> byte list \<Rightarrow> bool"
  assumes P_ended: "P sid e \<Longrightarrow> P sid (e\<lparr>re_live := None, re_snapshot := (re_snapshot e)\<lparr>rt_status := RT_Ended\<rparr>\<rparr>)"
    and P_start: "P sid e \<Longrightarrow> startable e \<Longrightarrow>
      P sid (e\<lparr>re_snapshot := (re_snapshot e)\<lparr>rt_status := RT_Live\<rparr>, re_live := Some (live_candidate b w)\<rparr>)"
    and P_dims: "P sid e \<Longrightarrow> P sid (e\<lparr>re_snapshot := (re_snapshot e)\<lparr>rt_cols := c, rt_rows := r\<rparr>\<rparr>)"
    and P_bridge: "P sid e \<Longrightarrow> P sid (e\<lparr>re_live := map_option (\<lambda>lv. lv\<lparr>lv_bridge := br lv\<rparr>) (re_live e)\<rparr>)"
    and P_recording: "P sid e \<Longrightarrow> P sid (e\<lparr>re_live := map_option (\<lambda>lv. lv\<lparr>lv_recording := wr lv\<rparr>) (re_live e)\<rparr>)"
    and P_forwarder: "P sid e \<Longrightarrow> P sid (e\<lparr>re_live := map_option (\<lambda>lv. lv\<lparr>lv_forwarder := f\<rparr>) (re_live e)\<rparr>)"
    and P_detach: "P sid e \<Longrightarrow> P sid (e\<lparr>re_live := map_option (\<lambda>lv. lv\<lparr>lv_detach_close := i\<rparr>) (re_live e)\<rparr>)"
    and P_reason: "P sid e \<Longrightarrow> P sid (e\<lparr>re_live := map_option (\<lambda>lv. lv\<lparr>lv_closed_reason := x\<rparr>) (re_live e)\<rparr>)"
    and P_output: "P sid e \<Longrightarrow> room e bytes \<Longrightarrow> P sid (forward_output bytes e)"
    and room_bridge: "room (e\<lparr>re_live := map_option (\<lambda>lv. lv\<lparr>lv_bridge := br lv\<rparr>) (re_live e)\<rparr>) bytes = room e bytes"
begin

lemma every_set_live:
  "(\<And>e. P sid e \<Longrightarrow> P sid (e\<lparr>re_live := map_option f (re_live e)\<rparr>)) \<Longrightarrow>
   preserves (every_entry P) (modifyP (set_live sid f))"
  unfolding set_live_def by (rule every_modify_entry)

lemmas every_rules = preserves_bind preserves_attempt preserves_read preserves_ret preserves_raise
  preserves_okOr preserves_guard preserves_if preserves_case_option preserves_case_sum
  preserves_case_list preserves_case_prod every_get_owned every_liftDb every_modify_drop

lemma every_utc_now: "preserves (every_entry P) utc_now"
  unfolding utc_now_def by (rule preserves_read)

lemma every_forward_teardown: "preserves (every_entry P) (forward_teardown sid owner r)"
  unfolding forward_teardown_def by (intro every_rules every_utc_now)

lemma every_remove_and_shutdown: "preserves (every_entry P) (remove_and_shutdown sid)"
  unfolding remove_and_shutdown_def shutdown_runtime_def
  by (intro every_rules every_forward_teardown every_modify_other) simp_all

lemma every_close_session: "preserves (every_entry P) (close_session sid owner)"
  unfolding close_session_def
  by (intro every_rules every_utc_now every_remove_and_shutdown every_modify_other) simp_all

lemma every_record_pty_start_failed: "preserves (every_entry P) (record_pty_start_failed owner sid c)"
  unfolding record_pty_start_failed_def
  by (intro every_rules every_utc_now every_modify_entry P_ended every_modify_other) simp_all

lemma every_attach_session: "preserves (every_entry P) (attach_session req)"
  unfolding attach_session_gate attach_finish_def cancel_pending_close_def Let_def prod.case
  by (intro every_rules every_set_live P_detach every_modify_other) simp_all

lemma every_detach_session: "preserves (every_entry P) (detach_session owner sid aid q)"
  unfolding detach_session_def by (intro every_rules every_utc_now every_modify_other) simp_all

lemma every_detach_attachment: "preserves (every_entry P) (detach_attachment owner sid aid q)"
  unfolding detach_attachment_def schedule_detach_close_def Let_def
  by (intro every_rules every_utc_now every_detach_session every_set_live P_detach)

lemma every_resize_session: "preserves (every_entry P) (resize_session owner sid c r)"
  unfolding resize_session_def validate_dim_def
  by (intro every_rules every_modify_entry P_dims every_set_live P_recording)

lemma every_with_bridge: "preserves (every_entry P) (with_bridge sid call lv)"
  unfolding with_bridge_def Let_def by (intro every_rules every_set_live P_bridge)

lemma every_write_pty_input: "preserves (every_entry P) (write_pty_input owner sid bytes)"
  unfolding write_pty_input_def by (intro every_rules every_with_bridge)

lemma every_apply_pty_resize: "preserves (every_entry P) (apply_pty_resize owner sid c r)"
  unfolding apply_pty_resize_def by (intro every_rules every_with_bridge)

lemma every_expire: "preserves (every_entry P) (expire_detach_close sid owner)"
  unfolding expire_detach_close_def by (intro every_rules every_close_session)

lemma every_orphan_teardown: "preserves (every_entry P) orphan_teardown"
  unfolding orphan_teardown_def by (intro every_rules every_forward_teardown every_modify_other) simp_all

lemma every_drive: "every_entry P s \<Longrightarrow> every_entry P (set_live sid (drive_live d) s)"
proof -
  have "drive_live d = (\<lambda>lv. lv\<lparr>lv_bridge := drive_channel d (lv_bridge lv)\<rparr>)"
    by (simp add: fun_eq_iff drive_live_def)
  then show "every_entry P s \<Longrightarrow> every_entry P (set_live sid (drive_live d) s)"
    unfolding set_live_def by (simp add: every_set_entry P_bridge)
qed

definition forward_room :: "manager \<Rightarrow> terminal_session_id \<Rightarrow> bool" where
  "forward_room s sid \<longleftrightarrow>
     (\<forall>e lv bytes rest. map_of (mg_runtimes s) sid = Some e \<and> re_live e = Some lv
        \<and> pb_output_rx (lv_bridge lv) = PtyOutput bytes # rest \<longrightarrow> room e bytes)"

lemma take_event_alt:
  "take_event = (\<lambda>lv. lv\<lparr>lv_bridge := (lv_bridge lv)\<lparr>pb_output_rx := tl (pb_output_rx (lv_bridge lv))\<rparr>\<rparr>)"
  by (simp add: fun_eq_iff take_event_def)

lemma P_event:
  assumes "P sid e" and "\<And>bytes. evt = PtyOutput bytes \<Longrightarrow> room e bytes"
  shows "P sid (forward_event evt (e\<lparr>re_live := map_option take_event (re_live e)\<rparr>))"
proof -
  have p: "P sid (e\<lparr>re_live := map_option take_event (re_live e)\<rparr>)"
    unfolding take_event_alt by (rule P_bridge [OF assms(1)])
  show ?thesis
  proof (cases evt)
    case (PtyOutput bytes)
    then have "room (e\<lparr>re_live := map_option take_event (re_live e)\<rparr>) bytes"
      unfolding take_event_alt room_bridge by (rule assms(2))
    with p PtyOutput show ?thesis by (simp add: forward_event_def P_output)
  next
    case (PtyClosed x)
    with P_reason [OF p, of "Some x"] show ?thesis by (simp add: forward_event_def)
  qed (use p in \<open>simp add: forward_event_def\<close>)
qed

lemma every_forward:
  assumes s: "every_entry P s" and "forward_room s sid"
  shows "every_entry P (snd (forward_pty_output sid s))"
proof (cases "map_of (mg_runtimes s) sid")
  case (Some e)
  have p: "P sid e" using s Some by (simp add: every_entry_def)
  show ?thesis
  proof (cases "re_live e")
    case live: (Some lv)
    show ?thesis
    proof (cases "pb_output_rx (lv_bridge lv)")
      case Nil
      have "preserves (every_entry P)
          (bindP (modifyP (set_live sid (\<lambda>lv. lv\<lparr>lv_forwarder := False\<rparr>))) (\<lambda>_.
             forward_teardown sid (rt_owner_id (re_snapshot e)) (lv_closed_reason lv)))"
        by (intro every_rules every_set_live P_forwarder every_forward_teardown)
      from preservesD [OF this s] Some live Nil s show ?thesis
        by (simp add: forward_pty_output_def bindP_run)
    next
      case (Cons evt rest)
      have "room e bytes" if "evt = PtyOutput bytes" for bytes
        using assms(2) Some live Cons that by (auto simp: forward_room_def)
      then have q: "P sid (forward_event evt (e\<lparr>re_live := map_option take_event (re_live e)\<rparr>))"
        by (rule P_event [OF p])
      have "every_entry P (set_entry sid
          (\<lambda>e. forward_event evt (e\<lparr>re_live := map_option take_event (re_live e)\<rparr>)) s)"
        using s q Some by (auto simp: every_entry_def map_of_set_entry)
      with Some live Cons s show ?thesis by (simp add: forward_pty_output_def bindP_run)
    qed
  qed (use Some s in \<open>simp add: forward_pty_output_def bindP_run\<close>)
qed (use s in \<open>simp add: forward_pty_output_def bindP_run\<close>)

lemma every_start:
  assumes s: "every_entry P s" and st: "\<And>e. map_of (mg_runtimes s) sid = Some e \<Longrightarrow> startable e"
  shows "every_entry P (snd (start_live_pty owner sid b s))"
proof -
  let ?I = "\<lambda>u. mg_runtimes u = mg_runtimes s"
  have keep: "every_entry P u" if "?I u" for u using that s by (simp add: every_entry_def)
  have orphan: "preserves ?I (orphan_forwarder sid owner
      (bindP (liftDb (sessions_set_status sid TS_Active None)) (\<lambda>_. get_owned sid owner)))"
    using preserves_bind [OF runtimes_liftDb runtimes_get_owned,
        of "mg_runtimes s" "sessions_set_status sid TS_Active None" "\<lambda>_. sid" "\<lambda>_. owner"]
    by (fastforce simp: preserves_def orphan_forwarder_def split: prod.splits sum.splits)
  have install: "establishes ?I (every_entry P) (case entry of None \<Rightarrow> raiseP ME_NotFound
      | Some _ \<Rightarrow> bindP (modifyP (set_entry sid (\<lambda>e. e\<lparr>re_snapshot := (re_snapshot e)\<lparr>rt_status := RT_Live\<rparr>,
                  re_live := Some (live_candidate b w)\<rparr>))) (\<lambda>_. retP upd))" for entry w upd
    using s st
    by (cases entry) (auto simp: establishes_def bindP_run every_entry_def map_of_set_entry P_start)
  have "establishes ?I (every_entry P) (start_live_pty owner sid b)" unfolding start_live_pty_def
    by (intro establishes_bind establishes_if establishes_stop preserves_read preserves_okOr
        runtimes_get_owned orphan install keep)
  then show ?thesis by (rule establishesD) simp
qed

lemma every_create:
  assumes s: "every_entry P s"
    and new: "\<And>session d. sessions_create \<lparr>cs_owner_id = cr_owner_id req,
        cs_server_profile_id = cr_server_profile_id req, cs_status = TS_Starting,
        cs_cols = cr_cols req, cs_rows = cr_rows req\<rparr> (mg_db s) = (Inr session, d) \<Longrightarrow>
        P (ts_id session) (placeholder_entry session)"
  shows "every_entry P (snd (create_session req s))"
proof -
  let ?I = "\<lambda>u. mg_runtimes u = mg_runtimes s"
  let ?create = "sessions_create \<lparr>cs_owner_id = cr_owner_id req,
        cs_server_profile_id = cr_server_profile_id req, cs_status = TS_Starting,
        cs_cols = cr_cols req, cs_rows = cr_rows req\<rparr>"
  have keep: "every_entry P u" if "?I u" for u using that s by (simp add: every_entry_def)
  have rest: "establishes ?I (every_entry P) (bindP (liftDb m) (\<lambda>_.
      bindP (modifyP (\<lambda>s. s\<lparr>mg_runtimes := AList.update (ts_id session) (placeholder_entry session)
        (mg_runtimes s)\<rparr>)) (\<lambda>_. retP x)))"
    if "P (ts_id session) (placeholder_entry session)" for session x and m :: "session_event db"
    using that s
    by (intro establishes_bind [OF runtimes_liftDb keep])
       (auto simp: establishes_def bindP_run every_entry_def update_conv')
  obtain r d where c: "?create (mg_db s) = (r, d)" by fastforce
  show ?thesis
  proof (cases r)
    case (Inl e)
    with c show ?thesis
      by (simp add: create_session_def validate_dim_def guardP_def bindP_run liftDb_def keep s)
  next
    case (Inr session)
    note rest' = establishesD [OF rest [OF new [OF c [unfolded Inr]]], of "s\<lparr>mg_db := d\<rparr>"]
    have l: "liftDb ?create s = (Inr session, s\<lparr>mg_db := d\<rparr>)" using c Inr by (simp add: liftDb_def)
    show ?thesis
      by (simp add: create_session_def validate_dim_def guardP_def bindP_ret bindP_raise bindP_Inr [of "liftDb ?create", OF l]
          rest' s)
  qed
qed

definition entry_enabled :: "manager \<Rightarrow> mgr_label \<Rightarrow> bool" where
  "entry_enabled s l \<longleftrightarrow>
     (case l of
        ML_Start owner sid b \<Rightarrow> (\<forall>e. map_of (mg_runtimes s) sid = Some e \<longrightarrow> startable e)
      | ML_Forward sid \<Rightarrow> forward_room s sid
      | ML_Create req \<Rightarrow> (\<forall>session d. sessions_create \<lparr>cs_owner_id = cr_owner_id req,
          cs_server_profile_id = cr_server_profile_id req, cs_status = TS_Starting,
          cs_cols = cr_cols req, cs_rows = cr_rows req\<rparr> (mg_db s) = (Inr session, d) \<longrightarrow>
          P (ts_id session) (placeholder_entry session))
      | _ \<Rightarrow> True)"

lemma every_env:
  "every_entry P s \<Longrightarrow> every_entry P (s\<lparr>mg_db := d\<rparr>)"
  by (simp add: every_entry_def)

lemma every_step: "every_entry P s \<Longrightarrow> entry_enabled s l \<Longrightarrow> every_entry P (mgr_step s l)"
  by (cases l)
     (simp_all add: entry_enabled_def every_env every_drive every_forward every_start every_create
        every_record_pty_start_failed [THEN preservesD] every_close_session [THEN preservesD]
        every_attach_session [THEN preservesD] every_write_pty_input [THEN preservesD]
        every_resize_session [THEN preservesD] every_apply_pty_resize [THEN preservesD]
        every_detach_session [THEN preservesD] every_detach_attachment [THEN preservesD]
        every_expire [THEN preservesD] every_orphan_teardown [THEN preservesD])

end

section \<open>Ownership of runtimes\<close>

definition entry_owner :: "(terminal_session_id \<Rightarrow> user_id option) \<Rightarrow> terminal_session_id \<Rightarrow> runtime_entry \<Rightarrow> bool" where
  "entry_owner ow sid e \<longleftrightarrow> ow sid = Some (rt_owner_id (re_snapshot e))"

interpretation owner_reg: entry_invariant "entry_owner ow" "\<lambda>_. True" "\<lambda>_ _. True" for ow
  by unfold_locales
     (simp_all add: entry_owner_def forward_output_def Let_def split: option.splits)

definition row_owner :: "session_db \<Rightarrow> terminal_session_id \<Rightarrow> user_id option" where
  "row_owner d sid = map_option ts_owner_id (session_row d sid)"

definition owners_agree :: "manager \<Rightarrow> bool" where
  "owners_agree s \<longleftrightarrow> fresh_ids (mg_db s) \<and> every_entry (entry_owner (row_owner (mg_db s))) s"

lemma sessions_create_owner:
  assumes "sessions_create input d = (Inr session, d')" and "fresh_ids d"
  shows "row_owner d' (ts_id session) = Some (ts_owner_id session)"
proof -
  have "db_next_id d \<notin> ts_id ` set (db_sessions d)"
    using assms(2) by (auto simp: fresh_ids_def)
  note find_append_fresh [OF this]
  with assms(1) show ?thesis
    by (auto simp: sessions_create_def db_call_def row_owner_def session_row_def Let_def
        split: list.splits option.splits if_splits)
qed

lemma create_session_owner:
  assumes c: "sessions_create \<lparr>cs_owner_id = cr_owner_id req,
        cs_server_profile_id = cr_server_profile_id req, cs_status = TS_Starting,
        cs_cols = cr_cols req, cs_rows = cr_rows req\<rparr> (mg_db s) = (Inr session, d)"
    and f: "fresh_ids (mg_db s)"
  shows "row_owner (mg_db (snd (create_session req s))) (ts_id session) = Some (ts_owner_id session)"
proof -
  let ?create = "sessions_create \<lparr>cs_owner_id = cr_owner_id req,
        cs_server_profile_id = cr_server_profile_id req, cs_status = TS_Starting,
        cs_cols = cr_cols req, cs_rows = cr_rows req\<rparr>"
  let ?u = "s\<lparr>mg_db := d\<rparr>"
  from c have dims: "dims_chk (cr_cols req)" "dims_chk (cr_rows req)"
    by (auto simp: sessions_create_def db_call_def split: list.splits option.splits if_splits)
  have l: "liftDb ?create s = (Inr session, ?u)" using c by (simp add: liftDb_def)
  have o: "owner_is (ts_id session) (ts_owner_id session) (mg_db ?u)"
    using sessions_create_owner [OF c f] by (simp add: owner_is_def row_owner_def)
  have "preserves (owners.held (ts_id session) (ts_owner_id session))
     (bindP (liftDb (events_create (ts_id session) EV_Created p)) (\<lambda>_.
      bindP (modifyP (\<lambda>s. s\<lparr>mg_runtimes := AList.update (ts_id session) (placeholder_entry session)
        (mg_runtimes s)\<rparr>)) (\<lambda>_. retP x)))" for p and x :: create_session_outcome
    by (intro owners.held_rules owners.held_modify) simp
  note rest = preservesD [OF this, of ?u, unfolded owners.held_def, OF o]
  show ?thesis
    using dims rest
    by (simp add: create_session_def validate_dim_def dims_chk_def MIN_DIM_def MAX_DIM_def bindP_ret
        bindP_Inr [of "liftDb ?create", OF l] owner_is_def row_owner_def)
qed

lemma owners_agree_step:
  assumes "owners_agree s"
  shows "owners_agree (mgr_step s l)"
proof -
  let ?d = "mg_db (mgr_step s l)"
  have fresh: "fresh_ids (mg_db s)" "fresh_ids ?d"
    using assms ids.held_step [of s l] by (simp_all add: owners_agree_def ids.held_def)
  have "row_owner ?d sid = Some ow" if "row_owner (mg_db s) sid = Some ow" for sid ow
    using that owners.held_step [of sid ow s l] by (simp add: owners.held_def owner_is_def row_owner_def)
  then have "every_entry (entry_owner (row_owner ?d)) s"
    using assms by (auto simp: owners_agree_def every_entry_def entry_owner_def)
  moreover have "owner_reg.entry_enabled (row_owner ?d) s l"
  proof (cases l)
    case (ML_Create req)
    then show ?thesis
      using create_session_owner [OF _ fresh(1)]
      by (auto simp: owner_reg.entry_enabled_def entry_owner_def placeholder_entry_def)
  qed (simp_all add: owner_reg.entry_enabled_def owner_reg.forward_room_def)
  ultimately show ?thesis using fresh owner_reg.every_step by (simp add: owners_agree_def)
qed

interpretation owner_sys: step_machine mgr_step owners_agree "\<lambda>_ _. True"
  by unfold_locales (rule owners_agree_step)

text \<open>
  C4. The runtime registry never disagrees with the session table about ownership: after any
  run from an empty registry, a session whose row belongs to another user refuses keystrokes
  and PTY resizes as \<open>NotFound\<close> without touching the bridge, exactly like a session that has
  no runtime.
\<close>

theorem foreign_input_is_refused:
  assumes "fresh_ids (mg_db s0)" and "mg_runtimes s0 = []"
    and "row_owner (mg_db (foldl mgr_step s0 ls)) sid \<noteq> Some owner"
  shows "write_pty_input owner sid bytes (foldl mgr_step s0 ls) = (Inl ME_NotFound, foldl mgr_step s0 ls)
       \<and> apply_pty_resize owner sid c r (foldl mgr_step s0 ls) = (Inl ME_NotFound, foldl mgr_step s0 ls)"
proof -
  let ?s = "foldl mgr_step s0 ls"
  have "owners_agree ?s"
    using owner_sys.fold_step_invar [of s0 ls] assms(1,2)
    by (simp add: owners_agree_def every_entry_def)
  then have "live_handle_for owner sid ?s = Inl ME_NotFound"
    using assms(3)
    by (auto simp: live_handle_for_def owners_agree_def every_entry_def entry_owner_def split: option.splits)
  then show ?thesis
    by (simp add: write_pty_input_def apply_pty_resize_def bindP_run)
qed

section \<open>Live streams\<close>

definition stream_ok :: "terminal_session_id \<Rightarrow> runtime_entry \<Rightarrow> bool" where
  "stream_ok sid e \<longleftrightarrow>
     (case re_live e of
        None \<Rightarrow> True
      | Some lv \<Rightarrow> stamped (lv_output lv) \<and> re_next_seq e = Suc (length (lv_output lv))
          \<and> lv_last_seq lv = length (lv_output lv)
          \<and> lv_replay lv = foldl rb_push (rb_new REPLAY_DEFAULT) (lv_output lv))"

definition never_started :: "runtime_entry \<Rightarrow> bool" where
  "never_started e \<longleftrightarrow> re_next_seq e = 1"

definition stream_room :: "runtime_entry \<Rightarrow> byte list \<Rightarrow> bool" where
  "stream_room e bytes \<longleftrightarrow> re_next_seq e < u64_max \<and> length bytes \<le> i64_max"

lemma stamped_snoc:
  assumes "stamped h" and "length h < u64_max" and "length d \<le> i64_max"
  shows "stamped (h @ [\<lparr>of_seq = Suc (length h), of_data = d\<rparr>])"
  using assms by (simp add: stamped_def)

lemma stream_forward:
  assumes "stream_ok sid e" and "stream_room e bytes"
  shows "stream_ok sid (forward_output bytes e)"
proof (cases "re_live e")
  case None
  with assms show ?thesis by (simp add: forward_output_def stream_ok_def)
next
  case (Some lv)
  with assms have st: "stamped (lv_output lv)" and n: "re_next_seq e = Suc (length (lv_output lv))"
      and r: "lv_replay lv = foldl rb_push (rb_new REPLAY_DEFAULT) (lv_output lv)"
      and room: "Suc (length (lv_output lv)) < u64_max" "length bytes \<le> i64_max"
    by (simp_all add: stream_ok_def stream_room_def)
  have "wrapping_add_u64 (Suc (length (lv_output lv))) 1 = Suc (Suc (length (lv_output lv)))"
    using room by (simp add: wrapping_add_u64_def)
  moreover have "stamped (lv_output lv @ [\<lparr>of_seq = Suc (length (lv_output lv)), of_data = bytes\<rparr>])"
    using st room by (intro stamped_snoc) simp_all
  ultimately show ?thesis using Some n r by (simp add: forward_output_def stream_ok_def Let_def)
qed

interpretation stream_reg: entry_invariant stream_ok never_started stream_room
proof unfold_locales
  show "stream_ok sid e \<Longrightarrow> stream_room e bytes \<Longrightarrow> stream_ok sid (forward_output bytes e)" for sid e bytes
    by (rule stream_forward)
qed (auto simp: stream_ok_def never_started_def stream_room_def live_candidate_def stamped_def
      split: option.splits)

text \<open>
  What the callers guarantee: a PTY is bound once to a fresh placeholder, and the counter has
  room (it would take \<open>2\<^sup>6\<^sup>4\<close> frames to exhaust it).
\<close>

definition next_room :: "runtime_entry \<Rightarrow> bool" where
  "next_room e =
     (case re_live e of
        None \<Rightarrow> True
      | Some lv \<Rightarrow> (case pb_output_rx (lv_bridge lv) of
            PtyOutput bytes # _ \<Rightarrow> stream_room e bytes | _ \<Rightarrow> True))"

definition stream_enabled :: "manager \<Rightarrow> mgr_label \<Rightarrow> bool" where
  "stream_enabled s l =
     (case l of
        ML_Start owner sid b \<Rightarrow>
          (case map_of (mg_runtimes s) sid of Some e \<Rightarrow> never_started e | None \<Rightarrow> True)
      | ML_Forward sid \<Rightarrow> (case map_of (mg_runtimes s) sid of Some e \<Rightarrow> next_room e | None \<Rightarrow> True)
      | _ \<Rightarrow> True)"

lemma stream_enabled_entry: "stream_enabled s l \<Longrightarrow> stream_reg.entry_enabled s l"
  by (cases l)
     (auto simp: stream_enabled_def stream_reg.entry_enabled_def stream_reg.forward_room_def next_room_def
        stream_ok_def placeholder_entry_def)

interpretation stream_sys: step_machine mgr_step "every_entry stream_ok" stream_enabled
  by unfold_locales (rule stream_reg.every_step, assumption, rule stream_enabled_entry)

lemma stream_run:
  assumes "mg_runtimes s0 = []" and "legal mgr_step stream_enabled s0 ls"
    and "live_of sid (foldl mgr_step s0 ls) = Some lv"
  shows "stamped (lv_output lv)" and "lv_last_seq lv = length (lv_output lv)"
    and "lv_replay lv = foldl rb_push (rb_new REPLAY_DEFAULT) (lv_output lv)"
proof -
  have "every_entry stream_ok (foldl mgr_step s0 ls)"
    using assms(1,2) by (intro stream_sys.fold_step_invar) (simp_all add: every_entry_def)
  with assms(3) show "stamped (lv_output lv)" and "lv_last_seq lv = length (lv_output lv)"
    and "lv_replay lv = foldl rb_push (rb_new REPLAY_DEFAULT) (lv_output lv)"
    by (auto simp: live_of_def every_entry_def stream_ok_def split: option.splits)
qed

lemma stream_retains:
  assumes "mg_runtimes s0 = []" and "legal mgr_step stream_enabled s0 ls"
    and "live_of sid (foldl mgr_step s0 ls) = Some lv"
  shows "retains (lv_replay lv) (lv_output lv)"
  using stream_run [OF assms] by (simp add: ring_after REPLAY_DEFAULT_def)


section \<open>Detach windows\<close>

definition pending :: "terminal_session_id \<Rightarrow> manager \<Rightarrow> bool" where
  "pending sid s \<longleftrightarrow> detach_state sid s \<noteq> None"

text \<open>
  \<open>exclusive A B\<close>: no session has both a pending close and a registered client; the sessions in
  \<open>A\<close> have no pending close and those in \<open>B\<close> no registered client.
\<close>

definition exclusive :: "terminal_session_id set \<Rightarrow> terminal_session_id set \<Rightarrow> manager \<Rightarrow> bool" where
  "exclusive A B s \<longleftrightarrow> (\<forall>sid. pending sid s \<longrightarrow> \<not> any_attachment sid s)
     \<and> (\<forall>sid \<in> A. \<not> pending sid s) \<and> (\<forall>sid \<in> B. \<not> any_attachment sid s)"

definition calm :: "(manager \<Rightarrow> manager) \<Rightarrow> bool" where
  "calm f \<longleftrightarrow> (\<forall>s sid. (pending sid (f s) \<longrightarrow> pending sid s) \<and> (any_attachment sid (f s) \<longrightarrow> any_attachment sid s))"

lemma calm_modify: "calm f \<Longrightarrow> preserves (exclusive A B) (modifyP f)"
  by (rule preserves_modify) (auto simp: calm_def exclusive_def)

lemma pending_entry:
  "pending sid s \<longleftrightarrow> (\<exists>e lv. map_of (mg_runtimes s) sid = Some e \<and> re_live e = Some lv \<and> lv_detach_close lv \<noteq> None)"
  by (auto simp: pending_def detach_state_def live_of_def split: option.splits)

definition entry_pending :: "runtime_entry \<Rightarrow> bool" where
  "entry_pending e \<longleftrightarrow> (case re_live e of Some lv \<Rightarrow> lv_detach_close lv \<noteq> None | None \<Rightarrow> False)"

lemma pending_alt:
  "pending sid s \<longleftrightarrow> (case map_of (mg_runtimes s) sid of Some e \<Rightarrow> entry_pending e | None \<Rightarrow> False)"
  by (auto simp: pending_entry entry_pending_def split: option.splits)

lemma any_attachment_cong: "mg_attachments s = mg_attachments u \<Longrightarrow> any_attachment sid s = any_attachment sid u"
  by (simp add: any_attachment_def)

lemma calm_set_entry: "(\<And>e. entry_pending (f e) \<Longrightarrow> entry_pending e) \<Longrightarrow> calm (set_entry sid f)"
  by (auto simp: calm_def pending_alt map_of_set_entry split: option.splits
      intro: any_attachment_cong [THEN iffD1, rotated])

lemma calm_set_live: "(\<And>lv. lv_detach_close (g lv) \<noteq> None \<Longrightarrow> lv_detach_close lv \<noteq> None) \<Longrightarrow> calm (set_live sid g)"
  unfolding set_live_def by (rule calm_set_entry) (auto simp: entry_pending_def split: option.splits)

lemma calm_drop_runtime: "calm (drop_runtime sid)"
  by (auto simp: calm_def pending_alt map_of_drop_runtime split: option.splits
      intro: any_attachment_cong [THEN iffD1, rotated])

lemma calm_drop_attachments: "calm (drop_attachments sid)"
  by (auto simp: calm_def pending_alt any_attachment_def drop_attachments_def list_ex_iff)

lemma calm_delete_attachment: "calm (\<lambda>s. s\<lparr>mg_attachments := AList.delete aid (mg_attachments s)\<rparr>)"
  by (auto simp: calm_def pending_alt any_attachment_def list_ex_iff AList.delete_eq)

lemma calm_placeholder:
  "calm (\<lambda>s. s\<lparr>mg_runtimes := AList.update sid (placeholder_entry x) (mg_runtimes s)\<rparr>)"
  by (auto simp: calm_def pending_alt any_attachment_def update_conv' entry_pending_def placeholder_entry_def
      split: option.splits)

lemma calm_other:
  "(\<And>s. mg_runtimes (f s) = mg_runtimes s) \<Longrightarrow> (\<And>s. mg_attachments (f s) = mg_attachments s) \<Longrightarrow> calm f"
  by (simp add: calm_def pending_alt any_attachment_def)

lemma exclusive_liftDb: "preserves (exclusive A B) (liftDb m)"
  by (auto simp: preserves_def liftDb_def exclusive_def pending_alt any_attachment_def split: prod.splits sum.splits)

lemma exclusive_get_owned: "preserves (exclusive A B) (get_owned sid owner)"
  by (simp add: preserves_def get_owned_state exclusive_def pending_alt any_attachment_def)

lemma exclusive_utc_now: "preserves (exclusive A B) utc_now"
  unfolding utc_now_def by (rule preserves_read)

lemmas exclusive_rules = preserves_bind preserves_attempt preserves_read preserves_ret preserves_raise
  preserves_okOr preserves_guard preserves_if preserves_case_option preserves_case_sum
  preserves_case_list preserves_case_prod exclusive_get_owned exclusive_liftDb exclusive_utc_now
  calm_modify calm_drop_runtime calm_drop_attachments calm_delete_attachment calm_placeholder

lemma calm_start:
  "calm (set_entry sid (\<lambda>e. e\<lparr>re_snapshot := (re_snapshot e)\<lparr>rt_status := RT_Live\<rparr>,
     re_live := Some (live_candidate b w)\<rparr>))"
  by (rule calm_set_entry) (simp add: entry_pending_def live_candidate_def)

lemma calm_ended:
  "calm (set_entry sid (\<lambda>e. e\<lparr>re_live := None, re_snapshot := (re_snapshot e)\<lparr>rt_status := RT_Ended\<rparr>\<rparr>))"
  by (rule calm_set_entry) (simp add: entry_pending_def)

lemma calm_dims: "calm (set_entry sid (\<lambda>e. e\<lparr>re_snapshot := (re_snapshot e)\<lparr>rt_cols := c, rt_rows := r\<rparr>\<rparr>))"
  by (rule calm_set_entry) (simp add: entry_pending_def)

lemma entry_pending_event:
  "entry_pending (forward_event evt (e\<lparr>re_live := map_option take_event (re_live e)\<rparr>)) = entry_pending e"
  by (cases "re_live e")
     (auto simp: entry_pending_def forward_event_def forward_output_def take_event_def Let_def
        split: ssh_pty_event.splits)

lemma exclusive_forward_teardown: "preserves (exclusive A B) (forward_teardown sid owner r)"
  unfolding forward_teardown_def by (intro exclusive_rules)

lemma exclusive_remove_and_shutdown: "preserves (exclusive A B) (remove_and_shutdown sid)"
  unfolding remove_and_shutdown_def shutdown_runtime_def
  by (intro exclusive_rules exclusive_forward_teardown calm_other) simp_all

lemma exclusive_close_session: "preserves (exclusive A B) (close_session sid owner)"
  unfolding close_session_def by (intro exclusive_rules exclusive_remove_and_shutdown)

lemma exclusive_create_session: "preserves (exclusive A B) (create_session req)"
  unfolding create_session_def validate_dim_def by (intro exclusive_rules)

lemma exclusive_orphans: "exclusive A B (t\<lparr>mg_orphans := os\<rparr>) = exclusive A B t"
  by (simp add: exclusive_def pending_alt any_attachment_def)

lemma exclusive_orphan: "preserves (exclusive A B) m \<Longrightarrow> preserves (exclusive A B) (orphan_forwarder sid owner m)"
  by (fastforce simp: preserves_def orphan_forwarder_def exclusive_orphans split: prod.splits sum.splits)

lemma exclusive_start_live_pty: "preserves (exclusive A B) (start_live_pty owner sid b)"
  unfolding start_live_pty_def by (intro exclusive_rules exclusive_orphan calm_start)

lemma exclusive_record_pty_start_failed: "preserves (exclusive A B) (record_pty_start_failed owner sid c)"
  unfolding record_pty_start_failed_def by (intro exclusive_rules calm_ended)

lemma exclusive_detach_session: "preserves (exclusive A B) (detach_session owner sid aid q)"
  unfolding detach_session_def by (intro exclusive_rules)

lemma exclusive_resize_session: "preserves (exclusive A B) (resize_session owner sid c r)"
  unfolding resize_session_def validate_dim_def
  by (intro exclusive_rules calm_dims calm_set_live) simp_all

lemma exclusive_with_bridge: "preserves (exclusive A B) (with_bridge sid call lv)"
  unfolding with_bridge_def Let_def by (intro exclusive_rules calm_set_live) simp

lemma exclusive_write_pty_input: "preserves (exclusive A B) (write_pty_input owner sid bytes)"
  unfolding write_pty_input_def by (intro exclusive_rules exclusive_with_bridge)

lemma exclusive_apply_pty_resize: "preserves (exclusive A B) (apply_pty_resize owner sid c r)"
  unfolding apply_pty_resize_def by (intro exclusive_rules exclusive_with_bridge)

lemma exclusive_expire: "preserves (exclusive A B) (expire_detach_close sid owner)"
  unfolding expire_detach_close_def by (intro exclusive_rules exclusive_close_session)

lemma exclusive_forward: "preserves (exclusive A B) (forward_pty_output sid)"
  unfolding forward_pty_output_def
  by (intro exclusive_rules exclusive_forward_teardown calm_set_live calm_set_entry)
     (simp_all add: entry_pending_event)

lemma exclusive_orphan_teardown: "preserves (exclusive A B) orphan_teardown"
  unfolding orphan_teardown_def by (intro exclusive_rules exclusive_forward_teardown calm_other) simp_all

text \<open>Cancelling establishes that nothing is pending, which the rest of an attach relies on.\<close>

lemma cancel_establishes:
  "establishes (exclusive {} {}) (exclusive {sid} {}) (cancel_pending_close sid)"
proof (rule establishesI)
  fix s assume "exclusive {} {} s"
  moreover have "calm (set_live sid (\<lambda>lv. lv\<lparr>lv_detach_close := None\<rparr>))" by (rule calm_set_live) simp
  moreover have "\<not> pending sid (set_live sid (\<lambda>lv. lv\<lparr>lv_detach_close := None\<rparr>) s)"
    by (auto simp: pending_alt set_live_def map_of_set_entry entry_pending_def split: option.splits)
  ultimately show "exclusive {sid} {} (snd (cancel_pending_close sid s))"
    by (auto simp: cancel_pending_close_def bindP_run exclusive_def calm_def)
qed

lemma set_update_subset: "set (AList.update k v xs) \<subseteq> insert (k, v) (set xs)"
  by (induction xs) auto

lemma register_ok:
  "exclusive {sid} {} s \<Longrightarrow> at_session_id a = sid \<Longrightarrow>
   exclusive {sid} {} (s\<lparr>mg_attachments := AList.update aid a (mg_attachments s)\<rparr>)"
  using set_update_subset [of aid a "mg_attachments s"]
  by (fastforce simp: exclusive_def pending_alt any_attachment_def list_ex_iff)

lemma attach_finish_ok:
  "ts_id session = sid \<Longrightarrow> preserves (exclusive {sid} {}) (attach_finish req (session, w))"
  unfolding attach_finish_def Let_def prod.case
  by (intro exclusive_rules preserves_modify register_ok) simp_all

lemma exclusive_attach_session: "preserves (exclusive {} {}) (attach_session req)"
proof (rule preservesI)
  fix s assume s: "exclusive {} {} s"
  have weaken: "exclusive {sid} {} u \<Longrightarrow> exclusive {} {} u" for sid u by (simp add: exclusive_def)
  have finish: "exclusive {} {} (snd (bindP (cancel_pending_close (ts_id x)) (\<lambda>w. attach_finish req (x, w)) u))"
    if "exclusive {} {} u" for x u
  proof -
    obtain r v where c: "cancel_pending_close (ts_id x) u = (r, v)" by fastforce
    with establishesD [OF cancel_establishes that, of "ts_id x"] have v: "exclusive {ts_id x} {} v" by simp
    show ?thesis
    proof (cases r)
      case (Inr w)
      have "exclusive {ts_id x} {} (snd (attach_finish req (x, w) v))"
        by (rule preservesD [OF attach_finish_ok [OF refl] v])
      with c Inr weaken show ?thesis by (simp add: bindP_run)
    qed (use c v weaken in \<open>simp add: bindP_run\<close>)
  qed
  then have "establishes (exclusive {} {}) (exclusive {} {}) (attach_session req)"
    unfolding attach_session_gate
    by (intro establishes_bind [OF exclusive_get_owned] establishes_if establishes_stop)
       (simp_all add: establishes_def)
  then show "exclusive {} {} (snd (attach_session req s))" using s by (rule establishesD)
qed

lemma schedule_ok: "preserves (exclusive {} {sid}) (schedule_detach_close sid)"
proof -
  have "exclusive {} {sid} (set_live sid f s)" if "exclusive {} {sid} s" for f s
    using that
    by (auto simp: exclusive_def pending_alt set_live_def map_of_set_entry any_attachment_def split: if_splits)
  then show ?thesis unfolding schedule_detach_close_def Let_def
    by (intro exclusive_rules preserves_modify)
qed

lemma exclusive_detach_attachment: "preserves (exclusive {} {}) (detach_attachment owner sid aid q)"
proof (rule preservesI)
  fix s assume s: "exclusive {} {} s"
  have rest: "exclusive {} {} (snd (bindP
      (readP (\<lambda>s. \<not> do_already_detached x \<and> \<not> any_attachment sid s \<and> live_of sid s \<noteq> None)) (\<lambda>should.
      bindP (if should then schedule_detach_close sid else retP None) (\<lambda>p.
      retP \<lparr>dt_detach = x, dt_detached_pending_close = p\<rparr>)) u))" if "exclusive {} {} u" for x u
  proof -
    have "exclusive {} {} (snd (schedule_detach_close sid u))" if "\<not> any_attachment sid u"
      using preservesD [OF schedule_ok, of sid u] \<open>exclusive {} {} u\<close> that by (simp add: exclusive_def)
    then show ?thesis using that by (auto simp: bindP_run split: prod.splits sum.splits)
  qed
  have "establishes (exclusive {} {}) (exclusive {} {}) (detach_attachment owner sid aid q)"
    unfolding detach_attachment_def
    by (rule establishes_bind, rule exclusive_detach_session, assumption, rule establishesI, rule rest)
  then show "exclusive {} {} (snd (detach_attachment owner sid aid q s))" using s by (rule establishesD)
qed

lemma exclusive_env:
  "exclusive {} {} s \<Longrightarrow> exclusive {} {} (set_live sid (drive_live d) s)"
  "exclusive {} {} s \<Longrightarrow> exclusive {} {} (s\<lparr>mg_db := db\<rparr>)"
  using calm_set_live [of "drive_live d" sid]
  by (auto simp: exclusive_def calm_def drive_live_def pending_alt any_attachment_def)

interpretation detach_window: step_machine mgr_step "exclusive {} {}" "\<lambda>_ _. True"
proof unfold_locales
  fix s l assume "exclusive {} {} s"
  then show "exclusive {} {} (mgr_step s l)"
    by (cases l)
       (simp_all add: exclusive_env exclusive_create_session [THEN preservesD]
          exclusive_start_live_pty [THEN preservesD] exclusive_record_pty_start_failed [THEN preservesD]
          exclusive_close_session [THEN preservesD] exclusive_attach_session [THEN preservesD]
          exclusive_write_pty_input [THEN preservesD] exclusive_resize_session [THEN preservesD]
          exclusive_apply_pty_resize [THEN preservesD] exclusive_detach_session [THEN preservesD]
          exclusive_detach_attachment [THEN preservesD] exclusive_expire [THEN preservesD]
          exclusive_forward [THEN preservesD] exclusive_orphan_teardown [THEN preservesD])
qed

text \<open>
  The detach timer never threatens an attached client as long as operations do not overlap:
  whatever sequence of operations (each run to its end before the next), forwarder turns,
  timer expiries and database failures runs from an empty manager, a session
  with a pending TTL close has no registered attachment, and so the expiry of a session with a
  registered attachment does nothing.
\<close>

theorem pending_close_excludes_clients:
  assumes "mg_runtimes s0 = []" and "mg_attachments s0 = []"
  shows "(detach_state sid (foldl mgr_step s0 ls) \<noteq> None \<longrightarrow> \<not> any_attachment sid (foldl mgr_step s0 ls))
       \<and> (any_attachment sid (foldl mgr_step s0 ls) \<longrightarrow>
            expire_detach_close sid owner (foldl mgr_step s0 ls) = (Inr (), foldl mgr_step s0 ls))"
proof -
  have "exclusive {} {} s0"
    using assms by (simp add: exclusive_def pending_alt)
  then have "exclusive {} {} (foldl mgr_step s0 ls)"
    by (rule detach_window.fold_step_invar) simp
  then show ?thesis
    by (auto simp: exclusive_def pending_def expire_detach_close_def bindP_run)
qed

end
