(* ===== verification/Session_Behaviour.thy ===== *)
theory Session_Behaviour
  imports Session_Invariants
begin

text \<open>
  What each lifecycle operation of the session manager does on its success branch, and the
  runs in which the manager departs from its own documentation.
\<close>

section \<open>Runs without database failures\<close>

definition no_faults :: "manager \<Rightarrow> bool" where
  "no_faults s \<longleftrightarrow> db_faults (mg_db s) = []"

lemma pop_fault_id: "no_faults s \<Longrightarrow> pop_fault s = s"
  by (simp add: pop_fault_def no_faults_def)

lemma get_owned_ok:
  "no_faults s \<Longrightarrow> session_row (mg_db s) sid = Some r \<Longrightarrow> ts_owner_id r = owner \<Longrightarrow>
   get_owned sid owner s = (Inr r, s)"
  by (simp add: get_owned_run pop_fault_id owned_by_def no_faults_def)

definition put_status ::
  "terminal_session_id \<Rightarrow> terminal_session_status \<Rightarrow> instant option \<Rightarrow> manager \<Rightarrow> manager" where
  "put_status sid st c s = s\<lparr>mg_db := (mg_db s)\<lparr>db_sessions := map (\<lambda>r. if ts_id r = sid
      then r\<lparr>ts_status := st, ts_closed_at := c, ts_last_seen_at := db_now (mg_db s)\<rparr> else r)
      (db_sessions (mg_db s))\<rparr>\<rparr>"

definition put_event :: "terminal_session_id \<Rightarrow> session_event_kind \<Rightarrow> json \<Rightarrow> manager \<Rightarrow> manager" where
  "put_event sid k p s = s\<lparr>mg_db := (mg_db s)\<lparr>db_events := db_events (mg_db s) @
      [\<lparr>se_session_id = sid, se_kind = k, se_payload = p, se_recorded_at = db_now (mg_db s)\<rparr>]\<rparr>\<rparr>"

lemma set_status_ok:
  "no_faults s \<Longrightarrow> session_row (mg_db s) sid \<noteq> None \<Longrightarrow>
   liftDb (sessions_set_status sid st c) s = (Inr (), put_status sid st c s)"
  by (simp add: liftDb_def sessions_set_status_def db_call_def no_faults_def put_status_def)

lemma events_create_ok:
  "no_faults s \<Longrightarrow> session_row (mg_db s) sid \<noteq> None \<Longrightarrow>
   \<exists>e. liftDb (events_create sid k p) s = (Inr e, put_event sid k p s)"
  by (auto simp: liftDb_def events_create_def db_call_def no_faults_def put_event_def Let_def)

lemma put_simps [simp]:
  "no_faults (put_status sid st c s) = no_faults s" "no_faults (put_event sid k p s) = no_faults s"
  "mg_runtimes (put_status sid st c s) = mg_runtimes s" "mg_runtimes (put_event sid k p s) = mg_runtimes s"
  "mg_attachments (put_status sid st c s) = mg_attachments s" "mg_attachments (put_event sid k p s) = mg_attachments s"
  "mg_detach_ttl (put_status sid st c s) = mg_detach_ttl s" "mg_detach_ttl (put_event sid k p s) = mg_detach_ttl s"
  "db_events (mg_db (put_status sid st c s)) = db_events (mg_db s)"
  "db_now (mg_db (put_status sid st c s)) = db_now (mg_db s)" "db_now (mg_db (put_event sid k p s)) = db_now (mg_db s)"
  "db_attachments (mg_db (put_status sid st c s)) = db_attachments (mg_db s)"
  "db_attachments (mg_db (put_event sid k p s)) = db_attachments (mg_db s)"
  "session_row (mg_db (put_event sid k p s)) sid' = session_row (mg_db s) sid'"
  "attachment_row (mg_db (put_event sid k p s)) aid = attachment_row (mg_db s) aid"
  "attachment_row (mg_db (put_status sid st c s)) aid = attachment_row (mg_db s) aid"
  "live_of sid' (put_status sid st c s) = live_of sid' s" "live_of sid' (put_event sid k p s) = live_of sid' s"
  by (simp_all add: put_status_def put_event_def no_faults_def session_row_def attachment_row_def live_of_def)

lemma row_put_status:
  "session_row (mg_db (put_status sid st c s)) sid' =
     (if sid' = sid then map_option (\<lambda>r. r\<lparr>ts_status := st, ts_closed_at := c,
        ts_last_seen_at := db_now (mg_db s)\<rparr>) (session_row (mg_db s) sid') else session_row (mg_db s) sid')"
  unfolding put_status_def by (simp add: set_status_row)

lemma events_put_event:
  "db_events (mg_db (put_event sid k p s)) = db_events (mg_db s) @
     [\<lparr>se_session_id = sid, se_kind = k, se_payload = p, se_recorded_at = db_now (mg_db s)\<rparr>]"
  by (simp add: put_event_def)

section \<open>Close\<close>

lemma teardown_closed:
  assumes "no_faults s" and "closed_in sid t s"
  shows "forward_teardown sid owner r s = (Inr (), s)"
  using assms
  by (auto simp: closed_in_def row_closed_def forward_teardown_def bindP_run attemptP_run liftDb_def
      sessions_get_def db_call_def no_faults_def split: list.splits option.splits)

lemma drop_simps [simp]:
  "no_faults (drop_runtime sid s) = no_faults s" "no_faults (shutdown_writer sid n w s) = no_faults s"
  "no_faults (drop_attachments sid s) = no_faults s"
  "closed_in sid' t (drop_runtime sid s) = closed_in sid' t s"
  "closed_in sid' t (drop_attachments sid s) = closed_in sid' t s"
  "closed_in sid' t (shutdown_writer sid n w s) = closed_in sid' t s"
  by (simp_all add: no_faults_def closed_in_def)

lemma remove_and_shutdown_closed:
  assumes "no_faults s" and "closed_in sid t s"
  shows "\<exists>u. remove_and_shutdown sid s = (Inr (), u) \<and> mg_db u = mg_db s
           \<and> mg_runtimes u = AList.delete sid (mg_runtimes s) \<and> mg_attachments u = mg_attachments s"
proof -
  have "forward_teardown sid ow r (drop_runtime sid s) = (Inr (), drop_runtime sid s)" for ow r
    using assms by (intro teardown_closed) simp_all
  then show ?thesis
    by (auto simp: remove_and_shutdown_def shutdown_runtime_def bindP_run drop_runtime_def
        split: option.splits)
qed

lemma close_session_run:
  assumes nf: "no_faults s" and row: "session_row (mg_db s) sid = Some r" and ow: "ts_owner_id r = owner"
    and open_row: "ts_status r \<noteq> TS_Closed"
  shows "\<exists>upd u. close_session sid owner s = (Inr \<lparr>cl_session = upd, cl_already_closed = False\<rparr>, u)
      \<and> mg_db u = mg_db (put_event sid EV_Closed (JObj [(''reason'', JStr ''client_requested'')])
            (put_status sid TS_Closed (Some (db_now (mg_db s))) s))
      \<and> mg_runtimes u = AList.delete sid (mg_runtimes s)
      \<and> mg_attachments u = filter (\<lambda>(_, a). at_session_id a \<noteq> sid) (mg_attachments s)"
proof -
  let ?p = "put_status sid TS_Closed (Some (db_now (mg_db s))) s"
  let ?e = "put_event sid EV_Closed (JObj [(''reason'', JStr ''client_requested'')]) ?p"
  let ?r = "r\<lparr>ts_status := TS_Closed, ts_closed_at := Some (db_now (mg_db s)), ts_last_seen_at := db_now (mg_db s)\<rparr>"
  have rows: "session_row (mg_db ?p) sid = Some ?r" using row by (simp add: row_put_status)
  note g1 = get_owned_ok [OF nf row ow]
  note st = set_status_ok [OF nf, of sid TS_Closed "Some (db_now (mg_db s))"]
  obtain x where ev: "liftDb (events_create sid EV_Closed (JObj [(''reason'', JStr ''client_requested'')])) ?p
      = (Inr x, ?e)"
    using events_create_ok [of ?p sid] nf rows by fastforce
  have g2: "get_owned sid owner ?e = (Inr ?r, ?e)"
    by (rule get_owned_ok) (simp_all add: nf rows ow)
  have "closed_in sid (db_now (mg_db s)) ?e" by (simp add: closed_in_def row_closed_def rows)
  then obtain u where u: "remove_and_shutdown sid ?e = (Inr (), u)" "mg_db u = mg_db ?e"
      "mg_runtimes u = AList.delete sid (mg_runtimes ?e)" "mg_attachments u = mg_attachments ?e"
    using remove_and_shutdown_closed [of ?e sid] nf by auto
  show ?thesis
    using g1 st ev g2 u open_row row
    by (simp add: close_session_def bindP_run utc_now_def drop_attachments_def)
qed

lemma close_closed_run:
  assumes "no_faults s" and "closed_in sid t s" and "row_owner (mg_db s) sid = Some owner"
  shows "\<exists>r u. close_session sid owner s = (Inr \<lparr>cl_session = r, cl_already_closed = True\<rparr>, u)
           \<and> mg_db u = mg_db s \<and> mg_runtimes u = AList.delete sid (mg_runtimes s)"
proof -
  obtain r where r: "session_row (mg_db s) sid = Some r" "ts_owner_id r = owner" "ts_status r = TS_Closed"
    using assms(2,3) by (auto simp: closed_in_def row_closed_def row_owner_def split: option.splits)
  obtain u where "remove_and_shutdown sid s = (Inr (), u)" "mg_db u = mg_db s"
      "mg_runtimes u = AList.delete sid (mg_runtimes s)"
    using remove_and_shutdown_closed [OF assms(1,2)] by blast
  then show ?thesis
    using get_owned_ok [OF assms(1) r(1,2)] r(3) by (simp add: close_session_def bindP_run)
qed

text \<open>
  Closing a session: the row becomes closed with the current time, exactly one \<open>closed\<close>
  event with reason \<open>client_requested\<close> is appended, the runtime and every attachment of the
  session leave the registries and those of other sessions stay; closing it again reports
  \<open>already_closed\<close> and changes no table.
\<close>

theorem close_session_effect:
  assumes "no_faults s" and "session_row (mg_db s) sid = Some r" and "ts_owner_id r = owner"
    and "ts_status r \<noteq> TS_Closed"
  shows "let (res, u) = close_session sid owner s in
           (\<exists>x. res = Inr \<lparr>cl_session = x, cl_already_closed = False\<rparr>)
           \<and> closed_in sid (db_now (mg_db s)) u
           \<and> db_events (mg_db u) = db_events (mg_db s) @ [\<lparr>se_session_id = sid, se_kind = EV_Closed,
               se_payload = JObj [(''reason'', JStr ''client_requested'')], se_recorded_at = db_now (mg_db s)\<rparr>]
           \<and> map_of (mg_runtimes u) = (map_of (mg_runtimes s))(sid := None)
           \<and> (\<forall>sid'. any_attachment sid' u \<longleftrightarrow> sid' \<noteq> sid \<and> any_attachment sid' s)
           \<and> (\<exists>x v. close_session sid owner u = (Inr \<lparr>cl_session = x, cl_already_closed = True\<rparr>, v)
                \<and> mg_db v = mg_db u)"
proof -
  obtain x u where c: "close_session sid owner s = (Inr \<lparr>cl_session = x, cl_already_closed = False\<rparr>, u)"
      and d: "mg_db u = mg_db (put_event sid EV_Closed (JObj [(''reason'', JStr ''client_requested'')])
            (put_status sid TS_Closed (Some (db_now (mg_db s))) s))"
      and rt: "mg_runtimes u = AList.delete sid (mg_runtimes s)"
      and att: "mg_attachments u = filter (\<lambda>(_, a). at_session_id a \<noteq> sid) (mg_attachments s)"
    using close_session_run [OF assms] by blast
  have cl: "closed_in sid (db_now (mg_db s)) u"
    using assms(2) by (simp add: closed_in_def row_closed_def d row_put_status)
  have "no_faults u" using assms(1) d by (simp add: no_faults_def put_event_def put_status_def)
  moreover have "row_owner (mg_db u) sid = Some owner"
    using assms(2,3) by (simp add: row_owner_def d row_put_status)
  ultimately have again: "\<exists>x v. close_session sid owner u = (Inr \<lparr>cl_session = x, cl_already_closed = True\<rparr>, v)
                \<and> mg_db v = mg_db u"
    using close_closed_run [OF _ cl] by blast
  have "any_attachment sid' u \<longleftrightarrow> sid' \<noteq> sid \<and> any_attachment sid' s" for sid'
    by (auto simp: any_attachment_def att list_ex_iff)
  with c cl again rt show ?thesis by (simp add: d events_put_event delete_conv')
qed

section \<open>The detach window\<close>

text \<open>A session with a live PTY whose only registered client is \<open>aid\<close>, still attached in the table.\<close>

definition sole_client :: "manager \<Rightarrow> terminal_session_id \<Rightarrow> user_id \<Rightarrow> attachment_id \<Rightarrow> bool" where
  "sole_client s sid owner aid \<longleftrightarrow>
     (case session_row (mg_db s) sid of Some r \<Rightarrow> ts_owner_id r = owner \<and> ts_status r \<noteq> TS_Closed | None \<Rightarrow> False)
     \<and> (case attachment_row (mg_db s) aid of
          Some a \<Rightarrow> sa_session_id a = sid \<and> sa_detached_at a = None | None \<Rightarrow> False)
     \<and> list_all (\<lambda>(k, a). at_session_id a = sid \<longrightarrow> k = aid) (mg_attachments s)
     \<and> (case live_of sid s of Some lv \<Rightarrow> lv_detach_close lv = None | None \<Rightarrow> False)"

definition put_detached :: "attachment_id \<Rightarrow> int option \<Rightarrow> manager \<Rightarrow> manager" where
  "put_detached aid q s = s\<lparr>mg_db := (mg_db s)\<lparr>db_attachments := map (\<lambda>r. if sa_id r = aid
      then stamp_detached (db_now (mg_db s)) q r else r) (db_attachments (mg_db s))\<rparr>\<rparr>"

lemma put_detached_simps [simp]:
  "no_faults (put_detached aid q s) = no_faults s" "mg_runtimes (put_detached aid q s) = mg_runtimes s"
  "mg_attachments (put_detached aid q s) = mg_attachments s"
  "session_row (mg_db (put_detached aid q s)) sid = session_row (mg_db s) sid"
  "db_now (mg_db (put_detached aid q s)) = db_now (mg_db s)"
  "db_events (mg_db (put_detached aid q s)) = db_events (mg_db s)"
  "mg_detach_ttl (put_detached aid q s) = mg_detach_ttl s"
  "live_of sid (put_detached aid q s) = live_of sid s"
  by (simp_all add: put_detached_def no_faults_def session_row_def live_of_def)

lemma mark_detached_ok:
  assumes "no_faults s" and "attachment_row (mg_db s) aid = Some a"
    and "case q of Some n \<Rightarrow> 0 \<le> n | None \<Rightarrow> True"
  shows "liftDb (sessions_mark_attachment_detached aid (db_now (mg_db s)) q) s = (Inr (), put_detached aid q s)"
  using assms
  by (auto simp: liftDb_def sessions_mark_attachment_detached_def db_call_def no_faults_def put_detached_def
      split: option.splits)

lemma get_attachment_ok:
  "no_faults s \<Longrightarrow> liftDb (sessions_get_attachment aid) s = (Inr (attachment_row (mg_db s) aid), s)"
  by (simp add: liftDb_def sessions_get_attachment_def db_call_def no_faults_def)

lemma detach_session_run:
  assumes nf: "no_faults s" and row: "session_row (mg_db s) sid = Some r" and ow: "ts_owner_id r = owner"
    and a: "attachment_row (mg_db s) aid = Some a" "sa_session_id a = sid" "sa_detached_at a = None"
    and q: "case q of Some n \<Rightarrow> 0 \<le> n | None \<Rightarrow> True"
  shows "\<exists>d. detach_session owner sid aid q s = (Inr d,
      (put_event sid EV_Detached (JObj [(''attachment_id'', JNum (int aid)), (''last_seen_seq'', opt_num q)])
        (put_detached aid q s))\<lparr>mg_attachments := AList.delete aid (mg_attachments s)\<rparr>)
      \<and> \<not> do_already_detached d"
proof -
  let ?m = "put_detached aid q s"
  let ?e = "put_event sid EV_Detached (JObj [(''attachment_id'', JNum (int aid)), (''last_seen_seq'', opt_num q)]) ?m"
  have sid: "ts_id r = sid" by (rule session_row_id [OF row])
  obtain x where ev: "liftDb (events_create sid EV_Detached
      (JObj [(''attachment_id'', JNum (int aid)), (''last_seen_seq'', opt_num q)])) ?m = (Inr x, ?e)"
    using events_create_ok [of ?m sid] nf row by fastforce
  have a': "attachment_row (mg_db ?e) aid = Some (stamp_detached (db_now (mg_db s)) q a)"
    using a(1) by (simp add: put_detached_def mark_detached_row)
  have "sa_session_id (stamp_detached (db_now (mg_db s)) q a) = sid" using a(2) by (simp add: stamp_detached_def)
  then show ?thesis
    using get_owned_ok [OF nf row ow] get_attachment_ok [OF nf, of aid] mark_detached_ok [OF nf a(1) q] ev
      get_attachment_ok [of ?e aid] nf a a' sid
    by (simp add: detach_session_def bindP_run utc_now_def)
qed

lemma schedule_run:
  assumes "no_faults s" and "session_row (mg_db s) sid \<noteq> None"
    and "live_of sid s = Some lv" and "lv_detach_close lv = None"
  shows "schedule_detach_close sid s =
     (Inr (Some \<lparr>di_detached_at = db_now (mg_db s), di_expires_at = db_now (mg_db s) + mg_detach_ttl s\<rparr>),
      set_live sid (\<lambda>lv. lv\<lparr>lv_detach_close :=
        Some \<lparr>di_detached_at = db_now (mg_db s), di_expires_at = db_now (mg_db s) + mg_detach_ttl s\<rparr>\<rparr>)
        (put_status sid TS_Detached None s))"
  using assms set_status_ok [OF assms(1,2), of TS_Detached None]
  by (simp add: schedule_detach_close_def bindP_run attemptP_run utc_now_def Let_def)

lemma set_live_simps [simp]:
  "no_faults (set_live sid f s) = no_faults s"
  "live_of sid' (set_live sid f s) = (if sid' = sid then map_option f (live_of sid s) else live_of sid' s)"
  by (auto simp: no_faults_def live_of_def set_live_def map_of_set_entry split: option.splits)

lemma any_attachment_simps [simp]:
  "any_attachment sid (set_live sid' f s) = any_attachment sid s"
  "any_attachment sid (put_status sid' st c s) = any_attachment sid s"
  "any_attachment sid (put_event sid' k p s) = any_attachment sid s"
  by (simp_all add: any_attachment_def)

text \<open>The state the last client of a live session leaves behind.\<close>

lemma detach_last_run:
  assumes "no_faults s" and "sole_client s sid owner aid" and q: "case q of Some n \<Rightarrow> 0 \<le> n | None \<Rightarrow> True"
    and info: "info = \<lparr>di_detached_at = db_now (mg_db s), di_expires_at = db_now (mg_db s) + mg_detach_ttl s\<rparr>"
  shows "\<exists>d u r. detach_attachment owner sid aid q s = (Inr \<lparr>dt_detach = d, dt_detached_pending_close = Some info\<rparr>, u)
      \<and> no_faults u \<and> session_row (mg_db u) sid = Some r \<and> ts_owner_id r = owner \<and> ts_status r = TS_Detached
      \<and> detach_state sid u = Some info \<and> \<not> any_attachment sid u \<and> detached_since aid (db_now (mg_db s)) (mg_db u)"
proof -
  let ?now = "db_now (mg_db s)"
  from assms(2) obtain r a lv where row: "session_row (mg_db s) sid = Some r" "ts_owner_id r = owner"
      and a: "attachment_row (mg_db s) aid = Some a" "sa_session_id a = sid" "sa_detached_at a = None"
      and sole: "list_all (\<lambda>(k, a). at_session_id a = sid \<longrightarrow> k = aid) (mg_attachments s)"
      and live: "live_of sid s = Some lv" "lv_detach_close lv = None"
    by (auto simp: sole_client_def split: option.splits)
  define w where "w = (put_event sid EV_Detached
      (JObj [(''attachment_id'', JNum (int aid)), (''last_seen_seq'', opt_num q)])
      (put_detached aid q s))\<lparr>mg_attachments := AList.delete aid (mg_attachments s)\<rparr>"
  obtain d where d: "detach_session owner sid aid q s = (Inr d, w)" "\<not> do_already_detached d"
    using detach_session_run [OF assms(1) row a q] unfolding w_def by blast
  have att: "\<not> any_attachment sid w"
    using sole by (auto simp: w_def any_attachment_def list_ex_iff list_all_iff AList.delete_eq)
  have "attachment_row (mg_db (put_detached aid q s)) aid = Some (stamp_detached ?now q a)"
    using a(1) by (simp add: put_detached_def mark_detached_row)
  then have since: "detached_since aid ?now (mg_db w)"
    using a(3) by (simp add: w_def detached_since_def put_event_def attachment_row_def stamp_detached_def coalesce_def)
  have w: "no_faults w" "session_row (mg_db w) sid = Some r" "db_now (mg_db w) = ?now"
      "mg_detach_ttl w = mg_detach_ttl s" "live_of sid w = Some lv"
    using assms(1) row live
    by (simp_all add: w_def no_faults_def put_event_def put_detached_def session_row_def live_of_def)
  define u where "u = set_live sid (\<lambda>lv. lv\<lparr>lv_detach_close := Some info\<rparr>) (put_status sid TS_Detached None w)"
  have "schedule_detach_close sid w = (Inr (Some info), u)"
    using schedule_run [OF w(1) _ w(5) live(2)] w info by (simp add: u_def)
  then have run: "detach_attachment owner sid aid q s = (Inr \<lparr>dt_detach = d, dt_detached_pending_close = Some info\<rparr>, u)"
    using d att w(5) by (simp add: detach_attachment_def bindP_run)
  have "session_row (mg_db u) sid = Some (r\<lparr>ts_status := TS_Detached, ts_closed_at := None, ts_last_seen_at := ?now\<rparr>)"
    using w(2,3) by (simp add: u_def row_put_status)
  moreover have "no_faults u" "detach_state sid u = Some info" "\<not> any_attachment sid u"
      "detached_since aid ?now (mg_db u)"
    using w att since by (simp_all add: u_def detach_state_def detached_since_def)
  ultimately show ?thesis using run row(2) by force
qed

lemma expire_run:
  assumes "no_faults u" and "session_row (mg_db u) sid = Some r" and "ts_owner_id r = owner"
    and "ts_status r \<noteq> TS_Closed" and "detach_state sid u = Some info"
  shows "let v = mgr_step (mgr_step u (ML_Clock later)) (ML_Expire sid owner)
         in closed_in sid later v \<and> map_of (mg_runtimes v) sid = None"
proof -
  define c where "c = u\<lparr>mg_db := (mg_db u)\<lparr>db_now := later\<rparr>\<rparr>"
  have c: "no_faults c" "session_row (mg_db c) sid = Some r" "detach_state sid c = Some info"
      "db_now (mg_db c) = later"
    using assms by (simp_all add: c_def no_faults_def session_row_def detach_state_def live_of_def)
  obtain x v where v: "close_session sid owner c = (Inr x, v)"
      and vd: "mg_db v = mg_db (put_event sid EV_Closed (JObj [(''reason'', JStr ''client_requested'')])
            (put_status sid TS_Closed (Some (db_now (mg_db c))) c))"
      and vr: "mg_runtimes v = AList.delete sid (mg_runtimes c)"
    using close_session_run [OF c(1,2) assms(3,4)] by auto
  have "expire_detach_close sid owner c = (Inr (), v)"
    using v c(3) by (simp add: expire_detach_close_def bindP_run attemptP_run)
  moreover have "closed_in sid later v"
    by (simp add: closed_in_def row_closed_def vd row_put_status c)
  ultimately show ?thesis using vr by (simp add: c_def delete_conv' Let_def)
qed

text \<open>
  C17. The detach window is bounded: when the last client of a live session detaches, the row
  becomes \<open>detached\<close>, the attachment is stamped, and a close is scheduled at the current time
  plus the TTL; when that timer fires with no reattach in between, the session is closed with
  the time of the expiry and its runtime is gone.
\<close>

theorem detach_window_is_bounded:
  assumes "no_faults s" and "sole_client s sid owner aid" and "case q of Some n \<Rightarrow> 0 \<le> n | None \<Rightarrow> True"
  shows "let (res, u) = detach_attachment owner sid aid q s;
             info = \<lparr>di_detached_at = db_now (mg_db s), di_expires_at = db_now (mg_db s) + mg_detach_ttl s\<rparr>;
             v = mgr_step (mgr_step u (ML_Clock later)) (ML_Expire sid owner)
         in (\<exists>d. res = Inr \<lparr>dt_detach = d, dt_detached_pending_close = Some info\<rparr>)
            \<and> map_option ts_status (session_row (mg_db u) sid) = Some TS_Detached
            \<and> detach_state sid u = Some info \<and> \<not> any_attachment sid u
            \<and> detached_since aid (db_now (mg_db s)) (mg_db u)
            \<and> closed_in sid later v \<and> map_of (mg_runtimes v) sid = None"
proof -
  let ?info = "\<lparr>di_detached_at = db_now (mg_db s), di_expires_at = db_now (mg_db s) + mg_detach_ttl s\<rparr>"
  obtain d u r where u: "detach_attachment owner sid aid q s
        = (Inr \<lparr>dt_detach = d, dt_detached_pending_close = Some ?info\<rparr>, u)" "no_faults u"
      "session_row (mg_db u) sid = Some r" "ts_owner_id r = owner" "ts_status r = TS_Detached"
      "detach_state sid u = Some ?info" "\<not> any_attachment sid u" "detached_since aid (db_now (mg_db s)) (mg_db u)"
    using detach_last_run [OF assms refl] by blast
  then show ?thesis
    using expire_run [OF u(2,3,4) _ u(6), of later] by (simp add: Let_def)
qed

section \<open>Reattach\<close>

definition put_attachment :: "terminal_session_id \<Rightarrow> string option \<Rightarrow> string option \<Rightarrow> manager \<Rightarrow> manager" where
  "put_attachment sid ci ra s = s\<lparr>mg_db := (mg_db s)\<lparr>db_attachments := db_attachments (mg_db s) @
      [\<lparr>sa_id = db_next_id (mg_db s), sa_session_id = sid, sa_attached_at = db_now (mg_db s),
        sa_detached_at = None, sa_client_info = ci, sa_remote_addr = ra, sa_last_seen_seq = None\<rparr>],
      db_next_id := Suc (db_next_id (mg_db s))\<rparr>\<rparr>"

lemma create_attachment_ok:
  "no_faults s \<Longrightarrow> session_row (mg_db s) sid \<noteq> None \<Longrightarrow>
   liftDb (sessions_create_attachment sid ci ra) s =
     (Inr \<lparr>sa_id = db_next_id (mg_db s), sa_session_id = sid, sa_attached_at = db_now (mg_db s),
        sa_detached_at = None, sa_client_info = ci, sa_remote_addr = ra, sa_last_seen_seq = None\<rparr>,
      put_attachment sid ci ra s)"
  by (simp add: liftDb_def sessions_create_attachment_def db_call_def no_faults_def put_attachment_def Let_def)

lemma put_attachment_simps [simp]:
  "no_faults (put_attachment sid ci ra s) = no_faults s"
  "mg_runtimes (put_attachment sid ci ra s) = mg_runtimes s"
  "mg_attachments (put_attachment sid ci ra s) = mg_attachments s"
  "session_row (mg_db (put_attachment sid ci ra s)) sid' = session_row (mg_db s) sid'"
  "db_events (mg_db (put_attachment sid ci ra s)) = db_events (mg_db s)"
  "db_now (mg_db (put_attachment sid ci ra s)) = db_now (mg_db s)"
  "live_of sid' (put_attachment sid ci ra s) = live_of sid' s"
  by (simp_all add: put_attachment_def no_faults_def session_row_def live_of_def)

lemma any_attachment_update:
  "at_session_id a = sid \<Longrightarrow> any_attachment sid (s\<lparr>mg_attachments := AList.update k a (mg_attachments s)\<rparr>)"
proof -
  have "(k, a) \<in> set (AList.update k a xs)" for xs by (induction xs) auto
  then show "at_session_id a = sid \<Longrightarrow> any_attachment sid (s\<lparr>mg_attachments := AList.update k a (mg_attachments s)\<rparr>)"
    by (auto simp: any_attachment_def list_ex_iff)
qed

lemma attach_finish_run:
  assumes nf: "no_faults s" and row: "session_row (mg_db s) sid = Some r" and sid: "ts_id x = sid"
    and live: "live_of sid s \<noteq> None"
  shows "\<exists>out u p1 p2. attach_finish req (x, True) s = (Inr out, u) \<and> ao_live out
      \<and> live_of sid u = live_of sid s
      \<and> map_option ts_status (session_row (mg_db u) sid) = Some TS_Active
      \<and> any_attachment sid u
      \<and> db_events (mg_db u) = db_events (mg_db s) @
          [\<lparr>se_session_id = sid, se_kind = EV_Attached, se_payload = p1, se_recorded_at = db_now (mg_db s)\<rparr>,
           \<lparr>se_session_id = sid, se_kind = EV_Reattached, se_payload = p2, se_recorded_at = db_now (mg_db s)\<rparr>]"
proof -
  let ?a = "put_attachment sid (ar_client_info req) (ar_remote_addr req) s"
  let ?id = "db_next_id (mg_db s)"
  let ?p1 = "JObj [(''attachment_id'', JNum (int ?id)), (''client_info'', opt_str (ar_client_info req)),
      (''remote_addr'', opt_str (ar_remote_addr req)), (''stub'', JBool False), (''live'', JBool True)]"
  let ?p2 = "JObj [(''attachment_id'', JNum (int ?id))]"
  let ?b = "put_event sid EV_Attached ?p1 ?a"
  let ?c = "put_status sid TS_Active None ?b"
  let ?d = "put_event sid EV_Reattached ?p2 ?c"
  obtain e1 where e1: "liftDb (events_create sid EV_Attached ?p1) ?a = (Inr e1, ?b)"
    using events_create_ok [of ?a sid] nf row by fastforce
  have st: "liftDb (sessions_set_status sid TS_Active None) ?b = (Inr (), ?c)"
    by (rule set_status_ok) (simp_all add: nf row)
  obtain e2 where e2: "liftDb (events_create sid EV_Reattached ?p2) ?c = (Inr e2, ?d)"
    using events_create_ok [of ?c sid] nf row by (fastforce simp: row_put_status)
  have ca: "liftDb (sessions_create_attachment sid (ar_client_info req) (ar_remote_addr req)) s =
     (Inr \<lparr>sa_id = ?id, sa_session_id = sid, sa_attached_at = db_now (mg_db s),
        sa_detached_at = None, sa_client_info = ar_client_info req, sa_remote_addr = ar_remote_addr req,
        sa_last_seen_seq = None\<rparr>, ?a)"
    by (rule create_attachment_ok) (simp_all add: nf row)
  define at where "at = \<lparr>at_id = ?id, at_session_id = sid, at_owner_id = ts_owner_id x,
      at_attached_at = db_now (mg_db s), at_client_info = ar_client_info req, at_remote_addr = ar_remote_addr req\<rparr>"
  define u where "u = ?d\<lparr>mg_attachments := AList.update ?id at (mg_attachments ?d)\<rparr>"
  obtain lv where "live_of sid s = Some lv" using live by blast
  then have "\<exists>out. attach_finish req (x, True) s = (Inr out, u) \<and> ao_live out"
    using ca e1 st e2 sid
    by (simp add: attach_finish_def Let_def bindP_run attemptP_run u_def at_def)
  moreover have "any_attachment sid u" unfolding u_def by (rule any_attachment_update) (simp add: at_def)
  moreover have "live_of sid u = live_of sid s" by (simp add: u_def live_of_def)
  moreover have "session_row (mg_db u) sid = session_row (mg_db ?c) sid" by (simp add: u_def)
  ultimately show ?thesis using row by (auto simp: u_def events_put_event row_put_status)
qed

text \<open>
  C35. Reattaching inside the detach window resumes the live session: the pending close is
  cancelled, the row is \<open>active\<close> again, the new attachment is registered, the log records
  \<open>attached\<close> and then \<open>reattached\<close>, and a late firing of the old timer does nothing.
\<close>

theorem reattach_resumes:
  assumes "no_faults s" and "session_row (mg_db s) sid = Some r" and "ts_owner_id r = owner"
    and "ts_status r \<noteq> TS_Closed" and "detach_state sid s = Some info"
  shows "let (res, u) = attach_session \<lparr>ar_owner_id = owner, ar_session_id = sid, ar_client_info = ci,
                                        ar_remote_addr = ra\<rparr> s
         in (\<exists>out. res = Inr out \<and> ao_live out)
            \<and> detach_state sid u = None \<and> any_attachment sid u
            \<and> map_option ts_status (session_row (mg_db u) sid) = Some TS_Active
            \<and> map se_kind (db_events (mg_db u)) = map se_kind (db_events (mg_db s)) @ [EV_Attached, EV_Reattached]
            \<and> expire_detach_close sid owner u = (Inr (), u)"
proof -
  let ?req = "\<lparr>ar_owner_id = owner, ar_session_id = sid, ar_client_info = ci, ar_remote_addr = ra\<rparr>"
  let ?c = "set_live sid (\<lambda>lv. lv\<lparr>lv_detach_close := None\<rparr>) s"
  have sid: "ts_id r = sid" by (rule session_row_id [OF assms(2)])
  obtain lv where lv: "live_of sid s = Some lv" "lv_detach_close lv = Some info"
    using assms(5) by (auto simp: detach_state_def split: option.splits)
  have "cancel_pending_close sid s = (Inr True, ?c)"
    using lv by (simp add: cancel_pending_close_def bindP_run)
  moreover obtain out u p1 p2 where u: "attach_finish ?req (r, True) ?c = (Inr out, u)" "ao_live out"
      "live_of sid u = live_of sid ?c"
      "map_option ts_status (session_row (mg_db u) sid) = Some TS_Active" "any_attachment sid u"
      "db_events (mg_db u) = db_events (mg_db ?c) @
          [\<lparr>se_session_id = sid, se_kind = EV_Attached, se_payload = p1, se_recorded_at = db_now (mg_db ?c)\<rparr>,
           \<lparr>se_session_id = sid, se_kind = EV_Reattached, se_payload = p2, se_recorded_at = db_now (mg_db ?c)\<rparr>]"
    using attach_finish_run [of ?c sid r r ?req] assms(1,2) sid lv by (auto simp: no_faults_def)
  ultimately have run: "attach_session ?req s = (Inr out, u)"
    using get_owned_ok [OF assms(1-3)] assms(4) sid by (simp add: attach_session_gate bindP_run)
  have "detach_state sid u = None" using u(3) lv by (simp add: detach_state_def)
  then show ?thesis
    using run u by (simp add: expire_detach_close_def bindP_run)
qed

section \<open>Runs against the documentation\<close>

text \<open>One user's session from creation to its first attachment, in an empty deployment.\<close>

definition empty_db :: session_db where
  "empty_db = \<lparr>db_sessions = [], db_attachments = [], db_events = [], db_chunks = [], db_markers = [],
     db_next_id = 0, db_now = 100, db_faults = []\<rparr>"

definition demo_manager :: manager where
  "demo_manager = manager_new empty_db DETACHED_LIVE_PTY_TTL"

definition demo_request :: attach_session_request where
  "demo_request = \<lparr>ar_owner_id = 7, ar_session_id = 0, ar_client_info = None, ar_remote_addr = None\<rparr>"

definition demo_attached :: "mgr_label list" where
  "demo_attached = [ML_Create \<lparr>cr_owner_id = 7, cr_server_profile_id = 3, cr_cols = 80, cr_rows = 24\<rparr>,
     ML_Start 7 0 bridge_start, ML_Attach demo_request]"


text \<open>
  Two overlapping attachments defeat the timer's protection: if the old client of a session
  detaches while a new one is between cancelling the pending close and registering itself, the
  new client ends up registered with a close pending, and the expiry of that timer closes the
  session under it.
\<close>

theorem overlapping_attach_is_closed_by_timer:
  "\<exists>s begun s1 out s3.
     s = foldl mgr_step demo_manager demo_attached
     \<and> attach_begin demo_request s = (Inr begun, s1)
     \<and> attach_finish demo_request begun (mgr_step s1 (ML_Detach 7 0 1 None)) = (Inr out, s3)
     \<and> any_attachment 0 s3 \<and> detach_state 0 s3 \<noteq> None
     \<and> closed_in 0 100 (mgr_step s3 (ML_Expire 0 7))"
proof (intro exI conjI)
  let ?s = "foldl mgr_step demo_manager demo_attached"
  let ?b = "attach_begin demo_request ?s"
  let ?f = "attach_finish demo_request (projr (fst ?b)) (mgr_step (snd ?b) (ML_Detach 7 0 1 None))"
  show "?s = foldl mgr_step demo_manager demo_attached" ..
  show "?b = (Inr (projr (fst ?b)), snd ?b)" by code_simp
  show "?f = (Inr (projr (fst ?f)), snd ?f)" by code_simp
  show "any_attachment 0 (snd ?f)" by code_simp
  show "detach_state 0 (snd ?f) \<noteq> None" by code_simp
  show "closed_in 0 100 (mgr_step (snd ?f) (ML_Expire 0 7))" by code_simp
qed

text \<open>
  A failed reattach leaks the PTY: if the database refuses the attachment row after the
  pending close was cancelled, the attach fails, and the live PTY is left with no client and no
  timer, so nothing closes it any more.
\<close>

theorem failed_reattach_leaks_pty:
  "\<exists>s e u. s = foldl mgr_step demo_manager (demo_attached @ [ML_Detach 7 0 1 None,
        ML_Faults [None, Some (RE_Database ''unavailable'')]])
     \<and> detach_state 0 s \<noteq> None
     \<and> attach_session demo_request s = (Inl e, u)
     \<and> live_of 0 u \<noteq> None \<and> \<not> any_attachment 0 u \<and> detach_state 0 u = None"
proof (intro exI conjI)
  let ?s = "foldl mgr_step demo_manager (demo_attached @ [ML_Detach 7 0 1 None,
        ML_Faults [None, Some (RE_Database ''unavailable'')]])"
  let ?a = "attach_session demo_request ?s"
  show "?s = foldl mgr_step demo_manager (demo_attached @ [ML_Detach 7 0 1 None,
        ML_Faults [None, Some (RE_Database ''unavailable'')]])" ..
  show "detach_state 0 ?s \<noteq> None" by code_simp
  show "?a = (Inl (projl (fst ?a)), snd ?a)" by code_simp
  show "live_of 0 (snd ?a) \<noteq> None" by code_simp
  show "\<not> any_attachment 0 (snd ?a)" by code_simp
  show "detach_state 0 (snd ?a) = None" by code_simp
qed

section \<open>Instances\<close>

theorem foreign_session_is_invisible_witness:
  "fst (close_session 0 8 (foldl mgr_step demo_manager demo_attached)) = Inl ME_NotFound
   \<and> fst (detach_session 8 0 1 None (foldl mgr_step demo_manager demo_attached)) = Inl ME_NotFound"
  using foreign_session_is_invisible [of 8 "foldl mgr_step demo_manager demo_attached" 0]
  by code_simp


theorem foreign_input_is_refused_witness:
  "fst (write_pty_input 8 0 [1] (foldl mgr_step demo_manager demo_attached)) = Inl ME_NotFound"
proof -
  have "write_pty_input 8 0 [1] (foldl mgr_step demo_manager demo_attached)
      = (Inl ME_NotFound, foldl mgr_step demo_manager demo_attached)"
  proof (rule conjunct1 [OF foreign_input_is_refused])
    show "fresh_ids (mg_db demo_manager)" by code_simp
    show "mg_runtimes demo_manager = []" by code_simp
    show "row_owner (mg_db (foldl mgr_step demo_manager demo_attached)) 0 \<noteq> Some 8" by code_simp
  qed
  then show ?thesis by simp
qed

theorem close_session_effect_witness:
  "closed_in 0 100 (snd (close_session 0 7 (foldl mgr_step demo_manager demo_attached)))"
proof -
  let ?s = "foldl mgr_step demo_manager demo_attached"
  let ?r = "the (session_row (mg_db ?s) 0)"
  have "no_faults ?s" by code_simp
  moreover have "session_row (mg_db ?s) 0 = Some ?r" by code_simp
  moreover have "ts_owner_id ?r = 7" by code_simp
  moreover have "ts_status ?r \<noteq> TS_Closed" by code_simp
  moreover have "db_now (mg_db ?s) = 100" by code_simp
  ultimately show ?thesis
    using close_session_effect [of ?s 0 ?r 7] by (simp add: Let_def split: prod.splits)
qed

theorem detach_window_is_bounded_witness:
  "closed_in 0 200 (mgr_step (mgr_step (snd (detach_attachment 7 0 1 (Some 4)
     (foldl mgr_step demo_manager demo_attached))) (ML_Clock 200)) (ML_Expire 0 7))"
proof -
  have "no_faults (foldl mgr_step demo_manager demo_attached)" by code_simp
  moreover have "sole_client (foldl mgr_step demo_manager demo_attached) 0 7 1" by code_simp
  ultimately show ?thesis
    using detach_window_is_bounded [of "foldl mgr_step demo_manager demo_attached" 0 7 1 "Some 4" 200]
    by (simp add: Let_def split: prod.splits)
qed

definition demo_detached :: manager where
  "demo_detached = foldl mgr_step demo_manager (demo_attached @ [ML_Detach 7 0 1 None])"

theorem reattach_resumes_witness:
  "detach_state 0 (snd (attach_session demo_request demo_detached)) = None"
proof -
  let ?r = "the (session_row (mg_db demo_detached) 0)"
  have "no_faults demo_detached" by code_simp
  moreover have "session_row (mg_db demo_detached) 0 = Some ?r" by code_simp
  moreover have "ts_owner_id ?r = 7" by code_simp
  moreover have "ts_status ?r \<noteq> TS_Closed" by code_simp
  moreover have "detach_state 0 demo_detached = Some (the (detach_state 0 demo_detached))" by code_simp
  ultimately show ?thesis
    using reattach_resumes [of demo_detached 0 ?r 7 "the (detach_state 0 demo_detached)" None None]
    by (simp add: Let_def demo_request_def split: prod.splits)
qed

theorem pending_close_excludes_clients_witness:
  "\<not> any_attachment 0 demo_detached"
proof -
  have "mg_runtimes demo_manager = []" by code_simp
  moreover have "mg_attachments demo_manager = []" by code_simp
  moreover have "detach_state 0 demo_detached \<noteq> None" by code_simp
  ultimately show ?thesis
    using pending_close_excludes_clients [of demo_manager 0 "demo_attached @ [ML_Detach 7 0 1 None]"]
    by (simp add: demo_detached_def)
qed

definition demo_streaming :: "mgr_label list" where
  "demo_streaming = demo_attached @ [ML_Drive 0 (DL_Msg (Some (CM_Data [104, 105]))),
     ML_Drive 0 (DL_Msg (Some (CM_Data [10]))), ML_Forward 0, ML_Forward 0]"


theorem history_is_append_only_witness:
  "take 2 (db_events (mg_db (mgr_step (foldl mgr_step demo_manager demo_attached) (ML_Close 0 7))))
     = db_events (mg_db (foldl mgr_step demo_manager demo_attached))"
proof -
  have "length (db_events (mg_db (foldl mgr_step demo_manager demo_attached))) = 2" by code_simp
  then show ?thesis
    using history_is_append_only [of "foldl mgr_step demo_manager demo_attached" "[ML_Close 0 7]"]
    by simp
qed

end
