(* ===== verification/Binary_Frame.thy ===== *)
theory Binary_Frame
  imports Relay_Prelude
begin

text \<open>
  The binary frame envelope of the terminal data plane (\<^verbatim>\<open>crates/relayterm-protocol/src/binary.rs\<close>).
  A frame is a twenty byte header (magic, kind, flags, reserved, big-endian sequence number and
  payload length) followed by the payload. The contract of encoder and decoder is the locale
  \<open>frame_codec\<close>, whose laws the interpretation at the end proves for the model of the code.
\<close>

section \<open>Big-endian integers\<close>

text \<open>
  \<open>to_be_bytes\<close> and \<open>from_be_bytes\<close> of the standard library, at any width: the \<open>k\<close> base-256
  digits of a number, most significant first, and the number a digit string denotes.
\<close>

fun be_bytes :: "nat \<Rightarrow> nat \<Rightarrow> byte list" where
  "be_bytes 0 n = []"
| "be_bytes (Suc k) n = be_bytes k (n div 256) @ [of_nat (n mod 256)]"

definition be_value :: "byte list \<Rightarrow> nat" where
  "be_value bs = foldl (\<lambda>a b. a * 256 + unat b) 0 bs"

section \<open>Frames\<close>

definition BINARY_MAGIC_V1 :: "byte list" where
  "BINARY_MAGIC_V1 = [0x52, 0x54, 0x42, 0x31]"

definition BINARY_HEADER_LEN :: nat where
  "BINARY_HEADER_LEN = 20"

definition MAX_PAYLOAD_LEN :: nat where
  "MAX_PAYLOAD_LEN = 1024 * 1024"

datatype binary_frame_kind = BF_Output | BF_Input

definition kind_from_u8 :: "byte \<Rightarrow> binary_frame_kind option" where
  "kind_from_u8 b = (if b = 0x01 then Some BF_Output else if b = 0x02 then Some BF_Input else None)"

primrec kind_as_u8 :: "binary_frame_kind \<Rightarrow> byte" where
  "kind_as_u8 BF_Output = 0x01"
| "kind_as_u8 BF_Input = 0x02"

record binary_frame =
  bf_kind :: binary_frame_kind
  bf_seq :: "64 word"
  bf_payload :: "byte list"

datatype binary_frame_decode_error =
    TruncatedHeader
  | BadMagic
  | NonZeroReserved
  | PayloadTooLarge
  | LengthMismatch
  | UnknownKind

definition encode_binary_frame ::
  "binary_frame_kind \<Rightarrow> 64 word \<Rightarrow> byte list \<Rightarrow> binary_frame_decode_error + byte list" where
  "encode_binary_frame kind seq payload =
     (if length payload > MAX_PAYLOAD_LEN then Inl PayloadTooLarge
      else Inr (BINARY_MAGIC_V1 @ [kind_as_u8 kind] @ [0] @ [0, 0]
                @ be_bytes 8 (unat seq) @ be_bytes 4 (length payload) @ payload))"

definition decode_binary_frame ::
  "byte list \<Rightarrow> binary_frame_decode_error + binary_frame" where
  "decode_binary_frame buf =
     (if length buf < BINARY_HEADER_LEN then Inl TruncatedHeader
      else if take 4 buf \<noteq> BINARY_MAGIC_V1 then Inl BadMagic
      else let kind_byte = buf ! 4;
               flags = buf ! 5;
               reserved = be_value [buf ! 6, buf ! 7] in
        if flags \<noteq> 0 \<or> reserved \<noteq> 0 then Inl NonZeroReserved
        else let seq = be_value (take 8 (drop 8 buf));
                 payload_len = be_value (take 4 (drop 16 buf)) in
          if payload_len > MAX_PAYLOAD_LEN then Inl PayloadTooLarge
          else if length buf \<noteq> BINARY_HEADER_LEN + payload_len then Inl LengthMismatch
          else case kind_from_u8 kind_byte of
            None \<Rightarrow> Inl UnknownKind
          | Some kind \<Rightarrow>
              Inr \<lparr>bf_kind = kind, bf_seq = of_nat seq, bf_payload = drop BINARY_HEADER_LEN buf\<rparr>)"

section \<open>Digit strings\<close>

lemma length_be_bytes [simp]: "length (be_bytes k n) = k"
  by (induction k n rule: be_bytes.induct) simp_all

lemma be_value_Nil [simp]: "be_value [] = 0"
  by (simp add: be_value_def)

lemma be_value_snoc [simp]: "be_value (bs @ [b]) = be_value bs * 256 + unat b"
  by (simp add: be_value_def)

lemma be_value_be_bytes: "be_value (be_bytes k n) = n mod 256 ^ k"
proof (induction k arbitrary: n)
  case 0
  then show ?case by simp
next
  case (Suc k)
  have "unat (of_nat (n mod 256) :: byte) = n mod 256"
    by (simp add: unat_of_nat)
  then have "be_value (be_bytes (Suc k) n) = (n div 256) mod 256 ^ k * 256 + n mod 256"
    using Suc.IH by simp
  also have "\<dots> = n mod 256 ^ Suc k"
    by (simp add: mod_mult2_eq mult.commute)
  finally show ?case .
qed

lemma be_value_bound: "be_value bs < 256 ^ length bs"
proof (induction bs rule: rev_induct)
  case Nil
  then show ?case by simp
next
  case (snoc b bs)
  have "unat b < 256" by (rule unat_byte_less)
  moreover from snoc have "Suc (be_value bs) * 256 \<le> 256 ^ length bs * 256"
    by (intro mult_le_mono1) simp
  ultimately show ?case by simp
qed

lemma be_bytes_be_value: "length bs = k \<Longrightarrow> be_bytes k (be_value bs) = bs"
proof (induction k arbitrary: bs)
  case 0
  then show ?case by simp
next
  case (Suc k)
  then obtain cs b where bs: "bs = cs @ [b]" and len: "length cs = k"
    by (metis append_butlast_last_id length_0_conv length_append_singleton nat.distinct(1) nat.inject)
  have "unat b < 256" by (rule unat_byte_less)
  then have "be_value bs div 256 = be_value cs" and "be_value bs mod 256 = unat b"
    by (simp_all add: bs)
  then show ?case using Suc.IH [OF len] by (simp add: bs)
qed

lemma be_value_pair_zero: "be_value [a, b] = 0 \<longleftrightarrow> a = 0 \<and> b = 0"
  by (auto simp: be_value_def unat_eq_0)

section \<open>The codec contract\<close>

locale frame_codec =
  fixes enc :: "'f \<Rightarrow> 'e + byte list"
    and dec :: "byte list \<Rightarrow> 'e + 'f"
  assumes dec_enc: "enc f = Inr bs \<Longrightarrow> dec bs = Inr f"
    and enc_dec: "dec bs = Inr f \<Longrightarrow> enc f = Inr bs"
begin

lemma dec_iff_enc: "dec bs = Inr f \<longleftrightarrow> enc f = Inr bs"
  using dec_enc enc_dec by blast

lemma enc_inj: "enc f = Inr bs \<Longrightarrow> enc g = Inr bs \<Longrightarrow> f = g"
  by (metis dec_enc sum.inject(2))

lemma dec_inj: "dec bs = Inr f \<Longrightarrow> dec cs = Inr f \<Longrightarrow> bs = cs"
  by (metis enc_dec sum.inject(2))

end

definition encode_frame :: "binary_frame \<Rightarrow> binary_frame_decode_error + byte list" where
  "encode_frame f = encode_binary_frame (bf_kind f) (bf_seq f) (bf_payload f)"

lemma kind_roundtrip [simp]: "kind_from_u8 (kind_as_u8 k) = Some k"
  by (cases k) (simp_all add: kind_from_u8_def)

lemma kind_from_u8_SomeD: "kind_from_u8 b = Some k \<Longrightarrow> b = kind_as_u8 k"
  by (auto simp: kind_from_u8_def split: if_splits)

text \<open>The four fields of the header sit at their offsets.\<close>

lemma header_fields:
  assumes "length s = 8" and "length l = 4"
  shows "take 4 (BINARY_MAGIC_V1 @ [k] @ [0] @ [0, 0] @ s @ l @ p) = BINARY_MAGIC_V1"
    and "(BINARY_MAGIC_V1 @ [k] @ [0] @ [0, 0] @ s @ l @ p) ! 4 = k"
    and "(BINARY_MAGIC_V1 @ [k] @ [0] @ [0, 0] @ s @ l @ p) ! 5 = 0"
    and "(BINARY_MAGIC_V1 @ [k] @ [0] @ [0, 0] @ s @ l @ p) ! 6 = 0"
    and "(BINARY_MAGIC_V1 @ [k] @ [0] @ [0, 0] @ s @ l @ p) ! 7 = 0"
    and "take 8 (drop 8 (BINARY_MAGIC_V1 @ [k] @ [0] @ [0, 0] @ s @ l @ p)) = s"
    and "take 4 (drop 16 (BINARY_MAGIC_V1 @ [k] @ [0] @ [0, 0] @ s @ l @ p)) = l"
    and "drop 20 (BINARY_MAGIC_V1 @ [k] @ [0] @ [0, 0] @ s @ l @ p) = p"
    and "length (BINARY_MAGIC_V1 @ [k] @ [0] @ [0, 0] @ s @ l @ p) = 20 + length p"
  using assms by (simp_all add: BINARY_MAGIC_V1_def)

lemma decode_of_encode:
  assumes "encode_binary_frame kind seq payload = Inr bs"
  shows "decode_binary_frame bs = Inr \<lparr>bf_kind = kind, bf_seq = seq, bf_payload = payload\<rparr>"
proof -
  from assms have len: "length payload \<le> MAX_PAYLOAD_LEN"
    and bs: "bs = BINARY_MAGIC_V1 @ [kind_as_u8 kind] @ [0] @ [0, 0]
                @ be_bytes 8 (unat seq) @ be_bytes 4 (length payload) @ payload"
    by (auto simp: encode_binary_frame_def split: if_splits)
  have seqv: "be_value (be_bytes 8 (unat seq)) = unat seq"
    using unat_u64_less [of seq] by (simp add: be_value_be_bytes)
  have lenv: "be_value (be_bytes 4 (length payload)) = length payload"
    using len by (simp add: be_value_be_bytes MAX_PAYLOAD_LEN_def)
  note f = header_fields [of "be_bytes 8 (unat seq)" "be_bytes 4 (length payload)"
      "kind_as_u8 kind" payload, simplified length_be_bytes, OF refl refl, folded bs]
  show ?thesis
    unfolding decode_binary_frame_def Let_def BINARY_HEADER_LEN_def
    using len by (simp add: f seqv lenv be_value_pair_zero del: drop_drop)
qed

text \<open>
  Any buffer of at least twenty bytes is its header fields followed by its payload.
\<close>

lemma header_split:
  assumes "length buf \<ge> 20"
  shows "buf = take 4 buf @ [buf ! 4] @ [buf ! 5] @ [buf ! 6, buf ! 7]
           @ take 8 (drop 8 buf) @ take 4 (drop 16 buf) @ drop 20 buf"
proof -
  have 1: "drop 16 buf = take 4 (drop 16 buf) @ drop 20 buf"
    using append_take_drop_id [of 4 "drop 16 buf"] by simp
  have 2: "drop 8 buf = take 8 (drop 8 buf) @ drop 16 buf"
    using append_take_drop_id [of 8 "drop 8 buf"] by simp
  have 3: "drop 4 buf = [buf ! 4] @ [buf ! 5] @ [buf ! 6, buf ! 7] @ drop 8 buf"
    using assms by (simp add: Cons_nth_drop_Suc [symmetric] eval_nat_numeral)
  show ?thesis
    using append_take_drop_id [of 4 buf] 1 2 3 by (metis append.assoc)
qed

text \<open>What a successful decode has checked.\<close>

lemma decode_InrD:
  assumes "decode_binary_frame buf = Inr f"
  shows "length buf \<ge> 20 \<and> take 4 buf = BINARY_MAGIC_V1 \<and> buf ! 5 = 0 \<and> buf ! 6 = 0 \<and> buf ! 7 = 0
    \<and> be_value (take 4 (drop 16 buf)) \<le> MAX_PAYLOAD_LEN
    \<and> length buf = 20 + be_value (take 4 (drop 16 buf))
    \<and> kind_from_u8 (buf ! 4) = Some (bf_kind f)
    \<and> bf_seq f = of_nat (be_value (take 8 (drop 8 buf))) \<and> bf_payload f = drop 20 buf"
proof -
  define l where "l = be_value (take 4 (drop 16 buf))"
  define q where "q = be_value (take 8 (drop 8 buf))"
  show ?thesis
    using assms
    unfolding decode_binary_frame_def BINARY_HEADER_LEN_def Let_def be_value_pair_zero
      l_def [symmetric] q_def [symmetric]
    by (simp split: if_splits option.splits) (auto simp only: not_less binary_frame.simps)
qed

lemma encode_of_decode:
  assumes "decode_binary_frame buf = Inr f"
  shows "encode_frame f = Inr buf"
proof -
  let ?s = "take 8 (drop 8 buf)" and ?l = "take 4 (drop 16 buf)"
  note d = decode_InrD [OF assms]
  from d have len: "length buf \<ge> 20" and magic: "take 4 buf = BINARY_MAGIC_V1"
    and flags: "buf ! 5 = 0" and res: "buf ! 6 = 0" "buf ! 7 = 0"
    and cap: "be_value ?l \<le> MAX_PAYLOAD_LEN"
    and total: "length buf = 20 + be_value ?l"
    and kind: "kind_from_u8 (buf ! 4) = Some (bf_kind f)"
    and fs: "bf_seq f = of_nat (be_value ?s)" and fp: "bf_payload f = drop 20 buf"
    by blast+
  have "be_value ?s < 2 ^ 64"
    using be_value_bound [of ?s] len by simp
  then have us: "unat (bf_seq f) = be_value ?s"
    by (simp add: fs unat_of_nat)
  have lp: "length (bf_payload f) = be_value ?l"
    unfolding fp length_drop total by (rule add_diff_cancel_left')
  have digits: "be_bytes 8 (be_value ?s) = ?s" "be_bytes 4 (be_value ?l) = ?l"
    using len by (simp_all add: be_bytes_be_value del: take_drop drop_drop)
  have "buf = BINARY_MAGIC_V1 @ [kind_as_u8 (bf_kind f)] @ [0] @ [0, 0]
           @ be_bytes 8 (unat (bf_seq f)) @ be_bytes 4 (length (bf_payload f)) @ bf_payload f"
    using header_split [OF len]
    unfolding magic flags res us lp [unfolded fp] digits fp kind_from_u8_SomeD [OF kind, symmetric] .
  then show ?thesis
    using cap lp by (simp only: encode_frame_def encode_binary_frame_def not_less [symmetric] if_False)
qed

interpretation rtb1: frame_codec encode_frame decode_binary_frame
proof unfold_locales
  show "encode_frame f = Inr bs \<Longrightarrow> decode_binary_frame bs = Inr f" for f bs
    by (auto simp: encode_frame_def dest: decode_of_encode)
  show "decode_binary_frame bs = Inr f \<Longrightarrow> encode_frame f = Inr bs" for f bs
    by (rule encode_of_decode)
qed


end
