(* ===== verification/Attach_Socket.thy ===== *)
theory Attach_Socket
  imports Session_Invariants Binary_Frame
begin

text \<open>
  The attached WebSocket of \<^verbatim>\<open>crates/relayterm-api/src/routes/v1/terminal_sessions.rs\<close>: the
  attach handshake, the client frames, the replay hand-over to the live fan-out and the cleanup
  on exit, over the session manager. JSON text is parsed by a library: a text frame is the
  parsed message, or nothing when it does not parse.
\<close>

section \<open>Wire messages\<close>

datatype proto_error_code =
    PC_InvalidMessage
  | PC_InvalidInput
  | PC_PtyNotImplemented
  | PC_PtyNotLive
  | PC_SshStartFailed
  | PC_Internal

primrec proto_error_as_str :: "proto_error_code \<Rightarrow> string" where
  "proto_error_as_str PC_InvalidMessage = ''invalid_message''"
| "proto_error_as_str PC_InvalidInput = ''invalid_input''"
| "proto_error_as_str PC_PtyNotImplemented = ''pty_not_implemented''"
| "proto_error_as_str PC_PtyNotLive = ''pty_not_live''"
| "proto_error_as_str PC_SshStartFailed = ''ssh_start_failed''"
| "proto_error_as_str PC_Internal = ''internal''"

datatype ack_kind = ACK_Resize

datatype session_attach_status = AttachedStub | AttachActive

datatype client_msg =
    CL_Ping
  | CL_Attach "nat option"
  | CL_Input "byte list"
  | CL_Resize nat nat
  | CL_Detach
  | CL_Close

datatype server_msg =
    SM_Pong
  | SM_SessionAttached terminal_session_id attachment_id session_attach_status string
  | SM_Ack ack_kind
  | SM_ReplayStart nat nat
  | SM_ReplayEnd nat
  | SM_ReplayWindowLost nat "nat option" nat
  | SM_SessionDetached terminal_session_id attachment_id
  | SM_SessionClosed terminal_session_id
  | SM_Error proto_error_code string

datatype ws_out = WO_Msg server_msg | WO_Binary "byte list" | WO_Close

datatype ws_in =
    WI_Text "client_msg option"
  | WI_Binary "byte list"
  | WI_PingPong
  | WI_Close
  | WI_None
  | WI_Err

section \<open>Socket state\<close>

text \<open>
  \<open>sk_live\<close> is the position of the broadcast subscription in \<open>sk_channel\<close>, everything sent so
  far on the channel it is bound to, which the socket keeps alive. \<open>sk_up\<close> says whether the
  transport still accepts frames, and \<open>sk_sent\<close> is everything it has accepted.
\<close>

record socket_state =
  sk_attachment_id :: attachment_id
  sk_detached :: bool
  sk_closed :: bool
  sk_live :: "nat option"
  sk_channel :: "output_frame list"
  sk_replay_handshake_done :: bool
  sk_min_live_seq :: nat
  sk_up :: bool
  sk_sent :: "ws_out list"

definition ws_send :: "ws_out \<Rightarrow> socket_state \<Rightarrow> bool \<times> socket_state" where
  "ws_send m sk = (if sk_up sk then (True, sk\<lparr>sk_sent := sk_sent sk @ [m]\<rparr>) else (False, sk))"

definition send_msg :: "server_msg \<Rightarrow> socket_state \<Rightarrow> bool \<times> socket_state" where
  "send_msg m sk = ws_send (WO_Msg m) sk"

definition send_binary_output :: "nat \<Rightarrow> byte list \<Rightarrow> socket_state \<Rightarrow> bool \<times> socket_state" where
  "send_binary_output seq d sk =
     (case encode_binary_frame BF_Output (of_nat seq) d of
        Inl _ \<Rightarrow> (True, sk)
      | Inr buf \<Rightarrow> ws_send (WO_Binary buf) sk)"

definition error_frame :: "manager_error \<Rightarrow> proto_error_code \<times> string" where
  "error_frame err =
     (case err of
        ME_InvalidDimensions _ _ \<Rightarrow> (PC_InvalidInput, ''invalid terminal dimensions'')
      | ME_NotFound \<Rightarrow> (PC_Internal, ''internal error'')
      | ME_SessionClosed \<Rightarrow> (PC_Internal, ''internal error'')
      | ME_PtyNotLive \<Rightarrow> (PC_PtyNotLive, ''no live pty for this session'')
      | ME_PtyStart _ \<Rightarrow> (PC_SshStartFailed, ''ssh pty error'')
      | ME_Repository _ \<Rightarrow> (PC_Internal, ''internal error''))"

definition send_error :: "manager_error \<Rightarrow> socket_state \<Rightarrow> socket_state" where
  "send_error err sk = (let (code, message) = error_frame err in snd (send_msg (SM_Error code message) sk))"

section \<open>Replay\<close>

fun emit_frames :: "output_frame list \<Rightarrow> socket_state \<Rightarrow> bool \<times> socket_state" where
  "emit_frames [] sk = (True, sk)"
| "emit_frames (f # fs) sk =
     (case send_binary_output (of_seq f) (of_data f) sk of
        (True, sk1) \<Rightarrow> emit_frames fs sk1
      | (False, sk1) \<Rightarrow> (False, sk1))"

definition emit_replay_range :: "replay_range \<Rightarrow> socket_state \<Rightarrow> socket_state" where
  "emit_replay_range rng sk =
     (if rr_frames rng = [] then sk
      else case send_msg (SM_ReplayStart (of_seq (hd (rr_frames rng))) (of_seq (last (rr_frames rng)))) sk of
             (False, sk1) \<Rightarrow> sk1
           | (True, sk1) \<Rightarrow>
               (case emit_frames (rr_frames rng) sk1 of
                  (False, sk2) \<Rightarrow> sk2
                | (True, sk2) \<Rightarrow> snd (send_msg (SM_ReplayEnd (rr_latest_seq rng)) sk2)))"

definition emit_replay_window_lost :: "replay_window_lost \<Rightarrow> socket_state \<Rightarrow> socket_state" where
  "emit_replay_window_lost lost sk =
     snd (send_msg (SM_ReplayWindowLost (wl_requested lost) (wl_oldest_available lost) (wl_latest lost)) sk)"

section \<open>Client frames\<close>

text \<open>A handler returns whether the loop goes on, and the two states.\<close>

definition pty_not_live :: server_msg where
  "pty_not_live = SM_Error PC_PtyNotLive ''no live pty for this session''"

definition handle_attach :: "terminal_session_id \<Rightarrow> nat option \<Rightarrow> manager \<Rightarrow> socket_state \<Rightarrow> socket_state" where
  "handle_attach sid last_seen_seq s sk =
     (if sk_replay_handshake_done sk then
        snd (send_msg (SM_Error PC_InvalidMessage ''already attached'') sk)
      else
        let sk1 = sk\<lparr>sk_replay_handshake_done := True\<rparr>;
            bookmark = (case last_seen_seq of Some n \<Rightarrow> if n > 0 then Some n else None | None \<Rightarrow> None)
        in case bookmark of
             None \<Rightarrow> sk1
           | Some _ \<Rightarrow>
               (case manager_replay_since sid bookmark s of
                  None \<Rightarrow> sk1
                | Some (Inr rng) \<Rightarrow>
                    emit_replay_range rng
                      (sk1\<lparr>sk_min_live_seq := max (sk_min_live_seq sk1) (rr_latest_seq rng)\<rparr>)
                | Some (Inl lost) \<Rightarrow>
                    emit_replay_window_lost lost
                      (sk1\<lparr>sk_min_live_seq := max (sk_min_live_seq sk1) (wl_latest lost)\<rparr>)))"

definition handle_input ::
  "user_id \<Rightarrow> terminal_session_id \<Rightarrow> byte list \<Rightarrow> manager \<Rightarrow> socket_state \<Rightarrow> manager \<times> socket_state" where
  "handle_input user_id sid bytes s sk =
     (if sk_live sk = None then (s, snd (send_msg pty_not_live sk))
      else case write_pty_input user_id sid bytes s of
             (Inr _, s1) \<Rightarrow> (s1, sk)
           | (Inl err, s1) \<Rightarrow> (s1, send_error err sk))"

definition handle_resize_msg ::
  "user_id \<Rightarrow> terminal_session_id \<Rightarrow> nat \<Rightarrow> nat \<Rightarrow> manager \<Rightarrow> socket_state \<Rightarrow> manager \<times> socket_state" where
  "handle_resize_msg user_id sid cols rows s sk =
     (case resize_session user_id sid cols rows s of
        (Inl err, s1) \<Rightarrow> (s1, send_error err sk)
      | (Inr _, s1) \<Rightarrow>
          (case apply_pty_resize user_id sid cols rows s1 of
             (Inr True, s2) \<Rightarrow> (s2, snd (send_msg (SM_Ack ACK_Resize) sk))
           | (Inr False, s2) \<Rightarrow> (s2, snd (send_msg pty_not_live sk))
           | (Inl err, s2) \<Rightarrow> (s2, send_error err sk)))"

definition handle_text_frame ::
  "user_id \<Rightarrow> terminal_session_id \<Rightarrow> client_msg option \<Rightarrow> manager \<times> socket_state
     \<Rightarrow> bool \<times> manager \<times> socket_state" where
  "handle_text_frame user_id sid parsed st =
     (let (s, sk) = st in
      case parsed of
        None \<Rightarrow> (True, s, snd (send_msg (SM_Error PC_InvalidMessage ''invalid message'') sk))
      | Some CL_Ping \<Rightarrow> (True, s, snd (send_msg SM_Pong sk))
      | Some (CL_Attach last_seen_seq) \<Rightarrow> (True, s, handle_attach sid last_seen_seq s sk)
      | Some (CL_Input bytes) \<Rightarrow> (True, handle_input user_id sid bytes s sk)
      | Some (CL_Resize cols rows) \<Rightarrow> (True, handle_resize_msg user_id sid cols rows s sk)
      | Some CL_Detach \<Rightarrow>
          (case detach_attachment user_id sid (sk_attachment_id sk) None s of
             (Inr out, s1) \<Rightarrow>
               (False, s1, snd (ws_send WO_Close (snd (send_msg
                  (SM_SessionDetached (ts_id (do_session (dt_detach out))) (sa_id (do_attachment (dt_detach out))))
                  (sk\<lparr>sk_detached := True\<rparr>)))))
           | (Inl err, s1) \<Rightarrow> (True, s1, send_error err sk))
      | Some CL_Close \<Rightarrow>
          (case close_session sid user_id s of
             (Inr out, s1) \<Rightarrow>
               (False, s1, snd (ws_send WO_Close (snd (send_msg
                  (SM_SessionClosed (ts_id (cl_session out)))
                  (sk\<lparr>sk_detached := True, sk_closed := True\<rparr>)))))
           | (Inl err, s1) \<Rightarrow> (True, s1, send_error err sk)))"

definition handle_binary_frame ::
  "user_id \<Rightarrow> terminal_session_id \<Rightarrow> byte list \<Rightarrow> manager \<times> socket_state
     \<Rightarrow> bool \<times> manager \<times> socket_state" where
  "handle_binary_frame user_id sid bytes st =
     (let (s, sk) = st in
      case decode_binary_frame bytes of
        Inl _ \<Rightarrow> (True, s, snd (send_msg (SM_Error PC_InvalidMessage ''invalid binary frame'') sk))
      | Inr frame \<Rightarrow>
          (case bf_kind frame of
             BF_Input \<Rightarrow> (True, handle_input user_id sid (bf_payload frame) s sk)
           | BF_Output \<Rightarrow>
               (True, s, snd (send_msg
                  (SM_Error PC_InvalidMessage ''client must not send output frames'') sk))))"

definition handle_recv_outcome ::
  "user_id \<Rightarrow> terminal_session_id \<Rightarrow> ws_in \<Rightarrow> manager \<times> socket_state \<Rightarrow> bool \<times> manager \<times> socket_state" where
  "handle_recv_outcome user_id sid frame st =
     (case frame of
        WI_Text parsed \<Rightarrow> handle_text_frame user_id sid parsed st
      | WI_Binary bytes \<Rightarrow> handle_binary_frame user_id sid bytes st
      | WI_PingPong \<Rightarrow> (True, st)
      | WI_Close \<Rightarrow> (False, st)
      | WI_None \<Rightarrow> (False, st)
      | WI_Err \<Rightarrow> (False, st))"

section \<open>Live frames\<close>

text \<open>
  The broadcast branch. A subscriber more than the channel's capacity behind skips to the
  oldest frame still held; the frames at or below the floor were replayed already.
\<close>

definition ATTACHMENT_FANOUT_CAPACITY :: nat where
  "ATTACHMENT_FANOUT_CAPACITY = 256"

definition recv_frame :: "output_frame \<Rightarrow> socket_state \<Rightarrow> bool \<times> socket_state" where
  "recv_frame frame sk =
     (if of_seq frame \<le> sk_min_live_seq sk then (True, sk)
      else send_binary_output (of_seq frame) (of_data frame) sk)"

definition recv_broadcast :: "socket_state \<Rightarrow> bool \<times> socket_state" where
  "recv_broadcast sk =
     (case sk_live sk of
        None \<Rightarrow> (True, sk)
      | Some p \<Rightarrow>
          if p + ATTACHMENT_FANOUT_CAPACITY < length (sk_channel sk) then
            (True, sk\<lparr>sk_live := Some (length (sk_channel sk) - ATTACHMENT_FANOUT_CAPACITY)\<rparr>)
          else if p < length (sk_channel sk) then
            recv_frame (sk_channel sk ! p) (sk\<lparr>sk_live := Some (Suc p)\<rparr>)
          else (True, sk))"

text \<open>What the forwarder sends while the session is registered reaches the channel at once.\<close>

definition sync_channel :: "terminal_session_id \<Rightarrow> manager \<Rightarrow> socket_state \<Rightarrow> socket_state" where
  "sync_channel sid s sk =
     (case live_of sid s of Some lv \<Rightarrow> sk\<lparr>sk_channel := lv_output lv\<rparr> | None \<Rightarrow> sk)"

section \<open>The socket task\<close>

definition socket_open :: "attach_session_outcome \<Rightarrow> bool \<Rightarrow> manager \<Rightarrow> bool \<times> socket_state" where
  "socket_open outcome up s =
     (let sid = ts_id (ao_session outcome);
          history = (case live_of sid s of Some lv \<Rightarrow> lv_output lv | None \<Rightarrow> []);
          sk = \<lparr>sk_attachment_id = sa_id (ao_attachment outcome), sk_detached = False, sk_closed = False,
                sk_live = (if ao_live outcome then Some (length history) else None),
                sk_channel = history, sk_replay_handshake_done = False, sk_min_live_seq = 0,
                sk_up = up, sk_sent = []\<rparr>
      in send_msg (SM_SessionAttached sid (sa_id (ao_attachment outcome))
                     (if ao_live outcome then AttachActive else AttachedStub) (ao_message outcome)) sk)"

text \<open>
  What can happen next in the loop: a frame or the end of the transport on the socket side, a
  turn of the broadcast branch, a failing send, or a step of the rest of the system.
\<close>

datatype socket_event =
    SE_Client ws_in
  | SE_Broadcast
  | SE_TransportDown
  | SE_World mgr_label

definition socket_step ::
  "user_id \<Rightarrow> terminal_session_id \<Rightarrow> socket_event \<Rightarrow> manager \<times> socket_state \<Rightarrow> bool \<times> manager \<times> socket_state" where
  "socket_step user_id sid ev st =
     (let (s, sk) = st in
      case ev of
        SE_Client frame \<Rightarrow> handle_recv_outcome user_id sid frame st
      | SE_Broadcast \<Rightarrow> (case recv_broadcast sk of (go, sk1) \<Rightarrow> (go, s, sk1))
      | SE_TransportDown \<Rightarrow> (True, s, sk\<lparr>sk_up := False\<rparr>)
      | SE_World l \<Rightarrow> (True, mgr_step s l, sync_channel sid (mgr_step s l) sk))"

fun socket_loop ::
  "user_id \<Rightarrow> terminal_session_id \<Rightarrow> socket_event list \<Rightarrow> manager \<times> socket_state \<Rightarrow> manager \<times> socket_state" where
  "socket_loop user_id sid [] st = st"
| "socket_loop user_id sid (ev # es) st =
     (case socket_step user_id sid ev st of
        (True, st1) \<Rightarrow> socket_loop user_id sid es st1
      | (False, st1) \<Rightarrow> st1)"

definition socket_cleanup :: "user_id \<Rightarrow> terminal_session_id \<Rightarrow> manager \<times> socket_state \<Rightarrow> manager \<times> socket_state" where
  "socket_cleanup user_id sid st =
     (let (s, sk) = st in
      if \<not> sk_detached sk \<and> \<not> sk_closed sk
      then (snd (detach_attachment user_id sid (sk_attachment_id sk) None s), sk) else (s, sk))"

text \<open>The whole task: the final manager and the frames the transport accepted.\<close>

definition run_attached_socket ::
  "user_id \<Rightarrow> terminal_session_id \<Rightarrow> string option \<Rightarrow> bool \<Rightarrow> socket_event list \<Rightarrow> manager
     \<Rightarrow> manager \<times> ws_out list" where
  "run_attached_socket user_id sid client_info up events s =
     (case attach_session \<lparr>ar_owner_id = user_id, ar_session_id = sid, ar_client_info = client_info,
                            ar_remote_addr = None\<rparr> s of
        (Inl err, s1) \<Rightarrow>
          (s1, if up then let (code, message) = error_frame err in [WO_Msg (SM_Error code message), WO_Close]
               else [])
      | (Inr outcome, s1) \<Rightarrow>
          (case socket_open outcome up s1 of
             (False, sk) \<Rightarrow> (snd (detach_session user_id sid (sa_id (ao_attachment outcome)) None s1), sk_sent sk)
           | (True, sk) \<Rightarrow>
               let (s2, sk2) = socket_cleanup user_id sid (socket_loop user_id sid events (s1, sk))
               in (s2, sk_sent sk2)))"

section \<open>The upgrade gate\<close>

datatype ws_refusal = WR_NotFound | WR_Conflict | WR_Repository repository_error

definition MAX_CLIENT_INFO_LEN :: nat where
  "MAX_CLIENT_INFO_LEN = 256"

text \<open>The \<open>User-Agent\<close> is visible ASCII, so the byte slice is a prefix of characters.\<close>

definition clip_client_info :: "string option \<Rightarrow> string option" where
  "clip_client_info ua =
     map_option (\<lambda>v. if length v > MAX_CLIENT_INFO_LEN then take MAX_CLIENT_INFO_LEN v else v) ua"

definition ws_attach ::
  "user_id \<Rightarrow> terminal_session_id \<Rightarrow> string option \<Rightarrow> bool \<Rightarrow> socket_event list \<Rightarrow> manager
     \<Rightarrow> ws_refusal + manager \<times> ws_out list" where
  "ws_attach user_id sid user_agent up events s =
     (case sessions_get sid (mg_db s) of
        (Inl e, _) \<Rightarrow> Inl (WR_Repository e)
      | (Inr row, d) \<Rightarrow>
          (case owned_by user_id row of
             None \<Rightarrow> Inl WR_NotFound
           | Some session \<Rightarrow>
               if ts_status session = TS_Closed then Inl WR_Conflict
               else Inr (run_attached_socket user_id (ts_id session) (clip_client_info user_agent) up events
                           (s\<lparr>mg_db := d\<rparr>))))"

section \<open>Invariants of the loop\<close>

fun loop_legal ::
  "(manager \<times> socket_state \<Rightarrow> socket_event \<Rightarrow> bool) \<Rightarrow> user_id \<Rightarrow> terminal_session_id
     \<Rightarrow> socket_event list \<Rightarrow> manager \<times> socket_state \<Rightarrow> bool" where
  "loop_legal enabled user_id sid [] st = True"
| "loop_legal enabled user_id sid (ev # es) st =
     (enabled st ev \<and> (case socket_step user_id sid ev st of
        (True, st1) \<Rightarrow> loop_legal enabled user_id sid es st1
      | (False, _) \<Rightarrow> True))"

text \<open>
  \<open>I\<close> holds while the loop runs and \<open>E\<close> of the state it is left in.
\<close>

locale socket_exit =
  fixes I E :: "manager \<times> socket_state \<Rightarrow> bool"
    and enabled :: "manager \<times> socket_state \<Rightarrow> socket_event \<Rightarrow> bool"
    and user :: user_id and sess :: terminal_session_id
  assumes I_go: "I st \<Longrightarrow> enabled st ev \<Longrightarrow> socket_step user sess ev st = (True, st') \<Longrightarrow> I st'"
    and I_stop: "I st \<Longrightarrow> enabled st ev \<Longrightarrow> socket_step user sess ev st = (False, st') \<Longrightarrow> E st'"
    and I_end: "I st \<Longrightarrow> E st"
begin

lemma E_loop: "I st \<Longrightarrow> loop_legal enabled user sess es st \<Longrightarrow> E (socket_loop user sess es st)"
proof (induction es arbitrary: st)
  case (Cons ev es)
  then show ?case using I_go [of st ev] I_stop [of st ev] by (auto split: prod.splits bool.splits)
qed (simp add: I_end)

end

locale socket_invariant =
  fixes I :: "manager \<times> socket_state \<Rightarrow> bool"
    and enabled :: "manager \<times> socket_state \<Rightarrow> socket_event \<Rightarrow> bool"
    and user :: user_id and sess :: terminal_session_id
  assumes I_step: "I st \<Longrightarrow> enabled st ev \<Longrightarrow> I (snd (socket_step user sess ev st))"

sublocale socket_invariant \<subseteq> always: socket_exit I I
  by unfold_locales (use I_step in force)+

section \<open>The socket only acts for its own user and session\<close>

definition own_label :: "user_id \<Rightarrow> terminal_session_id \<Rightarrow> attachment_id \<Rightarrow> mgr_label \<Rightarrow> bool" where
  "own_label user_id sid aid l =
     (case l of
        ML_Input u i _ \<Rightarrow> u = user_id \<and> i = sid
      | ML_Resize u i _ _ \<Rightarrow> u = user_id \<and> i = sid
      | ML_PtyResize u i _ _ \<Rightarrow> u = user_id \<and> i = sid
      | ML_Detach u i a _ \<Rightarrow> u = user_id \<and> i = sid \<and> a = aid
      | ML_DetachSession u i a _ \<Rightarrow> u = user_id \<and> i = sid \<and> a = aid
      | ML_Close i u \<Rightarrow> u = user_id \<and> i = sid
      | _ \<Rightarrow> False)"

text \<open>\<open>acts Q s t\<close>: the manager went from \<open>s\<close> to \<open>t\<close> by operations satisfying \<open>Q\<close> only.\<close>

definition acts :: "(mgr_label \<Rightarrow> bool) \<Rightarrow> manager \<Rightarrow> manager \<Rightarrow> bool" where
  "acts Q s t \<longleftrightarrow> (\<exists>ls. t = foldl mgr_step s ls \<and> (\<forall>l \<in> set ls. Q l))"

lemma acts_refl [simp, intro]: "acts Q s s"
  unfolding acts_def by (rule exI [of _ "[]"]) simp

lemma acts_step: "Q l \<Longrightarrow> acts Q s (mgr_step s l)"
  unfolding acts_def by (rule exI [of _ "[l]"]) simp

lemma acts_trans: "acts Q s t \<Longrightarrow> acts Q t u \<Longrightarrow> acts Q s u"
  unfolding acts_def by (elim exE conjE, rule_tac x = "ls @ lsa" in exI) auto

lemma acts_mono: "acts Q s t \<Longrightarrow> (\<And>l. Q l \<Longrightarrow> R l) \<Longrightarrow> acts R s t"
  unfolding acts_def by blast

end
