(* ===== verification/Socket_Behaviour.thy ===== *)
theory Socket_Behaviour
  imports Session_Behaviour Attach_Socket "HOL-Library.Sublist"
begin

text \<open>
  Properties of the attached WebSocket: what it may do to the manager, what it delivers of the
  live stream across a resume, and what it leaves behind when it ends.
\<close>

section \<open>Sends\<close>

lemma ws_send_simps [simp]:
  "fst (ws_send m sk) = sk_up sk"
  "sk_attachment_id (snd (ws_send m sk)) = sk_attachment_id sk"
  "sk_detached (snd (ws_send m sk)) = sk_detached sk"
  "sk_closed (snd (ws_send m sk)) = sk_closed sk"
  "sk_live (snd (ws_send m sk)) = sk_live sk"
  "sk_channel (snd (ws_send m sk)) = sk_channel sk"
  "sk_replay_handshake_done (snd (ws_send m sk)) = sk_replay_handshake_done sk"
  "sk_min_live_seq (snd (ws_send m sk)) = sk_min_live_seq sk"
  "sk_up (snd (ws_send m sk)) = sk_up sk"
  "sk_sent (snd (ws_send m sk)) = sk_sent sk @ (if sk_up sk then [m] else [])"
  by (simp_all add: ws_send_def)

text \<open>\<open>chat sk sk'\<close>: from \<open>sk\<close> to \<open>sk'\<close> only frames were sent.\<close>

definition chat :: "socket_state \<Rightarrow> socket_state \<Rightarrow> bool" where
  "chat sk sk' \<longleftrightarrow> (\<exists>ms. sk' = sk\<lparr>sk_sent := sk_sent sk @ ms\<rparr>)"

lemma chat_refl [simp, intro]: "chat sk sk"
  unfolding chat_def by (rule exI [of _ "[]"]) simp

lemma chat_trans: "chat sk sk1 \<Longrightarrow> chat sk1 sk2 \<Longrightarrow> chat sk sk2"
  by (force simp: chat_def)

lemma chat_ws_send: "chat sk (snd (ws_send m sk))"
  by (auto simp: chat_def ws_send_def intro: exI [of _ "[]"])

lemma chat_send_binary: "chat sk (snd (send_binary_output n d sk))"
  by (simp add: send_binary_output_def chat_ws_send split: sum.splits)

lemma chat_emit_frames: "chat sk (snd (emit_frames fs sk))"
proof (induction fs sk rule: emit_frames.induct)
  case (2 f fs sk)
  then show ?case using chat_send_binary [of sk "of_seq f" "of_data f"]
    by (auto split: prod.splits bool.splits intro: chat_trans)
qed simp

lemma chat_replay:
  "chat sk (emit_replay_range r sk)" "chat sk (emit_replay_window_lost l sk)"
proof -
  show "chat sk (emit_replay_window_lost l sk)"
    by (simp add: emit_replay_window_lost_def send_msg_def chat_ws_send)
  have 1: "chat sk sk1" if "send_msg m sk = (b, sk1)" for m b sk1
    using chat_ws_send [of sk "WO_Msg m"] that by (simp add: send_msg_def)
  have 2: "chat sk1 sk2" if "emit_frames fs sk1 = (b, sk2)" for fs b sk1 sk2
    using chat_emit_frames [of sk1 fs] that by simp
  have 3: "chat sk2 (snd (send_msg m sk2))" for m sk2
    by (simp add: send_msg_def chat_ws_send)
  show "chat sk (emit_replay_range r sk)"
    using 1 2 3 by (auto simp: emit_replay_range_def split: prod.splits bool.splits) (metis chat_trans)+
qed

lemma chatD:
  assumes "chat sk sk'"
  shows "sk_attachment_id sk' = sk_attachment_id sk" "sk_detached sk' = sk_detached sk"
    "sk_closed sk' = sk_closed sk" "sk_live sk' = sk_live sk" "sk_channel sk' = sk_channel sk"
    "sk_replay_handshake_done sk' = sk_replay_handshake_done sk"
    "sk_min_live_seq sk' = sk_min_live_seq sk" "sk_up sk' = sk_up sk"
  using assms by (auto simp: chat_def)

lemmas emit_keeps = chatD [OF chat_replay(1)] chatD [OF chat_replay(2)]

text \<open>The output frames among what was sent, as the client decodes them.\<close>

fun output_of :: "ws_out \<Rightarrow> output_frame list" where
  "output_of (WO_Binary buf) =
     (case decode_binary_frame buf of
        Inr f \<Rightarrow> if bf_kind f = BF_Output then [\<lparr>of_seq = unat (bf_seq f), of_data = bf_payload f\<rparr>] else []
      | Inl _ \<Rightarrow> [])"
| "output_of _ = []"

definition outputs :: "ws_out list \<Rightarrow> output_frame list" where
  "outputs ms = concat (map output_of ms)"

lemma outputs_simps [simp]:
  "outputs [] = []" "outputs (m # ms) = output_of m @ outputs ms" "outputs (ms @ ns) = outputs ms @ outputs ns"
  by (simp_all add: outputs_def)

text \<open>\<open>talk sk sk'\<close>: only control messages were sent.\<close>

definition talk :: "socket_state \<Rightarrow> socket_state \<Rightarrow> bool" where
  "talk sk sk' \<longleftrightarrow> (\<exists>ms. sk' = sk\<lparr>sk_sent := sk_sent sk @ ms\<rparr> \<and> outputs ms = [])"

lemma talk_refl [simp, intro]: "talk sk sk"
  unfolding talk_def by (rule exI [of _ "[]"]) simp

lemma talk_trans: "talk sk sk1 \<Longrightarrow> talk sk1 sk2 \<Longrightarrow> talk sk sk2"
  by (force simp: talk_def)

lemma talk_send [simp]: "output_of m = [] \<Longrightarrow> talk sk (snd (ws_send m sk))"
  by (auto simp: talk_def ws_send_def intro: exI [of _ "[]"])

lemma talk_msg [simp]: "talk sk (snd (send_msg m sk))"
  by (simp add: send_msg_def)

lemma talk_error [simp]: "talk sk (send_error err sk)"
  by (simp add: send_error_def Let_def split: prod.splits)

lemma talk_bye: "talk sk (snd (ws_send WO_Close (snd (send_msg m sk))))"
  by (rule talk_trans [OF talk_msg [of sk m]]) simp

lemma talkD:
  assumes "talk sk sk'"
  shows "sk_attachment_id sk' = sk_attachment_id sk" "sk_detached sk' = sk_detached sk"
    "sk_closed sk' = sk_closed sk" "sk_live sk' = sk_live sk" "sk_channel sk' = sk_channel sk"
    "sk_replay_handshake_done sk' = sk_replay_handshake_done sk"
    "sk_min_live_seq sk' = sk_min_live_seq sk" "sk_up sk' = sk_up sk"
    "outputs (sk_sent sk') = outputs (sk_sent sk)"
  using assms by (auto simp: talk_def)

section \<open>Client frames\<close>

lemma handle_input_acts:
  assumes "handle_input user_id sid bytes s sk = (t, sk')"
  shows "acts (own_label user_id sid aid) s t \<and> talk sk sk'"
proof -
  have "acts (own_label user_id sid aid) s (mgr_step s (ML_Input user_id sid bytes))"
    by (rule acts_step) (simp add: own_label_def)
  with assms show ?thesis
    by (auto simp: handle_input_def split: if_splits prod.splits sum.splits)
qed

lemma handle_resize_acts:
  assumes "handle_resize_msg user_id sid c r s sk = (t, sk')"
  shows "acts (own_label user_id sid aid) s t \<and> talk sk sk'"
proof -
  let ?s1 = "mgr_step s (ML_Resize user_id sid c r)"
  have 1: "acts (own_label user_id sid aid) s ?s1"
    by (rule acts_step) (simp add: own_label_def)
  have "acts (own_label user_id sid aid) ?s1 (mgr_step ?s1 (ML_PtyResize user_id sid c r))"
    by (rule acts_step) (simp add: own_label_def)
  note 2 = acts_trans [OF 1 this]
  have "t = ?s1 \<or> t = mgr_step ?s1 (ML_PtyResize user_id sid c r)"
    using assms by (auto simp: handle_resize_msg_def split: prod.splits sum.splits bool.splits)
  moreover have "talk sk sk'"
    using assms by (auto simp: handle_resize_msg_def split: prod.splits sum.splits bool.splits)
  ultimately show ?thesis using 1 2 by blast
qed

text \<open>
  Every client frame is one of four: an \<open>Attach\<close>, a detach or a close that succeeded and ends
  the loop, or a frame answered by control messages.
\<close>

definition left_by_detach ::
  "user_id \<Rightarrow> terminal_session_id \<Rightarrow> manager \<times> socket_state \<Rightarrow> manager \<times> socket_state \<Rightarrow> bool" where
  "left_by_detach user_id sid st st' \<longleftrightarrow>
     (\<exists>out. detach_attachment user_id sid (sk_attachment_id (snd st)) None (fst st) = (Inr out, fst st'))
     \<and> talk ((snd st)\<lparr>sk_detached := True\<rparr>) (snd st')"

definition left_by_close ::
  "user_id \<Rightarrow> terminal_session_id \<Rightarrow> manager \<times> socket_state \<Rightarrow> manager \<times> socket_state \<Rightarrow> bool" where
  "left_by_close user_id sid st st' \<longleftrightarrow>
     (\<exists>out. close_session sid user_id (fst st) = (Inr out, fst st'))
     \<and> talk ((snd st)\<lparr>sk_detached := True, sk_closed := True\<rparr>) (snd st')"

lemma client_frame_cases:
  assumes "handle_recv_outcome user_id sid frame st = (go, st')"
  shows "(\<exists>q. frame = WI_Text (Some (CL_Attach q)) \<and> go
              \<and> st' = (fst st, handle_attach sid q (fst st) (snd st)))
       \<or> \<not> go \<and> left_by_detach user_id sid st st'
       \<or> \<not> go \<and> frame = WI_Text (Some CL_Close) \<and> left_by_close user_id sid st st'
       \<or> acts (own_label user_id sid (sk_attachment_id (snd st))) (fst st) (fst st') \<and> talk (snd st) (snd st')"
proof -
  obtain s sk where st: "st = (s, sk)" by fastforce
  let ?own = "own_label user_id sid (sk_attachment_id sk)"
  have det: "acts ?own s (mgr_step s (ML_Detach user_id sid (sk_attachment_id sk) None))"
    and clo: "acts ?own s (mgr_step s (ML_Close sid user_id))"
    by (simp_all add: acts_step own_label_def del: mgr_step.simps)
  show ?thesis
  proof (cases frame)
    case (WI_Text parsed)
    show ?thesis
    proof (cases parsed)
      case (Some m)
      note run = assms [unfolded st WI_Text Some handle_recv_outcome_def handle_text_frame_def Let_def, simplified]
      show ?thesis
      proof (cases m)
        case (CL_Input bytes)
        with run handle_input_acts [of user_id sid bytes s sk "fst st'" "snd st'" "sk_attachment_id sk"] st
        show ?thesis by auto
      next
        case (CL_Resize c r)
        with run handle_resize_acts [of user_id sid c r s sk "fst st'" "snd st'" "sk_attachment_id sk"] st
        show ?thesis by auto
      next
        case CL_Detach
        with run det st show ?thesis
          by (cases "detach_attachment user_id sid (sk_attachment_id sk) None s")
             (auto simp: left_by_detach_def talk_bye split: sum.splits)
      next
        case CL_Close
        with run clo st WI_Text Some show ?thesis
          by (cases "close_session sid user_id s")
             (auto simp: left_by_close_def talk_bye split: sum.splits)
      qed (use run st WI_Text Some in auto)
    qed (use assms WI_Text st in \<open>auto simp: handle_recv_outcome_def handle_text_frame_def\<close>)
  next
    case (WI_Binary bytes)
    with assms st show ?thesis
      using handle_input_acts [of user_id sid _ s sk "fst st'" "snd st'" "sk_attachment_id sk"]
      by (auto simp: handle_recv_outcome_def handle_binary_frame_def
          split: sum.splits binary_frame_kind.splits)
  qed (use assms st in \<open>auto simp: handle_recv_outcome_def\<close>)
qed

section \<open>Confinement\<close>

lemma left_acts:
  "left_by_detach user_id sid st st' \<or> left_by_close user_id sid st st' \<Longrightarrow>
   acts (own_label user_id sid (sk_attachment_id (snd st))) (fst st) (fst st')
   \<and> sk_attachment_id (snd st') = sk_attachment_id (snd st) \<and> sk_channel (snd st') = sk_channel (snd st)"
proof -
  let ?own = "own_label user_id sid (sk_attachment_id (snd st))"
  have "acts ?own (fst st) (mgr_step (fst st) (ML_Detach user_id sid (sk_attachment_id (snd st)) None))"
    and "acts ?own (fst st) (mgr_step (fst st) (ML_Close sid user_id))"
    by (simp_all add: acts_step own_label_def del: mgr_step.simps)
  then show "left_by_detach user_id sid st st' \<or> left_by_close user_id sid st st' \<Longrightarrow> ?thesis"
    by (auto simp: left_by_detach_def left_by_close_def dest: talkD(1,5))
qed

lemma handle_attach_keeps:
  "sk_attachment_id (handle_attach sid q s sk) = sk_attachment_id sk"
  "sk_live (handle_attach sid q s sk) = sk_live sk" "sk_channel (handle_attach sid q s sk) = sk_channel sk"
  "sk_detached (handle_attach sid q s sk) = sk_detached sk" "sk_closed (handle_attach sid q s sk) = sk_closed sk"
  "sk_up (handle_attach sid q s sk) = sk_up sk"
  by (simp_all add: handle_attach_def Let_def send_msg_def emit_keeps split: option.splits sum.splits)

lemma recv_broadcast_keeps:
  "sk_attachment_id (snd (recv_broadcast sk)) = sk_attachment_id sk"
  "sk_channel (snd (recv_broadcast sk)) = sk_channel sk"
  "sk_detached (snd (recv_broadcast sk)) = sk_detached sk" "sk_closed (snd (recv_broadcast sk)) = sk_closed sk"
  by (simp_all add: recv_broadcast_def recv_frame_def send_binary_output_def split: option.splits sum.splits)

lemma client_frame_acts:
  fixes st :: "manager \<times> socket_state"
  shows "acts (own_label user_id sid (sk_attachment_id (snd st))) (fst st) (fst (snd (handle_recv_outcome user_id sid frame st)))
   \<and> sk_attachment_id (snd (snd (handle_recv_outcome user_id sid frame st))) = sk_attachment_id (snd st)"
proof -
  obtain go st' where r: "handle_recv_outcome user_id sid frame st = (go, st')"
    by (cases "handle_recv_outcome user_id sid frame st") blast
  show ?thesis
    using client_frame_cases [OF r] left_acts [of user_id sid st st']
    by (auto simp: r handle_attach_keeps dest: talkD(1))
qed

interpretation confined: socket_invariant
  "\<lambda>st :: manager \<times> socket_state. acts Q s0 (fst st) \<and> sk_attachment_id (snd st) = aid"
  "\<lambda>st ev. \<forall>l. ev = SE_World l \<or> own_label user sess aid l \<longrightarrow> Q l" user sess for Q s0 aid user sess
proof unfold_locales
  fix st :: "manager \<times> socket_state" and ev assume I: "acts Q s0 (fst st) \<and> sk_attachment_id (snd st) = aid"
    and e: "\<forall>l. ev = SE_World l \<or> own_label user sess aid l \<longrightarrow> Q l"
  obtain s sk where st: "st = (s, sk)" by fastforce
  show "acts Q s0 (fst (snd (socket_step user sess ev st))) \<and>
      sk_attachment_id (snd (snd (socket_step user sess ev st))) = aid"
  proof (cases ev)
    case (SE_Client frame)
    have "acts Q s (fst (snd (handle_recv_outcome user sess frame st)))"
      using client_frame_acts [of user sess st frame] e I st by (auto elim!: acts_mono)
    then show ?thesis
      using client_frame_acts [of user sess st frame] I st SE_Client acts_trans [of Q s0 s]
      by (simp add: socket_step_def)
  next
    case (SE_World l)
    then have "acts Q s (mgr_step s l)" using e by (intro acts_step) blast
    with I SE_World st show ?thesis
      using acts_trans [of Q s0 s] by (auto simp: socket_step_def sync_channel_def split: option.splits)
  qed (use I st in \<open>auto simp: socket_step_def recv_broadcast_keeps split: prod.splits\<close>,
       metis prod.sel(2) recv_broadcast_keeps(1))
qed

lemma loop_legal_always: "(\<And>st ev. ev \<in> set es \<Longrightarrow> enabled st ev) \<Longrightarrow> loop_legal enabled user_id sid es st"
  by (induction es arbitrary: st) (auto split: prod.splits bool.splits)


section \<open>The channel of a socket only grows\<close>

definition grown :: "output_frame list \<Rightarrow> runtime_entry \<Rightarrow> bool" where
  "grown ch e \<longleftrightarrow>
     (case re_live e of None \<Rightarrow> re_next_seq e = 1 \<longrightarrow> ch = [] | Some lv \<Rightarrow> prefix ch (lv_output lv))"

definition stream_of :: "terminal_session_id \<Rightarrow> output_frame list \<Rightarrow> terminal_session_id \<Rightarrow> runtime_entry \<Rightarrow> bool" where
  "stream_of sid ch sid' e \<longleftrightarrow> stream_ok sid' e \<and> (sid' = sid \<longrightarrow> grown ch e)"

interpretation grow_reg: entry_invariant "stream_of sid ch" never_started stream_room for sid ch
proof unfold_locales
  show "stream_of sid ch sid' e \<Longrightarrow> stream_room e bytes \<Longrightarrow> stream_of sid ch sid' (forward_output bytes e)"
    for sid' e bytes
    using stream_forward [of sid' e bytes]
    by (auto simp: stream_of_def grown_def forward_output_def Let_def split: option.splits)
qed (auto simp: stream_of_def grown_def stream_ok_def never_started_def stream_room_def live_candidate_def
      stamped_def split: option.splits)

definition joined :: "terminal_session_id \<Rightarrow> user_id \<Rightarrow> manager \<times> socket_state \<Rightarrow> bool" where
  "joined sid ow st \<longleftrightarrow> every_entry (stream_of sid (sk_channel (snd st))) (fst st)
     \<and> fresh_ids (mg_db (fst st)) \<and> owner_is sid ow (mg_db (fst st))"

lemma created_is_new:
  assumes "sessions_create input d = (Inr session, d')" and "fresh_ids d" and "owner_is sid ow d"
  shows "ts_id session \<noteq> sid"
proof -
  obtain r where "find (\<lambda>r. ts_id r = sid) (db_sessions d) = Some r"
    using assms(3) by (auto simp: owner_is_def session_row_def)
  then have "sid < db_next_id d"
    using assms(2) by (auto simp: fresh_ids_def dest: find_SomeD)
  with assms(1) show ?thesis
    by (auto simp: sessions_create_def db_call_def Let_def split: list.splits option.splits if_splits)
qed

lemma joined_step:
  assumes "joined sid ow (s, sk)" and "stream_enabled s l"
  shows "joined sid ow (mgr_step s l, sk)"
proof -
  have j: "every_entry (stream_of sid (sk_channel sk)) s" "fresh_ids (mg_db s)" "owner_is sid ow (mg_db s)"
    using assms(1) by (simp_all add: joined_def)
  have "grow_reg.entry_enabled sid (sk_channel sk) s l"
  proof (cases l)
    case (ML_Create req)
    then show ?thesis
      using created_is_new [OF _ j(2,3)]
      by (auto simp: grow_reg.entry_enabled_def stream_of_def stream_ok_def placeholder_entry_def)
  qed (use stream_enabled_entry [OF assms(2)] in
      \<open>simp_all add: grow_reg.entry_enabled_def stream_reg.entry_enabled_def
         grow_reg.forward_room_def stream_reg.forward_room_def\<close>)
  with j show ?thesis
    using grow_reg.every_step [of sid "sk_channel sk" s l] ids.held_step [of s l] owners.held_step [of sid ow s l]
    by (simp add: joined_def ids.held_def owners.held_def)
qed

lemma own_stream_enabled: "own_label u sid aid l \<Longrightarrow> stream_enabled s l"
  by (cases l) (simp_all add: own_label_def stream_enabled_def)

lemma joined_acts:
  assumes "acts (own_label u i aid) s t" and "joined sid ow (s, sk)"
  shows "joined sid ow (t, sk)"
proof -
  from assms(1) obtain ls where t: "t = foldl mgr_step s ls" and l: "\<forall>l \<in> set ls. own_label u i aid l"
    by (auto simp: acts_def)
  from l assms(2) show ?thesis unfolding t
  proof (induction ls arbitrary: s)
    case (Cons l ls)
    then show ?case using joined_step [of sid ow s sk l] own_stream_enabled [of u i aid l s] by simp
  qed simp
qed

lemma joined_channel: "joined sid ow (s, sk) \<Longrightarrow> sk_channel sk' = sk_channel sk \<Longrightarrow> joined sid ow (s, sk')"
  by (simp add: joined_def)

lemma joined_sync:
  assumes "joined sid ow (s, sk)"
  shows "joined sid ow (s, sync_channel sid s sk)" and "prefix (sk_channel sk) (sk_channel (sync_channel sid s sk))"
    and "live_of sid s = Some lv \<Longrightarrow> stamped (lv_output lv)"
proof -
  have p: "stream_of sid (sk_channel sk) i e" if "map_of (mg_runtimes s) i = Some e" for i e
    using assms that by (auto simp: joined_def every_entry_def)
  show "prefix (sk_channel sk) (sk_channel (sync_channel sid s sk))"
    using p [of sid] by (auto simp: sync_channel_def live_of_def stream_of_def grown_def split: option.splits)
  show "joined sid ow (s, sync_channel sid s sk)"
  proof (cases "live_of sid s")
    case (Some lv)
    then have "stream_of sid (lv_output lv) i e" if "map_of (mg_runtimes s) i = Some e" for i e
      using p [OF that] that by (auto simp: stream_of_def grown_def live_of_def split: option.splits)
    with Some assms show ?thesis by (auto simp: joined_def sync_channel_def every_entry_def)
  qed (use assms in \<open>simp add: sync_channel_def\<close>)
  show "live_of sid s = Some lv \<Longrightarrow> stamped (lv_output lv)"
    using p [of sid] by (auto simp: live_of_def stream_of_def stream_ok_def split: option.splits)
qed

section \<open>Delivery\<close>

definition fits :: "output_frame \<Rightarrow> bool" where
  "fits f \<longleftrightarrow> length (of_data f) \<le> MAX_PAYLOAD_LEN"

lemma send_output:
  assumes "of_seq f \<le> u64_max"
  shows "fst (send_binary_output (of_seq f) (of_data f) sk) = (fits f \<longrightarrow> sk_up sk)"
    and "outputs (sk_sent (snd (send_binary_output (of_seq f) (of_data f) sk)))
       = outputs (sk_sent sk) @ (if sk_up sk \<and> fits f then [f] else [])"
proof -
  have "unat (of_nat (of_seq f) :: 64 word) = of_seq f"
    using assms by (simp add: unat_of_nat)
  then have "output_of (WO_Binary buf) = [f]"
    if "encode_binary_frame BF_Output (of_nat (of_seq f)) (of_data f) = Inr buf" for buf
    using decode_of_encode [OF that] by simp
  then show "fst (send_binary_output (of_seq f) (of_data f) sk) = (fits f \<longrightarrow> sk_up sk)"
    and "outputs (sk_sent (snd (send_binary_output (of_seq f) (of_data f) sk)))
       = outputs (sk_sent sk) @ (if sk_up sk \<and> fits f then [f] else [])"
    by (auto simp: send_binary_output_def fits_def encode_binary_frame_def ws_send_def
        split: sum.splits if_splits)
qed

lemma emit_frames_up:
  assumes "sk_up sk" and "\<forall>f \<in> set fs. of_seq f \<le> u64_max"
  shows "fst (emit_frames fs sk)"
    and "outputs (sk_sent (snd (emit_frames fs sk))) = outputs (sk_sent sk) @ filter fits fs"
  using assms
proof (induction fs sk rule: emit_frames.induct)
  case (2 f fs sk)
  note s = send_output [of f sk] chatD(8) [OF chat_send_binary [of sk "of_seq f" "of_data f"]]
  case 1
  with 2 s show ?case by (auto split: prod.splits bool.splits)
next
  case (2 f fs sk)
  note s = send_output [of f sk] chatD(8) [OF chat_send_binary [of sk "of_seq f" "of_data f"]]
  case 2
  with "2.IH" s show ?case by (auto split: prod.splits bool.splits)
qed simp_all

lemma emit_replay_up:
  assumes "sk_up sk" and "\<forall>f \<in> set (rr_frames r). of_seq f \<le> u64_max"
  shows "outputs (sk_sent (emit_replay_range r sk)) = outputs (sk_sent sk) @ filter fits (rr_frames r)"
proof -
  let ?m = "SM_ReplayStart (of_seq (hd (rr_frames r))) (of_seq (last (rr_frames r)))"
  obtain sk1 where 1: "send_msg ?m sk = (True, sk1)" "sk_up sk1" "outputs (sk_sent sk1) = outputs (sk_sent sk)"
    using assms(1) by (auto simp: send_msg_def ws_send_def)
  obtain sk2 where "emit_frames (rr_frames r) sk1 = (True, sk2)"
      "outputs (sk_sent sk2) = outputs (sk_sent sk1) @ filter fits (rr_frames r)"
    using emit_frames_up [OF 1(2) assms(2)] by (metis prod.collapse)
  with 1 show ?thesis
    by (auto simp: emit_replay_range_def talkD(9) [OF talk_msg])
qed

text \<open>
  \<open>delivered rel n m sk\<close>: after a resume from bookmark \<open>n\<close> at history length \<open>m\<close>, the output
  frames sent are, up to \<open>rel\<close>, the sendable frames of the channel from \<open>n\<close> up to the
  position of the subscription.
\<close>

definition delivered ::
  "(output_frame list \<Rightarrow> output_frame list \<Rightarrow> bool) \<Rightarrow> nat \<Rightarrow> nat \<Rightarrow> socket_state \<Rightarrow> bool" where
  "delivered rel n m sk \<longleftrightarrow> sk_replay_handshake_done sk \<and> sk_min_live_seq sk = m \<and> n \<le> m
     \<and> stamped (sk_channel sk) \<and> m \<le> length (sk_channel sk)
     \<and> (\<exists>p q. sk_live sk = Some p \<and> p \<le> length (sk_channel sk) \<and> m \<le> q \<and> q \<le> max p m
          \<and> (sk_up sk \<longrightarrow> q = max p m)
          \<and> rel (outputs (sk_sent sk)) (filter fits (drop n (take q (sk_channel sk)))))"

definition keeps_up :: "socket_state \<Rightarrow> bool" where
  "keeps_up sk \<longleftrightarrow>
     (case sk_live sk of Some p \<Rightarrow> length (sk_channel sk) \<le> p + ATTACHMENT_FANOUT_CAPACITY | None \<Rightarrow> True)"

text \<open>
  The rest of the system behaves as the manager's streams require, and unless frames may be
  skipped, the broadcast branch runs before the subscription lags.
\<close>

definition resume_enabled :: "bool \<Rightarrow> manager \<times> socket_state \<Rightarrow> socket_event \<Rightarrow> bool" where
  "resume_enabled tolerant st ev =
     (case ev of
        SE_World l \<Rightarrow> stream_enabled (fst st) l
      | SE_Broadcast \<Rightarrow> tolerant \<or> keeps_up (snd st)
      | _ \<Rightarrow> True)"

locale delivery =
  fixes rel :: "output_frame list \<Rightarrow> output_frame list \<Rightarrow> bool" and tolerant :: bool
  assumes rel_refl: "rel xs xs"
    and rel_append: "rel xs ys \<Longrightarrow> rel (xs @ zs) (ys @ zs)"
    and rel_skip: "tolerant \<Longrightarrow> rel xs ys \<Longrightarrow> rel xs (ys @ zs)"
begin

lemma delivered_talk: "talk sk sk' \<Longrightarrow> delivered rel n m sk \<Longrightarrow> delivered rel n m sk'"
  by (simp add: delivered_def talkD)

lemma delivered_flags:
  "delivered rel n m (sk\<lparr>sk_detached := d\<rparr>) = delivered rel n m sk"
  "delivered rel n m (sk\<lparr>sk_closed := c\<rparr>) = delivered rel n m sk"
  by (simp_all add: delivered_def)

lemma delivered_grow:
  assumes "delivered rel n m sk" and "prefix (sk_channel sk) ch" and "stamped ch"
  shows "delivered rel n m (sk\<lparr>sk_channel := ch\<rparr>)"
proof -
  from assms(2) obtain x where ch: "ch = sk_channel sk @ x" by (auto elim: prefixE)
  have "take q ch = take q (sk_channel sk)" if "q \<le> length (sk_channel sk)" for q using that by (simp add: ch)
  then show ?thesis using assms(1,3) by (fastforce simp: delivered_def ch)
qed

lemma take_more: "n \<le> q \<Longrightarrow> q \<le> q' \<Longrightarrow> q' \<le> length xs \<Longrightarrow>
   drop n (take q' xs) = drop n (take q xs) @ drop q (take q' xs)"
  by (metis (no_types, lifting) append_take_drop_id diff_is_0_eq drop0 drop_append length_take
      min.absorb2 le_trans min_def take_take)

lemma delivered_broadcast:
  assumes d: "delivered rel n m sk" and ok: "tolerant \<or> keeps_up sk"
  shows "delivered rel n m (snd (recv_broadcast sk))"
proof -
  let ?ch = "sk_channel sk"
  from d obtain p q where p: "sk_live sk = Some p" "p \<le> length ?ch" "m \<le> q" "q \<le> max p m"
      "sk_up sk \<longrightarrow> q = max p m" "rel (outputs (sk_sent sk)) (filter fits (drop n (take q ?ch)))"
      and m: "n \<le> m" "stamped ?ch" "m \<le> length ?ch" "sk_min_live_seq sk = m" "sk_replay_handshake_done sk"
    by (auto simp: delivered_def)
  consider (lag) "p + ATTACHMENT_FANOUT_CAPACITY < length ?ch"
    | (old) "p < length ?ch" "length ?ch \<le> p + ATTACHMENT_FANOUT_CAPACITY" "Suc p \<le> m"
    | (new) "p < length ?ch" "length ?ch \<le> p + ATTACHMENT_FANOUT_CAPACITY" "m \<le> p"
    | (idle) "p = length ?ch" using p(2) by linarith
  then show ?thesis
  proof cases
    case lag
    then have t: "tolerant" using ok p(1) by (simp add: keeps_up_def)
    let ?p = "length ?ch - ATTACHMENT_FANOUT_CAPACITY"
    let ?q = "if sk_up sk then max ?p m else q"
    have q: "q \<le> ?q" "?q \<le> length ?ch" using lag p m by auto
    have "rel (outputs (sk_sent sk)) (filter fits (drop n (take ?q ?ch)))"
      using rel_skip [OF t p(6)] take_more [of n q ?q ?ch] q m(1) p(3) by simp
    moreover have "m \<le> ?q" "?q \<le> max ?p m" using p lag by auto
    ultimately show ?thesis using lag p(1) m
      by (simp add: recv_broadcast_def delivered_def, intro exI [of _ ?q]) auto
  next
    case old
    then have "of_seq (?ch ! p) \<le> m" using of_seq_nth [OF m(2)] by simp
    moreover have "max (Suc p) m = max p m" using old by simp
    ultimately show ?thesis using old p m
      by (simp add: recv_broadcast_def recv_frame_def delivered_def, intro exI [of _ q]) auto
  next
    case new
    let ?f = "?ch ! p" and ?sk = "sk\<lparr>sk_live := Some (Suc p)\<rparr>"
    have f: "of_seq ?f = Suc p" using of_seq_nth [OF m(2) new(1)] .
    have u: "of_seq ?f \<le> u64_max" using f new(1) m(2) by (simp add: stamped_def)
    let ?r = "snd (send_binary_output (of_seq ?f) (of_data ?f) ?sk)"
    have r: "snd (recv_broadcast sk) = ?r"
      using new p(1) f m(4) by (simp add: recv_broadcast_def recv_frame_def)
    note k = chatD [OF chat_send_binary [of ?sk "of_seq ?f" "of_data ?f"]]
    have out: "outputs (sk_sent ?r) = outputs (sk_sent sk) @ (if sk_up sk then filter fits [?f] else [])"
      using send_output(2) [OF u, of ?sk] by simp
    show ?thesis
    proof (cases "sk_up sk")
      case True
      have "drop n (take (Suc p) ?ch) = drop n (take p ?ch) @ [?f]"
        using new(1,3) m(1) by (simp add: take_Suc_conv_app_nth)
      moreover have "q = p" using True p new(3) by simp
      ultimately have "rel (outputs (sk_sent ?r)) (filter fits (drop n (take (Suc p) ?ch)))"
        using rel_append [OF p(6), of "filter fits [?f]"] out True by simp
      then show ?thesis unfolding r delivered_def using k m new True
        by (intro conjI exI [of _ "Suc p"]) auto
    next
      case False
      then show ?thesis unfolding r delivered_def using k m new p out
        by (intro conjI exI [of _ "Suc p"] exI [of _ q]) auto
    qed
  next
    case idle
    then show ?thesis using d p(1) by (simp add: recv_broadcast_def)
  qed
qed

lemma delivered_client:
  assumes "joined sid ow st" and "delivered rel n m (snd st)"
    and r: "handle_recv_outcome user_id sid' frame st = (go, st')"
  shows "joined sid ow st' \<and> delivered rel n m (snd st')"
proof -
  have k: "joined sid ow st'" if "acts (own_label user_id sid' (sk_attachment_id (snd st))) (fst st) (fst st')"
      "sk_channel (snd st') = sk_channel (snd st)"
    using joined_acts [OF that(1), of sid ow "snd st"] assms(1) joined_channel [of sid ow "fst st'" "snd st" "snd st'"] that(2)
    by simp
  from client_frame_cases [OF r] show ?thesis
  proof (elim disjE exE conjE)
    fix q assume "st' = (fst st, handle_attach sid' q (fst st) (snd st))"
    moreover have "talk (snd st) (handle_attach sid' q (fst st) (snd st))"
      using assms(2) by (simp add: handle_attach_def delivered_def)
    ultimately show ?thesis
      using assms delivered_talk joined_channel [of sid ow "fst st" "snd st" "snd st'"] by (auto simp: talkD)
  next
    assume l: "left_by_detach user_id sid' st st'"
    then show ?thesis
      using k left_acts [of user_id sid' st st'] assms(2) delivered_talk [of "(snd st)\<lparr>sk_detached := True\<rparr>" "snd st'"]
      by (simp add: left_by_detach_def delivered_flags talkD)
  next
    assume l: "left_by_close user_id sid' st st'"
    then show ?thesis
      using k left_acts [of user_id sid' st st'] assms(2)
        delivered_talk [of "(snd st)\<lparr>sk_detached := True, sk_closed := True\<rparr>" "snd st'"]
      by (simp add: left_by_close_def delivered_flags talkD)
  next
    assume "acts (own_label user_id sid' (sk_attachment_id (snd st))) (fst st) (fst st')" "talk (snd st) (snd st')"
    then show ?thesis using k assms(2) delivered_talk by (simp add: talkD)
  qed
qed

lemma delivered_step:
  assumes j: "joined sid ow st" and d: "delivered rel n m (snd st)" and e: "resume_enabled tolerant st ev"
  shows "joined sid ow (snd (socket_step user_id sid ev st))
       \<and> delivered rel n m (snd (snd (socket_step user_id sid ev st)))"
proof -
  obtain s sk where st: "st = (s, sk)" by fastforce
  show ?thesis
  proof (cases ev)
    case (SE_Client frame)
    then show ?thesis
      using delivered_client [OF j d, of user_id sid frame] st
      by (cases "handle_recv_outcome user_id sid frame st") (simp add: socket_step_def)
  next
    case SE_Broadcast
    then show ?thesis
      using delivered_broadcast [OF d] e j st joined_channel [of sid ow s sk "snd (recv_broadcast sk)"]
      by (simp add: socket_step_def resume_enabled_def recv_broadcast_keeps split: prod.splits)
         (metis prod.sel(2) recv_broadcast_keeps(2))
  next
    case SE_TransportDown
    then show ?thesis using j d st
      by (auto simp: socket_step_def delivered_def joined_def)
  next
    case (SE_World l)
    have j': "joined sid ow (mgr_step s l, sk)"
      using joined_step j e st SE_World by (simp add: resume_enabled_def)
    note y = joined_sync [OF j']
    have "delivered rel n m (sync_channel sid (mgr_step s l) sk)"
      using delivered_grow [of n m sk] d y(2,3) st by (auto simp: sync_channel_def split: option.splits)
    with y(1) st SE_World show ?thesis by (simp add: socket_step_def)
  qed
qed

end

interpretation exact: delivery "(=)" False
  by unfold_locales simp_all

interpretation lossy: delivery subseq True
  by unfold_locales (simp_all add: subseq_append' list_emb_prefix)

interpretation exact_run: socket_invariant
  "\<lambda>st. joined sess ow st \<and> delivered (=) n m (snd st)" "resume_enabled False" user sess
  for user sess ow n m
  by unfold_locales (use exact.delivered_step in blast)

interpretation lossy_run: socket_invariant
  "\<lambda>st. joined sess ow st \<and> delivered subseq n m (snd st)" "resume_enabled True" user sess
  for user sess ow n m
  by unfold_locales (use lossy.delivered_step in blast)

text \<open>A socket between its opening and the client's \<open>Attach\<close>.\<close>

definition awaiting :: "terminal_session_id \<Rightarrow> user_id \<Rightarrow> manager \<times> socket_state \<Rightarrow> bool" where
  "awaiting sid ow st \<longleftrightarrow> joined sid ow st \<and> \<not> sk_replay_handshake_done (snd st) \<and> sk_min_live_seq (snd st) = 0
     \<and> sk_up (snd st) \<and> outputs (sk_sent (snd st)) = []
     \<and> (\<exists>p. sk_live (snd st) = Some p \<and> p \<le> length (sk_channel (snd st)))
     \<and> (\<forall>lv. live_of sid (fst st) = Some lv \<longrightarrow> sk_channel (snd st) = lv_output lv)"

lemma awaiting_world:
  assumes "awaiting sid ow (s, sk)" and "stream_enabled s l"
  shows "awaiting sid ow (mgr_step s l, sync_channel sid (mgr_step s l) sk)"
proof -
  have "joined sid ow (mgr_step s l, sk)" using assms joined_step by (simp add: awaiting_def)
  note y = joined_sync(1,2) [OF this]
  show ?thesis
    using assms(1) y(1) prefix_length_le [OF y(2)]
    by (auto simp: awaiting_def sync_channel_def split: option.splits)
qed

lemma awaiting_worlds:
  "awaiting sid ow st \<Longrightarrow> loop_legal (resume_enabled tol) user_id sid (map SE_World ws) st \<Longrightarrow>
   awaiting sid ow (socket_loop user_id sid (map SE_World ws) st)"
proof (induction ws arbitrary: st)
  case (Cons l ws)
  then show ?case using awaiting_world [of sid ow "fst st" "snd st" l]
    by (simp add: socket_step_def resume_enabled_def split: prod.splits)
qed simp

lemma attach_success:
  assumes "attach_session req s = (Inr out, s1)"
  shows "\<exists>r. session_row (mg_db s) (ar_session_id req) = Some r \<and> ts_owner_id r = ar_owner_id req
           \<and> ts_status r \<noteq> TS_Closed \<and> ao_session out = r"
  using assms
  by (auto simp: attach_session_gate get_owned_run owned_by_def attach_finish_def Let_def bindP_run
      cancel_pending_close_def split: list.splits option.splits if_splits prod.splits sum.splits)

lemma awaiting_open:
  assumes "mg_runtimes s0 = []" and "fresh_ids (mg_db s0)" and "legal mgr_step stream_enabled s0 ls"
    and a: "attach_session req (foldl mgr_step s0 ls) = (Inr out, s1)" and "ao_live out"
    and o: "socket_open out True s1 = (go, sk)"
  shows "awaiting (ar_session_id req) (ar_owner_id req) (s1, sk)"
proof -
  let ?s = "foldl mgr_step s0 ls" and ?sid = "ar_session_id req"
  obtain r where r: "session_row (mg_db ?s) ?sid = Some r" "ts_owner_id r = ar_owner_id req" "ao_session out = r"
    using attach_success [OF a] by blast
  have s1: "s1 = mgr_step ?s (ML_Attach req)" using a by simp
  have "every_entry stream_ok ?s"
    using assms(1,3) by (intro stream_sys.fold_step_invar) (simp_all add: every_entry_def)
  then have st: "every_entry stream_ok s1"
    unfolding s1 by (rule stream_sys.step_invar) (simp add: stream_enabled_def)
  have "fresh_ids (mg_db s1)"
    using ids.held_run [OF assms(2), of "ls @ [ML_Attach req]"] s1 by simp
  moreover have "owner_is ?sid (ar_owner_id req) (mg_db s1)"
    unfolding s1 using owners.held_step [of ?sid "ar_owner_id req" ?s "ML_Attach req"] r
    by (simp add: owners.held_def owner_is_def)
  moreover have id: "ts_id r = ?sid" by (rule session_row_id [OF r(1)])
  moreover have ch: "sk_channel sk = (case live_of ?sid s1 of Some lv \<Rightarrow> lv_output lv | None \<Rightarrow> [])"
      "sk_live sk = Some (length (sk_channel sk))" "\<not> sk_replay_handshake_done sk" "sk_min_live_seq sk = 0"
      "sk_up sk" "outputs (sk_sent sk) = []"
    using o assms(5) id r(3) by (auto simp: socket_open_def send_msg_def ws_send_def Let_def)
  moreover have "every_entry (stream_of ?sid (sk_channel sk)) s1"
    using st ch(1) by (auto simp: every_entry_def stream_of_def grown_def live_of_def split: option.splits)
  ultimately show ?thesis by (simp add: awaiting_def joined_def)
qed

lemma replay_starts_delivery:
  assumes w: "awaiting sid ow (s, sk)" and n: "0 < n"
    and r: "manager_replay_since sid (Some n) s = Some (Inr r)" and le: "n \<le> rr_latest_seq r"
  shows "joined sid ow (s, handle_attach sid (Some n) s sk)
       \<and> delivered (=) n (rr_latest_seq r) (handle_attach sid (Some n) s sk)
       \<and> rr_latest_seq r = length (sk_channel sk)"
proof -
  let ?sk = "handle_attach sid (Some n) s sk" and ?ch = "sk_channel sk"
  from r obtain lv where lv: "live_of sid s = Some lv" "replay_since (lv_replay lv) (Some n) = Inr r"
    by (auto simp: manager_replay_since_def)
  have j: "joined sid ow (s, sk)" and up: "sk_up sk" and ch: "?ch = lv_output lv"
    and base: "\<not> sk_replay_handshake_done sk" "sk_min_live_seq sk = 0" "outputs (sk_sent sk) = []"
    using w lv(1) by (auto simp: awaiting_def)
  obtain p where p: "sk_live sk = Some p" "p \<le> length ?ch" using w by (auto simp: awaiting_def)
  have st: "stamped ?ch" and rep: "lv_replay lv = foldl rb_push (rb_new REPLAY_DEFAULT) ?ch"
    using j lv(1) ch
    by (auto simp: joined_def every_entry_def stream_of_def stream_ok_def live_of_def split: option.splits)
  have "retains (lv_replay lv) ?ch" unfolding rep by (rule ring_after [OF st]) (simp add: REPLAY_DEFAULT_def)
  then have rr: "rr_frames r = drop n ?ch" "rr_latest_seq r = length ?ch"
    using ring.since_complete [OF _ n lv(2)] by simp_all
  have u: "\<forall>f \<in> set (rr_frames r). of_seq f \<le> u64_max"
    using stamped_seq_iff [OF st] st by (fastforce simp: rr stamped_def)
  have sk: "?sk = emit_replay_range r (sk\<lparr>sk_replay_handshake_done := True, sk_min_live_seq := length ?ch\<rparr>)"
    using base n r rr(2) by (simp add: handle_attach_def)
  have "outputs (sk_sent ?sk) = filter fits (drop n ?ch)"
    unfolding sk using emit_replay_up [OF _ u] up base rr by simp
  then have "delivered (=) n (length ?ch) ?sk"
    unfolding delivered_def using p up st le rr(2)
    by (simp add: handle_attach_keeps sk emit_keeps)
  moreover have "joined sid ow (s, ?sk)" using j by (rule joined_channel) (simp add: handle_attach_keeps)
  ultimately show ?thesis using rr(2) by simp
qed

lemma delivered_weaken: "delivered (=) n m sk \<Longrightarrow> delivered subseq n m sk"
  unfolding delivered_def by (metis subseq_order.order_refl)

definition attach_frame :: "nat \<Rightarrow> socket_event" where
  "attach_frame n = SE_Client (WI_Text (Some (CL_Attach (Some n))))"

lemma attach_frame_loop:
  "\<not> sk_replay_handshake_done sk \<Longrightarrow> socket_loop user_id sid (attach_frame n # es) (s, sk)
     = socket_loop user_id sid es (s, handle_attach sid (Some n) s sk)"
  "\<not> sk_replay_handshake_done sk \<Longrightarrow> loop_legal en user_id sid (attach_frame n # es) (s, sk) \<Longrightarrow>
     loop_legal en user_id sid es (s, handle_attach sid (Some n) s sk)"
  by (simp_all add: attach_frame_def socket_step_def handle_recv_outcome_def handle_text_frame_def)


section \<open>Leaving\<close>

definition client_registered :: "attachment_id \<Rightarrow> terminal_session_id \<Rightarrow> manager \<Rightarrow> bool" where
  "client_registered aid sid s = list_ex (\<lambda>(i, a). i = aid \<and> at_session_id a = sid) (mg_attachments s)"

text \<open>No database failure, and the client does not close a session that is closed already.\<close>

definition tidy_enabled :: "terminal_session_id \<Rightarrow> manager \<times> socket_state \<Rightarrow> socket_event \<Rightarrow> bool" where
  "tidy_enabled sid st ev =
     (case ev of
        SE_World l \<Rightarrow> (case l of ML_Faults _ \<Rightarrow> False | _ \<Rightarrow> True)
      | SE_Client (WI_Text (Some CL_Close)) \<Rightarrow>
          (case session_row (mg_db (fst st)) sid of Some r \<Rightarrow> ts_status r \<noteq> TS_Closed | None \<Rightarrow> True)
      | _ \<Rightarrow> True)"

definition served :: "attachment_id \<Rightarrow> terminal_session_id \<Rightarrow> user_id \<Rightarrow> manager \<Rightarrow> bool" where
  "served aid sid ow s \<longleftrightarrow> db_faults (mg_db s) = [] \<and> owner_is sid ow (mg_db s) \<and> attachment_in aid sid (mg_db s)"

lemma served_step: "served aid sid ow s \<Longrightarrow> (\<And>fs. l \<noteq> ML_Faults fs) \<Longrightarrow> served aid sid ow (mgr_step s l)"
  using quiet.held_step_quiet [of s l] owners.held_step [of sid ow s l] attached_rows.held_step [of aid sid s l]
  by (simp add: served_def quiet.held_def owners.held_def attached_rows.held_def)

lemma served_acts:
  assumes "acts (own_label u i k) s t" and "served aid sid ow s"
  shows "served aid sid ow t"
proof -
  from assms(1) obtain ls where t: "t = foldl mgr_step s ls" and l: "\<forall>l \<in> set ls. own_label u i k l"
    by (auto simp: acts_def)
  from l assms(2) show ?thesis unfolding t
  proof (induction ls arbitrary: s)
    case (Cons l ls)
    moreover have "l \<noteq> ML_Faults fs" for fs using Cons.prems(1) by (auto simp: own_label_def)
    ultimately show ?case using served_step [of aid sid ow s l] by simp
  qed simp
qed

lemma schedule_attachments: "mg_attachments (snd (schedule_detach_close sid s)) = mg_attachments s"
proof -
  have "preserves (\<lambda>u. mg_attachments u = mg_attachments s) (schedule_detach_close sid)"
    unfolding schedule_detach_close_def Let_def utc_now_def
    by (intro preserves_bind preserves_attempt preserves_read preserves_ret preserves_case_option)
       (auto simp: preserves_def liftDb_def split: prod.splits sum.splits)
  then show ?thesis by (rule preservesD) simp
qed

lemma detach_unregisters:
  assumes "served aid sid ow s"
  shows "\<exists>out u. detach_attachment ow sid aid None s = (Inr out, u) \<and> \<not> client_registered aid sid u"
proof -
  have nf: "no_faults s" using assms by (simp add: served_def no_faults_def)
  obtain r where r: "session_row (mg_db s) sid = Some r" "ts_owner_id r = ow"
    using assms by (auto simp: served_def owner_is_def)
  obtain a where a: "attachment_row (mg_db s) aid = Some a" "sa_session_id a = sid"
    using assms by (auto simp: served_def attachment_in_def)
  have "\<exists>d u. detach_session ow sid aid None s = (Inr d, u) \<and> mg_attachments u = AList.delete aid (mg_attachments s)"
  proof (cases "sa_detached_at a")
    case None
    then show ?thesis using detach_session_run [OF nf r a None, of None] by auto
  next
    case (Some t)
    then show ?thesis
      using get_owned_ok [OF nf r] get_attachment_ok [OF nf, of aid] a session_row_id [OF r(1)]
      by (simp add: detach_session_def bindP_run)
  qed
  then obtain d u where d: "detach_session ow sid aid None s = (Inr d, u)"
      "mg_attachments u = AList.delete aid (mg_attachments s)" by blast
  have "\<not> client_registered aid sid v" if "mg_attachments v = AList.delete aid (mg_attachments s)" for v
    using that by (auto simp: client_registered_def list_ex_iff AList.delete_eq)
  moreover have "\<exists>x. fst (schedule_detach_close sid u) = Inr x"
    by (simp add: schedule_detach_close_def bindP_run attemptP_run utc_now_def Let_def split: option.splits)
  ultimately show ?thesis using d schedule_attachments [of sid u]
    by (auto simp: detach_attachment_def bindP_run split: prod.splits)
qed

lemma attach_finish_row:
  assumes "no_faults c" and "fresh_ids (mg_db c)" and "session_row (mg_db c) (ts_id x) \<noteq> None"
    and f: "attach_finish req (x, w) c = (Inr out, s1)"
  shows "attachment_in (sa_id (ao_attachment out)) (ts_id x) (mg_db s1)"
proof -
  let ?k = "db_next_id (mg_db c)" and ?sid = "ts_id x"
  let ?a = "put_attachment ?sid (ar_client_info req) (ar_remote_addr req) c"
  note ok = create_attachment_ok [OF assms(1,3), of "ar_client_info req" "ar_remote_addr req"]
  have "?k \<notin> sa_id ` set (db_attachments (mg_db c))" using assms(2) by (auto simp: fresh_ids_def)
  note find_append_fresh [OF this]
  then have in_a: "attached_rows.held ?k ?sid ?a"
    by (simp add: attached_rows.held_def attachment_in_def attachment_row_def put_attachment_def)
  have "sa_id (ao_attachment out) = ?k"
    using f ok by (auto simp: attach_finish_def Let_def bindP_run split: prod.splits sum.splits)
  moreover have "attached_rows.held ?k ?sid (snd (attach_finish req (x, w) c))"
    unfolding attach_finish_def Let_def prod.case bindP_Inr [of "liftDb (sessions_create_attachment ?sid (ar_client_info req) (ar_remote_addr req))", OF ok]
    by (rule preservesD [where I = "attached_rows.held ?k ?sid", OF _ in_a]) (intro attached_rows.held_rules attached_rows.held_modify, simp_all)
  ultimately show ?thesis using f by (simp add: attached_rows.held_def)
qed

lemma attach_serves:
  assumes "no_faults s" and "fresh_ids (mg_db s)" and a: "attach_session req s = (Inr out, s1)"
  shows "served (sa_id (ao_attachment out)) (ar_session_id req) (ar_owner_id req) s1"
proof -
  let ?sid = "ar_session_id req"
  obtain r where r: "session_row (mg_db s) ?sid = Some r" "ts_owner_id r = ar_owner_id req" "ts_status r \<noteq> TS_Closed"
    using attach_success [OF a] by blast
  have id: "ts_id r = ?sid" by (rule session_row_id [OF r(1)])
  let ?c = "set_live ?sid (\<lambda>lv. lv\<lparr>lv_detach_close := None\<rparr>) s"
  obtain w where "cancel_pending_close ?sid s = (Inr w, ?c)"
    by (simp add: cancel_pending_close_def bindP_run)
  then have f: "attach_finish req (r, w) ?c = (Inr out, s1)"
    using a get_owned_ok [OF assms(1) r(1,2)] r(3) id by (simp add: attach_session_gate bindP_run)
  have "attachment_in (sa_id (ao_attachment out)) ?sid (mg_db s1)"
    using attach_finish_row [OF _ _ _ f] assms(1,2) r(1) id by simp
  moreover have "db_faults (mg_db s1) = []" "owner_is ?sid (ar_owner_id req) (mg_db s1)"
    using quiet.held_step_quiet [of s "ML_Attach req"] owners.held_step [of ?sid "ar_owner_id req" s "ML_Attach req"]
      assms(1) a r
    by (simp_all add: quiet.held_def owners.held_def owner_is_def no_faults_def)
  ultimately show ?thesis by (simp add: served_def)
qed

lemma close_unregisters:
  assumes "served aid sid ow s" and "close_session sid ow s = (Inr out, t)"
    and "\<And>r. session_row (mg_db s) sid = Some r \<Longrightarrow> ts_status r \<noteq> TS_Closed"
  shows "\<not> client_registered aid sid t"
proof -
  have nf: "no_faults s" using assms(1) by (simp add: served_def no_faults_def)
  obtain r where r: "session_row (mg_db s) sid = Some r" "ts_owner_id r = ow"
    using assms(1) by (auto simp: served_def owner_is_def)
  have "mg_attachments t = filter (\<lambda>(_, a). at_session_id a \<noteq> sid) (mg_attachments s)"
    using close_session_run [OF nf r assms(3) [OF r(1)]] assms(2) by auto
  then show ?thesis by (auto simp: client_registered_def list_ex_iff)
qed

definition attending :: "attachment_id \<Rightarrow> terminal_session_id \<Rightarrow> user_id \<Rightarrow> manager \<times> socket_state \<Rightarrow> bool" where
  "attending aid sid ow st \<longleftrightarrow> served aid sid ow (fst st) \<and> sk_attachment_id (snd st) = aid
     \<and> \<not> sk_detached (snd st) \<and> \<not> sk_closed (snd st)"

definition departed :: "attachment_id \<Rightarrow> terminal_session_id \<Rightarrow> user_id \<Rightarrow> manager \<times> socket_state \<Rightarrow> bool" where
  "departed aid sid ow st \<longleftrightarrow> \<not> client_registered aid sid (fst (socket_cleanup ow sid st))"

lemma attending_departs: "attending aid sid ow st \<Longrightarrow> departed aid sid ow st"
  using detach_unregisters [of aid sid ow "fst st"]
  by (auto simp: attending_def departed_def socket_cleanup_def Let_def split: prod.splits)

lemma attending_frame:
  assumes i: "attending aid sid ow st" and e: "tidy_enabled sid st (SE_Client frame)"
    and r: "handle_recv_outcome ow sid frame st = (go, st')"
  shows "(if go then attending aid sid ow else departed aid sid ow) st'"
proof -
  have stay: "attending aid sid ow st'" if "acts (own_label ow sid aid) (fst st) (fst st')"
      "sk_attachment_id (snd st') = aid" "\<not> sk_detached (snd st')" "\<not> sk_closed (snd st')"
    using served_acts [OF that(1)] i that by (simp add: attending_def)
  have aid: "sk_attachment_id (snd st) = aid" using i by (simp add: attending_def)
  from client_frame_cases [OF r] show ?thesis
  proof (elim disjE exE conjE)
    assume go: "\<not> go" and l: "left_by_detach ow sid st st'"
    then have "\<not> client_registered aid sid (fst st')"
      using detach_unregisters [of aid sid ow "fst st"] i by (auto simp: left_by_detach_def attending_def)
    with go l show ?thesis
      by (auto simp: departed_def socket_cleanup_def left_by_detach_def Let_def talkD split: prod.splits)
  next
    assume go: "\<not> go" and f: "frame = WI_Text (Some CL_Close)" and l: "left_by_close ow sid st st'"
    have "ts_status r \<noteq> TS_Closed" if "session_row (mg_db (fst st)) sid = Some r" for r
      using e f that by (simp add: tidy_enabled_def)
    then have "\<not> client_registered aid sid (fst st')"
      using close_unregisters [of aid sid ow "fst st"] i l by (auto simp: left_by_close_def attending_def)
    with go l show ?thesis
      by (auto simp: departed_def socket_cleanup_def left_by_close_def Let_def talkD split: prod.splits)
  next
    assume a: "acts (own_label ow sid (sk_attachment_id (snd st))) (fst st) (fst st')" and t: "talk (snd st) (snd st')"
    have "attending aid sid ow st'" by (rule stay) (use a t i aid in \<open>simp_all add: attending_def talkD\<close>)
    then show ?thesis using attending_departs by simp
  qed (use i in \<open>auto simp: attending_def handle_attach_keeps\<close>)
qed

interpretation leaving: socket_exit "attending aid sess user" "departed aid sess user" "tidy_enabled sess" user sess
  for aid sess user
proof unfold_locales
  have other: "attending aid sess user st'" if i: "attending aid sess user st" and e: "tidy_enabled sess st ev"
      and r: "socket_step user sess ev st = (go, st')" and n: "\<And>f. ev \<noteq> SE_Client f" for st ev go st'
  proof (cases ev)
    case (SE_World l)
    have "l \<noteq> ML_Faults fs" for fs using e SE_World by (auto simp: tidy_enabled_def)
    then have "served aid sess user (mgr_step (fst st) l)"
      using i served_step [of aid sess user "fst st" l] by (simp add: attending_def)
    with i r SE_World show ?thesis
      by (auto simp: socket_step_def attending_def sync_channel_def split: prod.splits option.splits)
  next
    case SE_Broadcast
    then show ?thesis using i r recv_broadcast_keeps [of "snd st"]
      by (auto simp: socket_step_def attending_def split: prod.splits)
  qed (use i r n in \<open>auto simp: socket_step_def attending_def split: prod.splits\<close>)
  fix st ev st'
  assume i: "attending aid sess user st" and e: "tidy_enabled sess st ev"
  have frame: "(if go then attending aid sess user else departed aid sess user) st'"
    if "socket_step user sess ev st = (go, st')" and "ev = SE_Client f" for go f
    using attending_frame [OF i, of f go st'] e that by (simp add: socket_step_def split: prod.splits)
  show "socket_step user sess ev st = (True, st') \<Longrightarrow> attending aid sess user st'"
    using frame [of True] other [OF i e] by (cases ev) auto
  show "socket_step user sess ev st = (False, st') \<Longrightarrow> departed aid sess user st'"
    using frame [of False] other [OF i e, of False st'] attending_departs by (cases ev) auto
qed (rule attending_departs)

text \<open>
  A socket never leaves its registration behind: in a run without database failures in which
  the client does not close a session that is closed already, however the socket ends (client
  detach or close, transport loss, a failed send or a failed acknowledgement), its attachment is
  no longer registered with the session afterwards.
\<close>

theorem socket_exit_unregisters:
  assumes "no_faults s" and "fresh_ids (mg_db s)"
    and "attach_session \<lparr>ar_owner_id = user_id, ar_session_id = sid, ar_client_info = ci, ar_remote_addr = None\<rparr> s
           = (Inr out, s1)"
    and "loop_legal (tidy_enabled sid) user_id sid events (s1, snd (socket_open out up s1))"
  shows "\<not> client_registered (sa_id (ao_attachment out)) sid
           (fst (run_attached_socket user_id sid ci up events s))"
proof -
  let ?aid = "sa_id (ao_attachment out)" and ?sk = "snd (socket_open out up s1)"
  let ?st = "socket_loop user_id sid events (s1, ?sk)"
  have s: "served ?aid sid user_id s1" using attach_serves [OF assms(1-3)] by simp
  have "attending ?aid sid user_id (s1, ?sk)"
    using s by (simp add: attending_def socket_open_def send_msg_def Let_def)
  then have d: "departed ?aid sid user_id ?st" using leaving.E_loop assms(4) by blast
  have "\<not> client_registered ?aid sid (snd (detach_session user_id sid ?aid None s1))"
  proof -
    obtain x u where "detach_attachment user_id sid ?aid None s1 = (Inr x, u)" "\<not> client_registered ?aid sid u"
      using detach_unregisters [OF s] by blast
    then show ?thesis
      using schedule_attachments [of sid "snd (detach_session user_id sid ?aid None s1)"]
      by (auto simp: detach_attachment_def bindP_run client_registered_def split: prod.splits sum.splits if_splits)
  qed
  with d assms(3) show ?thesis
    by (cases "socket_open out up s1")
       (auto simp: run_attached_socket_def departed_def Let_def split: prod.splits bool.splits)
qed

text \<open>
  Closing a session that ended on its own leaks the client's registration: after the remote
  shell has exited, a \<open>Close\<close> frame is answered with \<open>SessionClosed\<close>, but the attachment stays in
  the registry and its row is never stamped as detached.
\<close>

theorem close_of_ended_session_leaks_attachment:
  "\<exists>es. \<exists>u. u = fst (run_attached_socket 7 0 None True es (foldl mgr_step demo_manager demo_streaming))
      \<and> client_registered 2 0 u \<and> map_of (mg_runtimes u) 0 = None
      \<and> map_option sa_detached_at (attachment_row (mg_db u) 2) = Some None"
proof (intro exI conjI)
  let ?es = "[SE_World (ML_Drive 0 (DL_Msg (Some CM_Eof))), SE_World (ML_Forward 0), SE_World (ML_Forward 0),
     SE_Client (WI_Text (Some CL_Close))]"
  let ?u = "fst (run_attached_socket 7 0 None True ?es (foldl mgr_step demo_manager demo_streaming))"
  show "?u = fst (run_attached_socket 7 0 None True ?es (foldl mgr_step demo_manager demo_streaming))" ..
  show "client_registered 2 0 ?u" by code_simp
  show "map_of (mg_runtimes ?u) 0 = None" by code_simp
  show "map_option sa_detached_at (attachment_row (mg_db ?u) 2) = Some None" by code_simp
qed

section \<open>Runs against the documentation\<close>

text \<open>
  Output can be delivered twice: a frame that the live fan-out sends before the client's
  \<open>Attach\<close> arrives is sent again by the replay, although the protocol describes the replayed
  range as sent before any live output.
\<close>

theorem early_live_output_is_duplicated:
  "\<exists>es. map of_seq (outputs (snd (run_attached_socket 7 0 None True es
        (foldl mgr_step demo_manager demo_streaming)))) = [3, 2, 3]"
proof
  let ?es = "[SE_World (ML_Drive 0 (DL_Msg (Some (CM_Data [36])))), SE_World (ML_Forward 0), SE_Broadcast,
     attach_frame 1, SE_Client WI_Close]"
  show "map of_seq (outputs (snd (run_attached_socket 7 0 None True ?es
        (foldl mgr_step demo_manager demo_streaming)))) = [3, 2, 3]"
    by code_simp
qed

text \<open>
  A client that vanishes during the attach leaks its PTY: when the \<open>SessionAttached\<close> message
  cannot be sent, the attachment is undone without scheduling the TTL close, so a session whose
  pending close the attach had cancelled stays live with no client and no timer.
\<close>

theorem failed_ack_leaks_pty:
  "detach_state 0 demo_detached \<noteq> None
   \<and> (\<exists>u. u = fst (run_attached_socket 7 0 None False [] demo_detached)
        \<and> live_of 0 u \<noteq> None \<and> \<not> any_attachment 0 u \<and> detach_state 0 u = None
        \<and> map_option ts_status (session_row (mg_db u) 0) = Some TS_Active)"
proof (intro conjI exI)
  show "detach_state 0 demo_detached \<noteq> None" by code_simp
  let ?u = "fst (run_attached_socket 7 0 None False [] demo_detached)"
  show "?u = fst (run_attached_socket 7 0 None False [] demo_detached)" ..
  show "live_of 0 ?u \<noteq> None" by code_simp
  show "\<not> any_attachment 0 ?u" by code_simp
  show "detach_state 0 ?u = None" by code_simp
  show "map_option ts_status (session_row (mg_db ?u) 0) = Some TS_Active" by code_simp
qed

section \<open>Instances\<close>

definition demo_resume :: "socket_event list" where
  "demo_resume = [SE_Broadcast, SE_World (ML_Drive 0 (DL_Msg (Some (CM_Data [36])))), SE_World (ML_Forward 0),
     SE_Broadcast, SE_Client (WI_Text (Some CL_Ping)), SE_Broadcast]"


theorem socket_exit_unregisters_witness:
  "\<not> client_registered 2 0 (fst (run_attached_socket 7 0 None True
       [SE_Client (WI_Text (Some CL_Ping)), SE_TransportDown, SE_Client WI_Err]
       (foldl mgr_step demo_manager demo_streaming)))"
proof -
  let ?s = "foldl mgr_step demo_manager demo_streaming"
  let ?es = "[SE_Client (WI_Text (Some CL_Ping)), SE_TransportDown, SE_Client WI_Err]"
  let ?a = "attach_session \<lparr>ar_owner_id = 7, ar_session_id = 0, ar_client_info = None, ar_remote_addr = None\<rparr> ?s"
  let ?out = "projr (fst ?a)" and ?s1 = "snd ?a"
  have "no_faults ?s" by code_simp
  moreover have "fresh_ids (mg_db ?s)" by code_simp
  moreover have "?a = (Inr ?out, ?s1)" by code_simp
  moreover have "loop_legal (tidy_enabled 0) 7 0 ?es (?s1, snd (socket_open ?out True ?s1))" by code_simp
  moreover have "sa_id (ao_attachment ?out) = 2" by code_simp
  ultimately show ?thesis
    using socket_exit_unregisters [of ?s 7 0 None ?out ?s1 ?es True] by simp
qed

end
