(* ===== verification/Account_Store.thy ===== *)
theory Account_Store
  imports Core_Types
begin

text \<open>
  The PostgreSQL repositories for users, password credentials, browser sessions and audit
  events (\<^verbatim>\<open>crates/relayterm-db/src/repositories\<close>). As in \<open>Session_Store\<close>, a table is the list of
  its rows and every call may fail as the fault list says. The operations work on every record
  that extends \<open>account_db\<close>, so that other components can add their own tables. SQL's \<open>LOWER\<close>
  depends on the database's locale and is a parameter.
\<close>

section \<open>Rows\<close>

record user =
  us_id :: user_id
  us_email :: string
  us_display_name :: string
  us_created_at :: instant
  us_last_login_at :: "instant option"

record password_credential =
  pc_user_id :: user_id
  pc_password_hash :: string
  pc_password_changed_at :: instant
  pc_created_at :: instant
  pc_updated_at :: instant

record user_session =
  ws_id :: user_session_id
  ws_user_id :: user_id
  ws_token_hash :: "byte list"
  ws_created_at :: instant
  ws_last_seen_at :: instant
  ws_expires_at :: instant
  ws_revoked_at :: "instant option"
  ws_revoked_reason :: "string option"

definition is_expired_at :: "instant \<Rightarrow> user_session \<Rightarrow> bool" where
  "is_expired_at now r = (ws_expires_at r \<le> now)"

definition is_revoked :: "user_session \<Rightarrow> bool" where
  "is_revoked r = (ws_revoked_at r \<noteq> None)"

definition is_active_at :: "instant \<Rightarrow> user_session \<Rightarrow> bool" where
  "is_active_at now r = (\<not> is_expired_at now r \<and> \<not> is_revoked r)"

section \<open>The database\<close>

record account_db =
  ac_users :: "user list"
  ac_passwords :: "password_credential list"
  ac_sessions :: "user_session list"
  ac_audit :: "audit_event list"
  ac_next_id :: nat
  ac_now :: instant
  ac_faults :: "repository_error option list"

type_synonym ('z, 'a) acc = "('z account_db_scheme, repository_error, 'a) prog"

definition acc_call :: "('z, 'a) acc \<Rightarrow> ('z, 'a) acc" where
  "acc_call body = (\<lambda>s.
     case ac_faults s of
       [] \<Rightarrow> body s
     | None # fs \<Rightarrow> body (s\<lparr>ac_faults := fs\<rparr>)
     | Some e # fs \<Rightarrow> (Inl e, s\<lparr>ac_faults := fs\<rparr>))"

definition user_row :: "'z account_db_scheme \<Rightarrow> user_id \<Rightarrow> user option" where
  "user_row s uid = find (\<lambda>r. us_id r = uid) (ac_users s)"

definition password_row :: "'z account_db_scheme \<Rightarrow> user_id \<Rightarrow> password_credential option" where
  "password_row s uid = find (\<lambda>r. pc_user_id r = uid) (ac_passwords s)"

definition user_session_row :: "'z account_db_scheme \<Rightarrow> user_session_id \<Rightarrow> user_session option" where
  "user_session_row s sid = find (\<lambda>r. ws_id r = sid) (ac_sessions s)"

section \<open>Users\<close>

definition users_create :: "(string \<Rightarrow> string) \<Rightarrow> string \<Rightarrow> string \<Rightarrow> ('z, user) acc" where
  "users_create lower email display_name = acc_call (\<lambda>s.
     if list_ex (\<lambda>r. lower (us_email r) = lower email) (ac_users s)
     then (Inl (RE_Conflict ''user'' ''users_email_key''), s)
     else let row = \<lparr>us_id = ac_next_id s, us_email = email, us_display_name = display_name,
                     us_created_at = ac_now s, us_last_login_at = None\<rparr>
          in (Inr row, s\<lparr>ac_users := ac_users s @ [row], ac_next_id := Suc (ac_next_id s)\<rparr>))"

definition users_get :: "user_id \<Rightarrow> ('z, user option) acc" where
  "users_get uid = acc_call (\<lambda>s. (Inr (user_row s uid), s))"

definition users_get_by_email :: "(string \<Rightarrow> string) \<Rightarrow> string \<Rightarrow> ('z, user option) acc" where
  "users_get_by_email lower email = acc_call (\<lambda>s.
     (Inr (find (\<lambda>r. lower (us_email r) = lower email) (ac_users s)), s))"

definition users_touch_last_login :: "user_id \<Rightarrow> instant \<Rightarrow> ('z, unit) acc" where
  "users_touch_last_login uid at = acc_call (\<lambda>s.
     if user_row s uid = None then (Inl (RE_NotFound ''user''), s)
     else (Inr (), s\<lparr>ac_users := map (\<lambda>r. if us_id r = uid then r\<lparr>us_last_login_at := Some at\<rparr> else r)
                        (ac_users s)\<rparr>))"

section \<open>Password credentials\<close>

text \<open>\<open>INSERT ... ON CONFLICT (user_id) DO UPDATE\<close>.\<close>

definition upsert_password :: "user_id \<Rightarrow> string \<Rightarrow> ('z, password_credential) acc" where
  "upsert_password uid hash = (\<lambda>s.
     case password_row s uid of
       Some old \<Rightarrow>
         let row = old\<lparr>pc_password_hash := hash, pc_password_changed_at := ac_now s, pc_updated_at := ac_now s\<rparr>
         in (Inr row, s\<lparr>ac_passwords := map (\<lambda>r. if pc_user_id r = uid then row else r) (ac_passwords s)\<rparr>)
     | None \<Rightarrow>
         if user_row s uid = None
         then (Inl (RE_Conflict ''user_password'' ''user_passwords_user_id_fkey''), s)
         else let row = \<lparr>pc_user_id = uid, pc_password_hash = hash, pc_password_changed_at = ac_now s,
                         pc_created_at = ac_now s, pc_updated_at = ac_now s\<rparr>
              in (Inr row, s\<lparr>ac_passwords := ac_passwords s @ [row]\<rparr>))"

definition passwords_upsert_for_user :: "user_id \<Rightarrow> string \<Rightarrow> ('z, password_credential) acc" where
  "passwords_upsert_for_user uid hash = acc_call (upsert_password uid hash)"

definition passwords_get_for_user :: "user_id \<Rightarrow> ('z, password_credential option) acc" where
  "passwords_get_for_user uid = acc_call (\<lambda>s. (Inr (password_row s uid), s))"

definition passwords_any_exists :: "('z, bool) acc" where
  "passwords_any_exists = acc_call (\<lambda>s. (Inr (ac_passwords s \<noteq> []), s))"

section \<open>Browser sessions\<close>

definition user_sessions_create :: "user_id \<Rightarrow> byte list \<Rightarrow> instant \<Rightarrow> ('z, user_session) acc" where
  "user_sessions_create uid token_hash expires_at = acc_call (\<lambda>s.
     if list_ex (\<lambda>r. ws_token_hash r = token_hash) (ac_sessions s)
     then (Inl (RE_Conflict ''user_session'' ''user_sessions_token_hash_key''), s)
     else if user_row s uid = None
     then (Inl (RE_Conflict ''user_session'' ''user_sessions_user_id_fkey''), s)
     else let row = \<lparr>ws_id = ac_next_id s, ws_user_id = uid, ws_token_hash = token_hash,
                     ws_created_at = ac_now s, ws_last_seen_at = ac_now s, ws_expires_at = expires_at,
                     ws_revoked_at = None, ws_revoked_reason = None\<rparr>
          in (Inr row, s\<lparr>ac_sessions := ac_sessions s @ [row], ac_next_id := Suc (ac_next_id s)\<rparr>))"

definition user_sessions_get_by_token_hash :: "byte list \<Rightarrow> ('z, user_session option) acc" where
  "user_sessions_get_by_token_hash token_hash = acc_call (\<lambda>s.
     (Inr (find (\<lambda>r. ws_token_hash r = token_hash) (ac_sessions s)), s))"

definition user_sessions_get :: "user_session_id \<Rightarrow> ('z, user_session option) acc" where
  "user_sessions_get sid = acc_call (\<lambda>s. (Inr (user_session_row s sid), s))"

definition user_sessions_touch_last_seen :: "user_session_id \<Rightarrow> instant \<Rightarrow> ('z, unit) acc" where
  "user_sessions_touch_last_seen sid at = acc_call (\<lambda>s.
     if user_session_row s sid = None then (Inl (RE_NotFound ''user_session''), s)
     else (Inr (), s\<lparr>ac_sessions := map (\<lambda>r. if ws_id r = sid then r\<lparr>ws_last_seen_at := at\<rparr> else r)
                        (ac_sessions s)\<rparr>))"

text \<open>The \<open>CASE WHEN revoked_at IS NULL\<close> columns: a first revocation is never overwritten.\<close>

definition stamp_revoked :: "instant \<Rightarrow> string option \<Rightarrow> user_session \<Rightarrow> user_session" where
  "stamp_revoked at reason r =
     (if ws_revoked_at r = None then r\<lparr>ws_revoked_at := Some at, ws_revoked_reason := reason\<rparr> else r)"

definition user_sessions_revoke :: "user_session_id \<Rightarrow> instant \<Rightarrow> string option \<Rightarrow> ('z, unit) acc" where
  "user_sessions_revoke sid at reason = acc_call (\<lambda>s.
     if user_session_row s sid = None then (Inl (RE_NotFound ''user_session''), s)
     else (Inr (), s\<lparr>ac_sessions := map (\<lambda>r. if ws_id r = sid then stamp_revoked at reason r else r)
                        (ac_sessions s)\<rparr>))"

definition revoke_where ::
  "(user_session \<Rightarrow> bool) \<Rightarrow> instant \<Rightarrow> string option \<Rightarrow> ('z, nat) acc" where
  "revoke_where P at reason = acc_call (\<lambda>s.
     (Inr (length (filter (\<lambda>r. P r \<and> ws_revoked_at r = None) (ac_sessions s))),
      s\<lparr>ac_sessions := map (\<lambda>r. if P r then stamp_revoked at reason r else r) (ac_sessions s)\<rparr>))"

definition user_sessions_revoke_all_for_user ::
  "user_id \<Rightarrow> instant \<Rightarrow> string option \<Rightarrow> ('z, nat) acc" where
  "user_sessions_revoke_all_for_user uid = revoke_where (\<lambda>r. ws_user_id r = uid)"

definition user_sessions_revoke_all_except ::
  "user_id \<Rightarrow> user_session_id \<Rightarrow> instant \<Rightarrow> string option \<Rightarrow> ('z, nat) acc" where
  "user_sessions_revoke_all_except uid except_id = revoke_where (\<lambda>r. ws_user_id r = uid \<and> ws_id r \<noteq> except_id)"

definition user_sessions_revoke_for_user ::
  "user_id \<Rightarrow> user_session_id \<Rightarrow> instant \<Rightarrow> string option \<Rightarrow> ('z, bool) acc" where
  "user_sessions_revoke_for_user uid sid at reason = acc_call (\<lambda>s.
     case find (\<lambda>r. ws_id r = sid \<and> ws_user_id r = uid) (ac_sessions s) of
       None \<Rightarrow> (Inl (RE_NotFound ''user_session''), s)
     | Some old \<Rightarrow>
         (Inr (ws_revoked_at old = None),
          s\<lparr>ac_sessions := map (\<lambda>r. if ws_id r = sid then stamp_revoked at reason r else r) (ac_sessions s)\<rparr>))"

text \<open>\<open>ORDER BY created_at DESC, id\<close>.\<close>

definition user_sessions_list_for_user :: "user_id \<Rightarrow> ('z, user_session list) acc" where
  "user_sessions_list_for_user uid = acc_call (\<lambda>s.
     (Inr (sort_key (\<lambda>r. - ws_created_at r) (sort_key ws_id
             (filter (\<lambda>r. ws_user_id r = uid) (ac_sessions s)))), s))"

section \<open>Audit events\<close>

definition audit_create :: "user_id option \<Rightarrow> audit_event_kind \<Rightarrow> json \<Rightarrow> string option \<Rightarrow> ('z, audit_event) acc" where
  "audit_create actor kind payload remote_addr = acc_call (\<lambda>s.
     if (case actor of Some uid \<Rightarrow> user_row s uid = None | None \<Rightarrow> False)
     then (Inl (RE_Conflict ''audit_event'' ''audit_events_actor_id_fkey''), s)
     else let row = \<lparr>ae_id = ac_next_id s, ae_actor_id = actor, ae_kind = kind, ae_payload = payload,
                     ae_remote_addr = remote_addr, ae_recorded_at = ac_now s\<rparr>
          in (Inr row, s\<lparr>ac_audit := ac_audit s @ [row], ac_next_id := Suc (ac_next_id s)\<rparr>))"

text \<open>\<open>ORDER BY recorded_at DESC, id DESC LIMIT\<close>.\<close>

definition newest_first :: "audit_event list \<Rightarrow> audit_event list" where
  "newest_first rows = rev (sort_key ae_recorded_at (sort_key ae_id rows))"

definition audit_recent :: "nat \<Rightarrow> ('z, audit_event list) acc" where
  "audit_recent limit = acc_call (\<lambda>s. (Inr (take limit (newest_first (ac_audit s))), s))"

definition audit_recent_for_actor :: "user_id \<Rightarrow> nat \<Rightarrow> ('z, audit_event list) acc" where
  "audit_recent_for_actor actor limit = acc_call (\<lambda>s.
     (Inr (take limit (newest_first (filter (\<lambda>e. ae_actor_id e = Some actor) (ac_audit s)))), s))"

definition audit_get :: "nat \<Rightarrow> ('z, audit_event option) acc" where
  "audit_get aid = acc_call (\<lambda>s. (Inr (find (\<lambda>e. ae_id e = aid) (ac_audit s)), s))"

section \<open>Calls\<close>

lemma acc_call_faults_cases:
  obtains (fault) e fs where "acc_call body s = (Inl e, s\<lparr>ac_faults := fs\<rparr>)" and "ac_faults s \<noteq> []"
  | (run) fs where "acc_call body s = body (s\<lparr>ac_faults := fs\<rparr>)" and "ac_faults s = [] \<longrightarrow> fs = []"
proof (cases "ac_faults s")
  case Nil
  then have "acc_call body s = body (s\<lparr>ac_faults := []\<rparr>)" by (cases s) (simp add: acc_call_def)
  then show thesis by (rule run) simp
next
  case (Cons x fs)
  show thesis
  proof (cases x)
    case None
    with Cons have "acc_call body s = body (s\<lparr>ac_faults := fs\<rparr>)" by (simp add: acc_call_def)
    with Cons show thesis by (intro run) simp_all
  next
    case (Some e)
    with Cons have "acc_call body s = (Inl e, s\<lparr>ac_faults := fs\<rparr>)" by (simp add: acc_call_def)
    with Cons show thesis by (intro fault) simp_all
  qed
qed

lemma acc_call_cases:
  obtains (fault) e fs where "acc_call body s = (Inl e, s\<lparr>ac_faults := fs\<rparr>)"
  | (run) fs where "acc_call body s = body (s\<lparr>ac_faults := fs\<rparr>)"
  using acc_call_faults_cases [of body s] by metis

lemma acc_call_ok: "ac_faults s = [] \<Longrightarrow> acc_call body s = body s"
  by (simp add: acc_call_def)

end
