(* ===== verification/Rust_Text.thy ===== *)
theory Rust_Text
  imports Relay_Prelude
begin

text \<open>
  The part of Rust's string library the code relies on. A string is a list of characters, each
  a Unicode scalar value below 256; \<open>str_len\<close> is \<open>str::len\<close>, the number of UTF-8 bytes, while
  \<open>length\<close> is the number of characters.
\<close>

section \<open>Characters\<close>

definition scalar :: "char \<Rightarrow> nat" where
  "scalar c = of_char c"

definition is_whitespace :: "char \<Rightarrow> bool" where
  "is_whitespace c = (let n = scalar c in 9 \<le> n \<and> n \<le> 13 \<or> n = 32 \<or> n = 133 \<or> n = 160)"

definition is_control :: "char \<Rightarrow> bool" where
  "is_control c = (let n = scalar c in n < 32 \<or> 127 \<le> n \<and> n \<le> 159)"

definition is_ascii_alphabetic :: "char \<Rightarrow> bool" where
  "is_ascii_alphabetic c = (let n = scalar c in 65 \<le> n \<and> n \<le> 90 \<or> 97 \<le> n \<and> n \<le> 122)"

definition is_ascii_alphanumeric :: "char \<Rightarrow> bool" where
  "is_ascii_alphanumeric c = (is_ascii_alphabetic c \<or> (let n = scalar c in 48 \<le> n \<and> n \<le> 57))"

section \<open>Strings\<close>

definition str_len :: "string \<Rightarrow> nat" where
  "str_len s = sum_list (map (\<lambda>c. if scalar c < 128 then 1 else 2) s)"

definition trim :: "string \<Rightarrow> string" where
  "trim s = rev (dropWhile is_whitespace (rev (dropWhile is_whitespace s)))"

definition to_ascii_lowercase :: "string \<Rightarrow> string" where
  "to_ascii_lowercase s = map (\<lambda>c. let n = scalar c in if 65 \<le> n \<and> n \<le> 90 then char_of (n + 32) else c) s"

text \<open>\<open>str::split\<close> on a character: always at least one piece.\<close>

fun split_on :: "char \<Rightarrow> string \<Rightarrow> string list" where
  "split_on sep [] = [[]]"
| "split_on sep (c # cs) =
     (if c = sep then [] # split_on sep cs
      else case split_on sep cs of [] \<Rightarrow> [[c]] | p # ps \<Rightarrow> (c # p) # ps)"

text \<open>\<open>find\<close> and \<open>split_at\<close> on a character, the character itself dropped.\<close>

definition split_once :: "char \<Rightarrow> string \<Rightarrow> (string \<times> string) option" where
  "split_once sep s =
     (if sep \<in> set s then Some (takeWhile (\<lambda>c. c \<noteq> sep) s, tl (dropWhile (\<lambda>c. c \<noteq> sep) s)) else None)"

definition starts_with :: "string \<Rightarrow> string \<Rightarrow> bool" where
  "starts_with p s = (take (length p) s = p)"

fun str_contains :: "string \<Rightarrow> string \<Rightarrow> bool" where
  "str_contains p [] = (p = [])"
| "str_contains p (c # cs) = (starts_with p (c # cs) \<or> str_contains p cs)"

definition is_ascii :: "string \<Rightarrow> bool" where
  "is_ascii s = list_all (\<lambda>c. scalar c < 128) s"

text \<open>\<open>String::into_bytes\<close> of an ASCII string.\<close>

definition ascii_bytes :: "string \<Rightarrow> byte list" where
  "ascii_bytes s = map (\<lambda>c. of_nat (scalar c)) s"

text \<open>Decimal rendering of an unsigned integer.\<close>

fun show_nat :: "nat \<Rightarrow> string" where
  "show_nat n = (if n < 10 then [char_of (n + 48)] else show_nat (n div 10) @ [char_of (n mod 10 + 48)])"

declare show_nat.simps [simp del]

section \<open>Lemmas\<close>

lemma str_len_append [simp]: "str_len (xs @ ys) = str_len xs + str_len ys"
  by (simp add: str_len_def)

lemma length_le_str_len: "length s \<le> str_len s"
  by (induction s) (auto simp: str_len_def)

lemma split_on_no_sep: "sep \<notin> set s \<Longrightarrow> split_on sep s = [s]"
  by (induction s) auto

lemma split_on_append: "sep \<notin> set s \<Longrightarrow> split_on sep (s @ sep # t) = s # split_on sep t"
  by (induction s) auto

lemma split_once_append: "sep \<notin> set s \<Longrightarrow> split_once sep (s @ sep # t) = Some (s, t)"
  by (auto simp: split_once_def takeWhile_append dropWhile_append takeWhile_eq_all_conv
      dropWhile_eq_Nil_conv)

lemma split_once_SomeD: "split_once sep s = Some (a, b) \<Longrightarrow> s = a @ sep # b \<and> sep \<notin> set a"
proof -
  assume s: "split_once sep s = Some (a, b)"
  then have i: "sep \<in> set s" and a: "a = takeWhile (\<lambda>c. c \<noteq> sep) s" and b: "b = tl (dropWhile (\<lambda>c. c \<noteq> sep) s)"
    by (simp_all add: split_once_def split: if_splits)
  have n: "dropWhile (\<lambda>c. c \<noteq> sep) s \<noteq> []" using i by (auto simp: dropWhile_eq_Nil_conv)
  then have "hd (dropWhile (\<lambda>c. c \<noteq> sep) s) = sep" using hd_dropWhile by blast
  then have "dropWhile (\<lambda>c. c \<noteq> sep) s = sep # b" using n b by (cases "dropWhile (\<lambda>c. c \<noteq> sep) s") auto
  moreover have "sep \<notin> set a" using a by (auto dest: set_takeWhileD)
  ultimately show ?thesis using takeWhile_dropWhile_id [of "\<lambda>c. c \<noteq> sep" s] a by simp
qed

end
