(* ===== verification/Login_Throttle.thy ===== *)
theory Login_Throttle
  imports Rust_Text
begin

text \<open>
  The in-memory login throttler of \<^verbatim>\<open>crates/relayterm-auth/src/throttle.rs\<close>. Its specification is
  a policy over the full history of a key: after \<open>max_failures\<close> failures within a window the key
  is blocked for a fixed time. The code keeps a pruned, capped list of failures and one
  deadline per key, in a map of bounded size.
\<close>

section \<open>State and operations\<close>

definition MAX_TRACKED_KEYS :: nat where
  "MAX_TRACKED_KEYS = 10000"

record login_throttle_config =
  tc_max_failures :: nat
  tc_window :: duration
  tc_block :: duration

definition V1_DEFAULT :: login_throttle_config where
  "V1_DEFAULT = \<lparr>tc_max_failures = 5, tc_window = seconds (15 * 60), tc_block = seconds (15 * 60)\<rparr>"

datatype throttle_decision = Allowed | Throttled nat

record attempt_state =
  as_failures :: "instant list"
  as_blocked_until :: "instant option"

definition attempt_new :: attempt_state where
  "attempt_new = \<lparr>as_failures = [], as_blocked_until = None\<rparr>"

definition prune_window :: "instant \<Rightarrow> duration \<Rightarrow> attempt_state \<Rightarrow> attempt_state" where
  "prune_window now window st = (let cutoff = now - window in st\<lparr>as_failures := filter (\<lambda>t. t > cutoff) (as_failures st)\<rparr>)"

definition is_blocked :: "instant \<Rightarrow> attempt_state \<Rightarrow> bool" where
  "is_blocked now st = (case as_blocked_until st of Some until \<Rightarrow> now < until | None \<Rightarrow> False)"

definition is_idle :: "instant \<Rightarrow> duration \<Rightarrow> attempt_state \<Rightarrow> bool" where
  "is_idle now window st =
     (if is_blocked now st then False
      else let cutoff = now - window in \<not> list_ex (\<lambda>t. t > cutoff) (as_failures st))"

record login_throttler =
  lt_config :: login_throttle_config
  lt_inner :: "(string \<times> attempt_state) list"

definition throttler_new :: "login_throttle_config \<Rightarrow> login_throttler" where
  "throttler_new config = \<lparr>lt_config = config, lt_inner = []\<rparr>"

definition throttle_check :: "string \<Rightarrow> instant \<Rightarrow> login_throttler \<Rightarrow> throttle_decision" where
  "throttle_check key now lt =
     (case map_of (lt_inner lt) key of
        None \<Rightarrow> Allowed
      | Some st \<Rightarrow>
          (case as_blocked_until st of
             Some until \<Rightarrow> if now < until then Throttled (nat (max (num_seconds (until - now)) 1)) else Allowed
           | None \<Rightarrow> Allowed))"

definition throttle_cleanup :: "instant \<Rightarrow> login_throttler \<Rightarrow> login_throttler" where
  "throttle_cleanup now lt =
     lt\<lparr>lt_inner := filter (\<lambda>(_, st). \<not> is_idle now (tc_window (lt_config lt)) st) (lt_inner lt)\<rparr>"

definition add_failure :: "login_throttle_config \<Rightarrow> instant \<Rightarrow> attempt_state \<Rightarrow> attempt_state" where
  "add_failure c now st0 =
     (let st = prune_window now (tc_window c) st0;
          st1 = (if length (as_failures st) < saturating_add_usize (tc_max_failures c) 1
                 then st\<lparr>as_failures := as_failures st @ [now]\<rparr> else st)
      in if length (as_failures st1) \<ge> tc_max_failures c then
           let new_until = now + tc_block c
           in st1\<lparr>as_blocked_until := Some (case as_blocked_until st1 of
                     Some prev \<Rightarrow> if prev > new_until then prev else new_until
                   | None \<Rightarrow> new_until)\<rparr>
         else st1)"

definition record_failure :: "string \<Rightarrow> instant \<Rightarrow> login_throttler \<Rightarrow> login_throttler" where
  "record_failure key now lt =
     (let lt1 = (if length (lt_inner lt) \<ge> MAX_TRACKED_KEYS then throttle_cleanup now lt else lt)
      in case map_of (lt_inner lt1) key of
           Some st \<Rightarrow> lt1\<lparr>lt_inner := AList.update key (add_failure (lt_config lt) now st) (lt_inner lt1)\<rparr>
         | None \<Rightarrow>
             if length (lt_inner lt1) \<ge> MAX_TRACKED_KEYS then lt1
             else lt1\<lparr>lt_inner := AList.update key (add_failure (lt_config lt) now attempt_new) (lt_inner lt1)\<rparr>)"

definition record_success :: "string \<Rightarrow> login_throttler \<Rightarrow> login_throttler" where
  "record_success key lt = lt\<lparr>lt_inner := AList.delete key (lt_inner lt)\<rparr>"

definition tracked_keys :: "login_throttler \<Rightarrow> nat" where
  "tracked_keys lt = length (lt_inner lt)"

definition normalize_login_identifier :: "string \<Rightarrow> string" where
  "normalize_login_identifier raw = to_ascii_lowercase (trim raw)"

section \<open>The policy\<close>

text \<open>
  The reference: some failure is the last of \<open>max_failures\<close> within a window, and its block is
  not over.
\<close>

definition policy :: "login_throttle_config \<Rightarrow> instant list \<Rightarrow> instant \<Rightarrow> bool" where
  "policy c fs now \<longleftrightarrow>
     (\<exists>t \<in> set fs. tc_max_failures c \<le> length (filter (\<lambda>u. t - tc_window c < u \<and> u \<le> t) fs)
        \<and> now < t + tc_block c)"

datatype throttle_event = TE_Fail string instant | TE_Success string | TE_Cleanup instant

primrec throttle_step :: "login_throttler \<Rightarrow> throttle_event \<Rightarrow> login_throttler" where
  "throttle_step lt (TE_Fail key t) = record_failure key t lt"
| "throttle_step lt (TE_Success key) = record_success key lt"
| "throttle_step lt (TE_Cleanup t) = throttle_cleanup t lt"

text \<open>The failures of a key since its last success.\<close>

primrec note_event :: "string \<Rightarrow> instant list \<Rightarrow> throttle_event \<Rightarrow> instant list" where
  "note_event key fs (TE_Fail k t) = (if k = key then fs @ [t] else fs)"
| "note_event key fs (TE_Success k) = (if k = key then [] else fs)"
| "note_event key fs (TE_Cleanup t) = fs"

definition failures_of :: "string \<Rightarrow> throttle_event list \<Rightarrow> instant list" where
  "failures_of key evs = foldl (note_event key) [] evs"

primrec event_time :: "throttle_event \<Rightarrow> instant option" where
  "event_time (TE_Fail k t) = Some t"
| "event_time (TE_Success k) = None"
| "event_time (TE_Cleanup t) = Some t"

definition not_before :: "throttle_event list \<Rightarrow> instant \<Rightarrow> bool" where
  "not_before evs now = list_all (\<lambda>ev. case event_time ev of Some t \<Rightarrow> t \<le> now | None \<Rightarrow> True) evs"

section \<open>One key\<close>

text \<open>
  \<open>tracks c fs st T\<close>: from time \<open>T\<close> on, the state \<open>st\<close> decides as the policy on the history \<open>fs\<close>,
  and will go on doing so.
\<close>

definition tracks :: "login_throttle_config \<Rightarrow> instant list \<Rightarrow> attempt_state \<Rightarrow> instant \<Rightarrow> bool" where
  "tracks c fs st T \<longleftrightarrow>
     (\<forall>now \<ge> T. filter (\<lambda>u. now - tc_window c < u) (as_failures st) = filter (\<lambda>u. now - tc_window c < u) fs)
     \<and> (\<forall>now \<ge> T. is_blocked now st \<longleftrightarrow> policy c fs now)
     \<and> length (as_failures st) \<le> tc_max_failures c
     \<and> (length (as_failures st) = tc_max_failures c \<longrightarrow>
          (\<exists>until. as_blocked_until st = Some until \<and> (\<forall>u \<in> set (as_failures st). u + tc_window c \<le> until)))
     \<and> (\<forall>u \<in> set fs. u \<le> T)"

definition sane :: "login_throttle_config \<Rightarrow> bool" where
  "sane c \<longleftrightarrow> 0 < tc_max_failures c \<and> tc_max_failures c < usize_max \<and> 0 < tc_window c \<and> tc_window c \<le> tc_block c"

lemma tracks_later: "tracks c fs st T \<Longrightarrow> T \<le> T' \<Longrightarrow> tracks c fs st T'"
  by (fastforce simp: tracks_def)

lemma tracks_new: "sane c \<Longrightarrow> tracks c [] attempt_new T"
  by (simp add: tracks_def attempt_new_def is_blocked_def policy_def sane_def)

lemma tracks_idle:
  assumes "tracks c fs st T" and "is_idle T (tc_window c) st" and "sane c"
  shows "tracks c fs attempt_new T"
proof -
  have "\<not> is_blocked now st" if "T \<le> now" for now
    using assms(2) that by (auto simp: is_idle_def is_blocked_def split: if_splits option.splits)
  moreover have "filter (\<lambda>u. now - tc_window c < u) (as_failures st) = []" if "T \<le> now" for now
    using assms(2) that by (auto simp: is_idle_def list_ex_iff filter_empty_conv split: if_splits)
  ultimately show ?thesis
    using assms(1,3) by (simp add: tracks_def attempt_new_def is_blocked_def sane_def)
qed

lemma policy_snoc:
  assumes "\<forall>u \<in> set fs. u \<le> t" and "0 < tc_window c"
  shows "policy c (fs @ [t]) now \<longleftrightarrow> policy c fs now
     \<or> (tc_max_failures c \<le> Suc (length (filter (\<lambda>u. t - tc_window c < u) fs)) \<and> now < t + tc_block c)"
proof -
  let ?in = "\<lambda>t xs. filter (\<lambda>u. t - tc_window c < u \<and> u \<le> t) xs"
  have own: "?in t fs = filter (\<lambda>u. t - tc_window c < u) fs"
    using assms(1) by (intro filter_cong) auto
  have old: "length (?in u (fs @ [t])) = length (?in u fs)" if "u < t" for u using that by simp
  have new: "length (?in t (fs @ [t])) = Suc (length (?in t fs))" using assms(2) by simp
  have le: "length (?in u fs) \<le> length (?in u (fs @ [t]))" for u by simp
  show ?thesis
  proof
    assume "policy c (fs @ [t]) now"
    then obtain u where u: "u \<in> set (fs @ [t])" "tc_max_failures c \<le> length (?in u (fs @ [t]))" "now < u + tc_block c"
      unfolding policy_def by blast
    then have "u \<le> t" using assms(1) by auto
    then consider "u = t" | "u < t" by linarith
    then show "policy c fs now
     \<or> (tc_max_failures c \<le> Suc (length (filter (\<lambda>u. t - tc_window c < u) fs)) \<and> now < t + tc_block c)"
    proof cases
      case 1
      with u new own show ?thesis by simp
    next
      case 2
      then have "u \<in> set fs" using u(1) by simp
      with 2 u(2,3) old show ?thesis unfolding policy_def by auto
    qed
  next
    assume "policy c fs now
     \<or> (tc_max_failures c \<le> Suc (length (filter (\<lambda>u. t - tc_window c < u) fs)) \<and> now < t + tc_block c)"
    then show "policy c (fs @ [t]) now"
    proof
      assume "policy c fs now"
      then obtain u where "u \<in> set fs" "tc_max_failures c \<le> length (?in u fs)" "now < u + tc_block c"
        unfolding policy_def by blast
      with le [of u] show ?thesis unfolding policy_def by (intro bexI [of _ u]) auto
    next
      assume "tc_max_failures c \<le> Suc (length (filter (\<lambda>u. t - tc_window c < u) fs)) \<and> now < t + tc_block c"
      with own new show ?thesis unfolding policy_def by (intro bexI [of _ t]) auto
    qed
  qed
qed

text \<open>A failure of a key that is not blocked: the window never holds more than \<open>max_failures\<close>.\<close>

lemma tracks_prune:
  assumes tr: "tracks c fs st T" and "sane c" and "T \<le> t" and "\<not> is_blocked t st"
  shows "as_failures (prune_window t (tc_window c) st) = filter (\<lambda>u. t - tc_window c < u) fs"
    and "length (as_failures (prune_window t (tc_window c) st)) < tc_max_failures c"
proof -
  show eq: "as_failures (prune_window t (tc_window c) st) = filter (\<lambda>u. t - tc_window c < u) fs"
    using tr assms(3) by (simp add: tracks_def prune_window_def)
  show "length (as_failures (prune_window t (tc_window c) st)) < tc_max_failures c"
  proof (cases "length (as_failures st) = tc_max_failures c")
    case True
    then obtain until where "as_blocked_until st = Some until" "\<forall>u \<in> set (as_failures st). u + tc_window c \<le> until"
      using tr by (auto simp: tracks_def)
    moreover then have "until \<le> t" using assms(4) by (simp add: is_blocked_def)
    ultimately have "\<forall>u \<in> set (as_failures st). \<not> t - tc_window c < u" by force
    then have "as_failures (prune_window t (tc_window c) st) = []"
      by (auto simp: prune_window_def filter_empty_conv)
    with assms(2) show ?thesis by (simp add: sane_def)
  next
    case False
    then have "length (as_failures st) < tc_max_failures c" using tr by (simp add: tracks_def)
    moreover have "length (as_failures (prune_window t (tc_window c) st)) \<le> length (as_failures st)"
      by (simp add: prune_window_def)
    ultimately show ?thesis by simp
  qed
qed

lemma tracks_failure:
  assumes tr: "tracks c fs st T" and sane: "sane c" and "T \<le> t" and allowed: "\<not> is_blocked t st"
  shows "tracks c (fs @ [t]) (add_failure c t st) t"
proof -
  let ?w = "tc_window c" and ?m = "tc_max_failures c"
  define ps where "ps = filter (\<lambda>u. t - ?w < u) fs"
  note pr = tracks_prune [OF tr sane assms(3,4), folded ps_def]
  have le: "\<forall>u \<in> set fs. u \<le> t" using tr assms(3) by (fastforce simp: tracks_def)
  have keep: "as_blocked_until (prune_window t ?w st) = as_blocked_until st" by (simp add: prune_window_def)
  have len: "length ps < saturating_add_usize ?m 1"
    using pr sane by (simp add: saturating_add_usize_def sane_def)
  have fl: "as_failures (add_failure c t st) = ps @ [t]"
    using len pr by (simp add: add_failure_def Let_def)
  have bl: "is_blocked now (add_failure c t st) \<longleftrightarrow> is_blocked now st \<or> ?m \<le> Suc (length ps) \<and> now < t + tc_block c"
    for now
    using len pr keep by (auto simp: add_failure_def Let_def is_blocked_def split: option.splits)
  have until: "\<exists>until. as_blocked_until (add_failure c t st) = Some until \<and> t + tc_block c \<le> until"
    if "Suc (length ps) = ?m"
    using len pr keep that by (auto simp: add_failure_def Let_def split: option.splits)
  have "filter (\<lambda>u. now - ?w < u) (ps @ [t]) = filter (\<lambda>u. now - ?w < u) (fs @ [t])" if "t \<le> now" for now
    using that by (auto simp: ps_def intro!: filter_cong)
  moreover have "is_blocked now (add_failure c t st) \<longleftrightarrow> policy c (fs @ [t]) now" if "t \<le> now" for now
    using bl policy_snoc [OF le, of c now] tr assms(3) that sane
    by (simp add: tracks_def ps_def sane_def)
  moreover have "\<forall>u \<in> set (ps @ [t]). u + ?w \<le> t + tc_block c"
    using le sane by (auto simp: ps_def sane_def)
  ultimately show ?thesis
    using le pr fl until unfolding tracks_def by fastforce
qed

section \<open>The map of keys\<close>

definition state_of :: "string \<Rightarrow> login_throttler \<Rightarrow> attempt_state" where
  "state_of key lt = (case map_of (lt_inner lt) key of Some st \<Rightarrow> st | None \<Rightarrow> attempt_new)"

lemma check_state: "throttle_check key now lt = Allowed \<longleftrightarrow> \<not> is_blocked now (state_of key lt)"
  by (auto simp: throttle_check_def state_of_def is_blocked_def attempt_new_def split: option.splits)

lemma map_of_filter_values:
  "distinct (map fst xs) \<Longrightarrow> map_of (filter (\<lambda>(_, v). P v) xs) k =
     (case map_of xs k of Some v \<Rightarrow> if P v then Some v else None | None \<Rightarrow> None)"
proof (induction xs)
  case (Cons x xs)
  then show ?case by (cases x) (auto simp: map_of_eq_None_iff image_iff split: option.splits)
qed simp

text \<open>Dropping idle keys changes no decision from then on.\<close>

definition tracks_all :: "login_throttler \<Rightarrow> throttle_event list \<Rightarrow> instant \<Rightarrow> bool" where
  "tracks_all lt evs T \<longleftrightarrow> distinct (map fst (lt_inner lt)) \<and> sane (lt_config lt)
     \<and> (\<forall>key. tracks (lt_config lt) (failures_of key evs) (state_of key lt) T)"

lemma failures_of_snoc [simp]: "failures_of key (evs @ [ev]) = note_event key (failures_of key evs) ev"
  by (simp add: failures_of_def)

lemma cleanup_tracks:
  assumes "tracks_all lt evs T"
  shows "tracks_all (throttle_cleanup T lt) evs T"
proof -
  have d: "distinct (map fst (lt_inner lt))" and sane: "sane (lt_config lt)"
    using assms by (simp_all add: tracks_all_def)
  have st: "state_of key (throttle_cleanup T lt) =
      (if is_idle T (tc_window (lt_config lt)) (state_of key lt) then attempt_new else state_of key lt)" for key
    by (auto simp: state_of_def throttle_cleanup_def map_of_filter_values [OF d] attempt_new_def is_idle_def
        is_blocked_def split: option.splits)
  have "tracks (lt_config lt) (failures_of key evs) (state_of key (throttle_cleanup T lt)) T" for key
    using assms tracks_idle [of "lt_config lt" "failures_of key evs" "state_of key lt" T]
    by (simp add: st tracks_all_def)
  moreover have "distinct (map fst (lt_inner (throttle_cleanup T lt)))"
    using d by (simp add: throttle_cleanup_def distinct_map_filter)
  ultimately show ?thesis
    using sane by (simp add: tracks_all_def throttle_cleanup_def)
qed

definition make_room :: "instant \<Rightarrow> login_throttler \<Rightarrow> login_throttler" where
  "make_room now lt = (if length (lt_inner lt) \<ge> MAX_TRACKED_KEYS then throttle_cleanup now lt else lt)"

definition saturated :: "string \<Rightarrow> instant \<Rightarrow> login_throttler \<Rightarrow> bool" where
  "saturated key now lt \<longleftrightarrow> map_of (lt_inner (make_room now lt)) key = None
     \<and> length (lt_inner (make_room now lt)) \<ge> MAX_TRACKED_KEYS"

lemma record_failure_alt:
  "record_failure key now lt =
     (if saturated key now lt then make_room now lt
      else (make_room now lt)\<lparr>lt_inner := AList.update key
             (add_failure (lt_config lt) now (state_of key (make_room now lt))) (lt_inner (make_room now lt))\<rparr>)"
  by (auto simp: record_failure_def make_room_def [symmetric] saturated_def state_of_def Let_def split: option.splits)

lemma make_room_config [simp]: "lt_config (make_room now lt) = lt_config lt"
  by (simp add: make_room_def throttle_cleanup_def)

lemma make_room_tracks: "tracks_all lt evs T \<Longrightarrow> tracks_all (make_room T lt) evs T"
  by (simp add: make_room_def cleanup_tracks)

lemma failure_tracks:
  assumes tr: "tracks_all lt evs T" and allowed: "throttle_check key T lt = Allowed"
    and room: "\<not> saturated key T lt"
  shows "tracks_all (record_failure key T lt) (evs @ [TE_Fail key T]) T"
proof -
  let ?m = "make_room T lt" and ?c = "lt_config lt"
  have m: "tracks_all ?m evs T" using make_room_tracks [OF tr] .
  have st: "state_of k (record_failure key T lt) =
      (if k = key then add_failure ?c T (state_of key ?m) else state_of k ?m)" for k
    using room by (simp add: record_failure_alt state_of_def update_conv')
  have "policy ?c (failures_of key evs) T \<longleftrightarrow> is_blocked T (state_of key lt)"
    and "policy ?c (failures_of key evs) T \<longleftrightarrow> is_blocked T (state_of key ?m)"
    using tr m by (simp_all add: tracks_all_def tracks_def)
  then have "\<not> is_blocked T (state_of key ?m)" using allowed check_state by blast
  then have "tracks ?c (failures_of k (evs @ [TE_Fail key T])) (state_of k (record_failure key T lt)) T" for k
    using m tracks_failure [of ?c "failures_of key evs" "state_of key ?m" T T] by (simp add: st tracks_all_def)
  moreover have "distinct (map fst (lt_inner (record_failure key T lt)))"
    using m room by (simp add: record_failure_alt tracks_all_def distinct_update)
  ultimately show ?thesis using m room by (simp add: tracks_all_def record_failure_alt)
qed

lemma success_tracks:
  assumes "tracks_all lt evs T"
  shows "tracks_all (record_success key lt) (evs @ [TE_Success key]) T"
proof -
  have "state_of k (record_success key lt) = (if k = key then attempt_new else state_of k lt)" for k
    by (simp add: state_of_def record_success_def delete_conv')
  then show ?thesis
    using assms tracks_new [of "lt_config lt" T]
    by (auto simp: tracks_all_def record_success_def distinct_delete)
qed

section \<open>Runs\<close>

text \<open>
  The login route records a failure only after a check that allowed the attempt, and the clock
  does not go back. A run is not saturated when no new key is dropped for lack of room.
\<close>

definition logged_step :: "login_throttler \<times> throttle_event list \<Rightarrow> throttle_event \<Rightarrow> login_throttler \<times> throttle_event list" where
  "logged_step st ev = (throttle_step (fst st) ev, snd st @ [ev])"

definition attempt_enabled :: "login_throttler \<times> throttle_event list \<Rightarrow> throttle_event \<Rightarrow> bool" where
  "attempt_enabled st ev =
     (case ev of
        TE_Fail key t \<Rightarrow> not_before (snd st) t \<and> throttle_check key t (fst st) = Allowed \<and> \<not> saturated key t (fst st)
      | TE_Success key \<Rightarrow> True
      | TE_Cleanup t \<Rightarrow> not_before (snd st) t)"

definition tracked :: "login_throttler \<times> throttle_event list \<Rightarrow> bool" where
  "tracked st \<longleftrightarrow> (\<forall>T. not_before (snd st) T \<longrightarrow> tracks_all (fst st) (snd st) T)"

lemma tracks_all_later: "tracks_all lt evs T \<Longrightarrow> T \<le> T' \<Longrightarrow> tracks_all lt evs T'"
  unfolding tracks_all_def by (blast intro: tracks_later)

lemma not_before_snoc:
  "not_before (evs @ [ev]) T \<longleftrightarrow> not_before evs T \<and> (case event_time ev of Some t \<Rightarrow> t \<le> T | None \<Rightarrow> True)"
  by (simp add: not_before_def)

interpretation throttle_run: step_machine logged_step tracked attempt_enabled
proof unfold_locales
  fix st ev assume tr: "tracked st" and e: "attempt_enabled st ev"
  have "tracks_all (throttle_step (fst st) ev) (snd st @ [ev]) T" if n: "not_before (snd st @ [ev]) T" for T
  proof (cases ev)
    case (TE_Fail key t)
    then have "tracks_all (fst st) (snd st) t" using tr e by (simp add: tracked_def attempt_enabled_def)
    from failure_tracks [OF this, of key] show ?thesis
      using e n TE_Fail tracks_all_later by (simp add: attempt_enabled_def not_before_snoc)
  next
    case (TE_Success key)
    then show ?thesis using success_tracks tr n by (simp add: tracked_def not_before_snoc)
  next
    case (TE_Cleanup t)
    then have "tracks_all (fst st) (snd st) t" using tr e by (simp add: tracked_def attempt_enabled_def)
    from cleanup_tracks [OF this] have "tracks_all (throttle_cleanup t (fst st)) (snd st @ [ev]) t"
      using TE_Cleanup by (simp add: tracks_all_def)
    then show ?thesis using n TE_Cleanup tracks_all_later by (simp add: not_before_snoc)
  qed
  then show "tracked (logged_step st ev)" by (simp add: tracked_def logged_step_def)
qed

lemma throttle_step_config [simp]: "lt_config (throttle_step lt ev) = lt_config lt"
  by (cases ev) (auto simp: record_failure_alt record_success_def throttle_cleanup_def)

lemma throttle_run_config [simp]: "lt_config (foldl throttle_step lt evs) = lt_config lt"
  by (induction evs arbitrary: lt) simp_all

lemma logged_fold: "foldl logged_step (lt, log) evs = (foldl throttle_step lt evs, log @ evs)"
  by (induction evs arbitrary: lt log) (simp_all add: logged_step_def)


definition demo_attempts :: "throttle_event list" where
  "demo_attempts = [TE_Fail ''eve'' 0, TE_Fail ''eve'' 5, TE_Cleanup 6, TE_Fail ''ann'' 7, TE_Fail ''eve'' 9]"


section \<open>Bounds\<close>

definition bounded :: "login_throttler \<Rightarrow> bool" where
  "bounded lt \<longleftrightarrow> tracked_keys lt \<le> MAX_TRACKED_KEYS
     \<and> list_all (\<lambda>(_, st). length (as_failures st) \<le> saturating_add_usize (tc_max_failures (lt_config lt)) 1) (lt_inner lt)"

lemma add_failure_length:
  "length (as_failures st) \<le> saturating_add_usize (tc_max_failures c) 1 \<Longrightarrow>
   length (as_failures (add_failure c now st)) \<le> saturating_add_usize (tc_max_failures c) 1"
  using le_trans [OF length_filter_le [of "(<) (now - tc_window c)" "as_failures st"]]
  by (auto simp: add_failure_def prune_window_def Let_def simp flip: not_less)

lemma length_update: "length (AList.update k v xs) = (if map_of xs k = None then Suc (length xs) else length xs)"
  by (induction xs) auto

lemma bounded_cleanup: "bounded lt \<Longrightarrow> bounded (throttle_cleanup now lt)"
  by (auto simp: bounded_def tracked_keys_def throttle_cleanup_def list_all_iff intro: le_trans [OF length_filter_le])

interpretation memory: step_machine throttle_step bounded "\<lambda>_ _. True"
proof unfold_locales
  fix lt ev assume b: "bounded lt"
  have m: "bounded (make_room now lt)" for now using b by (simp add: make_room_def bounded_cleanup)
  have st: "length (as_failures (state_of key (make_room now lt))) \<le> saturating_add_usize (tc_max_failures (lt_config lt)) 1"
    for key now
    using m [of now] by (fastforce simp: state_of_def bounded_def list_all_iff attempt_new_def split: option.splits
        dest: map_of_SomeD)
  have mem: "(a, v) = (k, x) \<or> (a, v) \<in> set xs" if "(a, v) \<in> set (AList.update k x xs)" for a k :: string and v x xs
    using that by (induction xs) (auto split: if_splits)
  show "bounded (throttle_step lt ev)"
  proof (cases ev)
    case (TE_Fail key t)
    have "length (lt_inner (record_failure key t lt)) \<le> MAX_TRACKED_KEYS"
      using m [of t] by (auto simp: record_failure_alt saturated_def bounded_def tracked_keys_def length_update)
    moreover have "length (as_failures v) \<le> saturating_add_usize (tc_max_failures (lt_config lt)) 1"
      if "(k, v) \<in> set (lt_inner (record_failure key t lt))" for k v
      using that m [of t] add_failure_length [OF st [of key t], of t]
      by (auto simp: record_failure_alt bounded_def list_all_iff dest!: mem split: if_splits)
    ultimately show ?thesis using TE_Fail
      by (auto simp: bounded_def tracked_keys_def list_all_iff record_failure_alt)
  next
    case (TE_Success key)
    then show ?thesis using b
      by (auto simp: bounded_def tracked_keys_def record_success_def list_all_iff AList.delete_eq
          intro: le_trans [OF length_filter_le])
  qed (use b bounded_cleanup in simp)
qed

text \<open>
  The throttler's memory is bounded whatever is thrown at it: after any sequence of failures,
  successes and cleanups it tracks at most ten thousand keys and at most \<open>max_failures + 1\<close>
  timestamps for each.
\<close>

theorem throttler_memory_is_bounded:
  "tracked_keys (foldl throttle_step (throttler_new c) evs) \<le> MAX_TRACKED_KEYS
   \<and> list_all (\<lambda>(_, st). length (as_failures st) \<le> tc_max_failures c + 1)
       (lt_inner (foldl throttle_step (throttler_new c) evs))"
proof -
  have "bounded (foldl throttle_step (throttler_new c) evs)"
    by (rule memory.fold_step_invar) (simp_all add: bounded_def tracked_keys_def throttler_new_def)
  moreover have "lt_config (foldl throttle_step (throttler_new c) evs) = c" by (simp add: throttler_new_def)
  ultimately show ?thesis
    by (auto simp: bounded_def list_all_iff saturating_add_usize_def)
qed

text \<open>
  The reported retry time can be too short: \<open>num_seconds\<close> truncates, so a caller that waits
  \<open>retry_after_seconds\<close> may still be blocked, although the field is documented as an upper bound
  on the remaining block.
\<close>

theorem retry_after_is_not_an_upper_bound:
  "\<exists>lt now r. throttle_check ''eve'' now lt = Throttled r
     \<and> throttle_check ''eve'' (now + seconds (int r)) lt \<noteq> Allowed"
proof (intro exI conjI)
  let ?lt = "record_failure ''eve'' 0 (throttler_new \<lparr>tc_max_failures = 1, tc_window = seconds 60, tc_block = seconds 60\<rparr>)"
  show "throttle_check ''eve'' 500000000 ?lt = Throttled 59" by code_simp
  show "throttle_check ''eve'' (500000000 + seconds (int 59)) ?lt \<noteq> Allowed" by code_simp
qed

end
