(* ===== verification/Auth_Service.thy ===== *)
theory Auth_Service
  imports Account_Store Login_Throttle
begin

text \<open>
  Passwords and session tokens: \<^verbatim>\<open>password.rs\<close>, \<^verbatim>\<open>session_token.rs\<close> and \<^verbatim>\<open>service.rs\<close> of
  \<^verbatim>\<open>crates/relayterm-auth\<close>. Argon2, SHA-256, base64 and the operating system's random generator
  are library code: they are the fields of \<open>auth_env\<close>, and a theorem that needs one of their
  documented properties assumes it by name.
\<close>

section \<open>Library functions\<close>

record password_hasher_config =
  hc_m_cost :: nat
  hc_t_cost :: nat
  hc_p_cost :: nat

text \<open>
  \<open>en_random i n\<close> is the \<open>i\<close>-th draw, of \<open>n\<close> bytes; \<open>en_phc\<close> says whether a stored string parses
  as a PHC hash; \<open>en_lower\<close> is SQL's \<open>LOWER\<close>.
\<close>

record auth_env =
  en_lower :: "string \<Rightarrow> string"
  en_random :: "nat \<Rightarrow> nat \<Rightarrow> byte list"
  en_base64 :: "byte list \<Rightarrow> string"
  en_sha256 :: "string \<Rightarrow> byte list"
  en_params_ok :: "password_hasher_config \<Rightarrow> bool"
  en_argon2_hash :: "password_hasher_config \<Rightarrow> string \<Rightarrow> byte list \<Rightarrow> string option"
  en_phc :: "string \<Rightarrow> bool"
  en_argon2_verify :: "password_hasher_config \<Rightarrow> string \<Rightarrow> string \<Rightarrow> bool"

text \<open>The process state beside the tables: how often the generator was asked, and the throttler.\<close>

record auth_state = account_db +
  as_draws :: nat
  as_throttle :: login_throttler

type_synonym ('z, 'e, 'a) auth = "('z auth_state_scheme, 'e, 'a) prog"

definition fill_bytes :: "auth_env \<Rightarrow> nat \<Rightarrow> ('z, 'e, byte list) auth" where
  "fill_bytes env n = (\<lambda>s. (Inr (en_random env (as_draws s) n), s\<lparr>as_draws := Suc (as_draws s)\<rparr>))"

section \<open>Password hashing\<close>

definition OWASP_2023 :: password_hasher_config where
  "OWASP_2023 = \<lparr>hc_m_cost = 19456, hc_t_cost = 2, hc_p_cost = 1\<rparr>"

datatype password_hashing_error = PH_Hash | PH_InvalidStoredHash

definition hasher_new :: "auth_env \<Rightarrow> password_hasher_config \<Rightarrow> password_hashing_error + password_hasher_config" where
  "hasher_new env config = (if en_params_ok env config then Inr config else Inl PH_Hash)"

text \<open>A salt of the password-hash library is 16 random bytes.\<close>

definition hash_password ::
  "auth_env \<Rightarrow> password_hasher_config \<Rightarrow> string \<Rightarrow> ('z, password_hashing_error, string) auth" where
  "hash_password env hasher plaintext =
     (if \<not> en_params_ok env hasher then raiseP PH_Hash
      else bindP (fill_bytes env 16) (\<lambda>salt. okOrP (en_argon2_hash env hasher plaintext salt) PH_Hash))"

definition hasher_verify ::
  "auth_env \<Rightarrow> password_hasher_config \<Rightarrow> string \<Rightarrow> string \<Rightarrow> password_hashing_error + bool" where
  "hasher_verify env hasher plaintext stored =
     (if \<not> en_phc env stored then Inl PH_InvalidStoredHash
      else if \<not> en_params_ok env hasher then Inl PH_Hash
      else Inr (en_argon2_verify env hasher plaintext stored))"

section \<open>Session tokens\<close>

definition SESSION_TOKEN_BYTES :: nat where
  "SESSION_TOKEN_BYTES = 32"

definition token_generate :: "auth_env \<Rightarrow> ('z, 'e, string) auth" where
  "token_generate env = bindP (fill_bytes env SESSION_TOKEN_BYTES) (\<lambda>bytes. retP (en_base64 env bytes))"

definition hash_session_token :: "auth_env \<Rightarrow> string \<Rightarrow> byte list" where
  "hash_session_token env token = en_sha256 env token"

section \<open>The service\<close>

datatype auth_service_error =
    SE_InvalidCredentials
  | SE_SessionInvalid
  | SE_SessionExpired
  | SE_SessionRevoked
  | SE_Repository string
  | SE_Crypto

definition repository_error_display :: "repository_error \<Rightarrow> string" where
  "repository_error_display e =
     (case e of
        RE_NotFound entity \<Rightarrow> entity @ '' not found''
      | RE_Conflict entity constraint \<Rightarrow> entity @ '' conflict: '' @ constraint
      | RE_Validation field message \<Rightarrow> ''invalid '' @ field @ '': '' @ message
      | RE_Database message \<Rightarrow> ''database error: '' @ message)"

definition service_error_from_repository :: "repository_error \<Rightarrow> auth_service_error" where
  "service_error_from_repository e = SE_Repository (repository_error_display e)"

definition service_error_from_hashing :: "password_hashing_error \<Rightarrow> auth_service_error" where
  "service_error_from_hashing _ = SE_Crypto"

record created_session =
  cn_token :: string
  cn_session :: user_session

record auth_service =
  sv_env :: auth_env
  sv_hasher :: password_hasher_config
  sv_anti_timing_hash :: string

text \<open>The constructor panics when the marker cannot be hashed: that is the error \<open>()\<close>.\<close>

definition auth_service_new :: "auth_env \<Rightarrow> password_hasher_config \<Rightarrow> ('z, unit, auth_service) auth" where
  "auth_service_new env hasher =
     bindP (mapErrP (\<lambda>_. ()) (hash_password env hasher ''anti-timing-marker-x'')) (\<lambda>h.
     retP \<lparr>sv_env = env, sv_hasher = hasher, sv_anti_timing_hash = h\<rparr>)"

definition anti_timing_verify :: "auth_service \<Rightarrow> string \<Rightarrow> ('z, 'e, unit) auth" where
  "anti_timing_verify svc plaintext =
     (let res = hasher_verify (sv_env svc) (sv_hasher svc) plaintext (sv_anti_timing_hash svc) in retP ())"

definition repo :: "('z auth_state_ext, 'a) acc \<Rightarrow> ('z, auth_service_error, 'a) auth" where
  "repo m = mapErrP service_error_from_repository m"

definition set_password :: "auth_service \<Rightarrow> user_id \<Rightarrow> string \<Rightarrow> ('z, auth_service_error, unit) auth" where
  "set_password svc uid plaintext =
     bindP (mapErrP service_error_from_hashing (hash_password (sv_env svc) (sv_hasher svc) plaintext)) (\<lambda>hash.
     bindP (repo (passwords_upsert_for_user uid hash)) (\<lambda>_.
     retP ()))"

definition verify_password :: "auth_service \<Rightarrow> user_id \<Rightarrow> string \<Rightarrow> ('z, auth_service_error, unit) auth" where
  "verify_password svc uid plaintext =
     bindP (repo (passwords_get_for_user uid)) (\<lambda>row.
     case row of
       None \<Rightarrow> raiseP SE_InvalidCredentials
     | Some credential \<Rightarrow>
         guardP (case hasher_verify (sv_env svc) (sv_hasher svc) plaintext (pc_password_hash credential) of
                   Inl _ \<Rightarrow> False | Inr ok \<Rightarrow> ok) SE_InvalidCredentials)"

definition create_user_session ::
  "auth_service \<Rightarrow> user_id \<Rightarrow> duration \<Rightarrow> instant \<Rightarrow> ('z, auth_service_error, created_session) auth" where
  "create_user_session svc uid ttl now =
     bindP (token_generate (sv_env svc)) (\<lambda>token.
     bindP (repo (user_sessions_create uid (hash_session_token (sv_env svc) token) (now + ttl))) (\<lambda>session.
     retP \<lparr>cn_token = token, cn_session = session\<rparr>))"

definition validate_session_token ::
  "auth_service \<Rightarrow> string \<Rightarrow> instant \<Rightarrow> ('z, auth_service_error, user_session) auth" where
  "validate_session_token svc token now =
     bindP (repo (user_sessions_get_by_token_hash (hash_session_token (sv_env svc) token))) (\<lambda>row.
     case row of
       None \<Rightarrow> raiseP SE_SessionInvalid
     | Some session \<Rightarrow>
         if is_revoked session then raiseP SE_SessionRevoked
         else if is_expired_at now session then raiseP SE_SessionExpired
         else retP session)"

text \<open>The two revocations that hide whether a session exists.\<close>

definition hide_not_found :: "repository_error \<Rightarrow> auth_service_error" where
  "hide_not_found e = (case e of RE_NotFound _ \<Rightarrow> SE_SessionInvalid | _ \<Rightarrow> service_error_from_repository e)"

definition service_revoke_session ::
  "user_session_id \<Rightarrow> instant \<Rightarrow> string option \<Rightarrow> ('z, auth_service_error, unit) auth" where
  "service_revoke_session sid now reason = mapErrP hide_not_found (user_sessions_revoke sid now reason)"

definition service_revoke_all_for_user ::
  "user_id \<Rightarrow> instant \<Rightarrow> string option \<Rightarrow> ('z, auth_service_error, nat) auth" where
  "service_revoke_all_for_user uid now reason = repo (user_sessions_revoke_all_for_user uid now reason)"

definition list_sessions_for_user :: "user_id \<Rightarrow> ('z, auth_service_error, user_session list) auth" where
  "list_sessions_for_user uid = repo (user_sessions_list_for_user uid)"

definition revoke_session_for_user ::
  "user_id \<Rightarrow> user_session_id \<Rightarrow> instant \<Rightarrow> string option \<Rightarrow> ('z, auth_service_error, bool) auth" where
  "revoke_session_for_user uid sid now reason =
     mapErrP hide_not_found (user_sessions_revoke_for_user uid sid now reason)"

definition revoke_all_sessions_except ::
  "user_id \<Rightarrow> user_session_id \<Rightarrow> instant \<Rightarrow> string option \<Rightarrow> ('z, auth_service_error, nat) auth" where
  "revoke_all_sessions_except uid except_id now reason = repo (user_sessions_revoke_all_except uid except_id now reason)"

end
