(* ===== verification/Identity_Vault.thy ===== *)
theory Identity_Vault
  imports Core_Types Rust_Text
begin

text \<open>
  The vault of \<^verbatim>\<open>crates/relayterm-vault\<close>: the master key, the encryption envelope and the
  generation and import of SSH identities. The authenticated cipher, base64, and the SSH key
  library are parameters, collected in \<open>vault_env\<close>; what is relied on of the cipher and of the
  random generator is \<open>aead_laws\<close> and \<open>draws_have_length\<close>.
\<close>

section \<open>Errors\<close>

datatype master_key_error =
    MK_Empty
  | MK_WrongLength nat nat
  | MK_Base64 string
  | MK_File string

datatype vault_error =
    VE_MasterKey master_key_error
  | VE_KeyGeneration
  | VE_PublicKeySerialization
  | VE_PrivateKeySerialization
  | VE_Encrypt
  | VE_Decrypt
  | VE_BlobFormat
  | VE_UnsupportedKeyType string
  | VE_UnsupportedFormat string

definition master_key_error_display :: "master_key_error \<Rightarrow> string" where
  "master_key_error_display e =
     (case e of
        MK_Empty \<Rightarrow> ''master key is empty''
      | MK_WrongLength expected actual \<Rightarrow>
          ''master key has wrong length (expected '' @ show_nat expected @ '' bytes, got '' @ show_nat actual @ '')''
      | MK_Base64 m \<Rightarrow> ''master key base64 decode failed: '' @ m
      | MK_File m \<Rightarrow> ''master key file read failed: '' @ m)"

definition vault_error_display :: "vault_error \<Rightarrow> string" where
  "vault_error_display e =
     (case e of
        VE_MasterKey m \<Rightarrow> ''vault master key invalid: '' @ master_key_error_display m
      | VE_KeyGeneration \<Rightarrow> ''ssh keypair generation failed''
      | VE_PublicKeySerialization \<Rightarrow> ''ssh public key serialization failed''
      | VE_PrivateKeySerialization \<Rightarrow> ''ssh private key serialization failed''
      | VE_Encrypt \<Rightarrow> ''vault encrypt failed''
      | VE_Decrypt \<Rightarrow> ''vault decrypt failed''
      | VE_BlobFormat \<Rightarrow> ''vault blob format invalid''
      | VE_UnsupportedKeyType tag \<Rightarrow> ''ssh key type not supported by vault: '' @ tag
      | VE_UnsupportedFormat reason \<Rightarrow> ''ssh key format not supported by vault: '' @ reason)"

section \<open>Library functions\<close>

text \<open>
  \<open>'k\<close> is the type of parsed private keys. \<open>ve_random i n\<close> is the \<open>i\<close>-th draw of \<open>n\<close> random bytes
  and \<open>ve_random_key i\<close> the key made from the \<open>i\<close>-th draw.
\<close>

record 'k vault_env =
  ve_random :: "nat \<Rightarrow> nat \<Rightarrow> byte list"
  ve_seal :: "byte list \<Rightarrow> byte list \<Rightarrow> byte list \<Rightarrow> byte list option"
  ve_open :: "byte list \<Rightarrow> byte list \<Rightarrow> byte list \<Rightarrow> byte list option"
  ve_base64_decode :: "string \<Rightarrow> string + byte list"
  ve_from_utf8 :: "byte list \<Rightarrow> string option"
  ve_random_key :: "nat \<Rightarrow> ssh_algorithm \<Rightarrow> 'k option"
  ve_from_openssh :: "string \<Rightarrow> 'k option"
  ve_is_encrypted :: "'k \<Rightarrow> bool"
  ve_algorithm :: "'k \<Rightarrow> ssh_algorithm"
  ve_set_comment :: "string \<Rightarrow> 'k \<Rightarrow> 'k"
  ve_public_openssh :: "'k \<Rightarrow> byte list option"
  ve_fingerprint :: "'k \<Rightarrow> string"
  ve_private_openssh :: "'k \<Rightarrow> byte list option"

text \<open>A vault operation counts the random draws it makes.\<close>

type_synonym 'a vault = "(nat, vault_error, 'a) prog"

definition draw :: "(nat \<Rightarrow> 'a) \<Rightarrow> 'a vault" where
  "draw f = (\<lambda>n. (Inr (f n), Suc n))"

section \<open>The master key\<close>

definition MASTER_KEY_LEN :: nat where
  "MASTER_KEY_LEN = 32"

definition master_key_from_base64 :: "'k vault_env \<Rightarrow> string \<Rightarrow> master_key_error + byte list" where
  "master_key_from_base64 env input =
     (let trimmed = trim input
      in if trimmed = [] then Inl MK_Empty
         else case ve_base64_decode env trimmed of
                Inl e \<Rightarrow> Inl (MK_Base64 e)
              | Inr raw \<Rightarrow> if length raw \<noteq> MASTER_KEY_LEN then Inl (MK_WrongLength MASTER_KEY_LEN (length raw))
                           else Inr raw)"

text \<open>Reading the file is the operating system's part: its outcome is the argument.\<close>

definition master_key_from_file :: "'k vault_env \<Rightarrow> string + string \<Rightarrow> master_key_error + byte list" where
  "master_key_from_file env contents =
     (case contents of Inl e \<Rightarrow> Inl (MK_File e) | Inr raw \<Rightarrow> master_key_from_base64 env raw)"

section \<open>The envelope\<close>

definition MAGIC :: "byte list" where
  "MAGIC = [0x52, 0x54, 0x56, 0x31]"

definition VERSION_XCHACHA20POLY1305_DIRECT :: byte where
  "VERSION_XCHACHA20POLY1305_DIRECT = 1"

definition NONCE_LEN :: nat where "NONCE_LEN = 24"
definition HEADER_LEN :: nat where "HEADER_LEN = length MAGIC + 1 + NONCE_LEN"
definition TAG_LEN :: nat where "TAG_LEN = 16"

definition encrypt :: "'k vault_env \<Rightarrow> byte list \<Rightarrow> byte list \<Rightarrow> byte list vault" where
  "encrypt env master_key plaintext =
     bindP (draw (\<lambda>i. ve_random env i NONCE_LEN)) (\<lambda>nonce.
     bindP (okOrP (ve_seal env master_key nonce plaintext) VE_Encrypt) (\<lambda>ciphertext.
     retP (MAGIC @ [VERSION_XCHACHA20POLY1305_DIRECT] @ nonce @ ciphertext)))"

definition decrypt :: "'k vault_env \<Rightarrow> byte list \<Rightarrow> byte list \<Rightarrow> vault_error + byte list" where
  "decrypt env master_key blob =
     (if length blob < HEADER_LEN + TAG_LEN then Inl VE_BlobFormat
      else if take (length MAGIC) blob \<noteq> MAGIC then Inl VE_BlobFormat
      else if blob ! length MAGIC \<noteq> VERSION_XCHACHA20POLY1305_DIRECT then Inl VE_BlobFormat
      else case ve_open env master_key (take NONCE_LEN (drop (length MAGIC + 1) blob)) (drop HEADER_LEN blob) of
             None \<Rightarrow> Inl VE_Decrypt
           | Some plaintext \<Rightarrow> Inr plaintext)"

section \<open>Identities\<close>

record generated_ssh_identity =
  gi_key_type :: ssh_key_type
  gi_public_key_openssh :: "byte list"
  gi_fingerprint_sha256 :: string
  gi_encrypted_private_key :: "byte list"

text \<open>The common tail of generation and import.\<close>

definition seal_identity ::
  "'k vault_env \<Rightarrow> byte list \<Rightarrow> ssh_key_type \<Rightarrow> string \<Rightarrow> 'k \<Rightarrow> generated_ssh_identity vault" where
  "seal_identity env master_key key_type comment private0 =
     (let private = (if comment = [] then private0 else ve_set_comment env comment private0)
      in bindP (okOrP (ve_public_openssh env private) VE_PublicKeySerialization) (\<lambda>public.
         bindP (okOrP (ve_private_openssh env private) VE_PrivateKeySerialization) (\<lambda>pem.
         bindP (encrypt env master_key pem) (\<lambda>blob.
         retP \<lparr>gi_key_type = key_type, gi_public_key_openssh = public,
               gi_fingerprint_sha256 = ve_fingerprint env private, gi_encrypted_private_key = blob\<rparr>))))"

definition generate_ssh_identity ::
  "'k vault_env \<Rightarrow> byte list \<Rightarrow> ssh_key_type \<Rightarrow> string \<Rightarrow> generated_ssh_identity vault" where
  "generate_ssh_identity env master_key key_type comment =
     (if key_type \<noteq> KT_Ed25519 then raiseP (VE_UnsupportedKeyType (key_type_as_str key_type))
      else bindP (draw (\<lambda>i. ve_random_key env i Alg_Ed25519)) (\<lambda>k.
           bindP (okOrP k VE_KeyGeneration) (\<lambda>private.
           seal_identity env master_key key_type comment private)))"

definition supported_key_type :: "ssh_algorithm \<Rightarrow> vault_error + ssh_key_type" where
  "supported_key_type a =
     (case a of
        Alg_Ed25519 \<Rightarrow> Inr KT_Ed25519
      | Alg_Rsa \<Rightarrow> Inl (VE_UnsupportedKeyType ''rsa'')
      | Alg_Dsa \<Rightarrow> Inl (VE_UnsupportedKeyType ''dsa'')
      | Alg_Ecdsa NistP256 \<Rightarrow> Inl (VE_UnsupportedKeyType ''ecdsa_p256'')
      | Alg_Ecdsa NistP384 \<Rightarrow> Inl (VE_UnsupportedKeyType ''ecdsa_p384'')
      | Alg_Ecdsa NistP521 \<Rightarrow> Inl (VE_UnsupportedKeyType ''ecdsa_p521'')
      | Alg_Other \<Rightarrow> Inl (VE_UnsupportedKeyType ''unknown''))"

definition import_ssh_identity ::
  "'k vault_env \<Rightarrow> byte list \<Rightarrow> byte list \<Rightarrow> string \<Rightarrow> generated_ssh_identity vault" where
  "import_ssh_identity env master_key pem name =
     bindP (okOrP (ve_from_utf8 env pem) (VE_UnsupportedFormat ''malformed'')) (\<lambda>pem_str.
     bindP (okOrP (ve_from_openssh env pem_str) (VE_UnsupportedFormat ''malformed'')) (\<lambda>private.
     if ve_is_encrypted env private then raiseP (VE_UnsupportedFormat ''encrypted'')
     else case supported_key_type (ve_algorithm env private) of
            Inl e \<Rightarrow> raiseP e
          | Inr key_type \<Rightarrow> seal_identity env master_key key_type name private))"

definition decrypt_private_key :: "'k vault_env \<Rightarrow> byte list \<Rightarrow> byte list \<Rightarrow> vault_error + byte list" where
  "decrypt_private_key env master_key blob = decrypt env master_key blob"

section \<open>Round trip\<close>

text \<open>
  The documented behaviour of the libraries: opening with the same key and nonce gives back what
  was sealed, the tag is sixteen bytes, and a draw has the length asked for.
\<close>

definition aead_laws :: "'k vault_env \<Rightarrow> bool" where
  "aead_laws env \<longleftrightarrow> (\<forall>key nonce p c. ve_seal env key nonce p = Some c \<longrightarrow>
     ve_open env key nonce c = Some p \<and> length c = length p + TAG_LEN)"

definition draws_have_length :: "'k vault_env \<Rightarrow> bool" where
  "draws_have_length env \<longleftrightarrow> (\<forall>i n. length (ve_random env i n) = n)"

lemma draw_run [prog_simps]: "draw f n = (Inr (f n), Suc n)"
  by (simp add: draw_def)

lemma okOrP_run: "okOrP x e s = (case x of None \<Rightarrow> (Inl e, s) | Some a \<Rightarrow> (Inr a, s))"
  by (cases x) simp_all

lemma envelope_parts:
  assumes "length nonce = NONCE_LEN" and "TAG_LEN \<le> length ct"
  shows "decrypt env key (MAGIC @ [VERSION_XCHACHA20POLY1305_DIRECT] @ nonce @ ct) =
     (case ve_open env key nonce ct of None \<Rightarrow> Inl VE_Decrypt | Some p \<Rightarrow> Inr p)"
proof -
  let ?blob = "MAGIC @ [VERSION_XCHACHA20POLY1305_DIRECT] @ nonce @ ct"
  have "drop HEADER_LEN ?blob = ct"
    using assms(1) by (simp add: HEADER_LEN_def)
  moreover have "take NONCE_LEN (drop (length MAGIC + 1) ?blob) = nonce"
    using assms(1) by simp
  ultimately show ?thesis
    using assms unfolding decrypt_def by (simp add: HEADER_LEN_def nth_append)
qed

lemma encrypt_decrypt:
  assumes "aead_laws env" and "draws_have_length env" and "encrypt env key p n = (Inr blob, n')"
  shows "decrypt env key blob = Inr p"
proof -
  let ?nonce = "ve_random env n NONCE_LEN"
  obtain c where c: "ve_seal env key ?nonce p = Some c"
    and blob: "blob = MAGIC @ [VERSION_XCHACHA20POLY1305_DIRECT] @ ?nonce @ c"
    using assms(3) by (auto simp: encrypt_def prog_simps okOrP_run split: option.splits)
  then have "ve_open env key ?nonce c = Some p" "TAG_LEN \<le> length c"
    using assms(1) by (auto simp: aead_laws_def)
  moreover have "length ?nonce = NONCE_LEN" using assms(2) by (simp add: draws_have_length_def)
  ultimately show ?thesis using blob envelope_parts [of ?nonce c env key] by simp
qed

definition with_comment :: "'k vault_env \<Rightarrow> string \<Rightarrow> 'k \<Rightarrow> 'k" where
  "with_comment env comment k = (if comment = [] then k else ve_set_comment env comment k)"

text \<open>\<open>gi\<close> is the record of the private key \<open>k\<close>: its public half in the clear, the rest recoverable.\<close>

definition identity_of :: "'k vault_env \<Rightarrow> byte list \<Rightarrow> 'k \<Rightarrow> generated_ssh_identity \<Rightarrow> bool" where
  "identity_of env key k gi \<longleftrightarrow>
     gi_key_type gi = KT_Ed25519
     \<and> ve_public_openssh env k = Some (gi_public_key_openssh gi)
     \<and> gi_fingerprint_sha256 gi = ve_fingerprint env k
     \<and> (\<exists>pem. ve_private_openssh env k = Some pem
          \<and> decrypt_private_key env key (gi_encrypted_private_key gi) = Inr pem)"

lemma seal_identity_of:
  assumes "aead_laws env" and "draws_have_length env"
    and "seal_identity env key KT_Ed25519 comment k n = (Inr gi, n')"
  shows "identity_of env key (with_comment env comment k) gi"
  using assms(3) encrypt_decrypt [OF assms(1,2)]
  by (auto simp: seal_identity_def with_comment_def identity_of_def decrypt_private_key_def
      prog_simps okOrP_run Let_def split: option.splits prod.splits sum.splits)

lemma generated_is_recoverable:
  assumes "aead_laws env" and "draws_have_length env" and "generate_ssh_identity env key kt comment n = (Inr gi, n')"
  shows "\<exists>k. ve_random_key env n Alg_Ed25519 = Some k \<and> identity_of env key (with_comment env comment k) gi"
proof -
  obtain k where "ve_random_key env n Alg_Ed25519 = Some k"
    and "seal_identity env key KT_Ed25519 comment k (Suc n) = (Inr gi, n')"
    using assms(3) by (auto simp: generate_ssh_identity_def prog_simps okOrP_run split: if_splits option.splits)
  then show ?thesis using seal_identity_of [OF assms(1,2)] by blast
qed

lemma imported_is_recoverable:
  assumes "aead_laws env" and "draws_have_length env" and "import_ssh_identity env key pem comment n = (Inr gi, n')"
  shows "\<exists>pem_str k. ve_from_utf8 env pem = Some pem_str \<and> ve_from_openssh env pem_str = Some k
     \<and> \<not> ve_is_encrypted env k \<and> ve_algorithm env k = Alg_Ed25519 \<and> identity_of env key (with_comment env comment k) gi"
proof -
  obtain pem_str k where "ve_from_utf8 env pem = Some pem_str" "ve_from_openssh env pem_str = Some k"
    "\<not> ve_is_encrypted env k" "ve_algorithm env k = Alg_Ed25519"
    and "seal_identity env key KT_Ed25519 comment k n = (Inr gi, n')"
    using assms(3)
    by (auto simp: import_ssh_identity_def supported_key_type_def prog_simps okOrP_run
        split: if_splits option.splits ssh_algorithm.splits ecdsa_curve.splits sum.splits)
  then show ?thesis using seal_identity_of [OF assms(1,2)] by blast
qed

text \<open>
  Whatever the vault stores it can give back: a generated identity is a fresh Ed25519 key
  with the given comment, an imported one the parsed, unencrypted Ed25519 key of the PEM, and in
  both cases the stored blob decrypts under the same master key to that key's PEM while the
  public part and the fingerprint are the key's own.
\<close>

theorem stored_identity_is_recoverable:
  assumes "aead_laws env" and "draws_have_length env"
  shows "(generate_ssh_identity env key kt comment n = (Inr gi, n') \<longrightarrow>
           (\<exists>k. ve_random_key env n Alg_Ed25519 = Some k \<and> identity_of env key (with_comment env comment k) gi))
    \<and> (import_ssh_identity env key pem comment n = (Inr gi, n') \<longrightarrow>
           (\<exists>pem_str k. ve_from_utf8 env pem = Some pem_str \<and> ve_from_openssh env pem_str = Some k
              \<and> \<not> ve_is_encrypted env k \<and> ve_algorithm env k = Alg_Ed25519
              \<and> identity_of env key (with_comment env comment k) gi))"
  using generated_is_recoverable [OF assms] imported_is_recoverable [OF assms] by blast

text \<open>A small instance of the parameters: keys are strings, the tag is sixteen zero bytes.\<close>

definition demo_vault :: "string vault_env" where
  "demo_vault =
     \<lparr>ve_random = (\<lambda>i n. replicate n 7), ve_seal = (\<lambda>_ _ p. Some (p @ replicate 16 0)),
      ve_open = (\<lambda>_ _ c. if length c < 16 then None else Some (take (length c - 16) c)),
      ve_base64_decode = (\<lambda>_. Inl []), ve_from_utf8 = (\<lambda>b. Some (map (char_of \<circ> unat) b)),
      ve_random_key = (\<lambda>i _. Some ''key''), ve_from_openssh = Some, ve_is_encrypted = (\<lambda>_. False),
      ve_algorithm = (\<lambda>_. Alg_Ed25519), ve_set_comment = (\<lambda>c k. k @ c),
      ve_public_openssh = (\<lambda>k. Some [1, 2]), ve_fingerprint = (\<lambda>_. ''SHA256:x''),
      ve_private_openssh = (\<lambda>k. Some (map (of_nat \<circ> of_char) k))\<rparr>"

theorem stored_identity_is_recoverable_witness:
  "\<exists>gi n'. generate_ssh_identity demo_vault [9] KT_Ed25519 ''ann'' 0 = (Inr gi, n')
     \<and> identity_of demo_vault [9] (with_comment demo_vault ''ann'' ''key'') gi"
proof -
  have laws: "aead_laws demo_vault" "draws_have_length demo_vault"
    by (simp_all add: aead_laws_def draws_have_length_def demo_vault_def TAG_LEN_def)
  obtain gi n' where g: "generate_ssh_identity demo_vault [9] KT_Ed25519 ''ann'' 0 = (Inr gi, n')"
    by (simp add: generate_ssh_identity_def seal_identity_def encrypt_def demo_vault_def prog_simps)
  moreover have "ve_random_key demo_vault 0 Alg_Ed25519 = Some ''key''" by (simp add: demo_vault_def)
  ultimately show ?thesis
    using stored_identity_is_recoverable [OF laws, of "[9]" KT_Ed25519 "''ann''" 0 gi n'] by auto
qed

end
