(* ===== verification/Field_Validation.thy ===== *)
theory Field_Validation
  imports Rust_Text
begin

text \<open>
  \<^verbatim>\<open>crates/relayterm-core/src/validation.rs\<close>: the checks on user-supplied strings before they
  enter the domain model. A validator returns the value to persist or the first reason to refuse
  it. The newtype wrappers (\<open>HostDisplayName\<close>, \<open>Hostname\<close>, \<open>SshUsername\<close>, \<open>ProfileName\<close>, \<open>Tag\<close>)
  are their strings and \<open>SshPort\<close> is its number.
\<close>

section \<open>Reasons\<close>

datatype validation_error =
    Val_Empty string
  | Val_TooLong string nat nat
  | Val_ControlChar string
  | Val_Whitespace string
  | Val_InvalidChar string char
  | Val_Surrounding string
  | Val_BadLeadingChar string
  | Val_OutOfRange string nat nat nat
  | Val_TooMany string nat nat
  | Val_Duplicate string string

text \<open>
  The \<open>Debug\<close> forms of a character and of a string: quoted, the quote itself, control and
  separator characters escaped.
\<close>

fun show_hex :: "nat \<Rightarrow> string" where
  "show_hex n =
     (let digit = (\<lambda>d. char_of (if d < 10 then d + 48 else d + 87))
      in if n < 16 then [digit n] else show_hex (n div 16) @ [digit (n mod 16)])"

declare show_hex.simps [simp del]

definition escape_debug :: "nat \<Rightarrow> char \<Rightarrow> string" where
  "escape_debug quote c =
     (let n = scalar c
      in if n = 0 then [CHR 0x5C, CHR ''0'']
         else if n = 9 then [CHR 0x5C, CHR ''t'']
         else if n = 10 then [CHR 0x5C, CHR ''n'']
         else if n = 13 then [CHR 0x5C, CHR ''r'']
         else if n = quote \<or> n = 92 then [CHR 0x5C, c]
         else if is_control c \<or> n = 160 \<or> n = 173
         then [CHR 0x5C, CHR ''u'', CHR 0x7B] @ show_hex n @ [CHR 0x7D]
         else [c])"

definition debug_char :: "char \<Rightarrow> string" where
  "debug_char c = [CHR 0x27] @ escape_debug 39 c @ [CHR 0x27]"

definition debug_str :: "string \<Rightarrow> string" where
  "debug_str s = [CHR 0x22] @ concat (map (escape_debug 34) s) @ [CHR 0x22]"

definition validation_error_display :: "validation_error \<Rightarrow> string" where
  "validation_error_display e =
     (case e of
        Val_Empty field \<Rightarrow> field @ '' must not be empty''
      | Val_TooLong field mx actual \<Rightarrow>
          field @ '' must be at most '' @ show_nat mx @ '' characters (got '' @ show_nat actual @ '')''
      | Val_ControlChar field \<Rightarrow> field @ '' must not contain control characters''
      | Val_Whitespace field \<Rightarrow> field @ '' must not contain whitespace''
      | Val_InvalidChar field ch \<Rightarrow> field @ '' contains an invalid character: '' @ debug_char ch
      | Val_Surrounding field \<Rightarrow> field @ '' must not start or end with whitespace''
      | Val_BadLeadingChar field \<Rightarrow> field @ '' must start with a letter or underscore''
      | Val_OutOfRange field mn mx actual \<Rightarrow>
          field @ '' must be in range '' @ show_nat mn @ ''..='' @ show_nat mx @ '' (got '' @ show_nat actual @ '')''
      | Val_TooMany field mx actual \<Rightarrow> ''too many '' @ field @ '': '' @ show_nat actual @ '' > '' @ show_nat mx
      | Val_Duplicate field v \<Rightarrow> ''duplicate '' @ field @ '': '' @ v)"

section \<open>Validators\<close>

definition validate_host_display_name :: "string \<Rightarrow> validation_error + string" where
  "validate_host_display_name input =
     (let field = ''host display name''; mx = 128
      in if input = [] then Inl (Val_Empty field)
         else if input \<noteq> trim input then Inl (Val_Surrounding field)
         else if length input > mx then Inl (Val_TooLong field mx (length input))
         else if list_ex is_control input then Inl (Val_ControlChar field)
         else Inr input)"

definition hostname_char :: "char \<Rightarrow> bool" where
  "hostname_char ch =
     (is_ascii_alphanumeric ch \<or> ch \<in> {CHR ''-'', CHR ''.'', CHR '':'', CHR ''['', CHR '']'', CHR ''_''})"

primrec check_hostname_chars :: "string \<Rightarrow> validation_error option" where
  "check_hostname_chars [] = None"
| "check_hostname_chars (ch # rest) =
     (let field = ''hostname''
      in if is_whitespace ch then Some (Val_Whitespace field)
         else if is_control ch then Some (Val_ControlChar field)
         else if \<not> hostname_char ch then Some (Val_InvalidChar field ch)
         else check_hostname_chars rest)"

definition validate_hostname :: "string \<Rightarrow> validation_error + string" where
  "validate_hostname input =
     (let field = ''hostname''; mx = 253
      in if input = [] then Inl (Val_Empty field)
         else if str_len input > mx then Inl (Val_TooLong field mx (str_len input))
         else case check_hostname_chars input of Some e \<Rightarrow> Inl e | None \<Rightarrow> Inr input)"

definition validate_ssh_port :: "nat \<Rightarrow> validation_error + nat" where
  "validate_ssh_port port =
     (if \<not> (1 \<le> port \<and> port \<le> 65535) then Inl (Val_OutOfRange ''ssh port'' 1 65535 port)
      else Inr (port mod 2 ^ 16))"

primrec first_invalid :: "(char \<Rightarrow> bool) \<Rightarrow> string \<Rightarrow> string \<Rightarrow> validation_error option" where
  "first_invalid ok field [] = None"
| "first_invalid ok field (ch # rest) =
     (if \<not> ok ch then Some (Val_InvalidChar field ch) else first_invalid ok field rest)"

definition username_char :: "char \<Rightarrow> bool" where
  "username_char ch = (is_ascii_alphanumeric ch \<or> ch \<in> {CHR ''-'', CHR ''_'', CHR ''.''})"

definition validate_ssh_username :: "string \<Rightarrow> validation_error + string" where
  "validate_ssh_username input =
     (let field = ''ssh username''; mx = 64
      in case input of
           [] \<Rightarrow> Inl (Val_Empty field)
         | first # chars \<Rightarrow>
             if str_len input > mx then Inl (Val_TooLong field mx (str_len input))
             else if \<not> (is_ascii_alphabetic first \<or> first = CHR ''_'') then Inl (Val_BadLeadingChar field)
             else case first_invalid username_char field chars of Some e \<Rightarrow> Inl e | None \<Rightarrow> Inr input)"

definition validate_profile_name :: "string \<Rightarrow> validation_error + string" where
  "validate_profile_name input =
     (let field = ''profile name''; mx = 64
      in if input = [] then Inl (Val_Empty field)
         else if input \<noteq> trim input then Inl (Val_Surrounding field)
         else if length input > mx then Inl (Val_TooLong field mx (length input))
         else if list_ex is_control input then Inl (Val_ControlChar field)
         else Inr input)"

definition tag_char :: "char \<Rightarrow> bool" where
  "tag_char ch = (is_ascii_alphanumeric ch \<or> ch \<in> {CHR ''-'', CHR ''_''})"

definition validate_tag :: "string \<Rightarrow> validation_error + string" where
  "validate_tag input =
     (let field = ''tag''; mx = 32
      in if input = [] then Inl (Val_Empty field)
         else if str_len input > mx then Inl (Val_TooLong field mx (str_len input))
         else case first_invalid tag_char field input of Some e \<Rightarrow> Inl e | None \<Rightarrow> Inr input)"

definition MAX_TAGS :: nat where
  "MAX_TAGS = 32"

fun collect_tags :: "string list \<Rightarrow> string list \<Rightarrow> validation_error + string list" where
  "collect_tags [] out = Inr out"
| "collect_tags (raw # rest) out =
     (case validate_tag raw of
        Inl e \<Rightarrow> Inl e
      | Inr tag \<Rightarrow>
          if list_ex (\<lambda>t. t = tag) out then Inl (Val_Duplicate ''tag'' tag)
          else collect_tags rest (out @ [tag]))"

definition validate_tags :: "string list \<Rightarrow> validation_error + string list" where
  "validate_tags inputs =
     (if length inputs > MAX_TAGS then Inl (Val_TooMany ''tags'' MAX_TAGS (length inputs))
      else collect_tags inputs [])"

section \<open>The accepted languages\<close>

definition label_ok :: "nat \<Rightarrow> string \<Rightarrow> bool" where
  "label_ok mx s \<longleftrightarrow>
     s \<noteq> [] \<and> length s \<le> mx \<and> \<not> is_whitespace (hd s) \<and> \<not> is_whitespace (last s) \<and> list_all (\<lambda>c. \<not> is_control c) s"

definition hostname_ok :: "string \<Rightarrow> bool" where
  "hostname_ok s \<longleftrightarrow> s \<noteq> [] \<and> length s \<le> 253 \<and> list_all hostname_char s"

definition username_ok :: "string \<Rightarrow> bool" where
  "username_ok s \<longleftrightarrow>
     s \<noteq> [] \<and> length s \<le> 64 \<and> (is_ascii_alphabetic (hd s) \<or> hd s = CHR ''_'') \<and> list_all username_char s"

definition tag_ok :: "string \<Rightarrow> bool" where
  "tag_ok s \<longleftrightarrow> s \<noteq> [] \<and> length s \<le> 32 \<and> list_all tag_char s"

lemma dropWhile_fixed_iff: "s \<noteq> [] \<Longrightarrow> length (dropWhile P s) = length s \<longleftrightarrow> \<not> P (hd s)"
  using length_dropWhile_le [of P "tl s"] by (cases s) auto

lemma trim_eq_iff:
  assumes "s \<noteq> []"
  shows "trim s = s \<longleftrightarrow> \<not> is_whitespace (hd s) \<and> \<not> is_whitespace (last s)"
proof (cases "is_whitespace (hd s)")
  case True
  have "length (trim s) \<le> length (dropWhile is_whitespace s)"
    using length_dropWhile_le [of is_whitespace "rev (dropWhile is_whitespace s)"] by (simp add: trim_def)
  moreover have "length (dropWhile is_whitespace s) < length s"
    using True assms dropWhile_fixed_iff [of s is_whitespace] length_dropWhile_le [of is_whitespace s] by simp
  ultimately have "trim s \<noteq> s" by (metis leD)
  with True show ?thesis by simp
next
  case False
  then have d: "dropWhile is_whitespace s = s" using assms by (cases s) simp_all
  have "trim s = s \<longleftrightarrow> dropWhile is_whitespace (rev s) = rev s" by (auto simp: trim_def d rev_swap)
  also have "\<dots> \<longleftrightarrow> \<not> is_whitespace (hd (rev s))"
    using assms dropWhile_fixed_iff [of "rev s" is_whitespace] by (cases "rev s") auto
  finally show ?thesis using False assms by (simp add: hd_rev)
qed

lemma ascii_str_len: "list_all (\<lambda>c. scalar c < 128) s \<Longrightarrow> str_len s = length s"
  by (induction s) (simp_all add: str_len_def)

lemma ascii_alphanumeric_plain:
  "is_ascii_alphanumeric c \<Longrightarrow> scalar c < 128 \<and> \<not> is_whitespace c \<and> \<not> is_control c"
  by (auto simp: is_ascii_alphanumeric_def is_ascii_alphabetic_def is_whitespace_def is_control_def Let_def)

lemma char_class_plain:
  "hostname_char c \<Longrightarrow> scalar c < 128 \<and> \<not> is_whitespace c \<and> \<not> is_control c"
  "username_char c \<Longrightarrow> scalar c < 128"
  "tag_char c \<Longrightarrow> scalar c < 128"
  by (auto simp: hostname_char_def username_char_def tag_char_def dest: ascii_alphanumeric_plain)
     (simp_all add: scalar_def is_whitespace_def is_control_def Let_def)

lemma char_class_str_len:
  "list_all hostname_char s \<Longrightarrow> str_len s = length s"
  "list_all username_char s \<Longrightarrow> str_len s = length s"
  "list_all tag_char s \<Longrightarrow> str_len s = length s"
  by (auto intro!: ascii_str_len elim!: list.pred_mono_strong dest: char_class_plain)

lemma check_hostname_chars_None: "check_hostname_chars s = None \<longleftrightarrow> list_all hostname_char s"
  by (induction s) (auto simp: Let_def dest: char_class_plain)

lemma first_invalid_None: "first_invalid ok field s = None \<longleftrightarrow> list_all ok s"
  by (induction s) auto

lemma leading_is_username_char: "is_ascii_alphabetic c \<or> c = CHR ''_'' \<Longrightarrow> username_char c"
  by (auto simp: username_char_def is_ascii_alphanumeric_def)

lemma validate_host_display_name_iff: "validate_host_display_name s = Inr v \<longleftrightarrow> label_ok 128 s \<and> v = s"
  using trim_eq_iff [of s]
  by (auto simp: validate_host_display_name_def label_ok_def Let_def list_all_iff list_ex_iff)

lemma validate_profile_name_iff: "validate_profile_name s = Inr v \<longleftrightarrow> label_ok 64 s \<and> v = s"
  using trim_eq_iff [of s]
  by (auto simp: validate_profile_name_def label_ok_def Let_def list_all_iff list_ex_iff)

lemma validate_hostname_iff: "validate_hostname s = Inr v \<longleftrightarrow> hostname_ok s \<and> v = s"
  using check_hostname_chars_None [of s] char_class_str_len(1) [of s]
  by (auto simp: validate_hostname_def hostname_ok_def Let_def split: option.splits)

lemma validate_tag_iff: "validate_tag s = Inr v \<longleftrightarrow> tag_ok s \<and> v = s"
  using first_invalid_None [of tag_char "''tag''" s] char_class_str_len(3) [of s]
  by (auto simp: validate_tag_def tag_ok_def Let_def split: option.splits)

lemma validate_ssh_username_iff: "validate_ssh_username s = Inr v \<longleftrightarrow> username_ok s \<and> v = s"
proof (cases s)
  case (Cons c cs)
  then show ?thesis
    using first_invalid_None [of username_char "''ssh username''" cs] char_class_str_len(2) [of s]
      leading_is_username_char [of c]
    by (auto simp: validate_ssh_username_def username_ok_def Let_def split: option.splits)
qed (simp add: validate_ssh_username_def username_ok_def)

lemma validate_ssh_port_iff: "validate_ssh_port p = Inr v \<longleftrightarrow> 1 \<le> p \<and> p \<le> 65535 \<and> v = p"
  by (auto simp: validate_ssh_port_def)

lemma collect_tags_iff:
  "collect_tags ins out = Inr v \<longleftrightarrow>
     list_all tag_ok ins \<and> distinct ins \<and> set ins \<inter> set out = {} \<and> v = out @ ins"
proof (induction ins out rule: collect_tags.induct)
  case (2 raw rest out)
  show ?case
  proof (cases "validate_tag raw")
    case (Inl e)
    then have "\<not> tag_ok raw" by (metis validate_tag_iff sum.distinct(1))
    with Inl show ?thesis by simp
  next
    case (Inr tag)
    then have "tag_ok raw" "tag = raw" using validate_tag_iff by blast+
    with Inr 2 show ?thesis by (auto simp: list_ex_iff)
  qed
qed auto

lemma validate_tags_iff:
  "validate_tags ins = Inr v \<longleftrightarrow> length ins \<le> 32 \<and> list_all tag_ok ins \<and> distinct ins \<and> v = ins"
  by (auto simp: validate_tags_def MAX_TAGS_def collect_tags_iff)


end
