(* ===== verification/Ssh_Client.thy ===== *)
theory Ssh_Client
  imports Pty_Bridge Core_Types
begin

text \<open>
  The SSH client of \<^verbatim>\<open>crates/relayterm-ssh\<close>: the host-key probe (\<^verbatim>\<open>russh_probe.rs\<close>), the
  authentication check (\<^verbatim>\<open>russh_auth.rs\<close>) and the start of a PTY (\<^verbatim>\<open>russh_pty.rs\<close>), with the
  services above them (\<^verbatim>\<open>preflight.rs\<close>, \<^verbatim>\<open>auth_check.rs\<close>). The SSH library and the remote host are
  an \<open>ssh_peer\<close>: which key is presented, and how each call of the library ends and after how
  long. What the client puts on the wire and the time it spends are recorded in \<open>ssh_conn\<close>.
\<close>

section \<open>The library and the peer\<close>

record server_key =
  sk_algorithm :: ssh_algorithm
  sk_fingerprint :: string
  sk_bytes :: "byte list option"

datatype io_error_kind =
    IO_TimedOut
  | IO_ConnectionRefused
  | IO_ConnectionReset
  | IO_ConnectionAborted
  | IO_NotConnected
  | IO_HostUnreachable
  | IO_NetworkUnreachable
  | IO_AddrNotAvailable
  | IO_Other

datatype russh_error = Russh_IO io_error_kind | Russh_Other

text \<open>The end of an awaited call: its result after some time, or no end at all.\<close>

datatype 'a awaited = Answer duration "russh_error + 'a" | Never

text \<open>
  \<open>pr_connect\<close> gets what the handler's \<open>check_server_key\<close> answered, or \<open>None\<close> when no key was
  presented.
\<close>

record ssh_peer =
  pr_presented :: "server_key option"
  pr_connect :: "bool option \<Rightarrow> unit awaited"
  pr_auth :: "string \<Rightarrow> byte list \<Rightarrow> bool awaited"
  pr_open_session :: "unit awaited"
  pr_request_pty :: "string \<Rightarrow> nat \<Rightarrow> nat \<Rightarrow> unit awaited"
  pr_request_shell :: "unit awaited"

type_synonym network = "string \<Rightarrow> nat \<Rightarrow> ssh_peer"

text \<open>\<open>kp_parse\<close> is \<open>PrivateKey::from_openssh\<close> of the key library, \<open>kp_russh_parse\<close> that of its fork in the SSH library.\<close>

record key_parsers =
  kp_parse :: "byte list \<Rightarrow> bool"
  kp_russh_parse :: "byte list \<Rightarrow> bool"

datatype wire_action =
    WA_Connect string nat
  | WA_Authenticate string "byte list"
  | WA_OpenSession
  | WA_RequestPty string nat nat
  | WA_RequestShell
  | WA_Disconnect

record ssh_conn =
  sc_clock :: duration
  sc_wire :: "wire_action list"

type_synonym ('e, 'a) ssh = "(ssh_conn, 'e, 'a) prog"

definition send_wire :: "wire_action \<Rightarrow> ('e, unit) ssh" where
  "send_wire a = modifyP (\<lambda>c. c\<lparr>sc_wire := sc_wire c @ [a]\<rparr>)"

text \<open>\<open>tokio::time::timeout\<close>: \<open>None\<close> when the budget runs out first.\<close>

definition timeout :: "duration \<Rightarrow> 'a awaited \<Rightarrow> ('e, (russh_error + 'a) option) ssh" where
  "timeout budget call = (\<lambda>c.
     case call of
       Answer d r \<Rightarrow>
         if d \<le> budget then (Inr (Some r), c\<lparr>sc_clock := sc_clock c + max 0 d\<rparr>)
         else (Inr None, c\<lparr>sc_clock := sc_clock c + max 0 budget\<rparr>)
     | Never \<Rightarrow> (Inr None, c\<lparr>sc_clock := sc_clock c + max 0 budget\<rparr>))"

section \<open>Host keys\<close>

record captured_host_key =
  hk_key_type :: ssh_key_type
  hk_fingerprint_sha256 :: string
  hk_public_key :: "byte list"

definition key_type_from_algorithm :: "ssh_algorithm \<Rightarrow> ssh_key_type option" where
  "key_type_from_algorithm alg =
     (case alg of
        Alg_Ed25519 \<Rightarrow> Some KT_Ed25519
      | Alg_Rsa \<Rightarrow> Some KT_Rsa
      | Alg_Ecdsa curve \<Rightarrow>
          (case curve of NistP256 \<Rightarrow> Some KT_EcdsaP256 | NistP384 \<Rightarrow> Some KT_EcdsaP384 | NistP521 \<Rightarrow> Some KT_EcdsaP521)
      | _ \<Rightarrow> None)"

definition captured_of :: "server_key \<Rightarrow> captured_host_key option" where
  "captured_of key =
     (case key_type_from_algorithm (sk_algorithm key) of
        None \<Rightarrow> None
      | Some key_type \<Rightarrow>
          (case sk_bytes key of
             None \<Rightarrow> None
           | Some public_key \<Rightarrow> Some \<lparr>hk_key_type = key_type, hk_fingerprint_sha256 = sk_fingerprint key,
                                      hk_public_key = public_key\<rparr>))"

type_synonym pin = "ssh_key_type \<times> string"

definition pin_matches :: "pin list \<Rightarrow> captured_host_key \<Rightarrow> bool" where
  "pin_matches accept_pins k =
     list_ex (\<lambda>(kt, fp). kt = hk_key_type k \<and> fp = hk_fingerprint_sha256 k) accept_pins"

text \<open>
  The handlers' \<open>check_server_key\<close>: what is captured, whether a pin matched, and the answer given
  to the library. The probe's handler accepts every key it can classify.
\<close>

definition probe_check_server_key :: "server_key option \<Rightarrow> captured_host_key option \<times> bool option" where
  "probe_check_server_key presented =
     (case presented of
        None \<Rightarrow> (None, None)
      | Some key \<Rightarrow>
          (case captured_of key of None \<Rightarrow> (None, Some False) | Some k \<Rightarrow> (Some k, Some True)))"

definition check_server_key ::
  "pin list \<Rightarrow> server_key option \<Rightarrow> captured_host_key option \<times> bool \<times> bool option" where
  "check_server_key accept_pins presented =
     (case presented of
        None \<Rightarrow> (None, False, None)
      | Some key \<Rightarrow>
          (case captured_of key of
             None \<Rightarrow> (None, False, Some False)
           | Some k \<Rightarrow> let matched = pin_matches accept_pins k in (Some k, matched, Some matched)))"

definition map_io_error_kind :: "io_error_kind \<Rightarrow> probe_error" where
  "map_io_error_kind kind =
     (case kind of
        IO_TimedOut \<Rightarrow> PR_Timeout
      | IO_ConnectionRefused \<Rightarrow> PR_Unreachable
      | IO_ConnectionReset \<Rightarrow> PR_Unreachable
      | IO_ConnectionAborted \<Rightarrow> PR_Unreachable
      | IO_NotConnected \<Rightarrow> PR_Unreachable
      | IO_HostUnreachable \<Rightarrow> PR_Unreachable
      | IO_NetworkUnreachable \<Rightarrow> PR_Unreachable
      | IO_AddrNotAvailable \<Rightarrow> PR_Unreachable
      | IO_Other \<Rightarrow> PR_Transport)"

definition map_russh_error :: "russh_error \<Rightarrow> probe_error" where
  "map_russh_error err = (case err of Russh_IO kind \<Rightarrow> map_io_error_kind kind | Russh_Other \<Rightarrow> PR_Transport)"

section \<open>The probe\<close>

definition DEFAULT_CONNECT_TIMEOUT :: duration where
  "DEFAULT_CONNECT_TIMEOUT = seconds 10"

definition capture_host_key :: "network \<Rightarrow> string \<Rightarrow> nat \<Rightarrow> (probe_error, captured_host_key) ssh" where
  "capture_host_key net hostname port =
     (let peer = net hostname port;
          (captured, answer) = probe_check_server_key (pr_presented peer)
      in bindP (send_wire (WA_Connect hostname port)) (\<lambda>_.
         bindP (timeout DEFAULT_CONNECT_TIMEOUT (pr_connect peer answer)) (\<lambda>session_result.
         case session_result of
           None \<Rightarrow> raiseP PR_Timeout
         | Some (Inl e) \<Rightarrow> raiseP (map_russh_error e)
         | Some (Inr _) \<Rightarrow>
             bindP (send_wire WA_Disconnect) (\<lambda>_. okOrP captured PR_BadHostKey))))"

section \<open>The authentication check\<close>

datatype auth_attempt_kind = AA_Authenticated | AA_AuthenticationFailed | AA_HostKeyMismatch

record auth_check_outcome =
  ao_captured :: captured_host_key
  ao_kind :: auth_attempt_kind

record auth_check_target =
  at_hostname :: string
  at_port :: nat
  at_username :: string
  at_accept_pins :: "pin list"
  at_private_key_pem :: "byte list"

definition attempt_auth ::
  "ssh_peer \<Rightarrow> auth_check_target \<Rightarrow> captured_host_key \<Rightarrow> (probe_error, auth_check_outcome) ssh" where
  "attempt_auth peer target captured_key =
     bindP (send_wire (WA_Authenticate (at_username target) (at_private_key_pem target))) (\<lambda>_.
     bindP (timeout DEFAULT_CONNECT_TIMEOUT (pr_auth peer (at_username target) (at_private_key_pem target))) (\<lambda>auth_outcome.
     bindP (send_wire WA_Disconnect) (\<lambda>_.
     case auth_outcome of
       None \<Rightarrow> raiseP PR_Timeout
     | Some (Inl e) \<Rightarrow> raiseP (map_russh_error e)
     | Some (Inr success) \<Rightarrow>
         retP \<lparr>ao_captured = captured_key,
               ao_kind = (if success then AA_Authenticated else AA_AuthenticationFailed)\<rparr>)))"

definition run_auth_check ::
  "key_parsers \<Rightarrow> network \<Rightarrow> auth_check_target \<Rightarrow> (probe_error, auth_check_outcome) ssh" where
  "run_auth_check kp net target =
     (if \<not> kp_russh_parse kp (at_private_key_pem target) then raiseP PR_Transport
      else
        let peer = net (at_hostname target) (at_port target);
            (captured, pin_matched, answer) = check_server_key (at_accept_pins target) (pr_presented peer)
        in bindP (send_wire (WA_Connect (at_hostname target) (at_port target))) (\<lambda>_.
           bindP (timeout DEFAULT_CONNECT_TIMEOUT (pr_connect peer answer)) (\<lambda>connect_result.
           case connect_result of
             None \<Rightarrow> raiseP PR_Timeout
           | Some (Inl e) \<Rightarrow> raiseP (map_russh_error e)
           | Some (Inr _) \<Rightarrow>
               if \<not> pin_matched then
                 bindP (send_wire WA_Disconnect) (\<lambda>_.
                 bindP (okOrP captured PR_BadHostKey) (\<lambda>captured_key.
                 retP \<lparr>ao_captured = captured_key, ao_kind = AA_HostKeyMismatch\<rparr>))
               else
                 bindP (okOrP captured PR_BadHostKey) (\<lambda>captured_key.
                 attempt_auth peer target captured_key))))"

section \<open>Starting a PTY\<close>

record ssh_pty_config =
  pcf_hostname :: string
  pcf_port :: nat
  pcf_username :: string
  pcf_accept_pins :: "pin list"
  pcf_cols :: nat
  pcf_rows :: nat
  pcf_term :: string
  pcf_start_timeout :: duration

definition DEFAULT_PTY_TERM :: string where "DEFAULT_PTY_TERM = ''xterm-256color''"
definition DEFAULT_PTY_START_TIMEOUT :: duration where "DEFAULT_PTY_START_TIMEOUT = seconds 20"
definition DEFAULT_INNER_TIMEOUT :: duration where "DEFAULT_INNER_TIMEOUT = seconds 10"

definition pty_config_new :: "string \<Rightarrow> nat \<Rightarrow> string \<Rightarrow> pin list \<Rightarrow> nat \<Rightarrow> nat \<Rightarrow> ssh_pty_config" where
  "pty_config_new hostname port username accept_pins cols rows =
     \<lparr>pcf_hostname = hostname, pcf_port = port, pcf_username = username, pcf_accept_pins = accept_pins,
      pcf_cols = cols, pcf_rows = rows, pcf_term = DEFAULT_PTY_TERM,
      pcf_start_timeout = DEFAULT_PTY_START_TIMEOUT\<rparr>"

text \<open>How \<open>start\<close> can end without a bridge: with an error, or, for the calls it makes with no timeout, not at all.\<close>

datatype 'e stop = Stopped 'e | Blocked

definition untimed :: "unit awaited \<Rightarrow> (ssh_pty_error stop, unit) ssh" where
  "untimed call = (\<lambda>c.
     case call of
       Never \<Rightarrow> (Inl Blocked, c)
     | Answer d r \<Rightarrow>
         (case r of Inl _ \<Rightarrow> Inl (Stopped PE_PtyStartFailed) | Inr _ \<Rightarrow> Inr (), c\<lparr>sc_clock := sc_clock c + max 0 d\<rparr>))"

definition open_shell :: "ssh_peer \<Rightarrow> ssh_pty_config \<Rightarrow> (ssh_pty_error stop, pty_bridge) ssh" where
  "open_shell peer config =
     bindP (send_wire WA_OpenSession) (\<lambda>_.
     bindP (untimed (pr_open_session peer)) (\<lambda>_.
     bindP (send_wire (WA_RequestPty (pcf_term config) (pcf_cols config) (pcf_rows config))) (\<lambda>_.
     bindP (untimed (pr_request_pty peer (pcf_term config) (pcf_cols config) (pcf_rows config))) (\<lambda>_.
     bindP (send_wire WA_RequestShell) (\<lambda>_.
     bindP (untimed (pr_request_shell peer)) (\<lambda>_.
     retP bridge_start))))))"

definition start_auth ::
  "ssh_peer \<Rightarrow> ssh_pty_config \<Rightarrow> byte list \<Rightarrow> (ssh_pty_error stop, unit) ssh" where
  "start_auth peer config pem =
     bindP (send_wire (WA_Authenticate (pcf_username config) pem)) (\<lambda>_.
     bindP (timeout DEFAULT_INNER_TIMEOUT (pr_auth peer (pcf_username config) pem)) (\<lambda>auth_outcome.
     case auth_outcome of
       None \<Rightarrow> bindP (send_wire WA_Disconnect) (\<lambda>_. raiseP (Stopped (PE_Transport PR_Timeout)))
     | Some (Inl e) \<Rightarrow> bindP (send_wire WA_Disconnect) (\<lambda>_. raiseP (Stopped (PE_Transport (map_russh_error e))))
     | Some (Inr success) \<Rightarrow>
         if \<not> success then bindP (send_wire WA_Disconnect) (\<lambda>_. raiseP (Stopped PE_AuthenticationFailed))
         else retP ()))"

definition pty_start ::
  "key_parsers \<Rightarrow> network \<Rightarrow> ssh_pty_config \<Rightarrow> byte list \<Rightarrow> (ssh_pty_error stop, pty_bridge) ssh" where
  "pty_start kp net config pem =
     (if \<not> kp_russh_parse kp pem then raiseP (Stopped PE_InvalidIdentity)
      else
        let peer = net (pcf_hostname config) (pcf_port config);
            (captured, host_key_pinned, answer) = check_server_key (pcf_accept_pins config) (pr_presented peer)
        in bindP (send_wire (WA_Connect (pcf_hostname config) (pcf_port config))) (\<lambda>_.
           bindP (timeout DEFAULT_INNER_TIMEOUT (pr_connect peer answer)) (\<lambda>connect_outcome.
           case connect_outcome of
             None \<Rightarrow> raiseP (Stopped (PE_Transport PR_Timeout))
           | Some (Inl e) \<Rightarrow>
               if \<not> host_key_pinned \<and> captured \<noteq> None then raiseP (Stopped PE_HostKeyNotTrusted)
               else raiseP (Stopped (PE_Transport (map_russh_error e)))
           | Some (Inr _) \<Rightarrow>
               if \<not> host_key_pinned then
                 bindP (send_wire WA_Disconnect) (\<lambda>_. raiseP (Stopped PE_HostKeyNotTrusted))
               else
                 bindP (start_auth peer config pem) (\<lambda>_. open_shell peer config))))"

end
