(* ===== verification/Ssh_Services.thy ===== *)
theory Ssh_Services
  imports Ssh_Client
begin

text \<open>
  The services above the SSH client: host-key preflight (\<^verbatim>\<open>preflight.rs\<close>) and the authentication
  check with its concurrency limit (\<^verbatim>\<open>auth_check.rs\<close>), and what the client and the services
  guarantee against every peer: no signature leaves for a host whose key is not pinned, and every
  probe and check ends in bounded time.
\<close>

section \<open>Classification and preflight\<close>

datatype host_key_status = HK_Unknown | HK_Trusted | HK_Changed

definition classify_host_key :: "captured_host_key \<Rightarrow> known_host_entry list \<Rightarrow> host_key_status" where
  "classify_host_key captured known =
     (let active = filter (\<lambda>e. kh_revoked_at e = None) known
      in case find (\<lambda>e. kh_key_type e = hk_key_type captured
                      \<and> kh_fingerprint_sha256 e = hk_fingerprint_sha256 captured) active of
           Some matching \<Rightarrow> if kh_trusted_at matching \<noteq> None then HK_Trusted else HK_Unknown
         | None \<Rightarrow>
             if list_ex (\<lambda>e. kh_key_type e = hk_key_type captured
                           \<and> kh_fingerprint_sha256 e \<noteq> hk_fingerprint_sha256 captured) active
             then HK_Changed else HK_Unknown)"

record preflight_request =
  pq_host_id :: host_id
  pq_hostname :: string
  pq_port :: nat
  pq_username :: string
  pq_private_key_pem :: "byte list"

record preflight_result =
  pf_captured :: captured_host_key
  pf_status :: host_key_status

datatype preflight_error = PF_InvalidIdentity | PF_Probe probe_error

definition preflight ::
  "key_parsers \<Rightarrow> network \<Rightarrow> preflight_request \<Rightarrow> known_host_entry list \<Rightarrow> (preflight_error, preflight_result) ssh" where
  "preflight kp net req known =
     bindP (guardP (kp_parse kp (pq_private_key_pem req)) PF_InvalidIdentity) (\<lambda>_.
     bindP (mapErrP PF_Probe (capture_host_key net (pq_hostname req) (pq_port req))) (\<lambda>captured.
     retP \<lparr>pf_captured = captured, pf_status = classify_host_key captured known\<rparr>))"

section \<open>The authentication check\<close>

definition DEFAULT_AUTH_CHECK_TIMEOUT :: duration where "DEFAULT_AUTH_CHECK_TIMEOUT = seconds 25"
definition DEFAULT_MAX_CONCURRENT_AUTH_CHECKS :: nat where "DEFAULT_MAX_CONCURRENT_AUTH_CHECKS = 4"

record auth_check_request =
  aq_host_id :: host_id
  aq_hostname :: string
  aq_port :: nat
  aq_username :: string
  aq_private_key_pem :: "byte list"

datatype auth_check_status =
    AS_AuthenticationSucceeded
  | AS_AuthenticationFailed
  | AS_HostKeyUnknown
  | AS_HostKeyChanged
  | AS_ConnectionFailed

datatype auth_check_error = AX_InvalidIdentity | AX_Saturated

text \<open>The service: its outer timeout and the free permits of its semaphore.\<close>

record auth_check_service =
  av_timeout :: duration
  av_permits :: nat

definition auth_check_with_limits :: "duration \<Rightarrow> nat \<Rightarrow> auth_check_service" where
  "auth_check_with_limits limit max_concurrent = \<lparr>av_timeout = limit, av_permits = max max_concurrent 1\<rparr>"

definition auth_check_service_new :: auth_check_service where
  "auth_check_service_new = auth_check_with_limits DEFAULT_AUTH_CHECK_TIMEOUT DEFAULT_MAX_CONCURRENT_AUTH_CHECKS"

definition accept_pins_of :: "known_host_entry list \<Rightarrow> pin list" where
  "accept_pins_of known =
     map (\<lambda>e. (kh_key_type e, kh_fingerprint_sha256 e))
       (filter (\<lambda>e. kh_revoked_at e = None \<and> kh_trusted_at e \<noteq> None) known)"

definition try_acquire :: "(auth_check_service, auth_check_error, unit) prog" where
  "try_acquire = (\<lambda>v. if av_permits v = 0 then (Inl AX_Saturated, v)
                       else (Inr (), v\<lparr>av_permits := av_permits v - 1\<rparr>))"

definition release_permit :: "auth_check_service \<Rightarrow> auth_check_service" where
  "release_permit v = v\<lparr>av_permits := Suc (av_permits v)\<rparr>"

definition auth_check_begin ::
  "key_parsers \<Rightarrow> auth_check_request \<Rightarrow> known_host_entry list \<Rightarrow> (auth_check_service, auth_check_error, auth_check_target) prog" where
  "auth_check_begin kp req known =
     bindP (guardP (kp_parse kp (aq_private_key_pem req)) AX_InvalidIdentity) (\<lambda>_.
     let accept_pins = accept_pins_of known in
     bindP try_acquire (\<lambda>_.
     retP \<lparr>at_hostname = aq_hostname req, at_port = aq_port req, at_username = aq_username req,
           at_accept_pins = accept_pins, at_private_key_pem = aq_private_key_pem req\<rparr>))"

text \<open>
  The outer timeout drops the running check. \<open>sc_wire\<close> then still lists everything the check
  would have sent, which bounds what it did send.
\<close>

definition within :: "duration \<Rightarrow> ('e, 'a) ssh \<Rightarrow> ssh_conn \<Rightarrow> ('e + 'a) option \<times> ssh_conn" where
  "within budget m c =
     (case m c of (r, c') \<Rightarrow>
        if sc_clock c' - sc_clock c \<le> budget then (Some r, c')
        else (None, c'\<lparr>sc_clock := sc_clock c + max 0 budget\<rparr>))"

definition auth_check_status_of ::
  "(probe_error + auth_check_outcome) option \<Rightarrow> known_host_entry list \<Rightarrow> auth_check_status" where
  "auth_check_status_of outcome known =
     (case outcome of
        None \<Rightarrow> AS_ConnectionFailed
      | Some (Inl _) \<Rightarrow> AS_ConnectionFailed
      | Some (Inr out) \<Rightarrow>
          (case ao_kind out of
             AA_Authenticated \<Rightarrow> AS_AuthenticationSucceeded
           | AA_AuthenticationFailed \<Rightarrow> AS_AuthenticationFailed
           | AA_HostKeyMismatch \<Rightarrow>
               (case classify_host_key (ao_captured out) known of
                  HK_Changed \<Rightarrow> AS_HostKeyChanged
                | HK_Trusted \<Rightarrow> AS_HostKeyUnknown
                | HK_Unknown \<Rightarrow> AS_HostKeyUnknown)))"

definition auth_check ::
  "key_parsers \<Rightarrow> network \<Rightarrow> auth_check_request \<Rightarrow> known_host_entry list
     \<Rightarrow> (auth_check_service \<times> ssh_conn, auth_check_error, auth_check_status) prog" where
  "auth_check kp net req known = (\<lambda>(v, c).
     case auth_check_begin kp req known v of
       (Inl e, v1) \<Rightarrow> (Inl e, (v1, c))
     | (Inr target, v1) \<Rightarrow>
         (case within (av_timeout v) (run_auth_check kp net target) c of
            (outcome, c1) \<Rightarrow> (Inr (auth_check_status_of outcome known), (release_permit v1, c1))))"

section \<open>What goes over the wire\<close>

definition new_conn :: ssh_conn where
  "new_conn = \<lparr>sc_clock = 0, sc_wire = []\<rparr>"

definition is_signature :: "wire_action \<Rightarrow> bool" where
  "is_signature a = (case a of WA_Authenticate _ _ \<Rightarrow> True | _ \<Rightarrow> False)"

definition unsigned_wire :: "ssh_conn \<Rightarrow> bool" where
  "unsigned_wire c \<longleftrightarrow> list_all (\<lambda>a. \<not> is_signature a) (sc_wire c)"

text \<open>The host presents a key whose type and fingerprint are among the pins.\<close>

definition presents_pinned :: "pin list \<Rightarrow> ssh_peer \<Rightarrow> bool" where
  "presents_pinned pins peer =
     (case pr_presented peer of
        None \<Rightarrow> False
      | Some key \<Rightarrow> (case captured_of key of None \<Rightarrow> False | Some k \<Rightarrow> (hk_key_type k, hk_fingerprint_sha256 k) \<in> set pins))"

lemma pin_matches_iff: "pin_matches pins k \<longleftrightarrow> (hk_key_type k, hk_fingerprint_sha256 k) \<in> set pins"
  by (auto simp: pin_matches_def list_ex_iff)

lemma check_server_key_matched:
  "check_server_key pins (pr_presented peer) = (captured, matched, answer) \<Longrightarrow> matched \<longleftrightarrow> presents_pinned pins peer"
  by (auto simp: presents_pinned_def pin_matches_iff check_server_key_def Let_def split: option.splits)

lemma unsigned_send [pres_intros]: "\<not> is_signature a \<Longrightarrow> preserves unsigned_wire (send_wire a)"
  by (auto simp: send_wire_def unsigned_wire_def intro!: preserves_modify)

lemma unsigned_timeout [pres_intros]: "preserves unsigned_wire (timeout b call)"
  by (auto simp: preserves_def timeout_def unsigned_wire_def split: awaited.splits)

lemma unsigned_untimed [pres_intros]: "preserves unsigned_wire (untimed call)"
  by (auto simp: preserves_def untimed_def unsigned_wire_def split: awaited.splits)

lemma is_signature_simps [simp]:
  "is_signature (WA_Authenticate u k)" "\<not> is_signature (WA_Connect h p)" "\<not> is_signature WA_Disconnect"
  "\<not> is_signature WA_OpenSession" "\<not> is_signature (WA_RequestPty t x y)" "\<not> is_signature WA_RequestShell"
  by (simp_all add: is_signature_def)

lemma probe_never_signs: "preserves unsigned_wire (capture_host_key net h p)"
  unfolding capture_host_key_def Let_def by (intro pres_intros is_signature_simps)

lemma auth_check_unpinned:
  assumes "\<not> presents_pinned (at_accept_pins target) (net (at_hostname target) (at_port target))"
  shows "preserves unsigned_wire (run_auth_check kp net target)"
proof -
  obtain captured matched answer where c: "check_server_key (at_accept_pins target)
      (pr_presented (net (at_hostname target) (at_port target))) = (captured, matched, answer)"
    by (metis prod_cases3)
  then have "\<not> matched" using assms check_server_key_matched by blast
  with c show ?thesis
    unfolding run_auth_check_def Let_def by (simp, intro conjI impI pres_intros is_signature_simps)
qed

lemma pty_start_unpinned:
  assumes "\<not> presents_pinned (pcf_accept_pins config) (net (pcf_hostname config) (pcf_port config))"
  shows "preserves unsigned_wire (pty_start kp net config pem)"
proof -
  obtain captured matched answer where c: "check_server_key (pcf_accept_pins config)
      (pr_presented (net (pcf_hostname config) (pcf_port config))) = (captured, matched, answer)"
    by (metis prod_cases3)
  then have "\<not> matched" using assms check_server_key_matched by blast
  with c show ?thesis
    unfolding pty_start_def Let_def by (simp, intro conjI impI pres_intros is_signature_simps)
qed

lemma unsigned_new [simp]: "unsigned_wire new_conn"
  by (simp add: unsigned_wire_def new_conn_def)

lemma signed_iff: "\<not> unsigned_wire c \<longleftrightarrow> (\<exists>u k. WA_Authenticate u k \<in> set (sc_wire c))"
proof -
  have "is_signature a \<longleftrightarrow> (\<exists>u k. a = WA_Authenticate u k)" for a by (cases a) simp_all
  then show ?thesis by (auto simp: unsigned_wire_def list_all_iff)
qed

lemma within_wire: "sc_wire (snd (within b m c)) = sc_wire (snd (m c))"
  by (auto simp: within_def split: prod.splits)

lemma auth_check_wire:
  assumes "\<not> unsigned_wire (snd (snd (auth_check kp net req known (v, new_conn))))"
  shows "presents_pinned (accept_pins_of known) (net (aq_hostname req) (aq_port req))"
proof (rule ccontr)
  assume n: "\<not> ?thesis"
  show False
  proof (cases "auth_check_begin kp req known v")
    case (Pair r v1)
    show False
    proof (cases r)
      case (Inl e)
      with Pair assms show False by (simp add: auth_check_def)
    next
      case (Inr target)
      with Pair have t: "at_hostname target = aq_hostname req" "at_port target = aq_port req"
        "at_accept_pins target = accept_pins_of known"
        by (auto simp: auth_check_begin_def Let_def Inr_iffs)
      then have "unsigned_wire (snd (run_auth_check kp net target new_conn))"
        using auth_check_unpinned [of target net kp] n preservesD by force
      moreover have "unsigned_wire (snd (snd (auth_check kp net req known (v, new_conn))))
          \<longleftrightarrow> unsigned_wire (snd (run_auth_check kp net target new_conn))"
        using Pair Inr within_wire [of "av_timeout v" "run_auth_check kp net target" new_conn]
        by (auto simp: auth_check_def unsigned_wire_def split: prod.splits)
      ultimately show False using assms by simp
    qed
  qed
qed

lemma accept_pins_iff:
  "p \<in> set (accept_pins_of known) \<longleftrightarrow>
     (\<exists>e \<in> set known. kh_revoked_at e = None \<and> kh_trusted_at e \<noteq> None
        \<and> p = (kh_key_type e, kh_fingerprint_sha256 e))"
  by (auto simp: accept_pins_of_def)

text \<open>
  No signature is ever sent to a host that did not present a pinned key. Whatever the peer
  does, the probe never authenticates; the authentication check and the start of a PTY put an
  authentication request on the wire only if the host presented a key that is, by type and
  fingerprint, one of the pins they were given; and for the authentication check these are
  exactly the trusted and unrevoked rows of the known-host table.
\<close>

theorem signature_only_to_pinned_host:
  "WA_Authenticate u k \<notin> set (sc_wire (snd (capture_host_key net h p new_conn)))
   \<and> (WA_Authenticate u k \<in> set (sc_wire (snd (snd (auth_check kp net req known (v, new_conn))))) \<longrightarrow>
       (\<exists>key cap e. pr_presented (net (aq_hostname req) (aq_port req)) = Some key \<and> captured_of key = Some cap
          \<and> e \<in> set known \<and> kh_revoked_at e = None \<and> kh_trusted_at e \<noteq> None
          \<and> kh_key_type e = hk_key_type cap \<and> kh_fingerprint_sha256 e = hk_fingerprint_sha256 cap))
   \<and> (WA_Authenticate u k \<in> set (sc_wire (snd (pty_start kp net config pem new_conn))) \<longrightarrow>
       presents_pinned (pcf_accept_pins config) (net (pcf_hostname config) (pcf_port config)))"
proof (intro conjI impI)
  show "WA_Authenticate u k \<notin> set (sc_wire (snd (capture_host_key net h p new_conn)))"
    using preservesD [OF probe_never_signs unsigned_new] signed_iff by blast
next
  assume "WA_Authenticate u k \<in> set (sc_wire (snd (snd (auth_check kp net req known (v, new_conn)))))"
  then have "presents_pinned (accept_pins_of known) (net (aq_hostname req) (aq_port req))"
    using auth_check_wire signed_iff by blast
  then show "\<exists>key cap e. pr_presented (net (aq_hostname req) (aq_port req)) = Some key \<and> captured_of key = Some cap
      \<and> e \<in> set known \<and> kh_revoked_at e = None \<and> kh_trusted_at e \<noteq> None
      \<and> kh_key_type e = hk_key_type cap \<and> kh_fingerprint_sha256 e = hk_fingerprint_sha256 cap"
    by (fastforce simp: presents_pinned_def accept_pins_iff split: option.splits)
next
  assume "WA_Authenticate u k \<in> set (sc_wire (snd (pty_start kp net config pem new_conn)))"
  then show "presents_pinned (pcf_accept_pins config) (net (pcf_hostname config) (pcf_port config))"
    using preservesD [OF pty_start_unpinned unsigned_new] signed_iff by blast
qed

text \<open>A host with an Ed25519 key that answers everything within a second.\<close>

definition demo_peer :: ssh_peer where
  "demo_peer =
     \<lparr>pr_presented = Some \<lparr>sk_algorithm = Alg_Ed25519, sk_fingerprint = ''SHA256:AA'', sk_bytes = Some [1]\<rparr>,
      pr_connect = (\<lambda>a. Answer (seconds 1) (if a = Some True then Inr () else Inl Russh_Other)),
      pr_auth = (\<lambda>_ _. Answer (seconds 1) (Inr True)), pr_open_session = Answer 0 (Inr ()),
      pr_request_pty = (\<lambda>_ _ _. Answer 0 (Inr ())), pr_request_shell = Answer 0 (Inr ())\<rparr>"

definition demo_keys :: key_parsers where
  "demo_keys = \<lparr>kp_parse = (\<lambda>_. True), kp_russh_parse = (\<lambda>_. True)\<rparr>"

definition demo_pin :: known_host_entry where
  "demo_pin = \<lparr>kh_id = 1, kh_host_id = 2, kh_key_type = KT_Ed25519, kh_fingerprint_sha256 = ''SHA256:AA'',
     kh_public_key = [1], kh_first_seen_at = 0, kh_trusted_at = Some 0, kh_revoked_at = None,
     kh_revoked_by = None, kh_revoked_reason_code = None, kh_replaced_by_id = None\<rparr>"

definition demo_request :: auth_check_request where
  "demo_request = \<lparr>aq_host_id = 2, aq_hostname = ''h'', aq_port = 22, aq_username = ''ops'', aq_private_key_pem = [7]\<rparr>"

lemmas demo_ssh_defs = demo_peer_def demo_keys_def demo_pin_def demo_request_def

theorem signature_only_to_pinned_host_witness:
  "WA_Authenticate ''ops'' [7]
     \<in> set (sc_wire (snd (snd (auth_check demo_keys (\<lambda>_ _. demo_peer) demo_request [demo_pin]
                                 (auth_check_service_new, new_conn)))))
   \<and> (\<exists>key cap e. pr_presented demo_peer = Some key \<and> captured_of key = Some cap
        \<and> e \<in> set [demo_pin] \<and> kh_revoked_at e = None \<and> kh_trusted_at e \<noteq> None
        \<and> kh_key_type e = hk_key_type cap \<and> kh_fingerprint_sha256 e = hk_fingerprint_sha256 cap)"
proof -
  have s: "WA_Authenticate ''ops'' [7]
     \<in> set (sc_wire (snd (snd (auth_check demo_keys (\<lambda>_ _. demo_peer) demo_request [demo_pin]
                                 (auth_check_service_new, new_conn)))))"
    by code_simp
  with signature_only_to_pinned_host [of "''ops''" "[7]" "\<lambda>_ _. demo_peer" "''h''" 22 demo_keys demo_request
      "[demo_pin]" auth_check_service_new "pty_config_new [] 0 [] [] 0 0" "[]"]
  show ?thesis by simp
qed

section \<open>How long it takes\<close>

definition spends :: "duration \<Rightarrow> ('e, 'a) ssh \<Rightarrow> bool" where
  "spends b m \<longleftrightarrow> (\<forall>c. sc_clock c \<le> sc_clock (snd (m c)) \<and> sc_clock (snd (m c)) \<le> sc_clock c + b)"

lemma spends_bind:
  assumes m: "spends b m" and k: "\<And>x. spends d (k x)" and d: "0 \<le> d"
  shows "spends (b + d) (bindP m k)"
  unfolding spends_def
proof
  fix c
  obtain r c1 where mc: "m c = (r, c1)" by (cases "m c")
  have c1: "sc_clock c \<le> sc_clock c1" "sc_clock c1 \<le> sc_clock c + b"
    using m mc unfolding spends_def by (metis snd_conv)+
  show "sc_clock c \<le> sc_clock (snd (bindP m k c)) \<and> sc_clock (snd (bindP m k c)) \<le> sc_clock c + (b + d)"
  proof (cases r)
    case (Inl e)
    with mc c1 d show ?thesis by (simp add: bindP_run)
  next
    case (Inr x)
    have "sc_clock c1 \<le> sc_clock (snd (k x c1)) \<and> sc_clock (snd (k x c1)) \<le> sc_clock c1 + d"
      using k [of x] unfolding spends_def by blast
    with mc Inr c1 show ?thesis by (simp add: bindP_run)
  qed
qed

lemma spends_now:
  "spends 0 (retP x)" "spends 0 (raiseP e)" "spends 0 (send_wire a)" "spends 0 (okOrP v f)" "spends 0 (guardP t g)"
  by (auto simp: spends_def send_wire_def okOrP_def guardP_def split: option.splits)

lemma spends_timeout: "0 \<le> b \<Longrightarrow> spends b (timeout b call)"
  by (auto simp: spends_def timeout_def split: awaited.splits)

lemma spends_bind_now: "spends 0 m \<Longrightarrow> (\<And>x. spends d (k x)) \<Longrightarrow> 0 \<le> d \<Longrightarrow> spends d (bindP m k)"
  using spends_bind [of 0 m d k] by simp

lemma spends_bind_last: "spends b m \<Longrightarrow> (\<And>x. spends 0 (k x)) \<Longrightarrow> spends b (bindP m k)"
  using spends_bind [of b m 0 k] by simp

lemma spends_more: "spends b m \<Longrightarrow> b \<le> d \<Longrightarrow> spends d m"
  unfolding spends_def by (meson add_left_mono order_trans)

lemma spends_split:
  "spends b m \<Longrightarrow> (\<And>x. spends b (n x)) \<Longrightarrow> spends b (case v of None \<Rightarrow> m | Some x \<Rightarrow> n x)"
  "(\<And>e. spends b (f e)) \<Longrightarrow> (\<And>x. spends b (g x)) \<Longrightarrow> spends b (case w of Inl e \<Rightarrow> f e | Inr x \<Rightarrow> g x)"
  "spends b m \<Longrightarrow> spends b m' \<Longrightarrow> spends b (if t then m else m')"
  by (auto split: option.splits sum.splits)

lemma probe_spends: "spends (seconds 10) (capture_host_key net h p)"
  unfolding capture_host_key_def Let_def DEFAULT_CONNECT_TIMEOUT_def case_prod_beta
  by (intro spends_bind_now [OF spends_now(3)] spends_bind_last spends_timeout spends_split spends_now)
     (simp_all add: seconds_def)

lemma attempt_spends: "spends (seconds 10) (attempt_auth peer target k)"
  unfolding attempt_auth_def DEFAULT_CONNECT_TIMEOUT_def
  by (intro spends_bind_now [OF spends_now(3)] spends_bind_last spends_timeout spends_split spends_now)
     (simp_all add: seconds_def)

lemma run_auth_check_spends: "spends (seconds 20) (run_auth_check kp net target)"
proof -
  have n: "0 \<le> seconds 10" "0 \<le> seconds 20" and t: "seconds 20 = seconds 10 + seconds 10"
    by (simp_all add: seconds_def)
  have "spends (seconds 10) (bindP (okOrP v PR_BadHostKey) (attempt_auth peer target))" for v peer
    by (intro spends_bind_now spends_now attempt_spends n)
  moreover have "spends (seconds 10) (bindP (send_wire WA_Disconnect) (\<lambda>_. bindP (okOrP v PR_BadHostKey)
      (\<lambda>k. retP \<lparr>ao_captured = k, ao_kind = AA_HostKeyMismatch\<rparr>)))" for v
    by (intro spends_more [OF _ n(1)] spends_bind_last spends_now)
  ultimately show ?thesis
    unfolding run_auth_check_def Let_def DEFAULT_CONNECT_TIMEOUT_def case_prod_beta
    by (intro spends_split(3) spends_more [OF spends_now(2) n(2)] spends_bind_now [OF spends_now(3) _ n(2)],
        unfold t, intro spends_bind spends_timeout n spends_split spends_more [OF spends_now(2) n(1)])
qed

lemma preflight_spends: "spends (seconds 10) (preflight kp net req known)"
proof -
  have m: "spends b m \<Longrightarrow> spends b (mapErrP f m)" for b and f :: "probe_error \<Rightarrow> preflight_error"
    and m :: "(probe_error, captured_host_key) ssh"
    by (auto simp: spends_def mapErrP_run split: prod.splits sum.splits) (metis snd_conv)+
  show ?thesis
    unfolding preflight_def
    by (intro spends_bind_now [OF spends_now(5)] spends_bind_last [OF _ spends_now(1)] m probe_spends)
       (simp add: seconds_def)
qed


text \<open>
  The start of a PTY has no such bound. Its configuration carries a start timeout, but nothing
  reads it, and the channel requests after authentication are awaited without one: a host that
  accepts the key and then stays silent blocks the call forever.
\<close>

theorem pty_start_has_no_time_limit:
  "pty_start kp net (config\<lparr>pcf_start_timeout := t\<rparr>) pem = pty_start kp net config pem
   \<and> fst (pty_start demo_keys (\<lambda>_ _. demo_peer\<lparr>pr_open_session := Never\<rparr>)
            (pty_config_new ''h'' 22 ''ops'' [(KT_Ed25519, ''SHA256:AA'')] 80 24) [7] new_conn) = Inl Blocked"
proof
  have eqs: "start_auth peer (config\<lparr>pcf_start_timeout := t\<rparr>) = start_auth peer config"
    "open_shell peer (config\<lparr>pcf_start_timeout := t\<rparr>) = open_shell peer config" for peer
    by (simp_all add: start_auth_def open_shell_def fun_eq_iff)
  show "pty_start kp net (config\<lparr>pcf_start_timeout := t\<rparr>) pem = pty_start kp net config pem"
    unfolding pty_start_def Let_def by (simp add: eqs cong: if_cong)
  show "fst (pty_start demo_keys (\<lambda>_ _. demo_peer\<lparr>pr_open_session := Never\<rparr>)
            (pty_config_new ''h'' 22 ''ops'' [(KT_Ed25519, ''SHA256:AA'')] 80 24) [7] new_conn) = Inl Blocked"
    by code_simp
qed

section \<open>Classification\<close>

lemma distinct_key_find:
  assumes "distinct (map f xs)" and "e \<in> set xs"
  shows "find (\<lambda>x. f x = f e) xs = Some e"
  using assms by (induction xs) (auto simp: image_iff)

text \<open>
  C26. The two definitions of a trusted host key agree. For a known-host table with no repeated
  key, the classifier calls a captured key trusted exactly when the pins handed to the SSH client
  accept it, and changed exactly when unrevoked entries of that key type exist but none is that
  key; so a check that was refused for its host key is never reported against a trusted one.
\<close>

theorem classification_agrees_with_pins:
  assumes d: "distinct (map (\<lambda>e. (kh_key_type e, kh_fingerprint_sha256 e)) (filter (\<lambda>e. kh_revoked_at e = None) known))"
  shows "(classify_host_key k known = HK_Trusted \<longleftrightarrow> pin_matches (accept_pins_of known) k)
     \<and> (classify_host_key k known = HK_Changed \<longleftrightarrow>
          (\<exists>e \<in> set known. kh_revoked_at e = None \<and> kh_key_type e = hk_key_type k)
          \<and> \<not> (\<exists>e \<in> set known. kh_revoked_at e = None \<and> kh_key_type e = hk_key_type k
                 \<and> kh_fingerprint_sha256 e = hk_fingerprint_sha256 k))"
proof -
  let ?active = "filter (\<lambda>e. kh_revoked_at e = None) known"
  let ?f = "\<lambda>e. (kh_key_type e, kh_fingerprint_sha256 e)"
  let ?k = "(hk_key_type k, hk_fingerprint_sha256 k)"
  let ?find = "find (\<lambda>e. kh_key_type e = hk_key_type k \<and> kh_fingerprint_sha256 e = hk_fingerprint_sha256 k) ?active"
  have hit: "?find = Some e" if "e \<in> set ?active" "?f e = ?k" for e
    using distinct_key_find [OF d that(1)] that(2) by (simp add: prod_eq_iff)
  have pins: "pin_matches (accept_pins_of known) k \<longleftrightarrow> (\<exists>e \<in> set ?active. ?f e = ?k \<and> kh_trusted_at e \<noteq> None)"
    by (auto simp: pin_matches_iff accept_pins_iff)
  show ?thesis
  proof (cases "\<exists>e \<in> set ?active. ?f e = ?k")
    case True
    then obtain e where e: "e \<in> set ?active" "?f e = ?k" by blast
    then have u: "e' = e" if "e' \<in> set ?active" "?f e' = ?k" for e'
      using hit [OF e] hit [OF that] by simp
    have "classify_host_key k known = (if kh_trusted_at e \<noteq> None then HK_Trusted else HK_Unknown)"
      using hit [OF e] by (simp add: classify_host_key_def)
    moreover have "pin_matches (accept_pins_of known) k \<longleftrightarrow> kh_trusted_at e \<noteq> None"
      unfolding pins using e u by blast
    moreover have "\<exists>e \<in> set known. kh_revoked_at e = None \<and> kh_key_type e = hk_key_type k
        \<and> kh_fingerprint_sha256 e = hk_fingerprint_sha256 k"
      using e by (intro bexI [of _ e]) simp_all
    ultimately show ?thesis by simp
  next
    case False
    then have "?find = None" by (auto simp: find_None_iff)
    then have "classify_host_key k known =
        (if \<exists>e \<in> set ?active. kh_key_type e = hk_key_type k \<and> kh_fingerprint_sha256 e \<noteq> hk_fingerprint_sha256 k
         then HK_Changed else HK_Unknown)"
      by (simp add: classify_host_key_def list_ex_iff)
    with False show ?thesis unfolding pins by auto
  qed
qed

theorem classification_agrees_with_pins_witness:
  "classify_host_key \<lparr>hk_key_type = KT_Ed25519, hk_fingerprint_sha256 = ''SHA256:BB'', hk_public_key = []\<rparr> [demo_pin]
     = HK_Changed"
  using classification_agrees_with_pins [of "[demo_pin]"
      "\<lparr>hk_key_type = KT_Ed25519, hk_fingerprint_sha256 = ''SHA256:BB'', hk_public_key = []\<rparr>"]
  by (simp add: demo_pin_def)

text \<open>
  A refused host key makes the library's \<open>connect\<close> fail: \<^verbatim>\<open>russh_pty.rs\<close> expects it and reports
  the key. \<^verbatim>\<open>russh_auth.rs\<close> expects a session instead, so there an unknown or changed host key
  ends as a connection failure and the statuses for them are never reported.
\<close>

definition refusal_fails :: "ssh_peer \<Rightarrow> bool" where
  "refusal_fails peer \<longleftrightarrow> (case pr_connect peer (Some False) of Answer _ (Inr _) \<Rightarrow> False | _ \<Rightarrow> True)"

theorem refused_key_is_a_connection_failure:
  assumes peer: "net (aq_hostname req) (aq_port req) = peer" and law: "refusal_fails peer"
    and key: "pr_presented peer = Some key" and n: "\<not> presents_pinned (accept_pins_of known) peer"
    and run: "auth_check kp net req known (v, c) = (Inr status, s)"
  shows "status = AS_ConnectionFailed"
proof -
  obtain target v1 where b: "auth_check_begin kp req known v = (Inr target, v1)"
    using run by (auto simp: auth_check_def split: prod.splits sum.splits)
  then have t: "at_hostname target = aq_hostname req" "at_port target = aq_port req"
    "at_accept_pins target = accept_pins_of known" by (auto simp: auth_check_begin_def Let_def Inr_iffs)
  obtain cap m a where ck: "check_server_key (accept_pins_of known) (pr_presented peer) = (cap, m, a)"
    by (metis prod_cases3)
  then have "\<not> m" "a = Some False" using n key
    by (auto simp: check_server_key_def presents_pinned_def pin_matches_iff Let_def split: option.splits)
  then have "fst (run_auth_check kp net target c') \<noteq> Inr out" for c' out
    using law peer t ck
    by (auto simp: run_auth_check_def refusal_fails_def timeout_def send_wire_def prog_simps Let_def
        split: awaited.splits sum.splits if_splits)
  then have "fst (within d (run_auth_check kp net target) c) \<noteq> Some (Inr out)" for d out
    by (auto simp: within_def split: prod.splits) (metis fst_conv)
  then show ?thesis
    using run b by (auto simp: auth_check_def auth_check_status_of_def split: prod.splits option.splits sum.splits)
       (metis fst_conv)
qed

section \<open>Concurrency\<close>

datatype check_label = CL_Begin auth_check_request "known_host_entry list" | CL_Finish

text \<open>Checks that have begun and not finished, as other requests interleave.\<close>

definition check_step :: "key_parsers \<Rightarrow> auth_check_service \<times> nat \<Rightarrow> check_label \<Rightarrow> auth_check_service \<times> nat" where
  "check_step kp s l =
     (let (v, running) = s in
      case l of
        CL_Begin req known \<Rightarrow>
          (case auth_check_begin kp req known v of
             (Inr _, v') \<Rightarrow> (v', Suc running) | (Inl _, v') \<Rightarrow> (v', running))
      | CL_Finish \<Rightarrow> if running = 0 then s else (release_permit v, running - 1))"

interpretation checks: step_machine "check_step kp" "\<lambda>(v, running). av_permits v + running = m" "\<lambda>_ _. True"
  by unfold_locales
     (auto simp: check_step_def auth_check_begin_def try_acquire_def release_permit_def prog_simps Let_def guardP_def
       split: check_label.splits prod.splits sum.splits if_splits)

text \<open>
  At most the configured number of authentication checks, and at least one, run at once:
  under every interleaving of requests the running checks never exceed the limit, and a request
  with a readable key is refused as saturated exactly when the limit is reached.
\<close>

theorem concurrent_checks_are_bounded:
  assumes s: "s = foldl (check_step kp) (auth_check_with_limits d limit, 0) ls"
    and key: "kp_parse kp (aq_private_key_pem req)"
  shows "snd s \<le> max limit 1
     \<and> (fst (auth_check_begin kp req known (fst s)) = Inl AX_Saturated \<longleftrightarrow> snd s = max limit 1)"
proof -
  have "case s of (v, running) \<Rightarrow> av_permits v + running = max limit 1"
    unfolding s by (rule checks.fold_step_invar) (simp_all add: auth_check_with_limits_def)
  then have i: "av_permits (fst s) + snd s = max limit 1" by (simp add: case_prod_beta)
  moreover have "fst (auth_check_begin kp req known (fst s)) = Inl AX_Saturated \<longleftrightarrow> av_permits (fst s) = 0"
    using key by (simp add: auth_check_begin_def try_acquire_def prog_simps)
  ultimately show ?thesis by auto
qed

theorem concurrent_checks_are_bounded_witness:
  "snd (foldl (check_step demo_keys) (auth_check_with_limits 0 1, 0)
       [CL_Begin demo_request [], CL_Begin demo_request [], CL_Finish, CL_Begin demo_request []]) \<le> 1"
  using concurrent_checks_are_bounded [OF refl, of demo_keys demo_request 0 1
      "[CL_Begin demo_request [], CL_Begin demo_request [], CL_Finish, CL_Begin demo_request []]" "[]"]
  by (simp add: demo_keys_def)

end
