(* ===== verification/Api_Error.thy ===== *)
theory Api_Error
  imports Session_Manager Auth_Service Identity_Vault Field_Validation Ssh_Services
begin

text \<open>
  \<^verbatim>\<open>crates/relayterm-api/src/error.rs\<close>: the error type of every HTTP handler, the conversions
  from the errors of the crates below, and the response an error turns into. The response
  carries a status, a code from a closed set and a message; everything else stays in the log.
\<close>

section \<open>Errors and responses\<close>

datatype error_code =
    EC_InvalidInput
  | EC_Unauthorized
  | EC_CsrfOriginMismatch
  | EC_NotFound
  | EC_Conflict
  | EC_TooManyRequests
  | EC_TooManySessions
  | EC_TooManyStartingSessions
  | EC_TooManySessionsDeployment
  | EC_BadGateway
  | EC_ServiceUnavailable
  | EC_InternalError

primrec error_code_as_str :: "error_code \<Rightarrow> string" where
  "error_code_as_str EC_InvalidInput = ''invalid_input''"
| "error_code_as_str EC_Unauthorized = ''unauthorized''"
| "error_code_as_str EC_CsrfOriginMismatch = ''csrf_origin_mismatch''"
| "error_code_as_str EC_NotFound = ''not_found''"
| "error_code_as_str EC_Conflict = ''conflict''"
| "error_code_as_str EC_TooManyRequests = ''too_many_requests''"
| "error_code_as_str EC_TooManySessions = ''too_many_sessions''"
| "error_code_as_str EC_TooManyStartingSessions = ''too_many_starting_sessions''"
| "error_code_as_str EC_TooManySessionsDeployment = ''too_many_sessions_deployment''"
| "error_code_as_str EC_BadGateway = ''bad_gateway''"
| "error_code_as_str EC_ServiceUnavailable = ''service_unavailable''"
| "error_code_as_str EC_InternalError = ''internal_error''"

datatype api_error =
    AE_Validation string
  | AE_Unauthorized string
  | AE_CsrfOriginMismatch string
  | AE_NotFound string
  | AE_Conflict string "string option"
  | AE_TooManyRequests string
  | AE_TooManySessions
  | AE_TooManyStartingSessions
  | AE_TooManySessionsDeployment
  | AE_BadGateway string
  | AE_ServiceUnavailable string
  | AE_Internal string

definition parts :: "api_error \<Rightarrow> nat \<times> error_code \<times> string" where
  "parts e =
     (case e of
        AE_Validation msg \<Rightarrow> (400, EC_InvalidInput, msg)
      | AE_Unauthorized _ \<Rightarrow> (401, EC_Unauthorized, ''unauthorized'')
      | AE_CsrfOriginMismatch _ \<Rightarrow> (403, EC_CsrfOriginMismatch, ''forbidden'')
      | AE_NotFound entity \<Rightarrow> (404, EC_NotFound, entity @ '' not found'')
      | AE_Conflict entity reason \<Rightarrow>
          (409, EC_Conflict, entity @ '' '' @ (case reason of Some r \<Rightarrow> r | None \<Rightarrow> ''conflict''))
      | AE_TooManyRequests _ \<Rightarrow> (429, EC_TooManyRequests, ''too many requests'')
      | AE_TooManySessions \<Rightarrow> (429, EC_TooManySessions, ''too many terminal sessions'')
      | AE_TooManyStartingSessions \<Rightarrow> (429, EC_TooManyStartingSessions, ''too many starting terminal sessions'')
      | AE_TooManySessionsDeployment \<Rightarrow>
          (429, EC_TooManySessionsDeployment, ''too many terminal sessions for this deployment'')
      | AE_BadGateway _ \<Rightarrow> (502, EC_BadGateway, ''bad gateway'')
      | AE_ServiceUnavailable _ \<Rightarrow> (503, EC_ServiceUnavailable, ''service unavailable'')
      | AE_Internal _ \<Rightarrow> (500, EC_InternalError, ''internal error''))"

record error_response =
  er_status :: nat
  er_code :: string
  er_message :: string

definition into_response :: "api_error \<Rightarrow> error_response" where
  "into_response e =
     (case parts e of (status, code, message) \<Rightarrow>
        \<lparr>er_status = status, er_code = error_code_as_str code, er_message = message\<rparr>)"

section \<open>Conversions\<close>

definition api_error_from_repository :: "repository_error \<Rightarrow> api_error" where
  "api_error_from_repository e =
     (case e of
        RE_NotFound entity \<Rightarrow> AE_NotFound entity
      | RE_Conflict entity _ \<Rightarrow> AE_Conflict entity None
      | RE_Validation field message \<Rightarrow> AE_Internal (''row integrity '' @ field @ '': '' @ message)
      | RE_Database msg \<Rightarrow> AE_Internal msg)"

definition probe_error_display :: "probe_error \<Rightarrow> string" where
  "probe_error_display e =
     (case e of
        PR_Unreachable \<Rightarrow> ''ssh peer unreachable''
      | PR_Timeout \<Rightarrow> ''ssh handshake timed out''
      | PR_BadHostKey \<Rightarrow> ''ssh server presented invalid host key''
      | PR_Transport \<Rightarrow> ''ssh transport error'')"

definition ssh_pty_error_display :: "ssh_pty_error \<Rightarrow> string" where
  "ssh_pty_error_display e =
     (case e of
        PE_InvalidIdentity \<Rightarrow> ''ssh identity material is malformed''
      | PE_Transport p \<Rightarrow> ''ssh transport: '' @ probe_error_display p
      | PE_HostKeyNotTrusted \<Rightarrow> ''host key not trusted''
      | PE_AuthenticationFailed \<Rightarrow> ''ssh authentication failed''
      | PE_PtyStartFailed \<Rightarrow> ''ssh pty/shell start failed''
      | PE_BridgeClosed \<Rightarrow> ''ssh pty bridge is closed'')"

definition api_error_from_manager :: "manager_error \<Rightarrow> api_error" where
  "api_error_from_manager e =
     (case e of
        ME_InvalidDimensions field v \<Rightarrow>
          AE_Validation (field @ '': expected '' @ show_nat MIN_DIM @ ''..='' @ show_nat MAX_DIM
            @ '', got '' @ show_nat v)
      | ME_NotFound \<Rightarrow> AE_NotFound ''terminal_session''
      | ME_SessionClosed \<Rightarrow> AE_Conflict ''terminal_session'' None
      | ME_PtyNotLive \<Rightarrow> AE_Conflict ''pty_runtime'' None
      | ME_PtyStart inner \<Rightarrow> AE_Internal (''ssh pty: '' @ ssh_pty_error_display inner)
      | ME_Repository r \<Rightarrow> api_error_from_repository r)"

definition api_error_from_service :: "auth_service_error \<Rightarrow> api_error" where
  "api_error_from_service e =
     (case e of
        SE_InvalidCredentials \<Rightarrow> AE_Unauthorized ''invalid credentials''
      | SE_SessionInvalid \<Rightarrow> AE_Unauthorized ''session invalid''
      | SE_SessionExpired \<Rightarrow> AE_Unauthorized ''session expired''
      | SE_SessionRevoked \<Rightarrow> AE_Unauthorized ''session revoked''
      | SE_Repository detail \<Rightarrow> AE_Internal (''auth repo: '' @ detail)
      | SE_Crypto \<Rightarrow> AE_Internal ''auth crypto failure'')"

definition api_error_from_vault :: "vault_error \<Rightarrow> api_error" where
  "api_error_from_vault e =
     (case e of
        VE_UnsupportedKeyType tag \<Rightarrow> AE_Validation (''unsupported key_type '' @ debug_str tag)
      | VE_UnsupportedFormat reason \<Rightarrow> AE_Validation (''unsupported_key_format '' @ reason)
      | VE_MasterKey _ \<Rightarrow> AE_ServiceUnavailable ''vault master key invalid''
      | _ \<Rightarrow> AE_Internal (''vault: '' @ vault_error_display e))"

definition api_error_from_validation :: "validation_error \<Rightarrow> api_error" where
  "api_error_from_validation e = AE_Validation (validation_error_display e)"

definition api_error_from_preflight :: "preflight_error \<Rightarrow> api_error" where
  "api_error_from_preflight e =
     (case e of
        PF_InvalidIdentity \<Rightarrow> AE_Internal ''ssh identity material is malformed''
      | PF_Probe probe \<Rightarrow> AE_BadGateway (''ssh probe: '' @ probe_error_display probe))"

definition api_error_from_auth_check :: "auth_check_error \<Rightarrow> api_error" where
  "api_error_from_auth_check e =
     (case e of
        AX_InvalidIdentity \<Rightarrow> AE_Internal ''ssh identity material is malformed''
      | AX_Saturated \<Rightarrow> AE_ServiceUnavailable ''auth-check concurrency limit reached'')"

end
