(* ===== verification/Auth_Routes.thy ===== *)
theory Auth_Routes
  imports Api_Error
begin

text \<open>
  The HTTP side of authentication in \<^verbatim>\<open>crates/relayterm-api\<close>: cookie parsing (\<^verbatim>\<open>auth/cookie.rs\<close>),
  the origin check (\<^verbatim>\<open>auth/csrf.rs\<close>), the extractor of the current user (\<^verbatim>\<open>auth/user.rs\<close>), the
  request validation (\<^verbatim>\<open>dto/auth.rs\<close>) and the handlers of \<^verbatim>\<open>routes/v1/auth.rs\<close>. A request body is
  its parse result; a header is absent, present but unreadable, or a string.
\<close>

section \<open>Headers\<close>

type_synonym header_value = "string option"

record request_headers =
  hd_cookie :: "header_value option"
  hd_origin :: "header_value option"

definition SESSION_COOKIE_NAME :: string where
  "SESSION_COOKIE_NAME = ''relayterm_session''"

primrec find_session_pair :: "string list \<Rightarrow> string option" where
  "find_session_pair [] = None"
| "find_session_pair (pair # rest) =
     (case split_once CHR ''='' (trim pair) of
        None \<Rightarrow> find_session_pair rest
      | Some (name, v) \<Rightarrow>
          if name = SESSION_COOKIE_NAME then (if v = [] then None else Some v)
          else find_session_pair rest)"

definition extract_session_cookie :: "request_headers \<Rightarrow> string option" where
  "extract_session_cookie headers =
     (case hd_cookie headers of
        Some (Some raw) \<Rightarrow> find_session_pair (split_on CHR '';'' raw)
      | _ \<Rightarrow> None)"

definition check_origin :: "request_headers \<Rightarrow> string list \<Rightarrow> api_error + unit" where
  "check_origin headers allowed_origins =
     (case hd_origin headers of
        None \<Rightarrow> Inl (AE_CsrfOriginMismatch ''missing Origin header'')
      | Some None \<Rightarrow> Inl (AE_CsrfOriginMismatch ''Origin header is not valid UTF-8'')
      | Some (Some origin) \<Rightarrow>
          if \<not> list_ex (\<lambda>allowed. allowed = origin) allowed_origins
          then Inl (AE_CsrfOriginMismatch ''Origin not in allowed_origins'')
          else Inr ())"

section \<open>Configuration, guards and extractor\<close>

definition SESSION_TTL :: duration where
  "SESSION_TTL = seconds (30 * 24 * 60 * 60)"

record auth_routes_config =
  rc_cookie_secure :: bool
  rc_cookie_domain :: "string option"
  rc_allowed_origins :: "string list"
  rc_bootstrap_token :: "string option"

type_synonym ('z, 'a) route = "('z, api_error, 'a) auth"

definition csrf_guard :: "auth_routes_config \<Rightarrow> request_headers \<Rightarrow> ('z, unit) route" where
  "csrf_guard cfg headers =
     (case check_origin headers (rc_allowed_origins cfg) of Inl e \<Rightarrow> raiseP e | Inr _ \<Rightarrow> retP ())"

record authenticated_user =
  au_user :: user
  au_session_id :: user_session_id

definition au_user_id :: "authenticated_user \<Rightarrow> user_id" where
  "au_user_id u = us_id (au_user u)"

definition now_utc :: "('z, 'e, instant) auth" where
  "now_utc = readP ac_now"

definition via_repo :: "('z auth_state_ext, 'a) acc \<Rightarrow> ('z, 'a) route" where
  "via_repo m = mapErrP api_error_from_repository m"

definition via_service :: "('z, auth_service_error, 'a) auth \<Rightarrow> ('z, 'a) route" where
  "via_service m = mapErrP api_error_from_service m"

definition authenticate :: "auth_service \<Rightarrow> request_headers \<Rightarrow> ('z, authenticated_user) route" where
  "authenticate svc headers =
     bindP (okOrP (extract_session_cookie headers) (AE_Unauthorized ''missing session cookie'')) (\<lambda>token.
     bindP now_utc (\<lambda>now.
     bindP (via_service (validate_session_token svc token now)) (\<lambda>session.
     bindP (via_repo (users_get (ws_user_id session))) (\<lambda>found.
     bindP (okOrP found (AE_Unauthorized ''session references missing user'')) (\<lambda>user.
     bindP (attemptP (user_sessions_touch_last_seen (ws_id session) now)) (\<lambda>_.
     retP \<lparr>au_user = user, au_session_id = ws_id session\<rparr>))))))"

section \<open>Requests and responses\<close>

definition PASSWORD_MIN_LEN :: nat where "PASSWORD_MIN_LEN = 12"
definition PASSWORD_MAX_LEN :: nat where "PASSWORD_MAX_LEN = 1024"
definition EMAIL_MAX_LEN :: nat where "EMAIL_MAX_LEN = 320"
definition DISPLAY_NAME_MAX_LEN :: nat where "DISPLAY_NAME_MAX_LEN = 200"
definition BOOTSTRAP_TOKEN_MAX_LEN :: nat where "BOOTSTRAP_TOKEN_MAX_LEN = 4096"

definition validate_password_len :: "string \<Rightarrow> ('z, unit) route" where
  "validate_password_len v =
     guardP (\<not> (str_len v < PASSWORD_MIN_LEN \<or> str_len v > PASSWORD_MAX_LEN))
       (AE_Validation (''password must be between '' @ show_nat PASSWORD_MIN_LEN @ '' and ''
          @ show_nat PASSWORD_MAX_LEN @ '' chars''))"

definition email_ok :: "string \<Rightarrow> bool" where
  "email_ok v =
     (\<not> (str_len v = 0 \<or> str_len v > EMAIL_MAX_LEN)
      \<and> \<not> (length (filter (\<lambda>c. c = CHR ''@'') v) \<noteq> 1 \<or> hd v = CHR ''@'' \<or> last v = CHR ''@''))"

definition validate_email :: "string \<Rightarrow> ('z, unit) route" where
  "validate_email v = guardP (email_ok v) (AE_Validation ''email is invalid'')"

definition validate_display_name :: "string \<Rightarrow> ('z, unit) route" where
  "validate_display_name v =
     guardP (\<not> (v = [] \<or> str_len v > DISPLAY_NAME_MAX_LEN))
       (AE_Validation (''display_name must be between 1 and '' @ show_nat DISPLAY_NAME_MAX_LEN @ '' chars''))"

definition validate_bootstrap_token_len :: "string \<Rightarrow> ('z, unit) route" where
  "validate_bootstrap_token_len v =
     guardP (\<not> (v = [] \<or> str_len v > BOOTSTRAP_TOKEN_MAX_LEN)) (AE_Validation ''bootstrap_token is invalid'')"

record bootstrap_request =
  br_bootstrap_token :: string
  br_email :: string
  br_display_name :: string
  br_password :: string

definition bootstrap_validated :: "bootstrap_request \<Rightarrow> ('z, unit) route" where
  "bootstrap_validated req =
     bindP (validate_bootstrap_token_len (br_bootstrap_token req)) (\<lambda>_.
     bindP (validate_email (br_email req)) (\<lambda>_.
     bindP (validate_display_name (br_display_name req)) (\<lambda>_.
     validate_password_len (br_password req))))"

record login_request =
  lr_email :: string
  lr_password :: string

definition login_validated :: "login_request \<Rightarrow> ('z, unit) route" where
  "login_validated req =
     bindP (validate_email (lr_email req)) (\<lambda>_. validate_password_len (lr_password req))"

record change_password_request =
  pr_current_password :: string
  pr_new_password :: string

definition change_password_validated :: "change_password_request \<Rightarrow> ('z, unit) route" where
  "change_password_validated req =
     (if pr_current_password req = [] \<or> str_len (pr_current_password req) > PASSWORD_MAX_LEN
      then raiseP (AE_Validation ''current_password is invalid'')
      else validate_password_len (pr_new_password req))"

record user_response =
  ur_id :: user_id
  ur_email :: string
  ur_display_name :: string
  ur_created_at :: instant
  ur_last_login_at :: "instant option"

definition user_response_from :: "user \<Rightarrow> user_response" where
  "user_response_from u =
     \<lparr>ur_id = us_id u, ur_email = us_email u, ur_display_name = us_display_name u,
      ur_created_at = us_created_at u, ur_last_login_at = us_last_login_at u\<rparr>"

datatype session_status = SS_Active | SS_Expired | SS_Revoked

record session_list_item =
  li_id :: user_session_id
  li_created_at :: instant
  li_last_seen_at :: instant
  li_expires_at :: instant
  li_revoked_at :: "instant option"
  li_current :: bool
  li_status :: session_status

definition list_item_from_row :: "instant \<Rightarrow> user_session_id \<Rightarrow> user_session \<Rightarrow> session_list_item" where
  "list_item_from_row now current_id row =
     \<lparr>li_id = ws_id row, li_created_at = ws_created_at row, li_last_seen_at = ws_last_seen_at row,
      li_expires_at = ws_expires_at row, li_revoked_at = ws_revoked_at row,
      li_current = (ws_id row = current_id),
      li_status = (if ws_revoked_at row \<noteq> None then SS_Revoked
                   else if is_expired_at now row then SS_Expired else SS_Active)\<rparr>"

record 'b http_response =
  rp_status :: nat
  rp_set_cookie :: "string option"
  rp_body :: 'b

definition cookie_attributes :: "auth_routes_config \<Rightarrow> string" where
  "cookie_attributes cfg =
     (if rc_cookie_secure cfg then ''; Secure'' else [])
     @ (case rc_cookie_domain cfg of Some d \<Rightarrow> ''; Domain='' @ d | None \<Rightarrow> [])"

definition build_session_cookie :: "string \<Rightarrow> auth_routes_config \<Rightarrow> string" where
  "build_session_cookie token cfg =
     SESSION_COOKIE_NAME @ ''='' @ token @ ''; HttpOnly; SameSite=Strict; Path=/; Max-Age=''
       @ show_nat (nat (num_seconds SESSION_TTL)) @ cookie_attributes cfg"

definition build_clear_cookie :: "auth_routes_config \<Rightarrow> string" where
  "build_clear_cookie cfg =
     SESSION_COOKIE_NAME @ ''=; HttpOnly; SameSite=Strict; Path=/; Max-Age=0'' @ cookie_attributes cfg"

definition no_content_with_cookie :: "string \<Rightarrow> unit http_response" where
  "no_content_with_cookie cookie = \<lparr>rp_status = 204, rp_set_cookie = Some cookie, rp_body = ()\<rparr>"

text \<open>The byte comparison without early exit: the differences are accumulated bitwise.\<close>

definition constant_time_eq :: "byte list \<Rightarrow> byte list \<Rightarrow> bool" where
  "constant_time_eq a b =
     (if length a \<noteq> length b then False
      else foldl (\<lambda>diff (x, y). or diff (xor x y)) 0 (zip a b) = 0)"

text \<open>\<open>str::as_bytes\<close>: one byte below 128, two above.\<close>

definition as_bytes :: "string \<Rightarrow> byte list" where
  "as_bytes s = concat (map (\<lambda>c. let n = scalar c in
     if n < 128 then [of_nat n] else [of_nat (192 + n div 64), of_nat (128 + n mod 64)]) s)"

section \<open>Handlers\<close>

definition write_audit_best_effort :: "user_id option \<Rightarrow> audit_event_kind \<Rightarrow> json \<Rightarrow> ('z, unit) route" where
  "write_audit_best_effort actor kind payload =
     bindP (attemptP (audit_create actor kind payload None)) (\<lambda>_. retP ())"

definition bootstrap ::
  "auth_service \<Rightarrow> auth_routes_config \<Rightarrow> request_headers \<Rightarrow> bootstrap_request \<Rightarrow> ('z, user_response http_response) route" where
  "bootstrap svc cfg headers req =
     bindP (csrf_guard cfg headers) (\<lambda>_.
     bindP (bootstrap_validated req) (\<lambda>_.
     bindP (okOrP (rc_bootstrap_token cfg)
              (AE_ServiceUnavailable ''bootstrap is disabled (no first_user_bootstrap_token configured)'')) (\<lambda>configured.
     if \<not> constant_time_eq (as_bytes (br_bootstrap_token req)) (as_bytes configured) then
       bindP (write_audit_best_effort None AK_LoginFailed
                (JObj [(''method'', JStr ''bootstrap''), (''reason'', JStr ''bad_token'')])) (\<lambda>_.
       raiseP (AE_Unauthorized ''bad bootstrap token''))
     else
       bindP (via_repo passwords_any_exists) (\<lambda>bootstrapped.
       if bootstrapped then
         bindP (write_audit_best_effort None AK_LoginFailed
                  (JObj [(''method'', JStr ''bootstrap''), (''reason'', JStr ''already_bootstrapped'')])) (\<lambda>_.
         raiseP (AE_Conflict ''user'' (Some ''already_bootstrapped'')))
       else
         bindP (via_repo (users_create (en_lower (sv_env svc)) (br_email req) (br_display_name req))) (\<lambda>user.
         bindP (via_service (set_password svc (us_id user) (br_password req))) (\<lambda>_.
         bindP (via_repo (audit_create (Some (us_id user)) AK_FirstUserCreated
                  (JObj [(''user_id'', JNum (int (us_id user))), (''created_at'', JNum (us_created_at user))]) None)) (\<lambda>_.
         retP \<lparr>rp_status = 201, rp_set_cookie = None, rp_body = user_response_from user\<rparr>)))))))"

definition verify_login :: "auth_service \<Rightarrow> user option \<Rightarrow> string \<Rightarrow> ('z, auth_service_error, unit) auth" where
  "verify_login svc found password =
     (case found of
        Some u \<Rightarrow> verify_password svc (us_id u) password
      | None \<Rightarrow> bindP (anti_timing_verify svc password) (\<lambda>_. raiseP SE_InvalidCredentials))"

definition reject_login :: "string \<Rightarrow> instant \<Rightarrow> auth_service_error \<Rightarrow> ('z, 'a) route" where
  "reject_login throttle_key now err =
     bindP (modifyP (\<lambda>s. s\<lparr>as_throttle := record_failure throttle_key now (as_throttle s)\<rparr>)) (\<lambda>_.
     bindP (write_audit_best_effort None AK_LoginFailed
              (JObj [(''method'', JStr ''password''), (''reason'', JStr ''bad_credentials'')])) (\<lambda>_.
     raiseP (api_error_from_service err)))"

definition finish_login ::
  "auth_service \<Rightarrow> auth_routes_config \<Rightarrow> string \<Rightarrow> instant \<Rightarrow> user \<Rightarrow> ('z, user_response http_response) route" where
  "finish_login svc cfg throttle_key now user =
     bindP (modifyP (\<lambda>s. s\<lparr>as_throttle := record_success throttle_key (as_throttle s)\<rparr>)) (\<lambda>_.
     bindP (via_service (create_user_session svc (us_id user) SESSION_TTL now)) (\<lambda>created.
     bindP (attemptP (users_touch_last_login (us_id user) now)) (\<lambda>_.
     bindP (via_repo (audit_create (Some (us_id user)) AK_LoginSucceeded
              (JObj [(''user_id'', JNum (int (us_id user))), (''method'', JStr ''password''),
                     (''login_at'', JNum now)]) None)) (\<lambda>_.
     retP \<lparr>rp_status = 200, rp_set_cookie = Some (build_session_cookie (cn_token created) cfg),
           rp_body = user_response_from user\<rparr>))))"

definition login ::
  "auth_service \<Rightarrow> auth_routes_config \<Rightarrow> request_headers \<Rightarrow> login_request \<Rightarrow> ('z, user_response http_response) route" where
  "login svc cfg headers req =
     bindP (csrf_guard cfg headers) (\<lambda>_.
     bindP (login_validated req) (\<lambda>_.
     bindP now_utc (\<lambda>now.
     let throttle_key = normalize_login_identifier (lr_email req) in
     bindP (readP (\<lambda>s. throttle_check throttle_key now (as_throttle s))) (\<lambda>decision.
     case decision of
       Throttled _ \<Rightarrow>
         bindP (write_audit_best_effort None AK_LoginFailed
                  (JObj [(''method'', JStr ''password''), (''reason'', JStr ''throttled'')])) (\<lambda>_.
         raiseP (AE_TooManyRequests ''login throttled by failed-attempts policy''))
     | Allowed \<Rightarrow>
         bindP (via_repo (users_get_by_email (en_lower (sv_env svc)) (lr_email req))) (\<lambda>found.
         bindP (attemptP (verify_login svc found (lr_password req))) (\<lambda>verified.
         case (verified, found) of
           (Inl err, _) \<Rightarrow> reject_login throttle_key now err
         | (Inr _, None) \<Rightarrow> raiseP (AE_Internal ''panic: user present after verify_password ok'')
         | (Inr _, Some user) \<Rightarrow> finish_login svc cfg throttle_key now user))))))"

definition logout ::
  "auth_service \<Rightarrow> auth_routes_config \<Rightarrow> request_headers \<Rightarrow> ('z, unit http_response) route" where
  "logout svc cfg headers =
     bindP (csrf_guard cfg headers) (\<lambda>_.
     let done_response = no_content_with_cookie (build_clear_cookie cfg) in
     case extract_session_cookie headers of
       None \<Rightarrow> retP done_response
     | Some token \<Rightarrow>
         bindP now_utc (\<lambda>now.
         bindP (attemptP (validate_session_token svc token now)) (\<lambda>validated.
         case validated of
           Inl _ \<Rightarrow> retP done_response
         | Inr session \<Rightarrow>
             bindP (attemptP (service_revoke_session (ws_id session) now (Some ''logout''))) (\<lambda>revoked.
             case revoked of
               Inl SE_SessionInvalid \<Rightarrow> retP done_response
             | Inl other \<Rightarrow> raiseP (api_error_from_service other)
             | Inr _ \<Rightarrow>
                 bindP (via_repo (audit_create (Some (ws_user_id session)) AK_LogoutSucceeded
                          (JObj [(''user_id'', JNum (int (ws_user_id session))),
                                 (''session_id'', JNum (int (ws_id session))), (''logout_at'', JNum now)]) None)) (\<lambda>_.
                 retP done_response)))))"

definition me :: "auth_service \<Rightarrow> request_headers \<Rightarrow> ('z, user_response) route" where
  "me svc headers = bindP (authenticate svc headers) (\<lambda>u. retP (user_response_from (au_user u)))"

definition current_password_error :: "auth_service_error \<Rightarrow> api_error" where
  "current_password_error err =
     (case err of SE_InvalidCredentials \<Rightarrow> AE_Unauthorized ''invalid current password''
      | other \<Rightarrow> api_error_from_service other)"

definition change_password ::
  "auth_service \<Rightarrow> auth_routes_config \<Rightarrow> request_headers \<Rightarrow> change_password_request \<Rightarrow> ('z, nat) route" where
  "change_password svc cfg headers req =
     bindP (csrf_guard cfg headers) (\<lambda>_.
     bindP (authenticate svc headers) (\<lambda>user.
     bindP (change_password_validated req) (\<lambda>_.
     let uid = au_user_id user; current = au_session_id user in
     bindP now_utc (\<lambda>now.
     bindP (mapErrP current_password_error (verify_password svc uid (pr_current_password req))) (\<lambda>_.
     bindP (via_service (set_password svc uid (pr_new_password req))) (\<lambda>_.
     bindP (via_service (revoke_all_sessions_except uid current now (Some ''password_changed''))) (\<lambda>revoked.
     bindP (via_repo (audit_create (Some uid) AK_PasswordChanged
              (JObj [(''revoked_other_sessions'', JNum (int revoked)), (''changed_at'', JNum now)]) None)) (\<lambda>_.
     retP revoked))))))))"

definition list_sessions :: "auth_service \<Rightarrow> request_headers \<Rightarrow> ('z, session_list_item list) route" where
  "list_sessions svc headers =
     bindP (authenticate svc headers) (\<lambda>user.
     bindP now_utc (\<lambda>now.
     bindP (via_service (list_sessions_for_user (au_user_id user))) (\<lambda>rows.
     retP (map (list_item_from_row now (au_session_id user)) rows))))"

definition hide_session_invalid :: "auth_service_error \<Rightarrow> api_error" where
  "hide_session_invalid err =
     (case err of SE_SessionInvalid \<Rightarrow> AE_NotFound ''user_session'' | other \<Rightarrow> api_error_from_service other)"

definition revoke_session ::
  "auth_service \<Rightarrow> auth_routes_config \<Rightarrow> request_headers \<Rightarrow> user_session_id \<Rightarrow> ('z, unit http_response) route" where
  "revoke_session svc cfg headers sid =
     bindP (csrf_guard cfg headers) (\<lambda>_.
     bindP (authenticate svc headers) (\<lambda>user.
     let uid = au_user_id user; is_current = (sid = au_session_id user) in
     bindP now_utc (\<lambda>now.
     bindP (mapErrP hide_session_invalid (revoke_session_for_user uid sid now (Some ''user_revoke''))) (\<lambda>transitioned.
     bindP (if transitioned then
              bindP (via_repo (audit_create (Some uid) AK_SessionRevoked
                (JObj [(''session_id'', JNum (int sid)), (''current_session'', JBool is_current),
                       (''revoked_at'', JNum now)]) None)) (\<lambda>_. retP ())
            else retP ()) (\<lambda>_.
     retP (if is_current then no_content_with_cookie (build_clear_cookie cfg)
           else \<lparr>rp_status = 204, rp_set_cookie = None, rp_body = ()\<rparr>))))))"

definition revoke_all_except_current ::
  "auth_service \<Rightarrow> auth_routes_config \<Rightarrow> request_headers \<Rightarrow> ('z, nat) route" where
  "revoke_all_except_current svc cfg headers =
     bindP (csrf_guard cfg headers) (\<lambda>_.
     bindP (authenticate svc headers) (\<lambda>user.
     let uid = au_user_id user in
     bindP now_utc (\<lambda>now.
     bindP (via_service (revoke_all_sessions_except uid (au_session_id user) now (Some ''user_revoke_all''))) (\<lambda>revoked.
     bindP (if revoked > 0 then
              bindP (via_repo (audit_create (Some uid) AK_SessionsRevoked
                (JObj [(''revoked_count'', JNum (int revoked)), (''revoked_at'', JNum now)]) None)) (\<lambda>_. retP ())
            else retP ()) (\<lambda>_.
     retP revoked)))))"

end
