(* ===== verification/Auth_Invariants.thy ===== *)
theory Auth_Invariants
  imports Auth_Routes
begin

text \<open>
  Authentication as a state machine, and what holds of the account tables in every reachable
  state. One request is one atomic step of \<open>auth_step\<close>; the clock and the pattern of database
  failures change by steps of their own. The locale \<open>account_stable\<close> states
  what an invariant of the account tables has to survive, and proves once that every handler
  keeps it.
\<close>

section \<open>The machine\<close>

datatype auth_label =
    AL_Bootstrap request_headers bootstrap_request
  | AL_Login request_headers login_request
  | AL_Logout request_headers
  | AL_Me request_headers
  | AL_ChangePassword request_headers change_password_request
  | AL_ListSessions request_headers
  | AL_RevokeSession request_headers user_session_id
  | AL_RevokeAllExceptCurrent request_headers
  | AL_Clock instant
  | AL_Faults "repository_error option list"

primrec auth_step ::
  "auth_service \<Rightarrow> auth_routes_config \<Rightarrow> 'z auth_state_scheme \<Rightarrow> auth_label \<Rightarrow> 'z auth_state_scheme" where
  "auth_step svc cfg s (AL_Bootstrap h req) = snd (bootstrap svc cfg h req s)"
| "auth_step svc cfg s (AL_Login h req) = snd (login svc cfg h req s)"
| "auth_step svc cfg s (AL_Logout h) = snd (logout svc cfg h s)"
| "auth_step svc cfg s (AL_Me h) = snd (me svc h s)"
| "auth_step svc cfg s (AL_ChangePassword h req) = snd (change_password svc cfg h req s)"
| "auth_step svc cfg s (AL_ListSessions h) = snd (list_sessions svc h s)"
| "auth_step svc cfg s (AL_RevokeSession h sid) = snd (revoke_session svc cfg h sid s)"
| "auth_step svc cfg s (AL_RevokeAllExceptCurrent h) = snd (revoke_all_except_current svc cfg h s)"
| "auth_step svc cfg s (AL_Clock t) = s\<lparr>ac_now := t\<rparr>"
| "auth_step svc cfg s (AL_Faults fs) = s\<lparr>ac_faults := fs\<rparr>"

section \<open>Stable predicates\<close>

text \<open>How a statement may change a session row: never its identity, never a recorded revocation.\<close>

definition session_evolves :: "user_session \<Rightarrow> user_session \<Rightarrow> bool" where
  "session_evolves r r' \<longleftrightarrow>
     ws_id r' = ws_id r \<and> ws_user_id r' = ws_user_id r \<and> ws_token_hash r' = ws_token_hash r
     \<and> ws_created_at r' = ws_created_at r \<and> ws_expires_at r' = ws_expires_at r
     \<and> (ws_revoked_at r \<noteq> None \<longrightarrow>
          ws_revoked_at r' = ws_revoked_at r \<and> ws_revoked_reason r' = ws_revoked_reason r)"

definition user_evolves :: "user \<Rightarrow> user \<Rightarrow> bool" where
  "user_evolves u u' \<longleftrightarrow> us_id u' = us_id u \<and> us_email u' = us_email u"

lemma session_evolves_refl [simp]: "session_evolves r r"
  by (simp add: session_evolves_def)

lemma session_evolves_touch [simp]: "session_evolves r (r\<lparr>ws_last_seen_at := at\<rparr>)"
  by (simp add: session_evolves_def)

lemma session_evolves_stamp [simp]: "session_evolves r (stamp_revoked at reason r)"
  by (simp add: session_evolves_def stamp_revoked_def)

interpretation revoke_stamp: write_once "\<lambda>(t, reason). stamp_revoked t reason" ws_revoked_at fst
  by unfold_locales (simp add: stamp_revoked_def coalesce_def split: prod.splits option.splits)

text \<open>An insert that the constraints of its table let through.\<close>

definition new_session :: "user_id \<Rightarrow> byte list \<Rightarrow> instant \<Rightarrow> 'z auth_state_scheme \<Rightarrow> user_session" where
  "new_session uid hash expires s =
     \<lparr>ws_id = ac_next_id s, ws_user_id = uid, ws_token_hash = hash, ws_created_at = ac_now s,
      ws_last_seen_at = ac_now s, ws_expires_at = expires, ws_revoked_at = None, ws_revoked_reason = None\<rparr>"

locale account_stable =
  fixes svc :: auth_service
    and I :: "'z auth_state_scheme \<Rightarrow> bool"
  assumes faults: "I s \<Longrightarrow> I (s\<lparr>ac_faults := fs\<rparr>)"
    and clock: "I s \<Longrightarrow> I (s\<lparr>ac_now := t\<rparr>)"
    and draws: "I s \<Longrightarrow> I (s\<lparr>as_draws := n\<rparr>)"
    and throttle: "I s \<Longrightarrow> I (s\<lparr>as_throttle := lt\<rparr>)"
    and user_new: "I s \<Longrightarrow> \<not> list_ex (\<lambda>r. en_lower (sv_env svc) (us_email r) = en_lower (sv_env svc) e) (ac_users s) \<Longrightarrow>
      I (s\<lparr>ac_users := ac_users s @ [\<lparr>us_id = ac_next_id s, us_email = e, us_display_name = d,
            us_created_at = ac_now s, us_last_login_at = None\<rparr>], ac_next_id := Suc (ac_next_id s)\<rparr>)"
    and user_map: "I s \<Longrightarrow> (\<And>u. user_evolves u (g u)) \<Longrightarrow> I (s\<lparr>ac_users := map g (ac_users s)\<rparr>)"
    and password_set: "I s \<Longrightarrow> password_row s uid \<noteq> None \<or> ac_passwords s = [] \<Longrightarrow>
      I (snd (passwords_upsert_for_user uid pw_hash s))"
    and session_new: "I s \<Longrightarrow> \<not> list_ex (\<lambda>r. ws_token_hash r = hash) (ac_sessions s) \<Longrightarrow> user_row s uid \<noteq> None \<Longrightarrow>
      I (s\<lparr>ac_sessions := ac_sessions s @ [new_session uid hash expires s], ac_next_id := Suc (ac_next_id s)\<rparr>)"
    and session_map: "I s \<Longrightarrow> (\<And>r. session_evolves r (f r)) \<Longrightarrow> I (s\<lparr>ac_sessions := map f (ac_sessions s)\<rparr>)"
    and audit_new: "I s \<Longrightarrow> (\<And>uid. actor = Some uid \<Longrightarrow> user_row s uid \<noteq> None) \<Longrightarrow>
      I (s\<lparr>ac_audit := ac_audit s @ [\<lparr>ae_id = ac_next_id s, ae_actor_id = actor, ae_kind = kind,
            ae_payload = payload, ae_remote_addr = None, ae_recorded_at = ac_now s\<rparr>],
          ac_next_id := Suc (ac_next_id s)\<rparr>)"
begin

lemma pres_call:
  assumes "preserves I body"
  shows "preserves I (acc_call body)"
proof (rule preservesI)
  fix s assume i: "I s"
  show "I (snd (acc_call body s))"
  proof (cases "ac_faults s")
    case Nil
    then show ?thesis using i assms by (simp add: acc_call_def preservesD)
  next
    case (Cons x fs)
    have "I (s\<lparr>ac_faults := fs\<rparr>)" using i by (rule faults)
    then show ?thesis using Cons assms by (cases x) (simp_all add: acc_call_def preservesD)
  qed
qed

lemma pres_read: "preserves I (acc_call (\<lambda>s. (Inr (f s), s)))"
  by (rule pres_call) (simp add: preserves_def)

lemma pres_reads:
  "preserves I (users_get uid)" "preserves I (users_get_by_email lower e)"
  "preserves I (passwords_get_for_user uid)" "preserves I passwords_any_exists"
  "preserves I (user_sessions_get_by_token_hash h)" "preserves I (user_sessions_list_for_user uid)"
  unfolding users_get_def users_get_by_email_def passwords_get_for_user_def passwords_any_exists_def
    user_sessions_get_by_token_hash_def user_sessions_list_for_user_def
  by (rule pres_read)+

lemma pres_users_create: "preserves I (users_create (en_lower (sv_env svc)) e d)"
  unfolding users_create_def by (rule pres_call) (simp add: preserves_def Let_def user_new)

lemma pres_touch_login: "preserves I (users_touch_last_login uid at)"
  unfolding users_touch_last_login_def
  by (rule pres_call) (simp add: preserves_def user_map user_evolves_def)

lemma pres_sessions_create: "preserves I (user_sessions_create uid hash expires)"
  unfolding user_sessions_create_def
  by (rule pres_call) (auto simp: preserves_def Let_def session_new simp flip: new_session_def)

lemma pres_touch_seen: "preserves I (user_sessions_touch_last_seen sid at)"
  unfolding user_sessions_touch_last_seen_def by (rule pres_call) (simp add: preserves_def session_map)

lemma pres_revoke: "preserves I (user_sessions_revoke sid at reason)"
  unfolding user_sessions_revoke_def by (rule pres_call) (simp add: preserves_def session_map)

lemma pres_revoke_where: "preserves I (revoke_where P at reason)"
  unfolding revoke_where_def by (rule pres_call) (simp add: preserves_def session_map)

lemma pres_revoke_for_user: "preserves I (user_sessions_revoke_for_user uid sid at reason)"
  unfolding user_sessions_revoke_for_user_def
  by (rule pres_call) (simp add: preserves_def session_map split: option.splits)

lemma pres_audit: "preserves I (audit_create actor kind payload None)"
  unfolding audit_create_def
  by (rule pres_call) (auto simp: preserves_def Let_def intro!: audit_new split: option.splits)

lemma pres_fill: "preserves I (fill_bytes env n)"
  by (simp add: preserves_def fill_bytes_def draws)

lemma pres_hash: "preserves I (hash_password env h pw)"
  unfolding hash_password_def by (intro pres_intros pres_fill)

lemma pres_throttle: "preserves I (modifyP (\<lambda>s. s\<lparr>as_throttle := f s\<rparr>))"
  by (rule preserves_modify) (rule throttle)

lemmas pres_parts = pres_reads pres_users_create pres_touch_login pres_sessions_create pres_touch_seen
  pres_revoke pres_revoke_where pres_revoke_for_user pres_audit pres_fill pres_hash pres_throttle

text \<open>Authentication and the two places where a password is set.\<close>

lemma pres_authenticate: "preserves I (authenticate svc' h)"
  unfolding authenticate_def validate_session_token_def via_service_def via_repo_def repo_def now_utc_def
  by (intro pres_intros pres_parts)

lemma pres_csrf: "preserves I (csrf_guard cfg h)"
  unfolding csrf_guard_def by (intro pres_intros)

lemma pres_best_effort: "preserves I (write_audit_best_effort actor kind payload)"
  unfolding write_audit_best_effort_def by (intro pres_intros pres_parts)

text \<open>Hashing keeps the condition under which the password row may be written.\<close>

lemma pres_hash_cond:
  "preserves (\<lambda>s. I s \<and> (password_row s uid \<noteq> None \<or> ac_passwords s = [])) (hash_password env h pw)"
  unfolding hash_password_def
  by (intro pres_intros) (auto simp: preserves_def fill_bytes_def draws password_row_def)

lemma set_password_triple:
  "triple (\<lambda>s. I s \<and> (password_row s uid \<noteq> None \<or> ac_passwords s = [])) (set_password svc' uid pw) (\<lambda>_. I) I"
  unfolding set_password_def repo_def
proof (rule triple_bind)
  let ?J = "\<lambda>s. I s \<and> (password_row s uid \<noteq> None \<or> ac_passwords s = [])"
  show "triple ?J (mapErrP service_error_from_hashing (hash_password (sv_env svc') (sv_hasher svc') pw)) (\<lambda>_. ?J) I"
    by (rule triple_mapErr, rule triple_weaken [OF triple_preserves [OF pres_hash_cond]]) auto
  have "triple ?J (passwords_upsert_for_user uid h) (\<lambda>_. I) I" for h
    by (rule tripleI) (metis password_set snd_conv)+
  then have "triple ?J (mapErrP service_error_from_repository (passwords_upsert_for_user uid h)) (\<lambda>_. I) I" for h
    by (rule triple_mapErr)
  then show "triple ?J (bindP (mapErrP service_error_from_repository (passwords_upsert_for_user uid h)) (\<lambda>_. retP ()))
      (\<lambda>_. I) I" for h
    by (rule triple_bind) (simp add: triple_def)
qed

lemma verify_triple:
  "triple I (verify_password svc' uid pw) (\<lambda>_ s. I s \<and> password_row s uid \<noteq> None) I"
proof (rule tripleI)
  have "preserves I (verify_password svc' uid pw)"
    unfolding verify_password_def repo_def by (intro pres_intros pres_parts)
  note p = preservesD [OF this]
  show "I s \<Longrightarrow> verify_password svc' uid pw s = (Inl e, t) \<Longrightarrow> I t" for s e t using p by fastforce
  show "I s \<Longrightarrow> verify_password svc' uid pw s = (Inr x, t) \<Longrightarrow> I t \<and> password_row t uid \<noteq> None" for s x t
    using p [of s]
    by (auto simp: verify_password_def repo_def passwords_get_for_user_def acc_call_def password_row_def guardP_def
        prog_simps split: list.splits option.splits if_splits)
qed

lemma any_exists_triple:
  "triple I passwords_any_exists (\<lambda>b s. I s \<and> (\<not> b \<longrightarrow> ac_passwords s = [])) I"
proof (rule tripleI)
  note p = preservesD [OF pres_reads(4)]
  show "I s \<Longrightarrow> passwords_any_exists s = (Inl e, t) \<Longrightarrow> I t" for s e t using p by fastforce
  show "I s \<Longrightarrow> passwords_any_exists s = (Inr b, t) \<Longrightarrow> I t \<and> (\<not> b \<longrightarrow> ac_passwords t = [])" for s b t
    using p [of s] by (auto simp: passwords_any_exists_def acc_call_def split: list.splits option.splits)
qed

lemma users_create_empty:
  "preserves (\<lambda>s. I s \<and> ac_passwords s = []) (users_create (en_lower (sv_env svc)) e d)"
proof (rule preservesI)
  fix s assume "I s \<and> ac_passwords s = []"
  then show "I (snd (users_create (en_lower (sv_env svc)) e d s))
      \<and> ac_passwords (snd (users_create (en_lower (sv_env svc)) e d s)) = []"
    using preservesD [OF pres_users_create, of s e d]
    by (auto simp: users_create_def acc_call_def Let_def split: list.splits option.splits)
qed

lemma first_user_triple:
  assumes "\<And>u. preserves I (k u)"
  shows "triple (\<lambda>s. I s \<and> ac_passwords s = [])
     (bindP (via_repo (users_create (en_lower (sv_env svc)) e d)) (\<lambda>u.
      bindP (via_service (set_password svc (us_id u) pw)) (\<lambda>_. k u))) (\<lambda>_. I) I"
proof (rule triple_bind, unfold via_repo_def via_service_def)
  let ?E = "\<lambda>s. I s \<and> ac_passwords s = []"
  show "triple ?E (mapErrP api_error_from_repository (users_create (en_lower (sv_env svc)) e d)) (\<lambda>_. ?E) I"
    by (rule triple_mapErr, rule triple_weaken [OF triple_preserves [OF users_create_empty]]) auto
  fix u :: user
  have "triple ?E (mapErrP api_error_from_service (set_password svc (us_id u) pw)) (\<lambda>_. I) I"
    by (rule triple_mapErr, rule triple_weaken [OF set_password_triple [of "us_id u"]]) auto
  then show "triple ?E (bindP (mapErrP api_error_from_service (set_password svc (us_id u) pw)) (\<lambda>_. k u)) (\<lambda>_. I) I"
    by (rule triple_bind) (rule triple_preserves [OF assms])
qed

lemma pres_bootstrap: "preserves I (bootstrap svc cfg h req)"
proof -
  have chunk: "preserves I (bindP (via_repo passwords_any_exists) (\<lambda>b. if b then m else n))"
    if m: "preserves I m" and n: "triple (\<lambda>s. I s \<and> ac_passwords s = []) n (\<lambda>_. I) I"
    for m n :: "('z, user_response http_response) route"
  proof (rule preserves_triple, rule triple_bind)
    show "triple I (via_repo passwords_any_exists) (\<lambda>b s. I s \<and> (\<not> b \<longrightarrow> ac_passwords s = [])) I"
      unfolding via_repo_def by (rule triple_mapErr) (rule any_exists_triple)
    fix b
    show "triple (\<lambda>s. I s \<and> (\<not> b \<longrightarrow> ac_passwords s = [])) (if b then m else n) (\<lambda>_. I) I"
      using triple_weaken [OF triple_preserves [OF m]] triple_weaken [OF n] by (cases b) simp_all
  qed
  have audit: "preserves I (bindP (via_repo (audit_create (Some (us_id u)) AK_FirstUserCreated p None))
      (\<lambda>_. retP x))" for u p and x :: "user_response http_response"
    unfolding via_repo_def by (intro pres_intros pres_parts)
  show ?thesis
    unfolding bootstrap_def bootstrap_validated_def validate_bootstrap_token_len_def validate_email_def
      validate_display_name_def validate_password_len_def
    by (intro pres_intros pres_csrf pres_best_effort chunk first_user_triple audit)
qed

lemma pres_login: "preserves I (login svc' cfg h req)"
proof -
  have "preserves I (verify_login svc' found pw)" for found pw
    using triple_weaken [OF verify_triple]
    unfolding verify_login_def anti_timing_verify_def Let_def
    by (intro pres_intros) (rule preserves_triple, auto)
  then show ?thesis
    unfolding login_def reject_login_def finish_login_def login_validated_def validate_email_def
      validate_password_len_def now_utc_def
      create_user_session_def token_generate_def via_repo_def via_service_def repo_def Let_def
    by (auto intro!: pres_intros pres_csrf pres_best_effort pres_parts split: throttle_decision.split sum.split option.split)
qed

lemma pres_logout: "preserves I (logout svc' cfg h)"
  unfolding logout_def validate_session_token_def service_revoke_session_def now_utc_def via_repo_def repo_def Let_def
  by (auto intro!: pres_intros pres_csrf pres_parts split: option.split sum.split auth_service_error.split)

lemma pres_change_password: "preserves I (change_password svc' cfg h req)"
proof -
  have chunk: "preserves I (bindP (mapErrP current_password_error (verify_password svc' uid old)) (\<lambda>_.
      bindP (via_service (set_password svc' uid new)) k))" if "\<And>x. preserves I (k x)"
    for uid old new and k :: "unit \<Rightarrow> ('z, nat) route"
  proof (rule preserves_triple, rule triple_bind)
    show "triple I (mapErrP current_password_error (verify_password svc' uid old))
        (\<lambda>_ s. I s \<and> password_row s uid \<noteq> None) I"
      by (rule triple_mapErr) (rule verify_triple)
    have "triple (\<lambda>s. I s \<and> password_row s uid \<noteq> None) (via_service (set_password svc' uid new)) (\<lambda>_. I) I"
      unfolding via_service_def by (rule triple_mapErr, rule triple_weaken [OF set_password_triple [of uid]]) auto
    then show "triple (\<lambda>s. I s \<and> password_row s uid \<noteq> None)
        (bindP (via_service (set_password svc' uid new)) k) (\<lambda>_. I) I" for x :: unit
      by (rule triple_bind) (rule triple_preserves [OF that])
  qed
  have rest: "preserves I (bindP (via_service (revoke_all_sessions_except uid sid now r)) (\<lambda>n.
      bindP (via_repo (audit_create a K (p n) None)) (\<lambda>_. retP n)))" for uid sid now r a K p
    unfolding via_service_def via_repo_def revoke_all_sessions_except_def user_sessions_revoke_all_except_def repo_def
    by (intro pres_intros pres_parts)
  show ?thesis
    unfolding change_password_def change_password_validated_def validate_password_len_def now_utc_def Let_def
    by (intro pres_intros pres_csrf pres_authenticate chunk rest)
qed

lemma pres_others:
  "preserves I (me svc' h)" "preserves I (list_sessions svc' h)"
  "preserves I (revoke_session svc' cfg h sid)" "preserves I (revoke_all_except_current svc' cfg h)"
  unfolding me_def list_sessions_def revoke_session_def revoke_all_except_current_def list_sessions_for_user_def
    revoke_session_for_user_def revoke_all_sessions_except_def user_sessions_revoke_all_except_def
    now_utc_def via_repo_def via_service_def repo_def Let_def
  by (intro pres_intros pres_csrf pres_authenticate pres_parts)+

lemma step_stable: "I s \<Longrightarrow> I (auth_step svc cfg s l)"
  by (cases l) (simp_all add: preservesD pres_bootstrap pres_login pres_logout pres_change_password pres_others
      clock faults)

end

section \<open>Integrity of the tables\<close>

text \<open>
  The constraints of the schema as one predicate: primary keys are unique and fresh, emails are
  unique up to \<open>LOWER\<close>, token digests are unique, and every reference names an existing user.
\<close>

definition user_ids :: "'z account_db_scheme \<Rightarrow> user_id set" where
  "user_ids s = us_id ` set (ac_users s)"

definition users_wf :: "(string \<Rightarrow> string) \<Rightarrow> nat \<Rightarrow> user list \<Rightarrow> bool" where
  "users_wf lower n us \<longleftrightarrow>
     distinct (map us_id us) \<and> distinct (map (\<lambda>u. lower (us_email u)) us) \<and> (\<forall>i \<in> us_id ` set us. i < n)"

definition passwords_wf :: "user_id set \<Rightarrow> password_credential list \<Rightarrow> bool" where
  "passwords_wf ids ps \<longleftrightarrow> distinct (map pc_user_id ps) \<and> pc_user_id ` set ps \<subseteq> ids"

definition sessions_wf :: "user_id set \<Rightarrow> nat \<Rightarrow> user_session list \<Rightarrow> bool" where
  "sessions_wf ids n rs \<longleftrightarrow>
     distinct (map ws_id rs) \<and> distinct (map ws_token_hash rs) \<and> (\<forall>i \<in> set (map ws_id rs). i < n)
     \<and> set (map ws_user_id rs) \<subseteq> ids"

definition audit_wf :: "user_id set \<Rightarrow> nat \<Rightarrow> audit_event list \<Rightarrow> bool" where
  "audit_wf ids n es \<longleftrightarrow>
     distinct (map ae_id es) \<and> (\<forall>e \<in> set es. ae_id e < n \<and> set_option (ae_actor_id e) \<subseteq> ids)"

definition account_wf :: "(string \<Rightarrow> string) \<Rightarrow> 'z account_db_scheme \<Rightarrow> bool" where
  "account_wf lower s \<longleftrightarrow>
     users_wf lower (ac_next_id s) (ac_users s) \<and> passwords_wf (user_ids s) (ac_passwords s)
     \<and> sessions_wf (user_ids s) (ac_next_id s) (ac_sessions s) \<and> audit_wf (user_ids s) (ac_next_id s) (ac_audit s)"

lemma wf_mono:
  assumes "ids \<subseteq> ids'" and "n \<le> n'"
  shows "users_wf lower n us \<Longrightarrow> users_wf lower n' us" "passwords_wf ids ps \<Longrightarrow> passwords_wf ids' ps"
    "sessions_wf ids n rs \<Longrightarrow> sessions_wf ids' n' rs" "audit_wf ids n es \<Longrightarrow> audit_wf ids' n' es"
  using assms by (fastforce simp: users_wf_def passwords_wf_def sessions_wf_def audit_wf_def)+

lemma user_row_None: "user_row s uid = None \<longleftrightarrow> uid \<notin> user_ids s"
  by (auto simp: user_row_def user_ids_def find_None_iff)

lemma password_row_None: "password_row s uid = None \<longleftrightarrow> uid \<notin> pc_user_id ` set (ac_passwords s)"
  by (auto simp: password_row_def find_None_iff)

lemma map_user_evolves:
  assumes "\<And>u. user_evolves u (g u)"
  shows "map us_id (map g us) = map us_id us" "map (\<lambda>u. l (us_email u)) (map g us) = map (\<lambda>u. l (us_email u)) us"
  using assms by (auto simp: user_evolves_def)

lemma map_session_evolves:
  assumes "\<And>r. session_evolves r (f r)"
  shows "map ws_id (map f rs) = map ws_id rs" "map ws_token_hash (map f rs) = map ws_token_hash rs"
    "map ws_user_id (map f rs) = map ws_user_id rs"
  using assms by (auto simp: session_evolves_def)

text \<open>An upsert keeps the owners when there was a row, and otherwise adds one existing user.\<close>

lemma upsert_cases:
  obtains (same) "ac_passwords (snd (passwords_upsert_for_user uid h s)) = ac_passwords s"
  | (replaced) row where "pc_user_id row = uid" "password_row s uid \<noteq> None"
      "ac_passwords (snd (passwords_upsert_for_user uid h s))
        = map (\<lambda>r. if pc_user_id r = uid then row else r) (ac_passwords s)"
  | (added) row where "pc_user_id row = uid" "password_row s uid = None" "user_row s uid \<noteq> None"
      "ac_passwords (snd (passwords_upsert_for_user uid h s)) = ac_passwords s @ [row]"
proof (cases rule: acc_call_cases [of "upsert_password uid h" s])
  case (fault e fs)
  then show thesis by (intro same) (simp add: passwords_upsert_for_user_def)
next
  case (run fs)
  show thesis
  proof (cases "password_row s uid")
    case None
    show thesis
    proof (cases "user_row s uid = None")
      case True
      with None run show thesis
        by (intro same) (simp add: passwords_upsert_for_user_def upsert_password_def password_row_def user_row_def)
    next
      case False
      with None run show thesis
        by (intro added) (auto simp: passwords_upsert_for_user_def upsert_password_def password_row_def user_row_def Let_def)
    qed
  next
    case (Some old)
    then have "pc_user_id old = uid" by (auto simp: password_row_def dest: find_SomeD)
    with Some run show thesis
      by (intro replaced [of "old\<lparr>pc_password_hash := h, pc_password_changed_at := ac_now s, pc_updated_at := ac_now s\<rparr>"])
        (auto simp: passwords_upsert_for_user_def upsert_password_def password_row_def Let_def)
  qed
qed

lemma upsert_others [simp]:
  "ac_users (snd (passwords_upsert_for_user uid h s)) = ac_users s"
  "ac_sessions (snd (passwords_upsert_for_user uid h s)) = ac_sessions s"
  "ac_audit (snd (passwords_upsert_for_user uid h s)) = ac_audit s"
  "ac_next_id (snd (passwords_upsert_for_user uid h s)) = ac_next_id s"
  by (auto simp: passwords_upsert_for_user_def upsert_password_def acc_call_def Let_def split: list.splits option.splits)

lemma wf_user_new:
  assumes "account_wf lower s" and "\<not> list_ex (\<lambda>r. lower (us_email r) = lower e) (ac_users s)"
  shows "account_wf lower (s\<lparr>ac_users := ac_users s @ [\<lparr>us_id = ac_next_id s, us_email = e, us_display_name = d,
            us_created_at = ac_now s, us_last_login_at = None\<rparr>], ac_next_id := Suc (ac_next_id s)\<rparr>)"
    (is "account_wf lower ?t")
proof -
  have "user_ids s \<subseteq> user_ids ?t" "ac_next_id s \<le> ac_next_id ?t" by (auto simp: user_ids_def)
  note mono = wf_mono [OF this]
  have "users_wf lower (ac_next_id ?t) (ac_users ?t)"
    using assms by (auto simp: account_wf_def users_wf_def list_ex_iff less_Suc_eq)
  then show ?thesis using assms(1) mono by (auto simp: account_wf_def)
qed

lemma wf_password_set:
  assumes "account_wf lower s"
  shows "account_wf lower (snd (passwords_upsert_for_user uid h s))"
proof -
  let ?t = "snd (passwords_upsert_for_user uid h s)"
  have ids: "user_ids ?t = user_ids s" by (simp add: user_ids_def)
  have "passwords_wf (user_ids s) (ac_passwords ?t)"
  proof (cases rule: upsert_cases [of uid h s])
    case same
    then show ?thesis using assms by (simp add: account_wf_def)
  next
    case (replaced row)
    then have "map pc_user_id (ac_passwords ?t) = map pc_user_id (ac_passwords s)" by auto
    then show ?thesis using assms unfolding account_wf_def passwords_wf_def by (metis list.set_map)
  next
    case (added row)
    then show ?thesis using assms by (auto simp: account_wf_def passwords_wf_def password_row_None user_row_None)
  qed
  then show ?thesis using assms ids by (simp add: account_wf_def)
qed

interpretation integrity: account_stable svc "account_wf (en_lower (sv_env svc))" for svc
proof (unfold_locales, goal_cases)
  case (5 s e d)
  then show ?case by (rule wf_user_new)
next
  case (6 s g)
  note m = map_user_evolves(1) [OF 6(2), where us = "ac_users s"]
    map_user_evolves(2) [OF 6(2), where us = "ac_users s" and l = "en_lower (sv_env svc)"]
  have "us_id ` set (map g (ac_users s)) = us_id ` set (ac_users s)"
    using arg_cong [OF m(1), of set] by (simp del: map_map)
  with 6(1) m show ?case by (simp add: account_wf_def users_wf_def user_ids_def del: set_map map_map)
next
  case (7 s uid h)
  then show ?case by (simp add: wf_password_set)
next
  case (8 s h uid ex)
  then show ?case
    using wf_mono [of "user_ids s" "user_ids s" "ac_next_id s" "Suc (ac_next_id s)"]
    by (auto simp: account_wf_def user_ids_def new_session_def list_ex_iff less_Suc_eq user_row_None sessions_wf_def)
next
  case (9 s f)
  note m = map_session_evolves [OF 9(2), where rs = "ac_sessions s"]
  from 9(1) m show ?case
    by (simp add: account_wf_def user_ids_def sessions_wf_def del: set_map map_map)
next
  case (10 s actor kind payload)
  then show ?case
    using wf_mono [of "user_ids s" "user_ids s" "ac_next_id s" "Suc (ac_next_id s)"]
    by (fastforce simp: account_wf_def user_ids_def less_Suc_eq user_row_None audit_wf_def)
qed (simp_all add: account_wf_def user_ids_def)

interpretation integrity_run: step_machine "auth_step svc cfg" "account_wf (en_lower (sv_env svc))" "\<lambda>_ _. True" for svc cfg
  by unfold_locales (rule integrity.step_stable)

section \<open>A concrete run\<close>

text \<open>
  Small instances of the library functions, a state in which Ann has a revoked and a live
  session, and a run of requests: a bootstrap attempt, two logins and a logout.
\<close>

definition demo_env :: auth_env where
  "demo_env =
     \<lparr>en_lower = to_ascii_lowercase, en_random = (\<lambda>i n. replicate n (of_nat i)),
      en_base64 = (\<lambda>b. ''tok'' @ show_nat (unat (hd (b @ [0])))),
      en_sha256 = (\<lambda>t. map (of_nat \<circ> of_char) t), en_params_ok = (\<lambda>_. True),
      en_argon2_hash = (\<lambda>_ pw _. Some (''argon2:'' @ pw)), en_phc = (\<lambda>h. take 7 h = ''argon2:''),
      en_argon2_verify = (\<lambda>_ pw h. h = ''argon2:'' @ pw)\<rparr>"

definition demo_service :: auth_service where
  "demo_service = \<lparr>sv_env = demo_env, sv_hasher = OWASP_2023, sv_anti_timing_hash = ''argon2:x''\<rparr>"

definition demo_routes :: auth_routes_config where
  "demo_routes = \<lparr>rc_cookie_secure = True, rc_cookie_domain = None,
     rc_allowed_origins = [''https://relay''], rc_bootstrap_token = Some ''boot''\<rparr>"

definition demo_headers :: "string \<Rightarrow> request_headers" where
  "demo_headers cookie = \<lparr>hd_cookie = Some (Some cookie), hd_origin = Some (Some ''https://relay'')\<rparr>"

definition demo_login :: "string \<Rightarrow> login_request" where
  "demo_login email = \<lparr>lr_email = email, lr_password = ''correct horse''\<rparr>"

definition demo_requests :: "auth_label list" where
  "demo_requests =
     [AL_Bootstrap (demo_headers []) \<lparr>br_bootstrap_token = ''boot'', br_email = ''ann@relay'',
        br_display_name = ''Ann'', br_password = ''correct horse''\<rparr>,
      AL_Login (demo_headers []) (demo_login ''Ann@relay''), AL_Clock 5,
      AL_Login (demo_headers []) (demo_login ''ann@relay''),
      AL_Logout (demo_headers ''relayterm_session=tok1'')]"

definition demo_session :: "nat \<Rightarrow> string \<Rightarrow> instant \<Rightarrow> instant option \<Rightarrow> user_session" where
  "demo_session sid token at revoked =
     \<lparr>ws_id = sid, ws_user_id = 0, ws_token_hash = en_sha256 demo_env token, ws_created_at = at,
      ws_last_seen_at = at, ws_expires_at = at + SESSION_TTL, ws_revoked_at = revoked,
      ws_revoked_reason = (if revoked = None then None else Some ''logout'')\<rparr>"

definition demo_state :: auth_state where
  "demo_state =
     \<lparr>ac_users = [\<lparr>us_id = 0, us_email = ''ann@relay'', us_display_name = ''Ann'', us_created_at = 0,
                    us_last_login_at = Some 5\<rparr>],
      ac_passwords = [\<lparr>pc_user_id = 0, pc_password_hash = ''argon2:correct horse'', pc_password_changed_at = 0,
                        pc_created_at = 0, pc_updated_at = 0\<rparr>],
      ac_sessions = [demo_session 2 ''tok1'' 0 (Some 5), demo_session 4 ''tok2'' 5 None],
      ac_audit = [], ac_next_id = 7, ac_now = 5, ac_faults = [], as_draws = 3,
      as_throttle = throttler_new V1_DEFAULT\<rparr>"



section \<open>Revocation\<close>

lemma session_evolves_trans:
  "session_evolves a b \<Longrightarrow> session_evolves b c \<Longrightarrow> session_evolves a c"
  by (auto simp: session_evolves_def)

text \<open>The rows of the table descend from earlier ones, in order, with new ones behind.\<close>

definition sessions_from :: "user_session list \<Rightarrow> 'z account_db_scheme \<Rightarrow> bool" where
  "sessions_from rows s \<longleftrightarrow>
     (\<exists>f new. ac_sessions s = map f rows @ new \<and> (\<forall>r. session_evolves r (f r)))"

lemma sessions_from_refl: "sessions_from (ac_sessions s) s"
  unfolding sessions_from_def by (rule exI [of _ "\<lambda>r. r"], rule exI [of _ "[]"]) simp

lemma sessions_from_find:
  assumes "sessions_from rows s" and "find (\<lambda>r. ws_token_hash r = h) rows = Some r"
  obtains r' where "find (\<lambda>r. ws_token_hash r = h) (ac_sessions s) = Some r'" and "session_evolves r r'"
proof -
  obtain f new where f: "ac_sessions s = map f rows @ new" "\<And>r. session_evolves r (f r)"
    using assms(1) by (auto simp: sessions_from_def)
  have "find (\<lambda>r. ws_token_hash r = h) (map f rows) = Some (f r)"
    using assms(2) f(2) find_map_same_key [of ws_token_hash f h rows] by (simp add: session_evolves_def)
  then show thesis using that f find_append_Some by metis
qed

interpretation descent: account_stable svc "sessions_from rows" for svc rows
proof (unfold_locales, goal_cases)
  case (7 s uid h)
  then show ?case by (simp add: sessions_from_def)
next
  case (9 s f)
  then obtain g new where g: "ac_sessions s = map g rows @ new" "\<And>r. session_evolves r (g r)"
    by (auto simp: sessions_from_def)
  have "ac_sessions (s\<lparr>ac_sessions := map f (ac_sessions s)\<rparr>) = map (f \<circ> g) rows @ map f new"
    using g(1) by simp
  moreover have "session_evolves r ((f \<circ> g) r)" for r using session_evolves_trans [OF g(2) 9(2)] by simp
  ultimately show ?case unfolding sessions_from_def by blast
qed (auto simp: sessions_from_def)

interpretation descent_run: step_machine "auth_step svc cfg" "sessions_from rows" "\<lambda>_ _. True" for svc cfg rows
  by unfold_locales (rule descent.step_stable)

end
