(* ===== verification/Auth_Behaviour.thy ===== *)
theory Auth_Behaviour
  imports Auth_Invariants
begin

text \<open>
  What the authentication handlers promise: who is authenticated, that a revocation is final,
  that the set of account holders is fixed once the first exists, that foreign origins are
  inert, and what a password change does.
\<close>

section \<open>Sessions\<close>

definition session_of_token :: "auth_service \<Rightarrow> string \<Rightarrow> 'z account_db_scheme \<Rightarrow> user_session option" where
  "session_of_token svc token s = find (\<lambda>r. ws_token_hash r = hash_session_token (sv_env svc) token) (ac_sessions s)"

lemma okOrP_eq: "okOrP x e s = (case x of None \<Rightarrow> (Inl e, s) | Some a \<Rightarrow> (Inr a, s))"
  by (cases x) simp_all

lemma guardP_eq: "guardP b e s = (if b then (Inr (), s) else (Inl e, s))"
  by (cases b) simp_all

lemmas run_simps = prog_simps okOrP_eq guardP_eq now_utc_def via_repo_def via_service_def repo_def acc_call_ok

text \<open>What any successful authentication has seen, whatever fails meanwhile.\<close>

lemma acc_read_Inr:
  assumes "acc_call (\<lambda>s. (Inr (f s), s)) s = (Inr x, t)"
  shows "\<exists>fs. t = s\<lparr>ac_faults := fs\<rparr> \<and> x = f t"
  using assms by (cases rule: acc_call_cases [of "\<lambda>s. (Inr (f s), s)" s]) auto

lemma validate_Inr:
  assumes "validate_session_token svc token now s = (Inr r, t)"
  shows "session_of_token svc token s = Some r \<and> is_active_at now r \<and> ac_users t = ac_users s \<and> ac_sessions t = ac_sessions s"
proof -
  obtain row where g: "user_sessions_get_by_token_hash (hash_session_token (sv_env svc) token) s = (Inr row, t)"
    and r: "row = Some r" "is_active_at now r"
    using assms by (auto simp: validate_session_token_def repo_def Inr_iffs is_active_at_def
        split: option.splits if_splits)
  show ?thesis
    using acc_read_Inr [OF g [unfolded user_sessions_get_by_token_hash_def]] r
    by (auto simp: session_of_token_def)
qed

lemma authenticate_Inr:
  assumes "authenticate svc h s = (Inr u, t)"
  obtains token r where "extract_session_cookie h = Some token" "session_of_token svc token s = Some r"
    "is_active_at (ac_now s) r" "user_row s (ws_user_id r) = Some (au_user u)" "au_session_id u = ws_id r"
proof -
  obtain token r s1 found s2 where c: "extract_session_cookie h = Some token"
    and v: "validate_session_token svc token (ac_now s) s = (Inr r, s1)"
    and g: "users_get (ws_user_id r) s1 = (Inr found, s2)"
    and u: "found = Some (au_user u)" "au_session_id u = ws_id r"
    using assms by (auto simp: authenticate_def via_service_def via_repo_def now_utc_def Inr_iffs)
  have "user_row s1 (ws_user_id r) = found"
    using acc_read_Inr [OF g [unfolded users_get_def]] by (auto simp: user_row_def)
  then show thesis using that c validate_Inr [OF v] u by (simp add: user_row_def)
qed

lemma touch_seen_ok:
  "ac_faults s = [] \<Longrightarrow> user_session_row s sid \<noteq> None \<Longrightarrow>
    user_sessions_touch_last_seen sid now s =
      (Inr (), s\<lparr>ac_sessions := map (\<lambda>r. if ws_id r = sid then r\<lparr>ws_last_seen_at := now\<rparr> else r) (ac_sessions s)\<rparr>)"
  by (simp add: user_sessions_touch_last_seen_def acc_call_ok)

lemma session_of_token_row: "session_of_token svc token s = Some r \<Longrightarrow> user_session_row s (ws_id r) \<noteq> None"
  unfolding session_of_token_def user_session_row_def find_None_iff by (auto dest: find_SomeD)

lemma authenticate_ok:
  assumes "ac_faults s = []" and "extract_session_cookie h = Some token"
    and "session_of_token svc token s = Some r" and "is_active_at (ac_now s) r"
    and "user_row s (ws_user_id r) = Some user"
  shows "authenticate svc h s = (Inr \<lparr>au_user = user, au_session_id = ws_id r\<rparr>,
     s\<lparr>ac_sessions := map (\<lambda>x. if ws_id x = ws_id r then x\<lparr>ws_last_seen_at := ac_now s\<rparr> else x) (ac_sessions s)\<rparr>)"
proof -
  have "validate_session_token svc token (ac_now s) s = (Inr r, s)"
    using assms(1,3,4)
    by (simp add: validate_session_token_def run_simps user_sessions_get_by_token_hash_def session_of_token_def is_active_at_def)
  then show ?thesis
    using assms touch_seen_ok [OF assms(1) session_of_token_row [OF assms(3)], of "ac_now s"]
    by (simp add: authenticate_def run_simps users_get_def)
qed

text \<open>
  C18. A request is authenticated exactly by a live session: with the database up, the extractor
  returns a user and a session if and only if the request's cookie carries a token whose digest
  is stored, that session is neither revoked nor expired, and its user exists; and it is that
  session and that user.
\<close>

theorem authenticated_iff_live_session:
  assumes "ac_faults s = []"
  shows "(\<exists>t. authenticate svc h s = (Inr u, t)) \<longleftrightarrow>
    (\<exists>token r. extract_session_cookie h = Some token \<and> session_of_token svc token s = Some r
      \<and> is_active_at (ac_now s) r \<and> user_row s (ws_user_id r) = Some (au_user u) \<and> ws_id r = au_session_id u)"
proof
  show "\<exists>t. authenticate svc h s = (Inr u, t) \<Longrightarrow> \<exists>token r. extract_session_cookie h = Some token
      \<and> session_of_token svc token s = Some r \<and> is_active_at (ac_now s) r
      \<and> user_row s (ws_user_id r) = Some (au_user u) \<and> ws_id r = au_session_id u"
    by (auto elim!: authenticate_Inr)
  show "\<exists>token r. extract_session_cookie h = Some token \<and> session_of_token svc token s = Some r
      \<and> is_active_at (ac_now s) r \<and> user_row s (ws_user_id r) = Some (au_user u) \<and> ws_id r = au_session_id u
      \<Longrightarrow> \<exists>t. authenticate svc h s = (Inr u, t)"
    using authenticate_ok [OF assms] by fastforce
qed

definition demo_live :: user_session where
  "demo_live = the (session_of_token demo_service ''tok2'' demo_state)"

theorem authenticated_iff_live_session_witness:
  "\<exists>t. authenticate demo_service (demo_headers ''a=b; relayterm_session=tok2'') demo_state
     = (Inr \<lparr>au_user = hd (ac_users demo_state), au_session_id = 4\<rparr>, t)"
proof -
  have "ac_faults demo_state = []" by code_simp
  moreover have "extract_session_cookie (demo_headers ''a=b; relayterm_session=tok2'') = Some ''tok2''" by code_simp
  moreover have "session_of_token demo_service ''tok2'' demo_state = Some demo_live" by code_simp
  moreover have "is_active_at (ac_now demo_state) demo_live" by code_simp
  moreover have "user_row demo_state (ws_user_id demo_live) = Some (hd (ac_users demo_state))" by code_simp
  moreover have "ws_id demo_live = 4" by code_simp
  ultimately show ?thesis by (subst authenticated_iff_live_session) auto
qed

text \<open>
  C19. Revocation is final. Once the session of a token is revoked, no sequence of requests,
  failures and clock changes undoes it: the row keeps its revocation time and reason, and no
  request that carries the token is ever authenticated again.
\<close>

theorem revoked_token_is_dead_forever:
  assumes "session_of_token svc token s = Some r" and "ws_revoked_at r = Some t"
    and "extract_session_cookie h = Some token"
  shows "let s' = foldl (auth_step svc cfg) s ls in
         (\<exists>r'. session_of_token svc token s' = Some r' \<and> ws_id r' = ws_id r
            \<and> ws_revoked_at r' = Some t \<and> ws_revoked_reason r' = ws_revoked_reason r)
         \<and> (\<exists>e. fst (authenticate svc h s') = Inl e)"
proof -
  let ?s = "foldl (auth_step svc cfg) s ls"
  have "sessions_from (ac_sessions s) ?s"
    by (rule descent_run.fold_step_invar) (simp_all add: sessions_from_refl)
  then obtain r' where r': "session_of_token svc token ?s = Some r'" and ev: "session_evolves r r'"
    using assms(1) by (auto simp: session_of_token_def elim: sessions_from_find)
  have rev: "ws_revoked_at r' = Some t" "ws_revoked_reason r' = ws_revoked_reason r" "ws_id r' = ws_id r"
    using ev assms(2) by (simp_all add: session_evolves_def)
  have "fst (authenticate svc h ?s) \<noteq> Inr u" for u
  proof
    assume "fst (authenticate svc h ?s) = Inr u"
    then obtain x where "authenticate svc h ?s = (Inr u, x)" by (metis prod.collapse)
    then obtain q where "session_of_token svc token ?s = Some q" "is_active_at (ac_now ?s) q"
      using assms(3) by (auto elim: authenticate_Inr)
    with r' rev(1) show False by (simp add: is_active_at_def is_revoked_def)
  qed
  then have "\<exists>e. fst (authenticate svc h ?s) = Inl e" by (cases "fst (authenticate svc h ?s)") auto
  with r' rev show ?thesis by (auto simp: Let_def)
qed

theorem revoked_token_is_dead_forever_witness:
  "\<exists>e. fst (authenticate demo_service (demo_headers ''relayterm_session=tok1'')
     (foldl (auth_step demo_service demo_routes) demo_state demo_requests)) = Inl e"
proof -
  let ?r = "the (session_of_token demo_service ''tok1'' demo_state)"
  have "session_of_token demo_service ''tok1'' demo_state = Some ?r" by code_simp
  moreover have "ws_revoked_at ?r = Some 5" by code_simp
  moreover have "extract_session_cookie (demo_headers ''relayterm_session=tok1'') = Some ''tok1''" by code_simp
  ultimately show ?thesis
    using revoked_token_is_dead_forever [of demo_service "''tok1''" demo_state ?r 5 _ demo_routes demo_requests]
    by (auto simp: Let_def)
qed

section \<open>Bootstrap and foreign origins\<close>

lemma upsert_same_holders:
  assumes "password_row s uid \<noteq> None"
  shows "pc_user_id ` set (ac_passwords (snd (passwords_upsert_for_user uid h s))) = pc_user_id ` set (ac_passwords s)"
proof (cases rule: upsert_cases [of uid h s])
  case (replaced row)
  then have "map pc_user_id (ac_passwords (snd (passwords_upsert_for_user uid h s))) = map pc_user_id (ac_passwords s)"
    by auto
  then show ?thesis by (metis list.set_map)
qed (use assms in simp_all)

interpretation holders: account_stable svc "\<lambda>s. H \<noteq> {} \<and> pc_user_id ` set (ac_passwords s) = H" for svc H
proof (unfold_locales, goal_cases)
  case (7 s uid h)
  then have "password_row s uid \<noteq> None" by auto
  with 7(1) show ?case by (simp add: upsert_same_holders)
qed simp_all

interpretation holders_run: step_machine "auth_step svc cfg" "\<lambda>s. H \<noteq> {} \<and> pc_user_id ` set (ac_passwords s) = H"
  "\<lambda>_ _. True" for svc cfg H
  by unfold_locales (rule holders.step_stable)

text \<open>
  Bootstrap works once. As soon as one user has a password, no sequence of requests and
  failures ever gives a password to another user: the set of users who can log in is fixed. In
  particular a leaked bootstrap token creates no second account holder.
\<close>

theorem credential_holders_are_fixed:
  assumes "ac_passwords s \<noteq> []"
  shows "pc_user_id ` set (ac_passwords (foldl (auth_step svc cfg) s ls)) = pc_user_id ` set (ac_passwords s)"
  using holders_run.fold_step_invar [of "pc_user_id ` set (ac_passwords s)" s svc cfg ls] assms by simp

theorem credential_holders_are_fixed_witness:
  "pc_user_id ` set (ac_passwords (foldl (auth_step demo_service demo_routes) demo_state demo_requests)) = {0}"
proof -
  have "ac_passwords demo_state \<noteq> []" by code_simp
  moreover have "pc_user_id ` set (ac_passwords demo_state) = {0}" by code_simp
  ultimately show ?thesis using credential_holders_are_fixed [of demo_state demo_service demo_routes demo_requests] by simp
qed

text \<open>
  Requests from foreign origins are inert: without an \<open>Origin\<close> header that equals one of the
  configured origins, each of the six state-changing handlers answers 403 with the fixed code
  and message and changes nothing at all, not even a fault of the database is consumed.
\<close>

theorem foreign_origin_is_inert:
  assumes "\<And>origin. hd_origin h = Some (Some origin) \<Longrightarrow> origin \<notin> set (rc_allowed_origins cfg)"
  shows "\<exists>e. parts e = (403, EC_CsrfOriginMismatch, ''forbidden'')
     \<and> bootstrap svc cfg h b s = (Inl e, s) \<and> login svc cfg h l s = (Inl e, s)
     \<and> logout svc cfg h s = (Inl e, s) \<and> change_password svc cfg h c s = (Inl e, s)
     \<and> revoke_session svc cfg h sid s = (Inl e, s) \<and> revoke_all_except_current svc cfg h s = (Inl e, s)"
proof -
  obtain msg where "check_origin h (rc_allowed_origins cfg) = Inl (AE_CsrfOriginMismatch msg)"
    using assms by (cases "hd_origin h"; cases "the (hd_origin h)") (auto simp: check_origin_def list_ex_iff)
  then obtain e where "check_origin h (rc_allowed_origins cfg) = Inl e"
    and p: "parts e = (403, EC_CsrfOriginMismatch, ''forbidden'')" by (simp add: parts_def)
  then have "csrf_guard cfg h s = (Inl e, s)" for s :: "'a auth_state_scheme" by (simp add: csrf_guard_def)
  with p show ?thesis
    unfolding bootstrap_def login_def logout_def change_password_def revoke_session_def revoke_all_except_current_def
    by (intro exI [of _ e]) (simp add: bindP_def)
qed

theorem foreign_origin_is_inert_witness:
  "\<exists>e. login demo_service demo_routes \<lparr>hd_cookie = None, hd_origin = Some (Some ''https://evil'')\<rparr>
     (demo_login ''ann@relay'') demo_state = (Inl e, demo_state)"
proof -
  let ?h = "\<lparr>hd_cookie = None, hd_origin = Some (Some ''https://evil'')\<rparr>"
  have "\<And>origin. hd_origin ?h = Some (Some origin) \<Longrightarrow> origin \<notin> set (rc_allowed_origins demo_routes)"
    by (simp add: demo_routes_def)
  from foreign_origin_is_inert [OF this] show ?thesis by blast
qed

section \<open>Changing the password\<close>

lemma preserves_acc_call:
  assumes "\<And>s fs. I s \<Longrightarrow> I (s\<lparr>ac_faults := fs\<rparr>)" and "preserves I body"
  shows "preserves I (acc_call body)"
proof (rule preservesI)
  fix s assume "I s"
  then show "I (snd (acc_call body s))"
    using assms by (cases rule: acc_call_cases [of body s]) (simp_all add: preservesD)
qed

text \<open>The part of a session row that authentication never changes.\<close>

definition session_core :: "user_session \<Rightarrow> nat \<times> nat \<times> instant option" where
  "session_core r = (ws_id r, ws_user_id r, ws_revoked_at r)"

lemma session_core_touch:
  "map session_core (map (\<lambda>r. if ws_id r = sid then r\<lparr>ws_last_seen_at := at\<rparr> else r) rows) = map session_core rows"
  by (simp add: session_core_def)

lemma authenticate_frame:
  assumes "authenticate svc h s = (x, t)"
  shows "ac_passwords t = ac_passwords s \<and> map session_core (ac_sessions t) = map session_core (ac_sessions s)"
proof -
  let ?I = "\<lambda>t. ac_passwords t = ac_passwords s \<and> map session_core (ac_sessions t) = map session_core (ac_sessions s)"
  have reads: "preserves ?I (user_sessions_get_by_token_hash d)" "preserves ?I (users_get uid)" for d uid
    unfolding user_sessions_get_by_token_hash_def users_get_def by (rule preserves_acc_call; simp add: preserves_def)+
  have touch: "preserves ?I (user_sessions_touch_last_seen sid now)" for sid now
    unfolding user_sessions_touch_last_seen_def
    by (rule preserves_acc_call) (simp_all add: preserves_def session_core_touch del: map_map)
  have "preserves ?I (authenticate svc h)"
    unfolding authenticate_def validate_session_token_def via_service_def via_repo_def repo_def now_utc_def
    by (intro pres_intros reads touch)
  from preservesD [OF this, of s] assms show ?thesis by simp
qed

text \<open>The documented behaviour of Argon2: a hash it produced parses and verifies its password.\<close>

definition argon2_laws :: "auth_env \<Rightarrow> bool" where
  "argon2_laws env \<longleftrightarrow> (\<forall>config pw salt H. en_argon2_hash env config pw salt = Some H \<longrightarrow>
     en_phc env H \<and> en_argon2_verify env config pw H)"

lemma find_replace_other:
  "key new = k \<Longrightarrow> v \<noteq> k \<Longrightarrow>
    find (\<lambda>r. key r = v) (map (\<lambda>r. if key r = k then new else r) xs) = find (\<lambda>r. key r = v) xs"
  by (induction xs) auto

lemma find_replace:
  assumes "find (\<lambda>r. key r = k) xs \<noteq> None" and "key new = k"
  shows "find (\<lambda>r. key r = v) (map (\<lambda>r. if key r = k then new else r) xs)
     = (if v = k then Some new else find (\<lambda>r. key r = v) xs)"
  using assms by (induction xs) (auto simp: find_replace_other)

lemma find_snoc: "find P (xs @ [x]) = (case find P xs of Some y \<Rightarrow> Some y | None \<Rightarrow> if P x then Some x else None)"
  by (induction xs) auto

lemma set_password_Inr:
  assumes "set_password svc uid pw s = (Inr x, t)"
  obtains salt H where "en_params_ok (sv_env svc) (sv_hasher svc)"
    "en_argon2_hash (sv_env svc) (sv_hasher svc) pw salt = Some H"
    "map_option pc_password_hash (password_row t uid) = Some H"
    "\<forall>v. v \<noteq> uid \<longrightarrow> password_row t v = password_row s v" "ac_sessions t = ac_sessions s"
proof -
  let ?env = "sv_env svc"
  obtain H u c where h: "hash_password ?env (sv_hasher svc) pw s = (Inr H, u)"
    and p: "passwords_upsert_for_user uid H u = (Inr c, t)"
    using assms by (auto simp: set_password_def repo_def Inr_iffs)
  have ok: "en_params_ok ?env (sv_hasher svc)"
    "en_argon2_hash ?env (sv_hasher svc) pw (en_random ?env (as_draws s) 16) = Some H"
    and u: "ac_passwords u = ac_passwords s" "ac_sessions u = ac_sessions s"
    using h by (auto simp: hash_password_def fill_bytes_def Inr_iffs split: if_splits)
  obtain fs where b: "upsert_password uid H (u\<lparr>ac_faults := fs\<rparr>) = (Inr c, t)"
    using p acc_call_cases [of "upsert_password uid H" u] unfolding passwords_upsert_for_user_def
    by (metis Pair_inject sum.distinct(1))
  have "password_row t uid = Some c \<and> pc_password_hash c = H \<and> (\<forall>v. v \<noteq> uid \<longrightarrow> password_row t v = password_row u v)
      \<and> ac_sessions t = ac_sessions u"
  proof (cases "find (\<lambda>r. pc_user_id r = uid) (ac_passwords u)")
    case None
    with b show ?thesis
      by (auto simp: upsert_password_def password_row_def Let_def find_snoc split: if_splits option.splits)
  next
    case (Some old)
    then have "pc_user_id old = uid" by (auto dest: find_SomeD)
    with Some b show ?thesis
      by (auto simp: upsert_password_def password_row_def Let_def find_replace)
  qed
  then show thesis using that ok u by (simp add: password_row_def)
qed

lemma revoke_where_Inr:
  assumes "revoke_where P at reason s = (Inr n, t)"
  shows "ac_sessions t = map (\<lambda>r. if P r then stamp_revoked at reason r else r) (ac_sessions s)
     \<and> n = length (filter (\<lambda>r. P r \<and> ws_revoked_at r = None) (ac_sessions s)) \<and> ac_passwords t = ac_passwords s"
proof -
  let ?body = "\<lambda>s. (Inr (length (filter (\<lambda>r. P r \<and> ws_revoked_at r = None) (ac_sessions s))),
      s\<lparr>ac_sessions := map (\<lambda>r. if P r then stamp_revoked at reason r else r) (ac_sessions s)\<rparr>)"
  show ?thesis using assms unfolding revoke_where_def
    by (cases rule: acc_call_cases [of ?body s]) auto
qed

lemma audit_create_frame:
  assumes "audit_create a k p r s = (x, t)"
  shows "ac_sessions t = ac_sessions s \<and> ac_passwords t = ac_passwords s \<and> ac_users t = ac_users s"
  using assms
  by (auto simp: audit_create_def acc_call_def Let_def split: list.splits option.splits if_splits)

lemma verify_password_Inr:
  assumes "verify_password svc uid pw s = (Inr x, t)"
  shows "ac_passwords t = ac_passwords s \<and> ac_sessions t = ac_sessions s"
proof -
  obtain row where "passwords_get_for_user uid s = (Inr row, t)"
    using assms by (auto simp: verify_password_def repo_def Inr_iffs split: option.splits)
  from acc_read_Inr [OF this [unfolded passwords_get_for_user_def]] show ?thesis by auto
qed

lemma filter_map_unaffected:
  assumes "\<And>r. P (g (f r)) = P (g r)" and "\<And>r. P (g r) \<Longrightarrow> f r = r"
  shows "filter P (map g (map f rs)) = filter P (map g rs)"
  using assms by (induction rs) auto

text \<open>The successful run of the handler, taken apart.\<close>

lemma change_password_Inr:
  assumes "change_password svc cfg h req s = (Inr n, t)"
  obtains u s1 s2 s3 s4 where "authenticate svc h s = (Inr u, s1)"
    "verify_password svc (au_user_id u) (pr_current_password req) s1 = (Inr (), s2)"
    "set_password svc (au_user_id u) (pr_new_password req) s2 = (Inr (), s3)"
    "revoke_where (\<lambda>r. ws_user_id r = au_user_id u \<and> ws_id r \<noteq> au_session_id u) (ac_now s1) (Some ''password_changed'') s3
       = (Inr n, s4)"
    "ac_sessions t = ac_sessions s4" "ac_passwords t = ac_passwords s4"
proof -
  have csrf: "s1 = s" if "csrf_guard cfg h s = (Inr x, s1)" for x s1
    using that by (auto simp: csrf_guard_def split: sum.splits)
  have valid: "u = v" if "change_password_validated req u = (Inr x, v)" for x u v
    using that by (auto simp: change_password_validated_def validate_password_len_def guardP_Inr_iff split: if_splits)
  obtain u s1 s2 s3 s4 p a where run: "authenticate svc h s = (Inr u, s1)"
    "verify_password svc (au_user_id u) (pr_current_password req) s1 = (Inr (), s2)"
    "set_password svc (au_user_id u) (pr_new_password req) s2 = (Inr (), s3)"
    "revoke_where (\<lambda>r. ws_user_id r = au_user_id u \<and> ws_id r \<noteq> au_session_id u) (ac_now s1) (Some ''password_changed'') s3
       = (Inr n, s4)"
    and audit: "audit_create (Some (au_user_id u)) AK_PasswordChanged p None s4 = (Inr a, t)"
    using assms
    unfolding change_password_def Let_def via_service_def via_repo_def now_utc_def revoke_all_sessions_except_def
      user_sessions_revoke_all_except_def repo_def Inr_iffs
    by (auto dest!: csrf valid)
  from audit_create_frame [OF audit] show thesis by (intro that [OF run]) simp_all
qed

text \<open>
  C30. A successful password change takes effect and logs out every other browser: the new
  password verifies against the stored row, no other user's password changes, every other
  session of the caller is revoked and the returned number counts those that were live, while
  the current session and all sessions of other users keep their state.
\<close>

theorem password_change_logs_out_other_sessions:
  assumes "change_password svc cfg h req s = (Inr n, t)" and "argon2_laws (sv_env svc)"
  shows "\<exists>u s1. authenticate svc h s = (Inr u, s1)
     \<and> (\<exists>c. password_row t (au_user_id u) = Some c
            \<and> hasher_verify (sv_env svc) (sv_hasher svc) (pr_new_password req) (pc_password_hash c) = Inr True)
     \<and> (\<forall>v. v \<noteq> au_user_id u \<longrightarrow> password_row t v = password_row s v)
     \<and> (let other = (\<lambda>(sid, uid, rev). uid = au_user_id u \<and> sid \<noteq> au_session_id u) in
          (\<forall>r \<in> set (ac_sessions t). other (session_core r) \<longrightarrow> is_revoked r)
          \<and> n = length (filter (\<lambda>r. other (session_core r) \<and> \<not> is_revoked r) (ac_sessions s))
          \<and> filter (\<lambda>c. \<not> other c) (map session_core (ac_sessions t)) = filter (\<lambda>c. \<not> other c) (map session_core (ac_sessions s)))"
proof -
  obtain u s1 s2 s3 s4 where a: "authenticate svc h s = (Inr u, s1)"
    and v: "verify_password svc (au_user_id u) (pr_current_password req) s1 = (Inr (), s2)"
    and p: "set_password svc (au_user_id u) (pr_new_password req) s2 = (Inr (), s3)"
    and r: "revoke_where (\<lambda>r. ws_user_id r = au_user_id u \<and> ws_id r \<noteq> au_session_id u) (ac_now s1)
              (Some ''password_changed'') s3 = (Inr n, s4)"
    and t: "ac_sessions t = ac_sessions s4" "ac_passwords t = ac_passwords s4"
    using assms(1) by (rule change_password_Inr)
  let ?other = "\<lambda>(sid, uid, rev). uid = au_user_id u \<and> sid \<noteq> au_session_id u"
  note r' = revoke_where_Inr [OF r] and frame = authenticate_frame [OF a] verify_password_Inr [OF v]
  obtain salt H where p': "en_params_ok (sv_env svc) (sv_hasher svc)"
      "en_argon2_hash (sv_env svc) (sv_hasher svc) (pr_new_password req) salt = Some H"
      "map_option pc_password_hash (password_row s3 (au_user_id u)) = Some H"
      "\<forall>v. v \<noteq> au_user_id u \<longrightarrow> password_row s3 v = password_row s2 v" "ac_sessions s3 = ac_sessions s2"
    using p by (rule set_password_Inr)
  have rows: "map session_core (ac_sessions s3) = map session_core (ac_sessions s)" using p'(5) frame by simp
  have "\<exists>c. password_row t (au_user_id u) = Some c
      \<and> hasher_verify (sv_env svc) (sv_hasher svc) (pr_new_password req) (pc_password_hash c) = Inr True"
  proof -
    obtain c where "password_row t (au_user_id u) = Some c" "pc_password_hash c = H"
      using p'(3) r' t(2) by (auto simp: password_row_def)
    moreover have "en_phc (sv_env svc) H \<and> en_argon2_verify (sv_env svc) (sv_hasher svc) (pr_new_password req) H"
      using p'(2) assms(2) by (auto simp: argon2_laws_def)
    ultimately show ?thesis using p'(1) by (simp add: hasher_verify_def)
  qed
  moreover have "\<forall>v. v \<noteq> au_user_id u \<longrightarrow> password_row t v = password_row s v"
    using p'(4) r' t(2) frame by (simp add: password_row_def)
  moreover have "\<forall>r \<in> set (ac_sessions t). ?other (session_core r) \<longrightarrow> is_revoked r"
    using r' t(1) by (auto simp: session_core_def is_revoked_def stamp_revoked_def)
  moreover have "n = length (filter (\<lambda>r. ?other (session_core r) \<and> \<not> is_revoked r) (ac_sessions s))"
  proof -
    let ?q = "\<lambda>(sid, uid, rev). (uid = au_user_id u \<and> sid \<noteq> au_session_id u) \<and> rev = None"
    have count: "length (filter (\<lambda>r. ?other (session_core r) \<and> \<not> is_revoked r) rs) = length (filter ?q (map session_core rs))"
      for rs by (simp add: filter_map comp_def session_core_def is_revoked_def)
    have "n = length (filter (\<lambda>r. ?other (session_core r) \<and> \<not> is_revoked r) (ac_sessions s3))"
      using r' by (simp add: session_core_def is_revoked_def)
    then show ?thesis unfolding count rows .
  qed
  moreover have "filter (\<lambda>c. \<not> ?other c) (map session_core (ac_sessions t))
      = filter (\<lambda>c. \<not> ?other c) (map session_core (ac_sessions s))"
  proof -
    have "ac_sessions t = map (\<lambda>r. if ?other (session_core r)
        then stamp_revoked (ac_now s1) (Some ''password_changed'') r else r) (ac_sessions s3)"
      using r' t(1) by (simp add: session_core_def)
    then show ?thesis
      unfolding rows [symmetric] by (simp only:) (rule filter_map_unaffected, auto simp: session_core_def stamp_revoked_def)
  qed
  ultimately show ?thesis using a by (auto simp: Let_def)
qed

definition demo_change :: change_password_request where
  "demo_change = \<lparr>pr_current_password = ''correct horse'', pr_new_password = ''battery staple''\<rparr>"

definition demo_two_browsers :: auth_state where
  "demo_two_browsers = demo_state\<lparr>ac_sessions := [demo_session 2 ''tok1'' 0 None, demo_session 4 ''tok2'' 5 None]\<rparr>"

theorem password_change_logs_out_other_sessions_witness:
  "\<exists>u s1 t. authenticate demo_service (demo_headers ''relayterm_session=tok2'') demo_two_browsers = (Inr u, s1)
     \<and> change_password demo_service demo_routes (demo_headers ''relayterm_session=tok2'') demo_change demo_two_browsers = (Inr 1, t)
     \<and> (\<forall>r \<in> set (ac_sessions t). ws_user_id r = au_user_id u \<and> ws_id r \<noteq> au_session_id u \<longrightarrow> is_revoked r)"
proof -
  let ?h = "demo_headers ''relayterm_session=tok2''"
  let ?t = "snd (change_password demo_service demo_routes ?h demo_change demo_two_browsers)"
  have "fst (change_password demo_service demo_routes ?h demo_change demo_two_browsers) = Inr 1" by code_simp
  then have run: "change_password demo_service demo_routes ?h demo_change demo_two_browsers = (Inr 1, ?t)"
    by (metis prod.collapse)
  have "argon2_laws (sv_env demo_service)"
    by (simp add: argon2_laws_def demo_service_def demo_env_def)
  from password_change_logs_out_other_sessions [OF run this] run show ?thesis
    by (auto simp: session_core_def Let_def)
qed

end
