(* ===== verification/Auth_Login.thy ===== *)
theory Auth_Login
  imports Auth_Behaviour
begin

text \<open>
  The login handler: a failed login says nothing about the account, a successful one yields a
  cookie that authenticates until it expires, and the places where the handlers do less than
  their documentation says.
\<close>

section \<open>Failed logins\<close>

text \<open>The request names no user, or the user's stored hash does not verify the password.\<close>

definition bad_credentials :: "auth_service \<Rightarrow> login_request \<Rightarrow> 'z auth_state_scheme \<Rightarrow> bool" where
  "bad_credentials svc req s =
     (case find (\<lambda>u. en_lower (sv_env svc) (us_email u) = en_lower (sv_env svc) (lr_email req)) (ac_users s) of
        None \<Rightarrow> True
      | Some u \<Rightarrow>
          (case password_row s (us_id u) of
             None \<Rightarrow> True
           | Some c \<Rightarrow> hasher_verify (sv_env svc) (sv_hasher svc) (lr_password req) (pc_password_hash c) \<noteq> Inr True))"

definition audit_row :: "audit_event_kind \<Rightarrow> json \<Rightarrow> 'z auth_state_scheme \<Rightarrow> audit_event" where
  "audit_row kind payload s =
     \<lparr>ae_id = ac_next_id s, ae_actor_id = None, ae_kind = kind, ae_payload = payload,
      ae_remote_addr = None, ae_recorded_at = ac_now s\<rparr>"

definition with_audit :: "audit_event_kind \<Rightarrow> json \<Rightarrow> 'z auth_state_scheme \<Rightarrow> 'z auth_state_scheme" where
  "with_audit kind payload s =
     s\<lparr>ac_audit := ac_audit s @ [audit_row kind payload s], ac_next_id := Suc (ac_next_id s)\<rparr>"

lemma best_effort_ok:
  "ac_faults s = [] \<Longrightarrow> write_audit_best_effort None kind payload s = (Inr (), with_audit kind payload s)"
  by (simp add: write_audit_best_effort_def audit_create_def acc_call_ok attemptP_def bindP_def with_audit_def
      audit_row_def Let_def)

lemma verify_login_bad:
  assumes "ac_faults s = []" and "bad_credentials svc req s"
  shows "attemptP (verify_login svc
           (find (\<lambda>u. en_lower (sv_env svc) (us_email u) = en_lower (sv_env svc) (lr_email req)) (ac_users s))
           (lr_password req)) s = (Inr (Inl SE_InvalidCredentials), s)"
  using assms
  by (auto simp: bad_credentials_def verify_login_def verify_password_def anti_timing_verify_def repo_def
      passwords_get_for_user_def acc_call_ok prog_simps guardP_def split: option.splits sum.splits)

text \<open>The whole outcome of a login with bad credentials, in closed form.\<close>

definition failed_login_payload :: "string \<Rightarrow> json" where
  "failed_login_payload reason = JObj [(''method'', JStr ''password''), (''reason'', JStr reason)]"

definition failed_login ::
  "auth_routes_config \<Rightarrow> request_headers \<Rightarrow> login_request \<Rightarrow> 'z auth_state_scheme \<Rightarrow> (api_error + 'r) \<times> 'z auth_state_scheme" where
  "failed_login cfg h req s =
     (let key = normalize_login_identifier (lr_email req) in
      case fst (csrf_guard cfg h s) of
        Inl e \<Rightarrow> (Inl e, s)
      | Inr _ \<Rightarrow>
         (case fst (login_validated req s) of
            Inl e \<Rightarrow> (Inl e, s)
          | Inr _ \<Rightarrow>
             (case throttle_check key (ac_now s) (as_throttle s) of
                Throttled _ \<Rightarrow>
                  (Inl (AE_TooManyRequests ''login throttled by failed-attempts policy''),
                   with_audit AK_LoginFailed (failed_login_payload ''throttled'') s)
              | Allowed \<Rightarrow>
                  (Inl (AE_Unauthorized ''invalid credentials''),
                   with_audit AK_LoginFailed (failed_login_payload ''bad_credentials'')
                     (s\<lparr>as_throttle := record_failure key (ac_now s) (as_throttle s)\<rparr>)))))"

lemma csrf_guard_state: "snd (csrf_guard cfg h s) = s"
  by (simp add: csrf_guard_def split: sum.splits)

lemma login_validated_state: "snd (login_validated req s) = s"
  by (simp add: login_validated_def validate_email_def validate_password_len_def bindP_def guardP_def)

lemma login_bad:
  assumes "ac_faults s = []" and "bad_credentials svc req s"
  shows "login svc cfg h req s = failed_login cfg h req s"
proof (cases "fst (csrf_guard cfg h s)")
  case (Inl e)
  then have "csrf_guard cfg h s = (Inl e, s)" using csrf_guard_state by (metis prod.collapse)
  then show ?thesis by (simp add: login_def failed_login_def bindP_def)
next
  case (Inr x)
  then have c: "csrf_guard cfg h s = (Inr x, s)" using csrf_guard_state by (metis prod.collapse)
  show ?thesis
  proof (cases "fst (login_validated req s)")
    case (Inl e)
    then have "login_validated req s = (Inl e, s)" using login_validated_state by (metis prod.collapse)
    with c show ?thesis by (simp add: login_def failed_login_def bindP_def)
  next
    case (Inr y)
    then have v: "login_validated req s = (Inr y, s)" using login_validated_state by (metis prod.collapse)
    let ?found = "find (\<lambda>u. en_lower (sv_env svc) (us_email u) = en_lower (sv_env svc) (lr_email req)) (ac_users s)"
    have g: "via_repo (users_get_by_email (en_lower (sv_env svc)) (lr_email req)) s = (Inr ?found, s)"
      using assms(1) by (simp add: via_repo_def users_get_by_email_def acc_call_ok mapErrP_def)
    have a: "write_audit_best_effort None k p (s\<lparr>as_throttle := lt\<rparr>) = (Inr (), with_audit k p (s\<lparr>as_throttle := lt\<rparr>))" for k p lt
      using assms(1) by (simp add: best_effort_ok)
    show ?thesis
      using c v g
      by (cases "throttle_check (normalize_login_identifier (lr_email req)) (ac_now s) (as_throttle s)")
        (simp_all add: a verify_login_bad [OF assms] best_effort_ok [OF assms(1)] login_def failed_login_def bindP_def now_utc_def Let_def failed_login_payload_def
          api_error_from_service_def reject_login_def)
  qed
qed

text \<open>
  C20. A failed login reveals nothing about the account. Take two systems with the same clock,
  throttler and audit log and the database up, in one of which the email is unknown and in the
  other the password is wrong or missing: the same request gets the same response, leaves the
  same throttler and the same audit log, and changes no user, password or session.
\<close>

theorem failed_login_reveals_nothing:
  assumes "ac_faults s1 = []" and "ac_faults s2 = []"
    and "bad_credentials svc req s1" and "bad_credentials svc req s2"
    and "ac_now s1 = ac_now s2" and "as_throttle s1 = as_throttle s2"
    and "ac_audit s1 = ac_audit s2" and "ac_next_id s1 = ac_next_id s2"
  shows "fst (login svc cfg h req s1) = fst (login svc cfg h req s2)
    \<and> as_throttle (snd (login svc cfg h req s1)) = as_throttle (snd (login svc cfg h req s2))
    \<and> ac_audit (snd (login svc cfg h req s1)) = ac_audit (snd (login svc cfg h req s2))
    \<and> ac_users (snd (login svc cfg h req s1)) = ac_users s1
    \<and> ac_passwords (snd (login svc cfg h req s1)) = ac_passwords s1
    \<and> ac_sessions (snd (login svc cfg h req s1)) = ac_sessions s1"
proof -
  have c: "fst (csrf_guard cfg h s1) = fst (csrf_guard cfg h s2)"
    by (simp add: csrf_guard_def split: sum.splits)
  have v: "fst (login_validated req s1) = fst (login_validated req s2)"
    by (simp add: login_validated_def validate_email_def validate_password_len_def bindP_def guardP_def)
  show ?thesis
    using assms(5-8) c v
    unfolding login_bad [OF assms(1,3)] login_bad [OF assms(2,4)]
    by (simp add: failed_login_def with_audit_def audit_row_def Let_def split: sum.split throttle_decision.split)
qed

theorem failed_login_reveals_nothing_witness:
  "fst (login demo_service demo_routes (demo_headers []) \<lparr>lr_email = ''eve@relay'', lr_password = ''wrong password''\<rparr>
          (demo_state\<lparr>ac_users := []\<rparr>))
   = fst (login demo_service demo_routes (demo_headers []) \<lparr>lr_email = ''eve@relay'', lr_password = ''wrong password''\<rparr>
          (demo_state\<lparr>ac_users := map (\<lambda>u. u\<lparr>us_email := ''Eve@relay''\<rparr>) (ac_users demo_state)\<rparr>))"
proof -
  let ?req = "\<lparr>lr_email = ''eve@relay'', lr_password = ''wrong password''\<rparr>"
  let ?s1 = "demo_state\<lparr>ac_users := []\<rparr>"
  let ?s2 = "demo_state\<lparr>ac_users := map (\<lambda>u. u\<lparr>us_email := ''Eve@relay''\<rparr>) (ac_users demo_state)\<rparr>"
  have "bad_credentials demo_service ?req ?s1" by code_simp
  moreover have "bad_credentials demo_service ?req ?s2" by code_simp
  moreover have "ac_faults demo_state = []" by code_simp
  ultimately show ?thesis by (subst failed_login_reveals_nothing [of _ ?s2]) simp_all
qed

section \<open>Successful logins\<close>

text \<open>Base64 of a non-empty string is non-empty text of the URL-safe alphabet; a draw has its length.\<close>

definition token_laws :: "auth_env \<Rightarrow> bool" where
  "token_laws env \<longleftrightarrow>
     (\<forall>b. b \<noteq> [] \<longrightarrow> en_base64 env b \<noteq> []
        \<and> list_all (\<lambda>c. is_ascii_alphanumeric c \<or> c = CHR ''-'' \<or> c = CHR ''_'') (en_base64 env b))
     \<and> (\<forall>i n. length (en_random env i n) = n)"

lemma trim_id:
  assumes "xs \<noteq> []" and "\<not> is_whitespace (hd xs)" and "\<not> is_whitespace (last xs)"
  shows "trim xs = xs"
proof -
  have "dropWhile is_whitespace xs = xs" using assms(1,2) by (cases xs) simp_all
  moreover have "dropWhile is_whitespace (rev xs) = rev xs"
    using assms(1,3) by (cases "rev xs") (simp_all add: last_rev [of "rev xs", simplified] hd_rev)
  ultimately show ?thesis by (simp add: trim_def)
qed

lemma url_safe_char:
  assumes "is_ascii_alphanumeric c \<or> c = CHR ''-'' \<or> c = CHR ''_''"
  shows "c \<noteq> CHR '';'' \<and> \<not> is_whitespace c"
  using assms by (auto simp: is_ascii_alphanumeric_def is_ascii_alphabetic_def is_whitespace_def scalar_def Let_def)

lemma cookie_roundtrip:
  assumes "token \<noteq> []" and "list_all (\<lambda>c. is_ascii_alphanumeric c \<or> c = CHR ''-'' \<or> c = CHR ''_'') token"
    and "hd_cookie h = Some (Some (SESSION_COOKIE_NAME @ CHR ''='' # token))"
  shows "extract_session_cookie h = Some token"
proof -
  let ?raw = "SESSION_COOKIE_NAME @ CHR ''='' # token"
  have safe: "c \<noteq> CHR '';'' \<and> \<not> is_whitespace c" if "c \<in> set token" for c
    using assms(2) that url_safe_char by (auto simp: list_all_iff)
  have "CHR '';'' \<notin> set SESSION_COOKIE_NAME" by code_simp
  then have "CHR '';'' \<notin> set ?raw" using safe by auto
  then have "split_on CHR '';'' ?raw = [?raw]" by (rule split_on_no_sep)
  moreover have "trim ?raw = ?raw"
  proof (rule trim_id)
    have "\<not> is_whitespace (hd SESSION_COOKIE_NAME)" "SESSION_COOKIE_NAME \<noteq> []" by code_simp+
    then show "\<not> is_whitespace (hd ?raw)" by simp
    show "\<not> is_whitespace (last ?raw)" using assms(1) safe by simp
  qed simp
  moreover have "CHR ''='' \<notin> set SESSION_COOKIE_NAME" by code_simp
  then have "split_once CHR ''='' ?raw = Some (SESSION_COOKIE_NAME, token)" by (rule split_once_append)
  ultimately show ?thesis using assms(1,3) by (simp add: extract_session_cookie_def)
qed

lemma csrf_guard_Inr: "csrf_guard cfg h s = (Inr x, t) \<Longrightarrow> t = s"
  using csrf_guard_state [of cfg h s] by simp

lemma login_validated_Inr: "login_validated req s = (Inr x, t) \<Longrightarrow> t = s"
  using login_validated_state [of req s] by simp

lemma verify_login_Inr:
  assumes "verify_login svc found pw s = (Inr x, t)"
  shows "found \<noteq> None \<and> ac_users t = ac_users s \<and> ac_sessions t = ac_sessions s"
proof (cases found)
  case None
  then show ?thesis using assms by (simp add: verify_login_def anti_timing_verify_def bindP_def Let_def)
next
  case (Some u)
  obtain row where "passwords_get_for_user (us_id u) s = (Inr row, t)"
    using assms Some by (auto simp: verify_login_def verify_password_def repo_def Inr_iffs split: option.splits)
  from acc_read_Inr [OF this [unfolded passwords_get_for_user_def]] Some show ?thesis by auto
qed

lemma user_sessions_create_Inr:
  assumes "user_sessions_create uid hash expires s = (Inr r, t)"
  shows "\<not> list_ex (\<lambda>r. ws_token_hash r = hash) (ac_sessions s) \<and> ac_sessions t = ac_sessions s @ [r]
    \<and> ws_user_id r = uid \<and> ws_token_hash r = hash \<and> ws_expires_at r = expires \<and> ws_revoked_at r = None
    \<and> ac_users t = ac_users s"
  using assms
  by (auto simp: user_sessions_create_def acc_call_def Let_def split: list.splits option.splits if_splits)

lemma touch_login_frame:
  assumes "users_touch_last_login uid at s = (x, t)"
  shows "ac_sessions t = ac_sessions s \<and> (\<exists>g. ac_users t = map g (ac_users s) \<and> (\<forall>u. user_evolves u (g u)))"
proof -
  let ?g = "\<lambda>r. if us_id r = uid then r\<lparr>us_last_login_at := Some at\<rparr> else r"
  have "\<forall>u. user_evolves u (?g u)" "\<forall>u. user_evolves u u" by (simp_all add: user_evolves_def)
  moreover have "ac_sessions t = ac_sessions s \<and> (ac_users t = ac_users s \<or> ac_users t = map ?g (ac_users s))"
    using assms by (auto simp: users_touch_last_login_def acc_call_def split: list.splits option.splits if_splits)
  ultimately show ?thesis
    by (elim conjE disjE) (auto intro: exI [of _ ?g] exI [of _ "\<lambda>u. u"])
qed

lemma create_user_session_Inr:
  assumes "create_user_session svc uid ttl now s = (Inr created, t)"
  shows "\<exists>i. cn_token created = en_base64 (sv_env svc) (en_random (sv_env svc) i 32)
    \<and> \<not> list_ex (\<lambda>r. ws_token_hash r = hash_session_token (sv_env svc) (cn_token created)) (ac_sessions s)
    \<and> ac_sessions t = ac_sessions s @ [cn_session created] \<and> ws_user_id (cn_session created) = uid
    \<and> ws_token_hash (cn_session created) = hash_session_token (sv_env svc) (cn_token created)
    \<and> ws_expires_at (cn_session created) = now + ttl \<and> ws_revoked_at (cn_session created) = None
    \<and> ac_users t = ac_users s"
proof -
  obtain token session u where tok: "token = en_base64 (sv_env svc) (en_random (sv_env svc) (as_draws s) 32)"
    and u: "u = s\<lparr>as_draws := Suc (as_draws s)\<rparr>"
    and c: "user_sessions_create uid (hash_session_token (sv_env svc) token) (now + ttl) u = (Inr session, t)"
    and created: "created = \<lparr>cn_token = token, cn_session = session\<rparr>"
    using assms by (auto simp: create_user_session_def token_generate_def fill_bytes_def SESSION_TOKEN_BYTES_def
        repo_def Inr_iffs)
  from user_sessions_create_Inr [OF c] show ?thesis unfolding created tok u by auto
qed

text \<open>A successful login, taken apart.\<close>

lemma login_Inr:
  assumes "login svc cfg h req s = (Inr resp, t)"
  obtains user and created :: created_session and i g where
    "find (\<lambda>u. en_lower (sv_env svc) (us_email u) = en_lower (sv_env svc) (lr_email req)) (ac_users s) = Some user"
    "rp_set_cookie resp = Some (build_session_cookie (cn_token created) cfg)"
    "cn_token created = en_base64 (sv_env svc) (en_random (sv_env svc) i 32)"
    "\<not> list_ex (\<lambda>r. ws_token_hash r = hash_session_token (sv_env svc) (cn_token created)) (ac_sessions s)"
    "ac_sessions t = ac_sessions s @ [cn_session created]" "ws_user_id (cn_session created) = us_id user"
    "ws_token_hash (cn_session created) = hash_session_token (sv_env svc) (cn_token created)"
    "ws_expires_at (cn_session created) = ac_now s + SESSION_TTL" "ws_revoked_at (cn_session created) = None"
    "ac_users t = map g (ac_users s)" "\<forall>u. user_evolves u (g u)"
proof -
  let ?key = "normalize_login_identifier (lr_email req)"
  have "throttle_check ?key (ac_now s) (as_throttle s) = Allowed"
    using assms unfolding login_def now_utc_def Let_def bindP_Inr_iff
    by (cases "throttle_check ?key (ac_now s) (as_throttle s)")
      (auto dest!: csrf_guard_Inr login_validated_Inr simp: bindP_Inr_iff)
  then obtain found r s1 s2 where
      g: "users_get_by_email (en_lower (sv_env svc)) (lr_email req) s = (Inr found, s1)"
    and v0: "verify_login svc found (lr_password req) s1 = (r, s2)"
    and k: "(case (r, found) of (Inl err, _) \<Rightarrow> reject_login ?key (ac_now s) err
         | (Inr _, None) \<Rightarrow> raiseP (AE_Internal ''panic: user present after verify_password ok'')
         | (Inr _, Some user) \<Rightarrow> finish_login svc cfg ?key (ac_now s) user) s2 = (Inr resp, t)"
    using assms unfolding login_def now_utc_def via_repo_def Let_def
    by (auto dest!: csrf_guard_Inr login_validated_Inr simp: Inr_iffs)
  have "r = Inr ()" using k by (cases r) (auto simp: reject_login_def bindP_Inr_iff)
  then obtain user where v: "verify_login svc found (lr_password req) s1 = (Inr (), s2)" and found: "found = Some user"
    and f: "finish_login svc cfg ?key (ac_now s) user s2 = (Inr resp, t)"
    using v0 k by (cases found) auto
  obtain created s3 x s4 a k p where
      c: "create_user_session svc (us_id user) SESSION_TTL (ac_now s)
              (s2\<lparr>as_throttle := record_success ?key (as_throttle s2)\<rparr>) = (Inr created, s3)"
    and tl: "users_touch_last_login (us_id user) (ac_now s) s3 = (x, s4)"
    and au: "audit_create (Some (us_id user)) k p None s4 = (Inr a, t)"
    and resp: "rp_set_cookie resp = Some (build_session_cookie (cn_token created) cfg)"
    using f unfolding finish_login_def via_service_def via_repo_def by (auto simp: Inr_iffs)
  have s1: "ac_users s1 = ac_users s" "ac_sessions s1 = ac_sessions s"
    "found = find (\<lambda>u. en_lower (sv_env svc) (us_email u) = en_lower (sv_env svc) (lr_email req)) (ac_users s)"
    using acc_read_Inr [OF g [unfolded users_get_by_email_def]] by auto
  note s2 = verify_login_Inr [OF v] and s3 = create_user_session_Inr [OF c] and s4 = touch_login_frame [OF tl]
  note t = audit_create_frame [OF au]
  from s1 s2 s3 s4 t found resp show thesis by (auto intro!: that [of user created])
qed

lemma user_row_evolves:
  assumes "users_wf lower n (ac_users s)" and "u \<in> set (ac_users s)"
    and "ac_users t = map g (ac_users s)" and "\<forall>u. user_evolves u (g u)"
  shows "user_row t (us_id u) = Some (g u)"
proof -
  have "user_row s (us_id u) = Some u"
    using assms(1,2) by (simp add: user_row_def users_wf_def find_key_distinct)
  then show ?thesis
    using assms(3,4) find_map_same_key [of us_id g "us_id u" "ac_users s"] by (simp add: user_row_def user_evolves_def)
qed

text \<open>
  C24. A successful login works. The cookie set by the response carries a token such that a
  browser that sends it back is authenticated as the user of that email at every time before
  the session's expiry thirty days later, as soon as the database answers.
\<close>

theorem login_cookie_authenticates:
  assumes "login svc cfg h req s = (Inr resp, t)" and "account_wf (en_lower (sv_env svc)) s"
    and "token_laws (sv_env svc)" and "now < ac_now s + SESSION_TTL"
  shows "\<exists>token. rp_set_cookie resp = Some (build_session_cookie token cfg)
    \<and> (\<forall>h'. hd_cookie h' = Some (Some (SESSION_COOKIE_NAME @ CHR ''='' # token)) \<longrightarrow>
         (\<exists>u t'. authenticate svc h' (t\<lparr>ac_now := now, ac_faults := []\<rparr>) = (Inr u, t')
            \<and> en_lower (sv_env svc) (us_email (au_user u)) = en_lower (sv_env svc) (lr_email req)))"
proof -
  obtain user and created :: created_session and i g where
      found: "find (\<lambda>u. en_lower (sv_env svc) (us_email u) = en_lower (sv_env svc) (lr_email req)) (ac_users s) = Some user"
    and cookie: "rp_set_cookie resp = Some (build_session_cookie (cn_token created) cfg)"
    and tok: "cn_token created = en_base64 (sv_env svc) (en_random (sv_env svc) i 32)"
    and fresh: "\<not> list_ex (\<lambda>r. ws_token_hash r = hash_session_token (sv_env svc) (cn_token created)) (ac_sessions s)"
    and rows: "ac_sessions t = ac_sessions s @ [cn_session created]"
    and row: "ws_user_id (cn_session created) = us_id user"
      "ws_token_hash (cn_session created) = hash_session_token (sv_env svc) (cn_token created)"
      "ws_expires_at (cn_session created) = ac_now s + SESSION_TTL" "ws_revoked_at (cn_session created) = None"
    and users: "ac_users t = map g (ac_users s)" "\<forall>u. user_evolves u (g u)"
    using assms(1) by (rule login_Inr)
  let ?t = "t\<lparr>ac_now := now, ac_faults := []\<rparr>"
  have user: "user \<in> set (ac_users s)" "en_lower (sv_env svc) (us_email user) = en_lower (sv_env svc) (lr_email req)"
    using find_SomeD [OF found] by simp_all
  have "user_row ?t (us_id user) = Some (g user)"
    using user_row_evolves [of "en_lower (sv_env svc)" "ac_next_id s" s user ?t g] assms(2) user(1) users
    by (simp add: account_wf_def)
  moreover have "session_of_token svc (cn_token created) ?t = Some (cn_session created)"
  proof -
    have "find (\<lambda>r. ws_token_hash r = hash_session_token (sv_env svc) (cn_token created)) (ac_sessions s) = None"
      using fresh by (simp add: find_None_iff list_ex_iff)
    then show ?thesis using rows row(2) by (simp add: session_of_token_def find_snoc)
  qed
  moreover have "is_active_at (ac_now ?t) (cn_session created)"
    using row assms(4) by (simp add: is_active_at_def is_expired_at_def is_revoked_def)
  moreover have "extract_session_cookie h' = Some (cn_token created)"
    if "hd_cookie h' = Some (Some (SESSION_COOKIE_NAME @ CHR ''='' # cn_token created))" for h'
  proof (rule cookie_roundtrip [OF _ _ that])
    have "en_random (sv_env svc) i 32 \<noteq> []" using assms(3) unfolding token_laws_def by (metis list.size(3) zero_neq_numeral)
    with assms(3) tok show "cn_token created \<noteq> []"
      "list_all (\<lambda>c. is_ascii_alphanumeric c \<or> c = CHR ''-'' \<or> c = CHR ''_'') (cn_token created)"
      by (simp_all add: token_laws_def)
  qed
  moreover have "en_lower (sv_env svc) (us_email (g user)) = en_lower (sv_env svc) (lr_email req)"
    using user(2) users(2) by (simp add: user_evolves_def)
  ultimately have "\<exists>u t'. authenticate svc h' ?t = (Inr u, t')
      \<and> en_lower (sv_env svc) (us_email (au_user u)) = en_lower (sv_env svc) (lr_email req)"
    if "hd_cookie h' = Some (Some (SESSION_COOKIE_NAME @ CHR ''='' # cn_token created))" for h'
    using that authenticate_ok [of ?t h' "cn_token created" svc "cn_session created" "g user"] row(1) by fastforce
  with cookie show ?thesis by blast
qed

theorem login_cookie_authenticates_witness:
  "\<exists>resp t. login demo_service demo_routes (demo_headers []) (demo_login ''ANN@relay'') demo_state = (Inr resp, t)
     \<and> (\<exists>token. rp_set_cookie resp = Some (build_session_cookie token demo_routes)
          \<and> (\<exists>u t'. authenticate demo_service (demo_headers (SESSION_COOKIE_NAME @ CHR ''='' # token))
                (t\<lparr>ac_now := 1000, ac_faults := []\<rparr>) = (Inr u, t')))"
proof -
  let ?run = "login demo_service demo_routes (demo_headers []) (demo_login ''ANN@relay'') demo_state"
  have "case fst ?run of Inr _ \<Rightarrow> True | Inl _ \<Rightarrow> False" by code_simp
  then obtain resp t where run: "?run = (Inr resp, t)" by (cases ?run; cases "fst ?run") auto
  have wf: "account_wf (en_lower (sv_env demo_service)) demo_state" by code_simp
  have digit: "is_ascii_alphanumeric (char_of (n + 48 :: nat))" if "n < 10" for n
    using that by (auto simp: is_ascii_alphanumeric_def is_ascii_alphabetic_def scalar_def Let_def)
  have num: "list_all is_ascii_alphanumeric (show_nat n)" for n
    by (induction n rule: show_nat.induct, subst show_nat.simps) (auto simp: digit)
  have laws: "token_laws (sv_env demo_service)"
    using num by (auto simp: token_laws_def demo_service_def demo_env_def list_all_iff is_ascii_alphanumeric_def
        is_ascii_alphabetic_def scalar_def Let_def)
  have "1000 < ac_now demo_state + SESSION_TTL" by code_simp
  note ok = login_cookie_authenticates [OF run wf laws this]
  have "hd_cookie (demo_headers c) = Some (Some c)" for c by (simp add: demo_headers_def)
  with ok run show ?thesis by blast
qed

section \<open>Departures from the documentation\<close>

text \<open>
  Logout under a database failure: the digest lookup fails, the handler answers 204 and clears
  the cookie in the browser, and the session stays live on the server. The comment on that
  branch lists only unknown, expired and revoked sessions.
\<close>

theorem failed_logout_reports_success:
  "let s = demo_state\<lparr>ac_faults := [Some (RE_Database ''connection lost'')]\<rparr>;
       (r, t) = logout demo_service demo_routes (demo_headers ''relayterm_session=tok2'') s
   in r = Inr (no_content_with_cookie (build_clear_cookie demo_routes))
      \<and> list_ex (\<lambda>w. ws_id w = 4 \<and> is_active_at (ac_now t) w) (ac_sessions t)"
  by code_simp

text \<open>
  A failure of the password table tells known from unknown emails: with the same request and the
  same failures the unknown email is answered 401 and the known one 500, although the comment on
  that branch says every failure there is answered as bad credentials.
\<close>

theorem password_table_fault_is_a_probe:
  "let status = (\<lambda>s. case fst (login demo_service demo_routes (demo_headers []) (demo_login ''ann@relay'')
                       (s\<lparr>ac_faults := [None, Some (RE_Database ''timeout'')]\<rparr>)) of
                     Inl e \<Rightarrow> er_status (into_response e) | Inr resp \<Rightarrow> rp_status resp)
   in status (demo_state\<lparr>ac_users := []\<rparr>) = 401 \<and> status demo_state = 500"
  by code_simp

text \<open>
  A bootstrap that fails after the user row is written cannot be repeated: the same request is
  refused for its email ever after, although no account exists that could log in.
\<close>

theorem interrupted_bootstrap_cannot_be_repeated:
  "let req = \<lparr>br_bootstrap_token = ''boot'', br_email = ''bob@relay'', br_display_name = ''Bob'',
              br_password = ''correct horse''\<rparr>;
       s = demo_state\<lparr>ac_users := [], ac_passwords := [], ac_sessions := [],
              ac_faults := [None, None, Some (RE_Database ''timeout'')]\<rparr>;
       t = snd (bootstrap demo_service demo_routes (demo_headers []) req s)
   in ac_passwords t = []
      \<and> fst (bootstrap demo_service demo_routes (demo_headers []) req (t\<lparr>ac_faults := []\<rparr>))
          = Inl (AE_Conflict ''user'' None)"
  by code_simp

text \<open>
  Addresses need not be ASCII: the validation accepts two spellings with different throttle keys
  that a locale-aware \<open>LOWER\<close> identifies, so a guesser gets a fresh set of attempts per spelling.
  The comment on the throttle key says the validation admits ASCII only.
\<close>

theorem throttle_key_is_not_one_per_account:
  "\<exists>(lower :: string \<Rightarrow> string) a b. email_ok a \<and> email_ok b \<and> lower a = lower b
     \<and> normalize_login_identifier a \<noteq> normalize_login_identifier b"
  by (rule exI [of _ "map (\<lambda>c. if c = char_of (201 :: nat) then char_of (233 :: nat) else c)"],
      rule exI [of _ "char_of (201 :: nat) # ''va@relay''"], rule exI [of _ "char_of (233 :: nat) # ''va@relay''"]) code_simp

end
