(* ===== verification/Recording_Store.thy ===== *)
theory Recording_Store
  imports Auth_Service Recording_Writer
begin

text \<open>
  The repository of recorded sessions, \<^verbatim>\<open>relayterm-db/src/repositories/terminal_recording.rs\<close>, with
  the rows of \<^verbatim>\<open>relayterm-core/src/terminal_recording.rs\<close>. The constraints an insert can violate are
  those of the two tables; check constraints come first, then unique indexes, then foreign keys.
  Adding a number of days to a stored instant depends on the server's time zone, so that is a
  parameter of the statements that do it. A transaction takes one entry of the fault list: a
  failed statement rolls all of it back.
\<close>

section \<open>Rows\<close>

datatype payload_encryption = ENC_None

primrec encryption_as_str :: "payload_encryption \<Rightarrow> string" where
  "encryption_as_str ENC_None = ''none''"

definition encryption_from_str_tag :: "string \<Rightarrow> payload_encryption option" where
  "encryption_from_str_tag v = (if v = ''none'' then Some ENC_None else None)"

datatype payload_compression = CMP_None

primrec compression_as_str :: "payload_compression \<Rightarrow> string" where
  "compression_as_str CMP_None = ''none''"

definition compression_from_str_tag :: "string \<Rightarrow> payload_compression option" where
  "compression_from_str_tag v = (if v = ''none'' then Some CMP_None else None)"

record terminal_recording_chunk = recording_chunk +
  ck_id :: nat
  ck_encryption :: payload_encryption
  ck_compression :: payload_compression
  ck_created_at :: instant

record terminal_recording_marker = recording_marker +
  mr_id :: nat
  mr_created_at :: instant

record terminal_recording_metadata =
  md_session :: terminal_session_id
  md_chunk_count :: int
  md_marker_count :: int
  md_first_seq :: "int option"
  md_last_seq :: "int option"
  md_first_recorded_at :: "instant option"
  md_last_recorded_at :: "instant option"

definition metadata_empty :: "terminal_session_id \<Rightarrow> terminal_recording_metadata" where
  "metadata_empty sid =
     \<lparr>md_session = sid, md_chunk_count = 0, md_marker_count = 0, md_first_seq = None,
      md_last_seq = None, md_first_recorded_at = None, md_last_recorded_at = None\<rparr>"

definition metadata_has_recording :: "terminal_recording_metadata \<Rightarrow> bool" where
  "metadata_has_recording m = (md_chunk_count m > 0 \<or> md_marker_count m > 0)"

record purged_recording_summary =
  pu_session :: terminal_session_id
  pu_chunk_count :: int
  pu_marker_count :: int
  pu_bytes_purged :: int
  pu_closed_at :: instant
  pu_purged_at :: instant

section \<open>Tables\<close>

record recording_db = auth_state +
  rd_sessions :: "terminal_session list"
  rd_chunks :: "terminal_recording_chunk list"
  rd_markers :: "terminal_recording_marker list"

type_synonym ('z, 'a) rec = "('z recording_db_scheme, repository_error, 'a) prog"

definition recorded_session :: "'z recording_db_scheme \<Rightarrow> terminal_session_id \<Rightarrow> terminal_session option" where
  "recorded_session s sid = find (\<lambda>r. ts_id r = sid) (rd_sessions s)"

definition chunks_of :: "terminal_session_id \<Rightarrow> 'z recording_db_scheme \<Rightarrow> terminal_recording_chunk list" where
  "chunks_of sid s = filter (\<lambda>c. ck_session c = sid) (rd_chunks s)"

definition markers_of :: "terminal_session_id \<Rightarrow> 'z recording_db_scheme \<Rightarrow> terminal_recording_marker list" where
  "markers_of sid s = filter (\<lambda>m. mr_session m = sid) (rd_markers s)"

section \<open>Appending\<close>

definition chunk_constraint :: "recording_chunk \<Rightarrow> string option" where
  "chunk_constraint c =
     (if \<not> (ck_byte_len c > 0 \<and> ck_byte_len c \<le> 2097152) then Some ''terminal_recording_chunks_byte_len_chk''
      else if int (length (ck_payload c)) \<noteq> ck_byte_len c then Some ''terminal_recording_chunks_payload_len_chk''
      else if \<not> ck_seq_end c \<ge> ck_seq_start c then Some ''terminal_recording_chunks_seq_end_chk''
      else if \<not> ck_seq_start c \<ge> 1 then Some ''terminal_recording_chunks_seq_start_chk''
      else None)"

definition recordings_append_chunk ::
  "recording_chunk \<Rightarrow> payload_encryption \<Rightarrow> payload_compression \<Rightarrow> ('z, terminal_recording_chunk) rec" where
  "recordings_append_chunk input encryption compression = acc_call (\<lambda>s.
     case chunk_constraint input of
       Some c \<Rightarrow> (Inl (check_failed ''terminal_recording_chunk'' c), s)
     | None \<Rightarrow>
         if list_ex (\<lambda>c. ck_session c = ck_session input \<and> ck_seq_start c = ck_seq_start input) (rd_chunks s)
         then (Inl (RE_Conflict ''terminal_recording_chunk'' ''terminal_recording_chunks_session_seq_start_uq''), s)
         else if recorded_session s (ck_session input) = None
         then (Inl (RE_Conflict ''terminal_recording_chunk'' ''terminal_recording_chunks_terminal_session_id_fkey''), s)
         else let row = \<lparr>ck_session = ck_session input, ck_seq_start = ck_seq_start input,
                         ck_seq_end = ck_seq_end input, ck_byte_len = ck_byte_len input,
                         ck_payload = ck_payload input, ck_id = ac_next_id s, ck_encryption = encryption,
                         ck_compression = compression, ck_created_at = ac_now s\<rparr>
              in (Inr row, s\<lparr>rd_chunks := rd_chunks s @ [row], ac_next_id := Suc (ac_next_id s)\<rparr>))"

definition json_is_object :: "json \<Rightarrow> bool" where
  "json_is_object j = (case j of JObj _ \<Rightarrow> True | _ \<Rightarrow> False)"

definition marker_constraint :: "recording_marker \<Rightarrow> string option" where
  "marker_constraint m =
     (if \<not> json_is_object (mr_payload m) then Some ''terminal_recording_markers_payload_object_chk''
      else if \<not> mr_seq m \<ge> 0 then Some ''terminal_recording_markers_seq_chk''
      else if \<not> (mr_kind m = MK_Started \<or> mr_seq m \<ge> 1) then Some ''terminal_recording_markers_started_seq_chk''
      else None)"

definition recordings_append_marker :: "recording_marker \<Rightarrow> ('z, terminal_recording_marker) rec" where
  "recordings_append_marker input = acc_call (\<lambda>s.
     case marker_constraint input of
       Some c \<Rightarrow> (Inl (check_failed ''terminal_recording_marker'' c), s)
     | None \<Rightarrow>
         if mr_kind input = MK_Closed \<and>
            list_ex (\<lambda>m. mr_session m = mr_session input \<and> mr_seq m = mr_seq input \<and> mr_kind m = MK_Closed) (rd_markers s)
         then (Inl (RE_Conflict ''terminal_recording_marker'' ''terminal_recording_markers_session_closed_seq_uidx''), s)
         else if recorded_session s (mr_session input) = None
         then (Inl (RE_Conflict ''terminal_recording_marker'' ''terminal_recording_markers_terminal_session_id_fkey''), s)
         else let row = \<lparr>mr_session = mr_session input, mr_kind = mr_kind input, mr_seq = mr_seq input,
                         mr_payload = mr_payload input, mr_id = ac_next_id s, mr_created_at = ac_now s\<rparr>
              in (Inr row, s\<lparr>rd_markers := rd_markers s @ [row], ac_next_id := Suc (ac_next_id s)\<rparr>))"

section \<open>Reading\<close>

definition LIST_LIMIT_CEILING :: nat where
  "LIST_LIMIT_CEILING = 1024"

definition clamp :: "nat \<Rightarrow> nat \<Rightarrow> nat \<Rightarrow> nat" where
  "clamp lo hi n = (if n < lo then lo else if n > hi then hi else n)"

definition repo_clamp_limit :: "nat \<Rightarrow> nat" where
  "repo_clamp_limit limit = clamp 1 LIST_LIMIT_CEILING limit"

definition recordings_list_chunks ::
  "terminal_session_id \<Rightarrow> int \<Rightarrow> nat \<Rightarrow> ('z, terminal_recording_chunk list) rec" where
  "recordings_list_chunks sid from_seq limit = acc_call (\<lambda>s.
     (Inr (take (repo_clamp_limit limit)
             (sort_key ck_seq_start (filter (\<lambda>c. ck_seq_start c \<ge> from_seq) (chunks_of sid s)))), s))"

text \<open>\<open>ORDER BY seq ASC, created_at ASC\<close>.\<close>

definition recordings_list_markers ::
  "terminal_session_id \<Rightarrow> int \<Rightarrow> nat \<Rightarrow> ('z, terminal_recording_marker list) rec" where
  "recordings_list_markers sid from_seq limit = acc_call (\<lambda>s.
     (Inr (take (repo_clamp_limit limit)
             (sort_key mr_seq (sort_key mr_created_at (filter (\<lambda>m. mr_seq m \<ge> from_seq) (markers_of sid s))))), s))"

text \<open>SQL aggregates over no rows are \<open>NULL\<close>.\<close>

definition sql_min :: "int list \<Rightarrow> int option" where
  "sql_min xs = (case xs of [] \<Rightarrow> None | y # ys \<Rightarrow> Some (foldl min y ys))"

definition sql_max :: "int list \<Rightarrow> int option" where
  "sql_max xs = (case xs of [] \<Rightarrow> None | y # ys \<Rightarrow> Some (foldl max y ys))"

definition min_opt :: "int option \<Rightarrow> int option \<Rightarrow> int option" where
  "min_opt a b = (case (a, b) of (Some x, Some y) \<Rightarrow> Some (min x y) | (Some x, None) \<Rightarrow> Some x
     | (None, Some y) \<Rightarrow> Some y | (None, None) \<Rightarrow> None)"

definition max_opt :: "int option \<Rightarrow> int option \<Rightarrow> int option" where
  "max_opt a b = (case (a, b) of (Some x, Some y) \<Rightarrow> Some (max x y) | (Some x, None) \<Rightarrow> Some x
     | (None, Some y) \<Rightarrow> Some y | (None, None) \<Rightarrow> None)"

text \<open>Two statements, so two calls.\<close>

definition recordings_get_metadata :: "terminal_session_id \<Rightarrow> ('z, terminal_recording_metadata) rec" where
  "recordings_get_metadata sid =
     bindP (acc_call (\<lambda>s. (Inr (chunks_of sid s), s))) (\<lambda>cs.
     bindP (acc_call (\<lambda>s. (Inr (markers_of sid s), s))) (\<lambda>ms.
     retP \<lparr>md_session = sid, md_chunk_count = int (length cs), md_marker_count = int (length ms),
           md_first_seq = sql_min (map ck_seq_start cs), md_last_seq = sql_max (map ck_seq_end cs),
           md_first_recorded_at = min_opt (sql_min (map ck_created_at cs)) (sql_min (map mr_created_at ms)),
           md_last_recorded_at = max_opt (sql_max (map ck_created_at cs)) (sql_max (map mr_created_at ms))\<rparr>))"

section \<open>Retention\<close>

type_synonym day_shift = "nat \<Rightarrow> instant \<Rightarrow> instant"

definition retention_expired :: "day_shift \<Rightarrow> nat \<Rightarrow> instant \<Rightarrow> terminal_session \<Rightarrow> bool" where
  "retention_expired add_days days now r =
     (case ts_closed_at r of None \<Rightarrow> False | Some closed_at \<Rightarrow> add_days days closed_at \<le> now)"

definition is_recorded :: "'z recording_db_scheme \<Rightarrow> terminal_session_id \<Rightarrow> bool" where
  "is_recorded s sid \<longleftrightarrow>
     list_ex (\<lambda>c. ck_session c = sid) (rd_chunks s) \<or> list_ex (\<lambda>m. mr_session m = sid) (rd_markers s)"

text \<open>The rows the listing selects, oldest close first.\<close>

definition closed_stamp :: "terminal_session \<Rightarrow> instant" where
  "closed_stamp r = (case ts_closed_at r of None \<Rightarrow> 0 | Some t \<Rightarrow> t)"

definition eligible :: "day_shift \<Rightarrow> nat \<Rightarrow> instant \<Rightarrow> 'z recording_db_scheme \<Rightarrow> terminal_session list" where
  "eligible add_days days now s =
     sort_key closed_stamp (filter (\<lambda>r. retention_expired add_days days now r \<and> is_recorded s (ts_id r)) (rd_sessions s))"

definition days_out_of_range :: "nat \<Rightarrow> repository_error" where
  "days_out_of_range days =
     RE_Validation ''retention_days'' (''retention_days '' @ show_nat days @ '' exceeds i32::MAX'')"

definition recordings_list_eligible ::
  "day_shift \<Rightarrow> nat \<Rightarrow> instant \<Rightarrow> nat \<Rightarrow> ('z, terminal_session_id list) rec" where
  "recordings_list_eligible add_days days now limit =
     bindP (okOrP (i32_try_from days) (days_out_of_range days)) (\<lambda>_.
     acc_call (\<lambda>s. (Inr (take (max limit 1) (map ts_id (eligible add_days days now s))), s)))"

definition purge_payload :: "terminal_session_id \<Rightarrow> nat \<Rightarrow> purged_recording_summary \<Rightarrow> json" where
  "purge_payload sid days p =
     JObj [(''target_kind'', JStr ''terminal_session''), (''target_id'', JNum (int sid)),
           (''chunk_count'', JNum (pu_chunk_count p)), (''marker_count'', JNum (pu_marker_count p)),
           (''bytes_purged'', JNum (pu_bytes_purged p)), (''retention_days'', JNum (int days)),
           (''closed_at'', JNum (pu_closed_at p)), (''purged_at'', JNum (pu_purged_at p)),
           (''reason'', JStr ''retention_expired'')]"

definition purge_summary :: "terminal_session_id \<Rightarrow> instant \<Rightarrow> instant \<Rightarrow> 'z recording_db_scheme \<Rightarrow> purged_recording_summary" where
  "purge_summary sid closed_at now s =
     \<lparr>pu_session = sid, pu_chunk_count = int (length (chunks_of sid s)),
      pu_marker_count = int (length (markers_of sid s)),
      pu_bytes_purged = sum_list (map ck_byte_len (chunks_of sid s)),
      pu_closed_at = closed_at, pu_purged_at = now\<rparr>"

definition purge_audit :: "nat \<Rightarrow> nat \<Rightarrow> purged_recording_summary \<Rightarrow> audit_event" where
  "purge_audit aid days p =
     \<lparr>ae_id = aid, ae_actor_id = None, ae_kind = AK_RecordingPurged,
      ae_payload = purge_payload (pu_session p) days p, ae_remote_addr = None, ae_recorded_at = pu_purged_at p\<rparr>"

text \<open>The locked row of the transaction: closed, and past the policy.\<close>

definition purge_candidate :: "day_shift \<Rightarrow> nat \<Rightarrow> instant \<Rightarrow> terminal_session_id \<Rightarrow> 'z recording_db_scheme \<Rightarrow> terminal_session option" where
  "purge_candidate add_days days now sid s = find (\<lambda>r. ts_id r = sid \<and> retention_expired add_days days now r) (rd_sessions s)"

definition purge_transaction ::
  "day_shift \<Rightarrow> terminal_session_id \<Rightarrow> nat \<Rightarrow> instant \<Rightarrow> ('z, purged_recording_summary option) rec" where
  "purge_transaction add_days sid days now = (\<lambda>s.
     case purge_candidate add_days days now sid s of
       None \<Rightarrow> (Inr None, s)
     | Some r \<Rightarrow>
         let p = purge_summary sid (closed_stamp r) now s in
         if pu_chunk_count p = 0 \<and> pu_marker_count p = 0 then (Inr None, s)
         else
           let s1 = s\<lparr>rd_markers := filter (\<lambda>m. mr_session m \<noteq> sid) (rd_markers s)\<rparr>;
               s2 = s1\<lparr>rd_chunks := filter (\<lambda>c. ck_session c \<noteq> sid) (rd_chunks s1)\<rparr>;
               s3 = s2\<lparr>ac_audit := ac_audit s2 @ [purge_audit (ac_next_id s2) days p],
                       ac_next_id := Suc (ac_next_id s2)\<rparr>
           in (Inr (Some p), s3))"

definition recordings_purge ::
  "day_shift \<Rightarrow> terminal_session_id \<Rightarrow> nat \<Rightarrow> instant \<Rightarrow> ('z, purged_recording_summary option) rec" where
  "recordings_purge add_days sid days now =
     bindP (okOrP (i32_try_from days) (days_out_of_range days)) (\<lambda>_.
     acc_call (purge_transaction add_days sid days now))"

end
