(* ===== verification/Retention.thy ===== *)
theory Retention
  imports Recording_Store
begin

text \<open>
  The retention sweep of \<^verbatim>\<open>relayterm-terminal/src/retention.rs\<close>, the periodic worker of
  \<^verbatim>\<open>retention_worker.rs\<close> and the advisory lock of
  \<^verbatim>\<open>relayterm-db/src/repositories/retention_advisory_lock.rs\<close>. PostgreSQL advisory locks belong
  to a connection and are counted; the lock table maps a key to the holding connection and its
  count. What the pool and the driver do in one tick is the tick's environment: the connection
  handed out and which of the three statements fail.
\<close>

section \<open>The sweep\<close>

record sweep_summary =
  ss_candidate_count :: nat
  ss_purged_sessions :: nat
  ss_chunks_purged :: int
  ss_markers_purged :: int
  ss_bytes_purged :: int
  ss_errors :: nat
  ss_batch_truncated :: bool

definition summary_default :: sweep_summary where
  "summary_default =
     \<lparr>ss_candidate_count = 0, ss_purged_sessions = 0, ss_chunks_purged = 0, ss_markers_purged = 0,
      ss_bytes_purged = 0, ss_errors = 0, ss_batch_truncated = False\<rparr>"

definition summary_is_empty :: "sweep_summary \<Rightarrow> bool" where
  "summary_is_empty sm = (ss_candidate_count sm = 0 \<and> ss_errors sm = 0)"

definition summary_add :: "sweep_summary \<Rightarrow> purged_recording_summary \<Rightarrow> sweep_summary" where
  "summary_add sm p =
     sm\<lparr>ss_purged_sessions := ss_purged_sessions sm + 1,
        ss_chunks_purged := ss_chunks_purged sm + pu_chunk_count p,
        ss_markers_purged := ss_markers_purged sm + pu_marker_count p,
        ss_bytes_purged := ss_bytes_purged sm + pu_bytes_purged p\<rparr>"

primrec purge_loop ::
  "day_shift \<Rightarrow> nat \<Rightarrow> instant \<Rightarrow> terminal_session_id list \<Rightarrow> sweep_summary \<Rightarrow> 'z recording_db_scheme
     \<Rightarrow> sweep_summary \<times> 'z recording_db_scheme" where
  "purge_loop add_days days now [] sm s = (sm, s)"
| "purge_loop add_days days now (sid # rest) sm s =
     (case recordings_purge add_days sid days now s of
        (Inr (Some purged), t) \<Rightarrow> purge_loop add_days days now rest (summary_add sm purged) t
      | (Inr None, t) \<Rightarrow> purge_loop add_days days now rest sm t
      | (Inl err, t) \<Rightarrow> (sm\<lparr>ss_errors := 1, ss_batch_truncated := False\<rparr>, t))"

definition run_recording_retention_sweep ::
  "day_shift \<Rightarrow> nat \<Rightarrow> nat \<Rightarrow> instant \<Rightarrow> 'z recording_db_scheme \<Rightarrow> sweep_summary \<times> 'z recording_db_scheme" where
  "run_recording_retention_sweep add_days days batch_size now s =
     (case recordings_list_eligible add_days days now batch_size s of
        (Inl err, t) \<Rightarrow> (summary_default\<lparr>ss_errors := 1\<rparr>, t)
      | (Inr candidates, t) \<Rightarrow>
          let sm = summary_default\<lparr>ss_candidate_count := length candidates,
                     ss_batch_truncated := (length candidates = batch_size)\<rparr>
          in if candidates = [] then (sm, t) else purge_loop add_days days now candidates sm t)"

definition run_recording_retention_startup_sweep ::
  "day_shift \<Rightarrow> nat \<Rightarrow> nat \<Rightarrow> instant \<Rightarrow> 'z recording_db_scheme \<Rightarrow> sweep_summary \<times> 'z recording_db_scheme" where
  "run_recording_retention_startup_sweep = run_recording_retention_sweep"

definition repository_error_kind :: "repository_error \<Rightarrow> string" where
  "repository_error_kind e =
     (case e of RE_NotFound _ \<Rightarrow> ''not_found'' | RE_Conflict _ _ \<Rightarrow> ''conflict''
      | RE_Validation _ _ \<Rightarrow> ''validation'' | RE_Database _ \<Rightarrow> ''database'')"

section \<open>The advisory lock\<close>

record retention_state = recording_db +
  rt_locks :: "(int \<times> nat \<times> nat) list"

definition RECORDING_RETENTION_ADVISORY_LOCK_KEY :: int where
  "RECORDING_RETENTION_ADVISORY_LOCK_KEY = 0x525452524554454e"

record tick_env =
  tk_conn :: nat
  tk_acquire_fails :: bool
  tk_try_lock_fails :: bool
  tk_unlock_fails :: bool

definition pg_try_advisory_lock :: "int \<Rightarrow> nat \<Rightarrow> 'z retention_state_scheme \<Rightarrow> bool \<times> 'z retention_state_scheme" where
  "pg_try_advisory_lock key conn s =
     (case map_of (rt_locks s) key of
        None \<Rightarrow> (True, s\<lparr>rt_locks := AList.update key (conn, 1) (rt_locks s)\<rparr>)
      | Some (holder, n) \<Rightarrow>
          if holder = conn then (True, s\<lparr>rt_locks := AList.update key (conn, Suc n) (rt_locks s)\<rparr>)
          else (False, s))"

definition pg_advisory_unlock :: "int \<Rightarrow> nat \<Rightarrow> 'z retention_state_scheme \<Rightarrow> 'z retention_state_scheme" where
  "pg_advisory_unlock key conn s =
     (case map_of (rt_locks s) key of
        None \<Rightarrow> s
      | Some (holder, n) \<Rightarrow>
          if holder \<noteq> conn then s
          else if n \<le> 1 then s\<lparr>rt_locks := AList.delete key (rt_locks s)\<rparr>
          else s\<lparr>rt_locks := AList.update key (conn, n - 1) (rt_locks s)\<rparr>)"

datatype advisory_lock_outcome = LO_Acquired | LO_Skipped

definition map_lock_error :: "string \<Rightarrow> repository_error" where
  "map_lock_error stage = RE_Database (''recording retention advisory lock '' @ stage @ '' failed'')"

text \<open>The work fills a slot the caller reads afterwards; here the slot is returned beside the outcome.\<close>

definition run_with_lock ::
  "int \<Rightarrow> tick_env \<Rightarrow> ('z retention_state_scheme \<Rightarrow> 'a \<times> 'z retention_state_scheme) \<Rightarrow> 'z retention_state_scheme
     \<Rightarrow> (repository_error + advisory_lock_outcome) \<times> 'a option \<times> 'z retention_state_scheme" where
  "run_with_lock key env work s =
     (if tk_acquire_fails env then (Inl (map_lock_error ''acquire''), None, s)
      else if tk_try_lock_fails env then (Inl (map_lock_error ''try_lock''), None, s)
      else case pg_try_advisory_lock key (tk_conn env) s of
             (False, s1) \<Rightarrow> (Inr LO_Skipped, None, s1)
           | (True, s1) \<Rightarrow>
               (case work s1 of (x, s2) \<Rightarrow>
                  if tk_unlock_fails env then (Inl (map_lock_error ''unlock''), Some x, s2)
                  else (Inr LO_Acquired, Some x, pg_advisory_unlock key (tk_conn env) s2)))"

section \<open>The periodic worker\<close>

record periodic_config =
  pf_retention_days :: nat
  pf_batch_size :: nat
  pf_interval :: duration

definition periodic_worker_config_if_enabled ::
  "bool \<Rightarrow> bool \<Rightarrow> nat \<Rightarrow> nat \<Rightarrow> nat \<Rightarrow> periodic_config option" where
  "periodic_worker_config_if_enabled cleanup_enabled periodic_sweep_enabled sweep_interval_seconds days batch_size =
     (if \<not> cleanup_enabled \<or> \<not> periodic_sweep_enabled \<or> sweep_interval_seconds = 0 then None
      else Some \<lparr>pf_retention_days = days, pf_batch_size = batch_size,
                 pf_interval = seconds (int sweep_interval_seconds)\<rparr>)"

datatype tick_outcome = TO_Ran sweep_summary | TO_Skipped | TO_LockError

definition run_one_periodic_tick ::
  "day_shift \<Rightarrow> int option \<Rightarrow> nat \<Rightarrow> nat \<Rightarrow> tick_env \<Rightarrow> 'z retention_state_scheme
     \<Rightarrow> tick_outcome \<times> 'z retention_state_scheme" where
  "run_one_periodic_tick add_days lock days batch_size env s =
     (case lock of
        Some key \<Rightarrow>
          (case run_with_lock key env
                  (\<lambda>s1. run_recording_retention_sweep add_days days batch_size (ac_now s1) s1) s of
             (Inr LO_Acquired, slot, t) \<Rightarrow> (TO_Ran (case slot of Some sm \<Rightarrow> sm | None \<Rightarrow> summary_default), t)
           | (Inr LO_Skipped, slot, t) \<Rightarrow> (TO_Skipped, t)
           | (Inl err, slot, t) \<Rightarrow> (TO_LockError, t))
      | None \<Rightarrow>
          (case run_recording_retention_sweep add_days days batch_size (ac_now s) s of (sm, t) \<Rightarrow> (TO_Ran sm, t)))"

text \<open>
  What the worker's \<open>select!\<close> sees, in order: a change of the shutdown flag, the loss of its
  sender, or a tick at some instant. The result says whether the loop has ended.
\<close>

datatype worker_event = WE_Shutdown bool | WE_SenderDropped | WE_Tick instant tick_env

fun worker_loop ::
  "day_shift \<Rightarrow> int option \<Rightarrow> periodic_config \<Rightarrow> worker_event list \<Rightarrow> 'z retention_state_scheme
     \<Rightarrow> bool \<times> 'z retention_state_scheme" where
  "worker_loop add_days lock cfg [] s = (False, s)"
| "worker_loop add_days lock cfg (WE_Shutdown True # rest) s = (True, s)"
| "worker_loop add_days lock cfg (WE_Shutdown False # rest) s = worker_loop add_days lock cfg rest s"
| "worker_loop add_days lock cfg (WE_SenderDropped # rest) s = (True, s)"
| "worker_loop add_days lock cfg (WE_Tick now env # rest) s =
     worker_loop add_days lock cfg rest
       (snd (run_one_periodic_tick add_days lock (pf_retention_days cfg) (pf_batch_size cfg) env (s\<lparr>ac_now := now\<rparr>)))"

section \<open>What a sweep does\<close>

text \<open>The effect of purging one session, and of a sequence of them.\<close>

definition row_summary :: "instant \<Rightarrow> 'z recording_db_scheme \<Rightarrow> terminal_session \<Rightarrow> purged_recording_summary" where
  "row_summary now s r = purge_summary (ts_id r) (closed_stamp r) now s"

definition purged_state ::
  "nat \<Rightarrow> instant \<Rightarrow> terminal_session list \<Rightarrow> 'z recording_db_scheme \<Rightarrow> 'z recording_db_scheme" where
  "purged_state days now rs s =
     s\<lparr>rd_chunks := filter (\<lambda>c. ck_session c \<notin> ts_id ` set rs) (rd_chunks s),
       rd_markers := filter (\<lambda>m. mr_session m \<notin> ts_id ` set rs) (rd_markers s),
       ac_audit := ac_audit s @ map (\<lambda>(i, r). purge_audit (ac_next_id s + i) days (row_summary now s r)) (enumerate 0 rs),
       ac_next_id := ac_next_id s + length rs\<rparr>"

lemma purged_state_Nil [simp]: "purged_state days now [] s = s"
  by (simp add: purged_state_def)

lemma is_recorded_iff: "is_recorded s sid \<longleftrightarrow> chunks_of sid s \<noteq> [] \<or> markers_of sid s \<noteq> []"
  by (auto simp: is_recorded_def chunks_of_def markers_of_def list_ex_iff filter_empty_conv)

lemma rows_of_purged:
  assumes "sid \<notin> ts_id ` set rs"
  shows "chunks_of sid (purged_state days now rs s) = chunks_of sid s"
    "markers_of sid (purged_state days now rs s) = markers_of sid s"
  using assms by (auto simp: chunks_of_def markers_of_def purged_state_def intro!: filter_cong)

lemma row_summary_faults [simp]: "row_summary now (s\<lparr>ac_faults := fs\<rparr>) = row_summary now s"
  by (simp add: fun_eq_iff row_summary_def purge_summary_def chunks_of_def markers_of_def)

lemma row_summary_purged:
  "ts_id r \<notin> ts_id ` set rs \<Longrightarrow> row_summary now (purged_state days now rs s) r = row_summary now s r"
  by (simp add: row_summary_def purge_summary_def rows_of_purged)

lemma purged_state_Cons:
  assumes "ts_id r \<notin> ts_id ` set rs"
  shows "purged_state days now rs (purged_state days now [r] s) = purged_state days now (r # rs) s"
proof -
  have *: "row_summary now (purged_state days now [r] s) q = row_summary now s q" if "q \<in> set rs" for q
    using assms that by (intro row_summary_purged) (auto simp: image_iff)
  have "map (\<lambda>(i, q). purge_audit (Suc (ac_next_id s) + i) days (row_summary now (purged_state days now [r] s) q)) (enumerate 0 rs)
      = map (\<lambda>(i, q). purge_audit (ac_next_id s + i) days (row_summary now s q)) (enumerate 1 rs)"
    using * by (auto simp: list_eq_iff_nth_eq nth_enumerate_eq)
  then show ?thesis
    by (auto simp: purged_state_def conj_commute filter_filter intro!: filter_cong)
qed

text \<open>A session the listing may select: one of the rows, past the policy and recorded.\<close>

definition purgeable :: "day_shift \<Rightarrow> nat \<Rightarrow> instant \<Rightarrow> 'z recording_db_scheme \<Rightarrow> terminal_session \<Rightarrow> bool" where
  "purgeable add_days days now s r \<longleftrightarrow>
     r \<in> set (rd_sessions s) \<and> retention_expired add_days days now r \<and> is_recorded s (ts_id r)"

lemma set_eligible: "set (eligible add_days days now s) = {r. purgeable add_days days now s r}"
  by (auto simp: eligible_def purgeable_def)

lemma distinct_eligible:
  "distinct (map ts_id (rd_sessions s)) \<Longrightarrow> distinct (map ts_id (eligible add_days days now s))"
  by (auto simp: eligible_def distinct_map intro: inj_on_subset)

lemma purge_candidate_purgeable:
  assumes "distinct (map ts_id (rd_sessions s))" and "purgeable add_days days now s r"
  shows "purge_candidate add_days days now (ts_id r) s = Some r"
proof -
  have "find (\<lambda>x. ts_id x = ts_id r \<and> retention_expired add_days days now x) xs = Some r"
    if "distinct (map ts_id xs)" "r \<in> set xs" for xs
    using that assms(2) by (induction xs) (force simp: purgeable_def)+
  then show ?thesis using assms by (simp add: purge_candidate_def purgeable_def)
qed

lemma purgeable_faults [simp]:
  "purgeable add_days days now (s\<lparr>ac_faults := fs\<rparr>) r = purgeable add_days days now s r"
  by (simp add: purgeable_def is_recorded_def)

lemma purge_transaction_purgeable:
  assumes "distinct (map ts_id (rd_sessions s))" and "purgeable add_days days now s r"
  shows "purge_transaction add_days (ts_id r) days now s =
    (Inr (Some (row_summary now s r)), purged_state days now [r] s)"
proof -
  have "\<not> (chunks_of (ts_id r) s = [] \<and> markers_of (ts_id r) s = [])"
    using assms(2) by (simp add: purgeable_def is_recorded_iff)
  then show ?thesis
    using purge_candidate_purgeable [OF assms]
    by (auto simp: purge_transaction_def purged_state_def row_summary_def purge_summary_def Let_def)
qed

lemma recordings_purge_cases:
  assumes "days \<le> i32_max" and "distinct (map ts_id (rd_sessions s))" and "purgeable add_days days now s r"
  obtains (fault) e fs where "recordings_purge add_days (ts_id r) days now s = (Inl e, s\<lparr>ac_faults := fs\<rparr>)"
      and "ac_faults s \<noteq> []"
  | (ok) fs where "recordings_purge add_days (ts_id r) days now s =
        (Inr (Some (row_summary now s r)), purged_state days now [r] (s\<lparr>ac_faults := fs\<rparr>))"
      and "ac_faults s = [] \<longrightarrow> fs = []"
proof -
  have purge: "recordings_purge add_days (ts_id r) days now s = acc_call (purge_transaction add_days (ts_id r) days now) s"
    using assms(1) by (simp add: recordings_purge_def bindP_run i32_try_from_def)
  have transaction: "purge_transaction add_days (ts_id r) days now (s\<lparr>ac_faults := fs\<rparr>) =
      (Inr (Some (row_summary now s r)), purged_state days now [r] (s\<lparr>ac_faults := fs\<rparr>))" for fs
    using purge_transaction_purgeable [of "s\<lparr>ac_faults := fs\<rparr>"] assms(2,3) by simp
  show thesis
  proof (cases rule: acc_call_faults_cases [of "purge_transaction add_days (ts_id r) days now" s])
    case (fault e fs)
    then show thesis using that(1) purge by simp
  next
    case (run fs)
    then show thesis using that(2) purge transaction by simp
  qed
qed

text \<open>Purging one session leaves the others selectable.\<close>

lemma purgeable_purged:
  assumes "purgeable add_days days now s q" and "ts_id q \<noteq> ts_id r"
  shows "purgeable add_days days now (purged_state days now [r] (s\<lparr>ac_faults := fs\<rparr>)) q"
proof -
  have "is_recorded (purged_state days now [r] (s\<lparr>ac_faults := fs\<rparr>)) (ts_id q) = is_recorded s (ts_id q)"
    using assms(2) by (simp add: is_recorded_iff rows_of_purged) (simp add: chunks_of_def markers_of_def)
  then show ?thesis using assms(1) by (simp add: purgeable_def purged_state_def)
qed

text \<open>
  The whole loop over selectable rows: a prefix of them is purged, all of it unless a call
  fails, and the counters add up what was deleted.
\<close>

definition sweep_totals :: "sweep_summary \<Rightarrow> purged_recording_summary list \<Rightarrow> sweep_summary" where
  "sweep_totals sm ps =
     sm\<lparr>ss_purged_sessions := ss_purged_sessions sm + length ps,
        ss_chunks_purged := ss_chunks_purged sm + sum_list (map pu_chunk_count ps),
        ss_markers_purged := ss_markers_purged sm + sum_list (map pu_marker_count ps),
        ss_bytes_purged := ss_bytes_purged sm + sum_list (map pu_bytes_purged ps)\<rparr>"

lemma sweep_totals_simps [simp]:
  "sweep_totals sm [] = sm" "sweep_totals (summary_add sm p) ps = sweep_totals sm (p # ps)"
  by (simp_all add: sweep_totals_def summary_add_def)

definition loop_result ::
  "nat \<Rightarrow> instant \<Rightarrow> terminal_session list \<Rightarrow> sweep_summary \<Rightarrow> 'z recording_db_scheme
     \<Rightarrow> nat \<Rightarrow> repository_error option list \<Rightarrow> sweep_summary \<times> 'z recording_db_scheme" where
  "loop_result days now rs sm s n fs =
     (let tot = sweep_totals sm (map (row_summary now s) (take n rs))
      in (if n = length rs then tot else tot\<lparr>ss_errors := 1, ss_batch_truncated := False\<rparr>,
          purged_state days now (take n rs) (s\<lparr>ac_faults := fs\<rparr>)))"

lemma snd_loop_result [simp]:
  "snd (loop_result days now rs sm s n fs) = purged_state days now (take n rs) (s\<lparr>ac_faults := fs\<rparr>)"
  by (simp add: loop_result_def Let_def)

lemma purge_loop_effect:
  assumes "days \<le> i32_max" and "distinct (map ts_id (rd_sessions s))"
    and "distinct (map ts_id rs)" and "\<forall>r \<in> set rs. purgeable add_days days now s r"
  shows "\<exists>n fs. n \<le> length rs \<and> (ac_faults s = [] \<longrightarrow> n = length rs \<and> fs = [])
    \<and> purge_loop add_days days now (map ts_id rs) sm s = loop_result days now rs sm s n fs"
  using assms(2-)
proof (induction rs arbitrary: s sm)
  case Nil
  then show ?case by (intro exI [of _ 0] exI [of _ "ac_faults s"]) (simp add: loop_result_def)
next
  case (Cons r rs)
  have r: "purgeable add_days days now s r" using Cons.prems by simp
  from assms(1) Cons.prems(1) r show ?case
  proof (cases rule: recordings_purge_cases)
    case (fault e fs)
    then show ?thesis by (intro exI [of _ 0] exI [of _ fs]) (simp add: loop_result_def)
  next
    case (ok fs)
    let ?t = "purged_state days now [r] (s\<lparr>ac_faults := fs\<rparr>)"
    have fresh: "\<forall>q \<in> set rs. ts_id q \<noteq> ts_id r" using Cons.prems(2) by (auto simp: image_iff)
    have "\<forall>q \<in> set rs. purgeable add_days days now ?t q"
      using Cons.prems(3) fresh by (simp add: purgeable_purged)
    moreover have "distinct (map ts_id (rd_sessions ?t))" using Cons.prems(1) by (simp add: purged_state_def)
    ultimately obtain n gs where n: "n \<le> length rs" "ac_faults ?t = [] \<longrightarrow> n = length rs \<and> gs = []"
      and loop: "purge_loop add_days days now (map ts_id rs) (summary_add sm (row_summary now s r)) ?t
        = loop_result days now rs (summary_add sm (row_summary now s r)) ?t n gs"
      using Cons.IH [of ?t "summary_add sm (row_summary now s r)"] Cons.prems(2) by auto
    have "ts_id r \<notin> ts_id ` set (take n rs)" using fresh by (auto dest: in_set_takeD)
    then have "purged_state days now (take n rs) (purged_state days now [r] (s\<lparr>ac_faults := gs\<rparr>))
        = purged_state days now (r # take n rs) (s\<lparr>ac_faults := gs\<rparr>)"
      by (rule purged_state_Cons)
    moreover have "?t\<lparr>ac_faults := gs\<rparr> = purged_state days now [r] (s\<lparr>ac_faults := gs\<rparr>)"
      by (simp add: purged_state_def)
    moreover have rows: "map (row_summary now ?t) (take n rs) = map (row_summary now s) (take n rs)"
      using fresh by (auto simp: row_summary_purged dest: in_set_takeD)
    ultimately have "loop_result days now rs (summary_add sm (row_summary now s r)) ?t n gs
        = loop_result days now (r # rs) sm s (Suc n) gs"
      unfolding loop_result_def by (simp add: rows del: map_eq_conv)
    then show ?thesis using n ok loop
      by (intro exI [of _ "Suc n"] exI [of _ gs]) (auto simp: purged_state_def)
  qed
qed

end
