(* ===== verification/Retention_Behaviour.thy ===== *)
theory Retention_Behaviour
  imports Retention
begin

text \<open>
  Properties of the retention sweep and its worker: what one sweep deletes and reports, that
  repeated sweeps drain the backlog, that nothing else ever deletes a recording, and what the
  advisory lock guarantees.
\<close>

section \<open>One sweep\<close>

lemma retention_expired_faults [simp]: "eligible add_days days now (s\<lparr>ac_faults := fs\<rparr>) = eligible add_days days now s"
  by (simp add: eligible_def is_recorded_def)

text \<open>A sweep purges a prefix of what is eligible, as one list of rows.\<close>

lemma sweep_cases:
  assumes "distinct (map ts_id (rd_sessions s))"
  obtains (listing_failed) fs where "run_recording_retention_sweep add_days days batch now s =
        (summary_default\<lparr>ss_errors := 1\<rparr>, s\<lparr>ac_faults := fs\<rparr>)" and "days \<le> i32_max \<longrightarrow> ac_faults s \<noteq> []"
  | (swept) n fs rs where "rs = take (max batch 1) (eligible add_days days now s)"
      and "n \<le> length rs" and "ac_faults s = [] \<longrightarrow> n = length rs \<and> fs = []"
      and "run_recording_retention_sweep add_days days batch now s =
        loop_result days now rs (summary_default\<lparr>ss_candidate_count := length rs, ss_batch_truncated := (length rs = batch)\<rparr>)
          s n fs"
proof -
  let ?rs = "take (max batch 1) (eligible add_days days now s)"
  let ?sm = "summary_default\<lparr>ss_candidate_count := length ?rs, ss_batch_truncated := (length ?rs = batch)\<rparr>"
  have d: "distinct (map ts_id ?rs)" using distinct_eligible [OF assms] by (simp add: take_map [symmetric])
  have e: "\<forall>r \<in> set ?rs. purgeable add_days days now s r" using set_eligible by (fastforce dest: in_set_takeD)
  show thesis
  proof (cases "days \<le> i32_max")
    case False
    then have "run_recording_retention_sweep add_days days batch now s =
        (summary_default\<lparr>ss_errors := 1\<rparr>, s\<lparr>ac_faults := ac_faults s\<rparr>)"
      by (simp add: run_recording_retention_sweep_def recordings_list_eligible_def i32_try_from_def bindP_run)
    with False show thesis by (intro listing_failed [of "ac_faults s"]) simp_all
  next
    case True
    then have listing: "recordings_list_eligible add_days days now batch s =
        acc_call (\<lambda>s. (Inr (take (max batch 1) (map ts_id (eligible add_days days now s))), s)) s"
      by (simp add: recordings_list_eligible_def i32_try_from_def bindP_run)
    have walk: "thesis" if u: "recordings_list_eligible add_days days now batch s = (Inr (map ts_id ?rs), s\<lparr>ac_faults := fs\<rparr>)"
        and fs: "ac_faults s = [] \<longrightarrow> fs = []" for fs
    proof -
      let ?u = "s\<lparr>ac_faults := fs\<rparr>"
      obtain n gs where n: "n \<le> length ?rs" "fs = [] \<longrightarrow> n = length ?rs \<and> gs = []"
        and loop: "purge_loop add_days days now (map ts_id ?rs) ?sm ?u = loop_result days now ?rs ?sm ?u n gs"
        using purge_loop_effect [OF True _ d, of ?u add_days now ?sm] assms e by auto
      have same: "loop_result days now ?rs ?sm ?u n gs = loop_result days now ?rs ?sm s n gs"
        by (simp add: loop_result_def)
      have "run_recording_retention_sweep add_days days batch now s =
          (if ?rs = [] then (?sm, ?u) else purge_loop add_days days now (map ts_id ?rs) ?sm ?u)"
        using u by (simp add: run_recording_retention_sweep_def Let_def)
      also have "\<dots> = purge_loop add_days days now (map ts_id ?rs) ?sm ?u" by simp
      finally have "run_recording_retention_sweep add_days days batch now s = loop_result days now ?rs ?sm s n gs"
        unfolding loop same .
      with n fs show thesis by (intro swept [of ?rs n gs]) auto
    qed
    show thesis
    proof (cases rule: acc_call_faults_cases [of
          "\<lambda>s. (Inr (take (max batch 1) (map ts_id (eligible add_days days now s))), s)" s])
      case (fault e fs)
      then show thesis
        by (intro listing_failed) (simp_all add: run_recording_retention_sweep_def listing)
    next
      case (run fs)
      then show thesis using walk by (simp add: listing take_map)
    qed
  qed
qed

lemma sum_list_partition_keys:
  fixes f :: "'a \<Rightarrow> int"
  assumes "distinct ks"
  shows "sum_list (map (\<lambda>k. sum_list (map f (filter (\<lambda>x. key x = k) xs))) ks)
           + sum_list (map f (filter (\<lambda>x. key x \<notin> set ks) xs)) = sum_list (map f xs)"
proof -
  have one: "sum_list (map f (filter (\<lambda>x. key x = k) xs)) + sum_list (map f (filter (\<lambda>x. key x \<notin> insert k K) xs))
      = sum_list (map f (filter (\<lambda>x. key x \<notin> K) xs))" if "k \<notin> K" for k K
    using that by (induction xs) auto
  show ?thesis using assms
  proof (induction ks)
    case (Cons k ks)
    then show ?case using one [of k "set ks"] by simp
  qed simp
qed

lemma sum_list_ones: "sum_list (map (\<lambda>_. 1 :: int) xs) = int (length xs)"
  by (induction xs) simp_all

text \<open>The counters of a sweep that purges the rows \<open>rs\<close> are what the tables lose.\<close>

lemma totals_conserve:
  assumes "distinct (map ts_id rs)"
  shows "sum_list (map pu_chunk_count (map (row_summary now s) rs)) + int (length (rd_chunks (purged_state days now rs s)))
           = int (length (rd_chunks s))"
    and "sum_list (map pu_marker_count (map (row_summary now s) rs)) + int (length (rd_markers (purged_state days now rs s)))
           = int (length (rd_markers s))"
    and "sum_list (map pu_bytes_purged (map (row_summary now s) rs))
           + sum_list (map ck_byte_len (rd_chunks (purged_state days now rs s))) = sum_list (map ck_byte_len (rd_chunks s))"
  using sum_list_partition_keys [OF assms, of "\<lambda>_. 1" ck_session "rd_chunks s"]
    sum_list_partition_keys [OF assms, of "\<lambda>_. 1" mr_session "rd_markers s"]
    sum_list_partition_keys [OF assms, of ck_byte_len ck_session "rd_chunks s"]
  by (simp_all add: row_summary_def purge_summary_def chunks_of_def markers_of_def purged_state_def
      sum_list_ones comp_def)

lemma distinct_map_take: "distinct (map f xs) \<Longrightarrow> distinct (map f (take n xs))"
  by (simp add: take_map [symmetric])

text \<open>
  C33. One retention sweep, whatever calls fail: it purges a prefix of the eligible sessions (closed
  long enough ago and recorded, oldest close first), no more than the batch size and all of it
  when it reports no error; purging deletes exactly these sessions' chunks and markers, appends
  one audit event for each and changes nothing else; the reported numbers of chunks, markers and
  bytes are exactly what the tables lost.
\<close>

theorem retention_sweep_is_exact:
  fixes s :: "'z recording_db_scheme"
  assumes "distinct (map ts_id (rd_sessions s))"
  shows "let (sm, t) = run_recording_retention_sweep add_days days batch now s;
             n = ss_purged_sessions sm; todo = eligible add_days days now s
         in n \<le> min (max batch 1) (length todo)
            \<and> (ss_errors sm = 0 \<longrightarrow> n = min (max batch 1) (length todo))
            \<and> t = purged_state days now (take n todo) (s\<lparr>ac_faults := ac_faults t\<rparr>)
            \<and> ss_chunks_purged sm + int (length (rd_chunks t)) = int (length (rd_chunks s))
            \<and> ss_markers_purged sm + int (length (rd_markers t)) = int (length (rd_markers s))
            \<and> ss_bytes_purged sm + sum_list (map ck_byte_len (rd_chunks t)) = sum_list (map ck_byte_len (rd_chunks s))"
  using assms
proof (cases rule: sweep_cases [of s add_days days batch now])
  case (listing_failed fs)
  then show ?thesis by (simp add: summary_default_def)
next
  case (swept n fs rs)
  let ?E = "eligible add_days days now s"
  have len: "length rs = min (max batch 1) (length ?E)" using swept(1) by simp
  have rs: "take n rs = take n ?E" using swept(1,2) by (simp add: min_absorb1)
  have d: "distinct (map ts_id (take n ?E))" using distinct_eligible [OF assms] by (rule distinct_map_take)
  note conserve = totals_conserve [OF d, of now "s\<lparr>ac_faults := fs\<rparr>" days]
  have n: "n \<le> length ?E" using swept(2) len by simp
  define t where "t = purged_state days now (take n ?E) (s\<lparr>ac_faults := fs\<rparr>)"
  have t: "t = purged_state days now (take n ?E) (s\<lparr>ac_faults := ac_faults t\<rparr>)" by (simp add: t_def purged_state_def)
  show ?thesis
    using swept(2,4) conserve n t
    unfolding loop_result_def rs t_def [symmetric]
    by (auto simp: Let_def sweep_totals_def summary_default_def len)
qed

text \<open>Three recorded sessions, two of them closed, with a day as ten units of time.\<close>

definition demo_row :: "nat \<Rightarrow> instant option \<Rightarrow> terminal_session" where
  "demo_row sid closed = \<lparr>ts_id = sid, ts_owner_id = 7, ts_server_profile_id = 3,
     ts_status = (if closed = None then TS_Active else TS_Closed), ts_cols = 80, ts_rows = 24,
     ts_created_at = 0, ts_last_seen_at = 0, ts_closed_at = closed\<rparr>"

definition demo_chunk :: "nat \<Rightarrow> int \<Rightarrow> terminal_recording_chunk" where
  "demo_chunk sid len = \<lparr>ck_session = sid, ck_seq_start = 1, ck_seq_end = 1, ck_byte_len = len, ck_payload = [],
     ck_id = 100 + sid, ck_encryption = ENC_None, ck_compression = CMP_None, ck_created_at = 0\<rparr>"

definition demo_recordings :: retention_state where
  "demo_recordings = \<lparr>ac_users = [], ac_passwords = [], ac_sessions = [], ac_audit = [], ac_next_id = 200,
     ac_now = 500, ac_faults = [], as_draws = 0, as_throttle = throttler_new V1_DEFAULT,
     rd_sessions = [demo_row 1 (Some 90), demo_row 2 (Some 40), demo_row 3 None],
     rd_chunks = [demo_chunk 1 5, demo_chunk 2 7, demo_chunk 3 9], rd_markers = [], rt_locks = []\<rparr>"

definition ten_per_day :: day_shift where
  "ten_per_day days t = t + 10 * int days"

theorem retention_sweep_is_exact_witness:
  "let (sm, t) = run_recording_retention_sweep ten_per_day 30 1 500 demo_recordings
   in ss_purged_sessions sm = 1 \<and> ss_bytes_purged sm = 7 \<and> map ck_session (rd_chunks t) = [1, 3]
      \<and> length (ac_audit t) = 1"
  using retention_sweep_is_exact [of demo_recordings ten_per_day 30 1 500] by code_simp

section \<open>Repeated sweeps\<close>

text \<open>What is left after purging a prefix of the eligible sessions is the rest of them.\<close>

lemma filter_not_in_take:
  "distinct (map f xs) \<Longrightarrow> filter (\<lambda>x. f x \<notin> f ` set (take n xs)) xs = drop n xs"
proof (induction xs arbitrary: n)
  case (Cons x xs)
  show ?case
  proof (cases n)
    case (Suc m)
    have "filter (\<lambda>y. f y \<notin> insert (f x) (f ` set (take m xs))) xs = filter (\<lambda>y. f y \<notin> f ` set (take m xs)) xs"
      using Cons.prems by (intro filter_cong) (auto simp: image_iff)
    with Suc Cons show ?thesis by simp
  qed simp
qed simp

lemma eligible_purged:
  "eligible add_days days now (purged_state days now rs s) =
     filter (\<lambda>r. ts_id r \<notin> ts_id ` set rs) (eligible add_days days now s)"
proof -
  have "is_recorded (purged_state days now rs s) sid \<longleftrightarrow> is_recorded s sid \<and> sid \<notin> ts_id ` set rs" for sid
    by (auto simp: is_recorded_def purged_state_def list_ex_iff)
  then show ?thesis
    by (simp add: eligible_def filter_sort purged_state_def [of days now rs s] cong: conj_cong)
qed

primrec sweeps ::
  "day_shift \<Rightarrow> nat \<Rightarrow> nat \<Rightarrow> instant \<Rightarrow> nat \<Rightarrow> 'z recording_db_scheme \<Rightarrow> 'z recording_db_scheme" where
  "sweeps add_days days batch now 0 s = s"
| "sweeps add_days days batch now (Suc k) s =
     sweeps add_days days batch now k (snd (run_recording_retention_sweep add_days days batch now s))"

lemma sweep_ok:
  assumes "distinct (map ts_id (rd_sessions s))" and "ac_faults s = []" and "days \<le> i32_max"
  shows "run_recording_retention_sweep add_days days batch now s =
    (sweep_totals (summary_default\<lparr>ss_candidate_count := length (take (max batch 1) (eligible add_days days now s)),
        ss_batch_truncated := (length (take (max batch 1) (eligible add_days days now s)) = batch)\<rparr>)
        (map (row_summary now s) (take (max batch 1) (eligible add_days days now s))),
     purged_state days now (take (max batch 1) (eligible add_days days now s)) s)"
proof -
  have same: "s\<lparr>ac_faults := []\<rparr> = s" using assms(2) by (cases s) simp
  from assms(1) show ?thesis
  proof (cases rule: sweep_cases [of s add_days days batch now])
    case (listing_failed fs)
    with assms(2,3) show ?thesis by simp
  next
    case (swept n fs rs)
    with assms(2) have "n = length rs" "fs = []" by simp_all
    then show ?thesis unfolding swept(1) [symmetric] swept(4) loop_result_def by (simp add: same)
  qed
qed

text \<open>
  C39. The backlog drains: without database failures, \<open>k\<close> sweeps under one policy leave exactly the
  eligible sessions beyond the first \<open>k\<close> batches, so after as many sweeps as there are eligible
  sessions nothing expired is left recorded, and a sweep that reports neither an error nor a
  full batch has already reached that point.
\<close>

theorem retention_backlog_drains:
  fixes s :: "'z recording_db_scheme"
  assumes "distinct (map ts_id (rd_sessions s))" and "ac_faults s = []" and "days \<le> i32_max" and "1 \<le> batch"
  shows "eligible add_days days now (sweeps add_days days batch now k s) = drop (k * batch) (eligible add_days days now s)
         \<and> (case run_recording_retention_sweep add_days days batch now s of (sm, t) \<Rightarrow>
              \<not> ss_batch_truncated sm \<longrightarrow> eligible add_days days now t = [])"
proof -
  have b: "max batch (Suc 0) = batch" using assms(4) by simp
  have step: "eligible add_days days now (snd (run_recording_retention_sweep add_days days batch now u))
      = drop batch (eligible add_days days now u)"
    if "distinct (map ts_id (rd_sessions u))" "ac_faults u = []" for u :: "'z recording_db_scheme"
    using that assms(3) distinct_eligible [OF that(1)]
    by (simp add: sweep_ok eligible_purged filter_not_in_take b)
  have keep: "distinct (map ts_id (rd_sessions (purged_state days now rs u))) = distinct (map ts_id (rd_sessions u))"
      "ac_faults (purged_state days now rs u) = ac_faults u" for rs and u :: "'z recording_db_scheme"
    by (simp_all add: purged_state_def)
  have "eligible add_days days now (sweeps add_days days batch now k s) = drop (k * batch) (eligible add_days days now s)"
    using assms(1,2)
  proof (induction k arbitrary: s)
    case (Suc k)
    then show ?case using step [of s] Suc.IH [of "snd (run_recording_retention_sweep add_days days batch now s)"]
        sweep_ok [OF Suc.prems assms(3), of add_days batch now]
      by (simp add: keep add.commute)
  qed simp
  moreover have "length (eligible add_days days now s) \<le> batch"
    if "\<not> ss_batch_truncated (fst (run_recording_retention_sweep add_days days batch now s))"
    using that sweep_ok [OF assms(1-3), of add_days batch now] by (simp add: sweep_totals_def b min_def split: if_splits)
  ultimately show ?thesis using step [OF assms(1,2)] by (auto split: prod.splits)
qed

theorem retention_backlog_drains_witness:
  "map ts_id (eligible ten_per_day 30 500 demo_recordings) = [2, 1]
   \<and> eligible ten_per_day 30 500 (sweeps ten_per_day 30 1 500 2 demo_recordings) = []"
  using retention_backlog_drains [of demo_recordings 30 1 ten_per_day 500 2] by code_simp

section \<open>The worker\<close>

lemma sweep_frame:
  assumes "distinct (map ts_id (rd_sessions s))"
  obtains rs fs where "set rs \<subseteq> set (eligible add_days days now s)"
    and "snd (run_recording_retention_sweep add_days days batch now s) = purged_state days now rs (s\<lparr>ac_faults := fs\<rparr>)"
  using assms
proof (cases rule: sweep_cases [of s add_days days batch now])
  case (listing_failed fs)
  then show thesis by (intro that [of "[]" fs]) simp_all
next
  case (swept n fs rs)
  then show thesis
    by (intro that [of "take n rs" fs]) (auto dest: in_set_takeD)
qed

lemma eligible_locks [simp]: "eligible add_days days now (s\<lparr>rt_locks := lk\<rparr>) = eligible add_days days now s"
  by (simp add: eligible_def is_recorded_def)

lemma try_lock_locks:
  "pg_try_advisory_lock key conn s = (ok, t) \<Longrightarrow> \<exists>lk. t = s\<lparr>rt_locks := lk\<rparr>"
  by (auto simp: pg_try_advisory_lock_def split: option.splits if_splits prod.splits intro: exI [of _ "rt_locks s"])

lemma unlock_locks: "\<exists>lk. pg_advisory_unlock key conn s = s\<lparr>rt_locks := lk\<rparr>"
  by (auto simp: pg_advisory_unlock_def split: option.splits prod.splits intro: exI [of _ "rt_locks s"])

text \<open>Whatever happens in a tick, the tables change by purging eligible sessions only.\<close>

lemma locked_sweep_frame:
  assumes "distinct (map ts_id (rd_sessions s))"
  shows "\<exists>rs fs lk. set rs \<subseteq> set (eligible add_days days (ac_now s) s) \<and>
    snd (snd (run_with_lock key env (\<lambda>s1. run_recording_retention_sweep add_days days batch (ac_now s1) s1) s))
      = purged_state days (ac_now s) rs (s\<lparr>rt_locks := lk, ac_faults := fs\<rparr>)"
    (is "\<exists>rs fs lk. ?P rs fs lk")
proof (cases "tk_acquire_fails env \<or> tk_try_lock_fails env")
  case True
  then have "?P [] (ac_faults s) (rt_locks s)" by (auto simp: run_with_lock_def)
  then show ?thesis by blast
next
  case False
  obtain ok s1 where lock: "pg_try_advisory_lock key (tk_conn env) s = (ok, s1)" by fastforce
  then obtain lk where s1: "s1 = s\<lparr>rt_locks := lk\<rparr>" using try_lock_locks by blast
  show ?thesis
  proof (cases ok)
    case True
    obtain rs fs where rs: "set rs \<subseteq> set (eligible add_days days (ac_now s) s)"
      and sweep: "snd (run_recording_retention_sweep add_days days batch (ac_now s1) s1)
        = purged_state days (ac_now s) rs (s\<lparr>rt_locks := lk, ac_faults := fs\<rparr>)"
      using sweep_frame [of s1 add_days days "ac_now s1" batch] assms by (auto simp: s1)
    obtain lk' where "pg_advisory_unlock key (tk_conn env) (snd (run_recording_retention_sweep add_days days batch (ac_now s1) s1))
        = (purged_state days (ac_now s) rs (s\<lparr>rt_locks := lk, ac_faults := fs\<rparr>))\<lparr>rt_locks := lk'\<rparr>"
      using unlock_locks unfolding sweep by blast
    moreover have "(purged_state days (ac_now s) rs (s\<lparr>rt_locks := lk, ac_faults := fs\<rparr>))\<lparr>rt_locks := lk'\<rparr>
        = purged_state days (ac_now s) rs (s\<lparr>rt_locks := lk', ac_faults := fs\<rparr>)"
      by (simp add: purged_state_def row_summary_def purge_summary_def chunks_of_def markers_of_def)
    ultimately have "?P rs fs (if tk_unlock_fails env then lk else lk')"
      using True \<open>\<not> (tk_acquire_fails env \<or> tk_try_lock_fails env)\<close> lock rs sweep
      by (simp add: run_with_lock_def split: prod.splits) auto
    then show ?thesis by blast
  next
    case False
    with \<open>\<not> (tk_acquire_fails env \<or> tk_try_lock_fails env)\<close> lock s1 have "?P [] (ac_faults s) lk"
      by (simp add: run_with_lock_def)
    then show ?thesis by blast
  qed
qed

lemma tick_frame:
  assumes "distinct (map ts_id (rd_sessions s))"
  shows "\<exists>rs fs lk. set rs \<subseteq> set (eligible add_days days (ac_now s) s) \<and>
    snd (run_one_periodic_tick add_days lock days batch env s)
      = purged_state days (ac_now s) rs (s\<lparr>rt_locks := lk, ac_faults := fs\<rparr>)"
proof (cases lock)
  case None
  obtain rs fs where "set rs \<subseteq> set (eligible add_days days (ac_now s) s)"
    and "snd (run_recording_retention_sweep add_days days batch (ac_now s) s)
      = purged_state days (ac_now s) rs (s\<lparr>ac_faults := fs\<rparr>)"
    using sweep_frame [OF assms] by blast
  with None show ?thesis
    by (intro exI [of _ rs] exI [of _ fs] exI [of _ "rt_locks s"])
      (auto simp: run_one_periodic_tick_def split: prod.splits)
next
  case (Some key)
  let ?run = "run_with_lock key env (\<lambda>s1. run_recording_retention_sweep add_days days batch (ac_now s1) s1) s"
  have "snd (run_one_periodic_tick add_days lock days batch env s) = snd (snd ?run)"
    using Some by (cases ?run)
      (auto simp: run_one_periodic_tick_def split: sum.splits advisory_lock_outcome.splits)
  then show ?thesis using locked_sweep_frame [OF assms] by simp
qed

text \<open>The evidence a purge leaves behind.\<close>

definition purge_justified ::
  "day_shift \<Rightarrow> nat \<Rightarrow> worker_event list \<Rightarrow> 'z retention_state_scheme \<Rightarrow> 'z retention_state_scheme \<Rightarrow> terminal_session_id \<Rightarrow> bool" where
  "purge_justified add_days days evs s t sid \<longleftrightarrow>
     (\<exists>now env r aid. WE_Tick now env \<in> set evs \<and> r \<in> set (rd_sessions s) \<and> ts_id r = sid
        \<and> retention_expired add_days days now r \<and> purge_audit aid days (row_summary now s r) \<in> set (ac_audit t))"

definition same_recording :: "terminal_session_id \<Rightarrow> 'z recording_db_scheme \<Rightarrow> 'z recording_db_scheme \<Rightarrow> bool" where
  "same_recording sid s t \<longleftrightarrow> chunks_of sid t = chunks_of sid s \<and> markers_of sid t = markers_of sid s"

definition kept_or_purged ::
  "day_shift \<Rightarrow> nat \<Rightarrow> worker_event list \<Rightarrow> 'z retention_state_scheme \<Rightarrow> 'z retention_state_scheme \<Rightarrow> terminal_session_id \<Rightarrow> bool" where
  "kept_or_purged add_days days evs s t sid \<longleftrightarrow>
     rd_sessions t = rd_sessions s \<and> set (ac_audit s) \<subseteq> set (ac_audit t)
     \<and> (same_recording sid s t \<or> (\<not> is_recorded t sid \<and> purge_justified add_days days evs s t sid))"

lemma kept_or_purged_refl [simp]: "kept_or_purged add_days days evs s s sid"
  by (simp add: kept_or_purged_def same_recording_def)

lemma kept_or_purged_trans:
  assumes "kept_or_purged add_days days evs s u sid" and "kept_or_purged add_days days evs' u t sid"
    and "set evs' \<subseteq> set evs"
  shows "kept_or_purged add_days days evs s t sid"
proof -
  have row: "row_summary now u r = row_summary now s r" if "same_recording sid s u" "ts_id r = sid" for now r
    using that by (simp add: same_recording_def row_summary_def purge_summary_def)
  have later: "purge_justified add_days days evs s t sid" if "purge_justified add_days days evs s u sid"
    using that assms(2) unfolding purge_justified_def kept_or_purged_def by blast
  have shift: "purge_justified add_days days evs s t sid"
    if "same_recording sid s u" "purge_justified add_days days evs' u t sid"
    using that(2) row [OF that(1)] assms unfolding purge_justified_def kept_or_purged_def by (metis subsetD)
  show ?thesis
    using assms later shift unfolding kept_or_purged_def same_recording_def is_recorded_iff by auto
qed

lemma tick_effect:
  fixes s :: "'z retention_state_scheme"
  assumes "distinct (map ts_id (rd_sessions s))" and "WE_Tick now env \<in> set evs" and "ac_now s = now"
  shows "kept_or_purged add_days days evs s (snd (run_one_periodic_tick add_days lock days batch env s)) sid"
proof -
  define t where "t = snd (run_one_periodic_tick add_days lock days batch env s)"
  obtain rs fs lk where rs: "set rs \<subseteq> set (eligible add_days days now s)"
    and t: "t = purged_state days now rs (s\<lparr>rt_locks := lk, ac_faults := fs\<rparr>)"
    using tick_frame [OF assms(1)] unfolding t_def assms(3) by blast
  let ?s = "s\<lparr>rt_locks := lk, ac_faults := fs\<rparr>"
  have row: "row_summary now ?s = row_summary now s"
    by (simp add: fun_eq_iff row_summary_def purge_summary_def chunks_of_def markers_of_def)
  have "same_recording sid s t \<or> (\<not> is_recorded t sid \<and> purge_justified add_days days evs s t sid)"
  proof (cases "sid \<in> ts_id ` set rs")
    case False
    then have "same_recording sid ?s t" by (simp add: t same_recording_def rows_of_purged)
    then show ?thesis by (simp add: same_recording_def chunks_of_def markers_of_def)
  next
    case True
    then obtain i where i: "i < length rs" "ts_id (rs ! i) = sid" by (auto simp: in_set_conv_nth)
    then have "rs ! i \<in> set (eligible add_days days now s)" using rs nth_mem by blast
    then have "purgeable add_days days now s (rs ! i)" by (simp add: set_eligible)
    moreover have "purge_audit (ac_next_id s + i) days (row_summary now s (rs ! i)) \<in> set (ac_audit t)"
      using i row by (force simp: t purged_state_def in_set_enumerate_eq)
    ultimately have "purge_justified add_days days evs s t sid"
      using assms(2) i(2) unfolding purge_justified_def purgeable_def by blast
    moreover have "\<not> is_recorded t sid"
      using True by (auto simp: t is_recorded_def purged_state_def list_ex_iff)
    ultimately show ?thesis by blast
  qed
  then show ?thesis
    unfolding kept_or_purged_def t_def [symmetric] by (auto simp: t purged_state_def)
qed

lemma kept_or_purged_now: "kept_or_purged add_days days evs (s\<lparr>ac_now := now\<rparr>) t sid = kept_or_purged add_days days evs s t sid"
  by (simp add: kept_or_purged_def same_recording_def purge_justified_def row_summary_def purge_summary_def
      chunks_of_def markers_of_def)

lemma worker_loop_effect:
  "distinct (map ts_id (rd_sessions s)) \<Longrightarrow>
    kept_or_purged add_days (pf_retention_days cfg) evs s (snd (worker_loop add_days lock cfg evs s)) sid"
proof (induction add_days lock cfg evs s rule: worker_loop.induct)
  case (3 add_days lock cfg rest s)
  then show ?case by (auto intro: kept_or_purged_trans [OF kept_or_purged_refl])
next
  case (5 add_days lock cfg now env rest s)
  define u where "u = snd (run_one_periodic_tick add_days lock (pf_retention_days cfg) (pf_batch_size cfg) env (s\<lparr>ac_now := now\<rparr>))"
  have tick: "kept_or_purged add_days (pf_retention_days cfg) (WE_Tick now env # rest) s u sid"
    using tick_effect [of "s\<lparr>ac_now := now\<rparr>" now env "WE_Tick now env # rest"] "5.prems"
    by (simp add: u_def kept_or_purged_now)
  then have "rd_sessions u = rd_sessions s" by (simp add: kept_or_purged_def)
  with "5.IH" "5.prems" have "kept_or_purged add_days (pf_retention_days cfg) rest u (snd (worker_loop add_days lock cfg rest u)) sid"
    by (simp add: u_def)
  with tick show ?case by (auto simp: u_def intro: kept_or_purged_trans)
qed simp_all

text \<open>
  C31. Over any run of the periodic worker, with any ticks, lock contention and database failures: the
  session rows are untouched, and the recording of each session is either exactly what it was or
  gone as a whole, in which case a tick found the session closed and past the retention period
  and the audit log holds the event of that purge with the counts of what was there.
\<close>

theorem recordings_die_only_by_policy:
  fixes s :: "'z retention_state_scheme"
  assumes "distinct (map ts_id (rd_sessions s))"
  shows "let t = snd (worker_loop add_days lock cfg evs s)
         in rd_sessions t = rd_sessions s
            \<and> (same_recording sid s t
               \<or> (\<not> is_recorded t sid \<and> purge_justified add_days (pf_retention_days cfg) evs s t sid))"
  using worker_loop_effect [OF assms] by (simp add: kept_or_purged_def)

definition calm_tick :: "nat \<Rightarrow> tick_env" where
  "calm_tick conn = \<lparr>tk_conn = conn, tk_acquire_fails = False, tk_try_lock_fails = False, tk_unlock_fails = False\<rparr>"

definition demo_run :: "worker_event list" where
  "demo_run = [WE_Tick 350 (calm_tick 1), WE_Shutdown True, WE_Tick 900 (calm_tick 1)]"

definition demo_config :: periodic_config where
  "demo_config = \<lparr>pf_retention_days = 30, pf_batch_size = 10, pf_interval = seconds 60\<rparr>"

theorem recordings_die_only_by_policy_witness:
  "let t = snd (worker_loop ten_per_day (Some 5) demo_config demo_run demo_recordings)
   in map ck_session (rd_chunks t) = [1, 3] \<and> rd_sessions t = rd_sessions demo_recordings
      \<and> purge_justified ten_per_day 30 demo_run demo_recordings t 2"
proof -
  let ?t = "snd (worker_loop ten_per_day (Some 5) demo_config demo_run demo_recordings)"
  have "distinct (map ts_id (rd_sessions demo_recordings))" "map ck_session (rd_chunks ?t) = [1, 3]"
      "\<not> same_recording 2 demo_recordings ?t" "pf_retention_days demo_config = 30"
    by code_simp+
  then show ?thesis
    using recordings_die_only_by_policy [of demo_recordings ten_per_day "Some 5" demo_config demo_run 2]
    by (simp add: Let_def)
qed

section \<open>The lock\<close>

lemma sweep_keeps_locks [simp]:
  assumes "distinct (map ts_id (rd_sessions s))"
  shows "rt_locks (snd (run_recording_retention_sweep add_days days batch now s)) = rt_locks s"
proof -
  obtain rs fs where "snd (run_recording_retention_sweep add_days days batch now s) = purged_state days now rs (s\<lparr>ac_faults := fs\<rparr>)"
    using sweep_frame [OF assms] by blast
  then show ?thesis by (simp add: purged_state_def)
qed

lemma held_elsewhere_tick:
  assumes "map_of (rt_locks s) key = Some (holder, n)" and "holder \<noteq> tk_conn env"
  shows "snd (run_one_periodic_tick add_days (Some key) days batch env s) = s"
    and "fst (run_one_periodic_tick add_days (Some key) days batch env s) \<in> {TO_Skipped, TO_LockError}"
  using assms by (simp_all add: run_one_periodic_tick_def run_with_lock_def pg_try_advisory_lock_def)

lemma free_lock_tick:
  assumes "map_of (rt_locks s) key = None" and "distinct (map ts_id (rd_sessions s))"
    and "\<not> tk_acquire_fails env" and "\<not> tk_try_lock_fails env"
  shows "run_one_periodic_tick add_days (Some key) days batch env s =
    (case run_recording_retention_sweep add_days days batch (ac_now s)
            (s\<lparr>rt_locks := AList.update key (tk_conn env, 1) (rt_locks s)\<rparr>) of (sm, t) \<Rightarrow>
       if tk_unlock_fails env then (TO_LockError, t) else (TO_Ran sm, pg_advisory_unlock key (tk_conn env) t))"
  using assms by (simp add: run_one_periodic_tick_def run_with_lock_def pg_try_advisory_lock_def split: prod.splits)

text \<open>
  The advisory lock keeps sweeps apart: while another connection holds it a tick changes nothing
  and does not claim to have run, and a tick that finds it free and can release it leaves the
  lock free again for everyone.
\<close>

theorem advisory_lock_excludes:
  fixes s :: "'z retention_state_scheme"
  assumes "distinct (map ts_id (rd_sessions s))"
  shows "case run_one_periodic_tick add_days (Some key) days batch env s of (outcome, t) \<Rightarrow>
           (case map_of (rt_locks s) key of
              Some (holder, n) \<Rightarrow> holder \<noteq> tk_conn env \<longrightarrow> t = s \<and> outcome \<in> {TO_Skipped, TO_LockError}
            | None \<Rightarrow> \<not> tk_unlock_fails env \<longrightarrow> map_of (rt_locks t) k = map_of (rt_locks s) k)"
proof (cases "map_of (rt_locks s) key")
  case (Some h)
  then show ?thesis
    using held_elsewhere_tick [of s key "fst h" "snd h" env add_days days batch]
    by (cases h) (auto split: prod.splits)
next
  case None
  let ?s = "s\<lparr>rt_locks := AList.update key (tk_conn env, 1) (rt_locks s)\<rparr>"
  show ?thesis
  proof (cases "tk_acquire_fails env \<or> tk_try_lock_fails env")
    case True
    then show ?thesis using None by (auto simp: run_one_periodic_tick_def run_with_lock_def)
  next
    case False
    have "rt_locks (snd (run_recording_retention_sweep add_days days batch (ac_now s) ?s)) = rt_locks ?s"
      using assms by (intro sweep_keeps_locks) simp
    moreover have "map_of (AList.delete key (AList.update key (tk_conn env, 1) (rt_locks s))) k = map_of (rt_locks s) k"
      using None by (simp add: delete_conv update_conv)
    ultimately show ?thesis
      using False None free_lock_tick [OF None assms, of env add_days days batch]
      by (auto simp: pg_advisory_unlock_def update_conv split: prod.splits)
  qed
qed

theorem advisory_lock_excludes_witness:
  "run_one_periodic_tick ten_per_day (Some 5) 30 10 (calm_tick 1) (demo_recordings\<lparr>rt_locks := [(5, 2, 1)]\<rparr>)
     = (TO_Skipped, demo_recordings\<lparr>rt_locks := [(5, 2, 1)]\<rparr>)
   \<and> rt_locks (snd (run_one_periodic_tick ten_per_day (Some 5) 30 10 (calm_tick 1) demo_recordings)) = []"
  using advisory_lock_excludes [of "demo_recordings\<lparr>rt_locks := [(5, 2, 1)]\<rparr>" "calm_tick 1" 5 5 ten_per_day 30 10]
    advisory_lock_excludes [of demo_recordings "calm_tick 1" 5 5 ten_per_day 30 10]
  by code_simp

text \<open>
  When the unlock statement fails the sweep has run, but the tick is reported as a lock error, and
  the connection goes back to the pool still holding the lock: as long as it stays open, every
  later tick on another connection is skipped.
\<close>

theorem failed_unlock_stops_retention:
  fixes s :: "'z retention_state_scheme"
  assumes "map_of (rt_locks s) key = None" and "distinct (map ts_id (rd_sessions s))"
    and "\<not> tk_acquire_fails env" and "\<not> tk_try_lock_fails env" and "tk_unlock_fails env"
  shows "case run_one_periodic_tick add_days (Some key) days batch env s of (outcome, t) \<Rightarrow>
           outcome = TO_LockError
           \<and> (tk_conn env' \<noteq> tk_conn env \<longrightarrow> run_one_periodic_tick add_days (Some key) days batch env' t =
                (if tk_acquire_fails env' \<or> tk_try_lock_fails env' then TO_LockError else TO_Skipped, t))"
proof -
  let ?s = "s\<lparr>rt_locks := AList.update key (tk_conn env, 1) (rt_locks s)\<rparr>"
  have "rt_locks (snd (run_recording_retention_sweep add_days days batch (ac_now s) ?s)) = rt_locks ?s"
    using assms(2) by (intro sweep_keeps_locks) simp
  then show ?thesis
    using assms(5) free_lock_tick [OF assms(1-4), of add_days days batch]
    by (auto simp: run_one_periodic_tick_def run_with_lock_def pg_try_advisory_lock_def update_conv split: prod.splits)
qed

end
