(* ===== verification/Recording_Reads.thy ===== *)
theory Recording_Reads
  imports Recording_Store Auth_Routes
begin

text \<open>
  The read API of recorded sessions, \<^verbatim>\<open>relayterm-api/src/routes/v1/terminal_recordings.rs\<close> with
  \<^verbatim>\<open>dto/terminal_recording.rs\<close>. The base64 encoder is a parameter. The extractor of the current user
  runs before each handler.
\<close>

section \<open>Handlers\<close>

definition DEFAULT_LIMIT :: nat where "DEFAULT_LIMIT = 256"
definition MAX_LIMIT :: nat where "MAX_LIMIT = 1024"

record page_query =
  pq_from_seq :: "int option"
  pq_limit :: "nat option"

record metadata_response =
  mp_session :: terminal_session_id
  mp_has_recording :: bool
  mp_chunk_count :: int
  mp_marker_count :: int
  mp_first_seq :: "int option"
  mp_last_seq :: "int option"
  mp_first_recorded_at :: "instant option"
  mp_last_recorded_at :: "instant option"

definition metadata_response_from :: "terminal_recording_metadata \<Rightarrow> metadata_response" where
  "metadata_response_from m =
     \<lparr>mp_session = md_session m, mp_has_recording = metadata_has_recording m, mp_chunk_count = md_chunk_count m,
      mp_marker_count = md_marker_count m, mp_first_seq = md_first_seq m, mp_last_seq = md_last_seq m,
      mp_first_recorded_at = md_first_recorded_at m, mp_last_recorded_at = md_last_recorded_at m\<rparr>"

record chunk_response =
  cr_seq_start :: int
  cr_seq_end :: int
  cr_byte_len :: int
  cr_data_b64 :: string
  cr_encryption :: string
  cr_compression :: string
  cr_created_at :: instant

definition chunk_response_from :: "(byte list \<Rightarrow> string) \<Rightarrow> terminal_recording_chunk \<Rightarrow> chunk_response" where
  "chunk_response_from base64 c =
     \<lparr>cr_seq_start = ck_seq_start c, cr_seq_end = ck_seq_end c, cr_byte_len = ck_byte_len c,
      cr_data_b64 = base64 (ck_payload c), cr_encryption = encryption_as_str (ck_encryption c),
      cr_compression = compression_as_str (ck_compression c), cr_created_at = ck_created_at c\<rparr>"

record marker_response =
  mk_kind :: marker_kind
  mk_seq :: int
  mk_payload :: json
  mk_created_at :: instant

definition marker_response_from :: "terminal_recording_marker \<Rightarrow> marker_response" where
  "marker_response_from m =
     \<lparr>mk_kind = mr_kind m, mk_seq = mr_seq m, mk_payload = mr_payload m, mk_created_at = mr_created_at m\<rparr>"

type_synonym ('z, 'a) rec_route = "('z recording_db_scheme, api_error, 'a) prog"

definition resolve_owned_session :: "authenticated_user \<Rightarrow> terminal_session_id \<Rightarrow> ('z, unit) rec_route" where
  "resolve_owned_session user sid =
     bindP (mapErrP api_error_from_repository (acc_call (\<lambda>s. (Inr (recorded_session s sid), s)))) (\<lambda>found.
     bindP (okOrP (case found of Some r \<Rightarrow> if ts_owner_id r = au_user_id user then Some r else None | None \<Rightarrow> None)
              (AE_NotFound ''terminal_session'')) (\<lambda>_.
     retP ()))"

definition clamp_limit :: "nat option \<Rightarrow> nat" where
  "clamp_limit raw = clamp 1 MAX_LIMIT (case raw of Some n \<Rightarrow> n | None \<Rightarrow> DEFAULT_LIMIT)"

definition parse_from_seq :: "int option \<Rightarrow> int \<Rightarrow> ('z, int) rec_route" where
  "parse_from_seq raw fallback =
     (let v = (case raw of Some n \<Rightarrow> n | None \<Rightarrow> fallback)
      in if v < 0 then raiseP (AE_Validation ''from_seq: must be >= 0'') else retP v)"

definition owned_metadata :: "authenticated_user \<Rightarrow> terminal_session_id \<Rightarrow> ('z, metadata_response) rec_route" where
  "owned_metadata user sid =
     bindP (resolve_owned_session user sid) (\<lambda>_.
     bindP (mapErrP api_error_from_repository (recordings_get_metadata sid)) (\<lambda>metadata.
     retP (metadata_response_from metadata)))"

definition owned_chunks ::
  "(byte list \<Rightarrow> string) \<Rightarrow> authenticated_user \<Rightarrow> terminal_session_id \<Rightarrow> page_query \<Rightarrow> ('z, chunk_response list) rec_route" where
  "owned_chunks base64 user sid q =
     bindP (resolve_owned_session user sid) (\<lambda>_.
     bindP (parse_from_seq (pq_from_seq q) 1) (\<lambda>from_seq.
     bindP (mapErrP api_error_from_repository (recordings_list_chunks sid from_seq (clamp_limit (pq_limit q)))) (\<lambda>chunks.
     retP (map (chunk_response_from base64) chunks))))"

definition owned_markers ::
  "authenticated_user \<Rightarrow> terminal_session_id \<Rightarrow> page_query \<Rightarrow> ('z, marker_response list) rec_route" where
  "owned_markers user sid q =
     bindP (resolve_owned_session user sid) (\<lambda>_.
     bindP (parse_from_seq (pq_from_seq q) 0) (\<lambda>from_seq.
     bindP (mapErrP api_error_from_repository (recordings_list_markers sid from_seq (clamp_limit (pq_limit q)))) (\<lambda>markers.
     retP (map marker_response_from markers))))"

definition get_recording_metadata ::
  "auth_service \<Rightarrow> request_headers \<Rightarrow> terminal_session_id \<Rightarrow> ('z, metadata_response) rec_route" where
  "get_recording_metadata svc headers sid = bindP (authenticate svc headers) (\<lambda>user. owned_metadata user sid)"

definition list_recording_chunks ::
  "(byte list \<Rightarrow> string) \<Rightarrow> auth_service \<Rightarrow> request_headers \<Rightarrow> terminal_session_id \<Rightarrow> page_query
     \<Rightarrow> ('z, chunk_response list) rec_route" where
  "list_recording_chunks base64 svc headers sid q =
     bindP (authenticate svc headers) (\<lambda>user. owned_chunks base64 user sid q)"

definition list_recording_markers ::
  "auth_service \<Rightarrow> request_headers \<Rightarrow> terminal_session_id \<Rightarrow> page_query \<Rightarrow> ('z, marker_response list) rec_route" where
  "list_recording_markers svc headers sid q =
     bindP (authenticate svc headers) (\<lambda>user. owned_markers user sid q)"

section \<open>Foreign recordings\<close>

text \<open>Without database failures the answer for a foreign session is the answer for a missing one.\<close>

lemma resolve_foreign:
  assumes "ac_faults s = []" and "\<forall>r. recorded_session s sid = Some r \<longrightarrow> ts_owner_id r \<noteq> au_user_id user"
  shows "resolve_owned_session user sid s = (Inl (AE_NotFound ''terminal_session''), s)"
  using assms by (auto simp: resolve_owned_session_def bindP_run mapErrP_run acc_call_ok split: option.splits)

lemma foreign_recording_is_missing:
  assumes "ac_faults s = []" and "\<forall>r. recorded_session s sid = Some r \<longrightarrow> ts_owner_id r \<noteq> au_user_id user"
  shows "owned_metadata user sid s = (Inl (AE_NotFound ''terminal_session''), s)"
    and "owned_chunks base64 user sid q s = (Inl (AE_NotFound ''terminal_session''), s)"
    and "owned_markers user sid q s = (Inl (AE_NotFound ''terminal_session''), s)"
  by (simp_all add: owned_metadata_def owned_chunks_def owned_markers_def bindP_run resolve_foreign [OF assms])

section \<open>Paging\<close>

text \<open>
  A reader that asks for page after page, each from the number after the last chunk it got, until
  a page is empty. Its bound only limits how many pages it asks for.
\<close>

primrec read_pages ::
  "nat \<Rightarrow> (byte list \<Rightarrow> string) \<Rightarrow> authenticated_user \<Rightarrow> terminal_session_id \<Rightarrow> nat \<Rightarrow> int \<Rightarrow> 'z recording_db_scheme
     \<Rightarrow> chunk_response list" where
  "read_pages 0 base64 user sid limit from_seq s = []"
| "read_pages (Suc k) base64 user sid limit from_seq s =
     (case owned_chunks base64 user sid \<lparr>pq_from_seq = Some from_seq, pq_limit = Some limit\<rparr> s of
        (Inl e, t) \<Rightarrow> []
      | (Inr page, t) \<Rightarrow>
          if page = [] then []
          else page @ read_pages k base64 user sid limit (cr_seq_start (last page) + 1) t)"

definition rest_from :: "terminal_session_id \<Rightarrow> int \<Rightarrow> 'z recording_db_scheme \<Rightarrow> terminal_recording_chunk list" where
  "rest_from sid from_seq s = sort_key ck_seq_start (filter (\<lambda>c. ck_seq_start c \<ge> from_seq) (chunks_of sid s))"

definition page_size :: "nat \<Rightarrow> nat" where
  "page_size limit = repo_clamp_limit (clamp_limit (Some limit))"

lemma page_size_pos: "0 < page_size limit"
  by (simp add: page_size_def repo_clamp_limit_def clamp_limit_def clamp_def LIST_LIMIT_CEILING_def MAX_LIMIT_def)

lemma owned_chunks_page:
  assumes "ac_faults s = []" and "recorded_session s sid = Some r" and "ts_owner_id r = au_user_id user" and "0 \<le> from_seq"
  shows "owned_chunks base64 user sid \<lparr>pq_from_seq = Some from_seq, pq_limit = Some limit\<rparr> s =
    (Inr (map (chunk_response_from base64) (take (page_size limit) (rest_from sid from_seq s))), s)"
  using assms
  by (simp add: owned_chunks_def resolve_owned_session_def parse_from_seq_def recordings_list_chunks_def bindP_run
      mapErrP_run acc_call_ok page_size_def rest_from_def)

lemma filter_above_last_taken:
  assumes "sorted_wrt (\<lambda>x y. key x < key y) xs" and "take n xs \<noteq> []"
  shows "filter (\<lambda>x. key (last (take n xs)) + 1 \<le> (key x :: int)) xs = drop n xs"
proof -
  let ?q = "key (last (take n xs))"
  have sorted: "sorted_wrt (\<lambda>x y. key x < key y) (take n xs @ drop n xs)" using assms(1) by simp
  then have "\<forall>y \<in> set (drop n xs). ?q < key y"
    using assms(2) last_in_set by (fastforce simp: sorted_wrt_append simp del: append_take_drop_id)
  moreover have "key x \<le> ?q" if "x \<in> set (take n xs)" for x
  proof -
    have split: "take n xs = butlast (take n xs) @ [last (take n xs)]" using assms(2) by simp
    have "sorted_wrt (\<lambda>x y. key x < key y) (take n xs)" using assms(1) by (rule sorted_wrt_take)
    then have "\<forall>y \<in> set (butlast (take n xs)). key y < ?q"
      by (subst (asm) split) (simp add: sorted_wrt_append)
    moreover have "x \<in> set (butlast (take n xs)) \<or> x = last (take n xs)"
      using that by (subst (asm) split) auto
    ultimately show ?thesis by auto
  qed
  ultimately have "filter (\<lambda>x. ?q + 1 \<le> key x) (take n xs @ drop n xs) = drop n xs"
    by (intro filter_append_split) force+
  then show ?thesis by simp
qed

lemma rest_from_strict:
  assumes "distinct (map ck_seq_start (chunks_of sid s))"
  shows "sorted_wrt (\<lambda>x y. ck_seq_start x < ck_seq_start y) (rest_from sid from_seq s)"
proof -
  have "distinct (map ck_seq_start (rest_from sid from_seq s))"
    using assms by (auto simp: rest_from_def distinct_map intro: inj_on_subset)
  moreover have "sorted (map ck_seq_start (rest_from sid from_seq s))" by (simp add: rest_from_def)
  ultimately have "sorted_wrt (<) (map ck_seq_start (rest_from sid from_seq s))" by (simp add: strict_sorted_iff)
  then show ?thesis by (simp add: sorted_wrt_map)
qed

lemma rest_from_next:
  assumes "distinct (map ck_seq_start (chunks_of sid s))" and "take n (rest_from sid from_seq s) \<noteq> []"
  shows "rest_from sid (ck_seq_start (last (take n (rest_from sid from_seq s))) + 1) s = drop n (rest_from sid from_seq s)"
proof -
  let ?q = "ck_seq_start (last (take n (rest_from sid from_seq s)))"
  have "from_seq \<le> ?q"
    using last_in_set [OF assms(2)] by (auto simp: rest_from_def dest!: in_set_takeD)
  then have "rest_from sid (?q + 1) s = filter (\<lambda>c. ?q + 1 \<le> ck_seq_start c) (rest_from sid from_seq s)"
    by (auto simp: rest_from_def filter_sort intro!: arg_cong [where f = "sort_key ck_seq_start"] filter_cong)
  then show ?thesis using filter_above_last_taken [OF rest_from_strict [OF assms(1)] assms(2)] by simp
qed

text \<open>
  C40. Reading a recording page by page, with any page size the caller asks for, gives the owner every
  stored chunk of the session exactly once, in sequence order and with its bytes encoded, when no
  database call fails and the start numbers of the session's chunks are positive and distinct, as
  the table's constraints demand.
\<close>

theorem recording_pages_reassemble:
  fixes s :: "'z recording_db_scheme"
  assumes "ac_faults s = []" and "recorded_session s sid = Some r" and "ts_owner_id r = au_user_id user"
    and "distinct (map ck_seq_start (chunks_of sid s))" and "\<forall>c \<in> set (chunks_of sid s). 1 \<le> ck_seq_start c"
    and "length (chunks_of sid s) < k"
  shows "read_pages k base64 user sid limit 1 s =
    map (chunk_response_from base64) (sort_key ck_seq_start (chunks_of sid s))"
proof -
  let ?L = "page_size limit"
  have pages: "read_pages k base64 user sid limit from_seq s = map (chunk_response_from base64) (rest_from sid from_seq s)"
    if "0 \<le> from_seq" "length (rest_from sid from_seq s) < k" for from_seq k
    using that
  proof (induction k arbitrary: from_seq)
    case (Suc k)
    let ?page = "take ?L (rest_from sid from_seq s)"
    note page = owned_chunks_page [OF assms(1-3) Suc.prems(1), of base64 limit]
    show ?case
    proof (cases "?page = []")
      case True
      with page page_size_pos [of limit] show ?thesis by simp
    next
      case False
      let ?q = "ck_seq_start (last ?page)"
      have next_rest: "rest_from sid (?q + 1) s = drop ?L (rest_from sid from_seq s)"
        using rest_from_next [OF assms(4) False] .
      have "from_seq \<le> ?q" using last_in_set [OF False] by (auto simp: rest_from_def dest!: in_set_takeD)
      moreover have "length (rest_from sid (?q + 1) s) < k"
        unfolding next_rest using Suc.prems(2) False page_size_pos [of limit]
        by (cases "rest_from sid from_seq s") simp_all
      ultimately have "read_pages k base64 user sid limit (?q + 1) s =
          map (chunk_response_from base64) (drop ?L (rest_from sid from_seq s))"
        using Suc.IH [of "?q + 1"] Suc.prems(1) next_rest by simp
      moreover have "cr_seq_start (last (map (chunk_response_from base64) ?page)) = ?q"
        using False by (simp add: last_map chunk_response_from_def)
      ultimately show ?thesis using page False
        by (simp del: take_eq_Nil take_eq_Nil2 flip: map_append)
    qed
  qed simp
  have all: "rest_from sid 1 s = sort_key ck_seq_start (chunks_of sid s)"
    using assms(5) by (simp add: rest_from_def)
  show ?thesis using pages [of 1 k] assms(6) by (simp add: all)
qed

definition demo_reader :: authenticated_user where
  "demo_reader = \<lparr>au_user = \<lparr>us_id = 7, us_email = ''a@b'', us_display_name = ''A'', us_created_at = 0,
     us_last_login_at = None\<rparr>, au_session_id = 1\<rparr>"

definition stored_chunk :: "int \<Rightarrow> int \<Rightarrow> terminal_recording_chunk" where
  "stored_chunk a b = \<lparr>ck_session = 4, ck_seq_start = a, ck_seq_end = b, ck_byte_len = 1, ck_payload = [of_int a],
     ck_id = nat a, ck_encryption = ENC_None, ck_compression = CMP_None, ck_created_at = 0\<rparr>"

definition demo_store :: recording_db where
  "demo_store = \<lparr>ac_users = [], ac_passwords = [], ac_sessions = [], ac_audit = [], ac_next_id = 200,
     ac_now = 500, ac_faults = [], as_draws = 0, as_throttle = throttler_new V1_DEFAULT,
     rd_sessions = [\<lparr>ts_id = 4, ts_owner_id = 7, ts_server_profile_id = 3, ts_status = TS_Closed, ts_cols = 80,
       ts_rows = 24, ts_created_at = 0, ts_last_seen_at = 0, ts_closed_at = Some 9\<rparr>],
     rd_chunks = [stored_chunk 4 9, stored_chunk 1 3, stored_chunk 10 10], rd_markers = []\<rparr>"

theorem recording_pages_reassemble_witness:
  "map cr_seq_start (read_pages 4 (\<lambda>bs. replicate (length bs) CHR ''x'') demo_reader 4 2 1 demo_store) = [1, 4, 10]"
  using recording_pages_reassemble [of demo_store 4 "hd (rd_sessions demo_store)" demo_reader 4
      "\<lambda>bs. replicate (length bs) CHR ''x''" 2]
  by code_simp

end
