(* ===== verification/Catalog_Store.thy ===== *)
theory Catalog_Store
  imports Auth_Service Session_Manager Field_Validation Ssh_Services
begin

text \<open>
  The PostgreSQL repositories for hosts, SSH identities, server profiles and known-host entries
  (\<^verbatim>\<open>crates/relayterm-db/src/repositories\<close>), with the unique indexes, checks and foreign keys of
  their migrations. They extend the account tables; the terminal sessions that refer to profiles
  are the manager's. A statement is atomic and takes one entry of the fault list, and so does
  the transaction of \<open>replace_active_pin\<close>. \<open>ORDER BY name\<close> depends on the collation of the
  database, which is a parameter. \<open>cd_wire\<close> collects what the requests send to SSH hosts.
\<close>

section \<open>The database\<close>

record catalog_db = auth_state +
  cd_hosts :: "host list"
  cd_identities :: "ssh_identity list"
  cd_profiles :: "server_profile list"
  cd_pins :: "known_host_entry list"
  cd_manager :: manager
  cd_vault_draws :: nat
  cd_auth_check :: auth_check_service
  cd_wire :: "wire_action list"

type_synonym 'a cat = "(catalog_db, repository_error, 'a) prog"

definition host_row :: "catalog_db \<Rightarrow> host_id \<Rightarrow> host option" where
  "host_row s hid = find (\<lambda>r. ho_id r = hid) (cd_hosts s)"

definition identity_row :: "catalog_db \<Rightarrow> ssh_identity_id \<Rightarrow> ssh_identity option" where
  "identity_row s iid = find (\<lambda>r. si_id r = iid) (cd_identities s)"

definition profile_row :: "catalog_db \<Rightarrow> server_profile_id \<Rightarrow> server_profile option" where
  "profile_row s pid = find (\<lambda>r. sp_id r = pid) (cd_profiles s)"

definition or_else :: "'a option \<Rightarrow> 'a \<Rightarrow> 'a" where
  "or_else v old = (case v of Some x \<Rightarrow> x | None \<Rightarrow> old)"

section \<open>Hosts\<close>

record create_host =
  ch_owner_id :: user_id
  ch_display_name :: string
  ch_hostname :: string
  ch_port :: nat
  ch_default_username :: string

record update_host =
  uh_display_name :: "string option"
  uh_hostname :: "string option"
  uh_port :: "nat option"
  uh_default_username :: "string option"

definition port_chk :: "nat \<Rightarrow> bool" where
  "port_chk port = (1 \<le> port \<and> port \<le> 65535)"

definition new_host :: "catalog_db \<Rightarrow> create_host \<Rightarrow> host" where
  "new_host s input =
     \<lparr>ho_id = ac_next_id s, ho_owner_id = ch_owner_id input, ho_display_name = ch_display_name input,
      ho_hostname = ch_hostname input, ho_port = ch_port input,
      ho_default_username = ch_default_username input, ho_created_at = ac_now s, ho_updated_at = ac_now s\<rparr>"

definition hosts_create :: "create_host \<Rightarrow> host cat" where
  "hosts_create input = acc_call (\<lambda>s.
     if \<not> port_chk (ch_port input) then (Inl (check_failed ''host'' ''hosts_port_range''), s)
     else if user_row s (ch_owner_id input) = None
     then (Inl (RE_Conflict ''host'' ''hosts_owner_id_fkey''), s)
     else let row = new_host s input
          in (Inr row, s\<lparr>ac_next_id := Suc (ac_next_id s), cd_hosts := cd_hosts s @ [row]\<rparr>))"

definition hosts_get :: "host_id \<Rightarrow> host option cat" where
  "hosts_get hid = acc_call (\<lambda>s. (Inr (host_row s hid), s))"

definition hosts_list_for_user :: "user_id \<Rightarrow> host list cat" where
  "hosts_list_for_user owner = acc_call (\<lambda>s.
     (Inr (sort_key ho_created_at (filter (\<lambda>r. ho_owner_id r = owner) (cd_hosts s))), s))"

definition patch_host :: "instant \<Rightarrow> update_host \<Rightarrow> host \<Rightarrow> host" where
  "patch_host now input r =
     r\<lparr>ho_display_name := or_else (uh_display_name input) (ho_display_name r),
       ho_hostname := or_else (uh_hostname input) (ho_hostname r),
       ho_port := or_else (uh_port input) (ho_port r),
       ho_default_username := or_else (uh_default_username input) (ho_default_username r),
       ho_updated_at := now\<rparr>"

definition hosts_update :: "host_id \<Rightarrow> user_id \<Rightarrow> update_host \<Rightarrow> host cat" where
  "hosts_update hid owner input = acc_call (\<lambda>s.
     case find (\<lambda>r. ho_id r = hid \<and> ho_owner_id r = owner) (cd_hosts s) of
       None \<Rightarrow> (Inl (RE_NotFound ''host''), s)
     | Some old \<Rightarrow>
         let row = patch_host (ac_now s) input old in
         if \<not> port_chk (ho_port row) then (Inl (check_failed ''host'' ''hosts_port_range''), s)
         else (Inr row, s\<lparr>cd_hosts := map (\<lambda>r. if ho_id r = hid then row else r) (cd_hosts s)\<rparr>))"

text \<open>
  \<open>server_profiles.host_id\<close> restricts the delete, \<open>known_host_entries.host_id\<close> cascades it, and
  \<open>replaced_by_id\<close> is set to null where it named a deleted entry.
\<close>

definition cascade_host :: "host_id \<Rightarrow> known_host_entry list \<Rightarrow> known_host_entry list" where
  "cascade_host hid pins =
     (let gone = map kh_id (filter (\<lambda>e. kh_host_id e = hid) pins)
      in map (\<lambda>e. case kh_replaced_by_id e of
                    Some k \<Rightarrow> if k \<in> set gone then e\<lparr>kh_replaced_by_id := None\<rparr> else e
                  | None \<Rightarrow> e)
           (filter (\<lambda>e. kh_host_id e \<noteq> hid) pins))"

definition hosts_delete :: "host_id \<Rightarrow> user_id \<Rightarrow> unit cat" where
  "hosts_delete hid owner = acc_call (\<lambda>s.
     if find (\<lambda>r. ho_id r = hid \<and> ho_owner_id r = owner) (cd_hosts s) = None
     then (Inl (RE_NotFound ''host''), s)
     else if list_ex (\<lambda>p. sp_host_id p = hid) (cd_profiles s)
     then (Inl (RE_Conflict ''host'' ''server_profiles_host_id_fkey''), s)
     else (Inr (), s\<lparr>cd_hosts := filter (\<lambda>r. ho_id r \<noteq> hid) (cd_hosts s),
                     cd_pins := cascade_host hid (cd_pins s)\<rparr>))"

definition hosts_any_dependents :: "host_id \<Rightarrow> user_id \<Rightarrow> bool cat" where
  "hosts_any_dependents hid owner = acc_call (\<lambda>s.
     (Inr (list_ex (\<lambda>p. sp_host_id p = hid \<and> sp_owner_id p = owner) (cd_profiles s)
           \<or> list_ex (\<lambda>e. kh_host_id e = hid) (cd_pins s)), s))"

section \<open>SSH identities\<close>

record create_ssh_identity =
  ci_owner_id :: user_id
  ci_name :: string
  ci_key_type :: ssh_key_type
  ci_public_key :: "byte list"
  ci_encrypted_private_key :: "byte list"
  ci_fingerprint_sha256 :: string

definition new_identity :: "catalog_db \<Rightarrow> create_ssh_identity \<Rightarrow> ssh_identity" where
  "new_identity s input =
     \<lparr>si_id = ac_next_id s, si_owner_id = ci_owner_id input, si_name = ci_name input,
      si_key_type = ci_key_type input, si_public_key = ci_public_key input,
      si_encrypted_private_key = ci_encrypted_private_key input,
      si_fingerprint_sha256 = ci_fingerprint_sha256 input, si_created_at = ac_now s, si_last_used_at = None\<rparr>"

definition identities_create :: "create_ssh_identity \<Rightarrow> ssh_identity cat" where
  "identities_create input = acc_call (\<lambda>s.
     if list_ex (\<lambda>r. si_owner_id r = ci_owner_id input
                   \<and> si_fingerprint_sha256 r = ci_fingerprint_sha256 input) (cd_identities s)
     then (Inl (RE_Conflict ''ssh_identity'' ''ssh_identities_owner_fingerprint_key''), s)
     else if user_row s (ci_owner_id input) = None
     then (Inl (RE_Conflict ''ssh_identity'' ''ssh_identities_owner_id_fkey''), s)
     else let row = new_identity s input
          in (Inr row, s\<lparr>ac_next_id := Suc (ac_next_id s), cd_identities := cd_identities s @ [row]\<rparr>))"

definition identities_get :: "ssh_identity_id \<Rightarrow> ssh_identity option cat" where
  "identities_get iid = acc_call (\<lambda>s. (Inr (identity_row s iid), s))"

definition identities_list_for_user :: "user_id \<Rightarrow> ssh_identity list cat" where
  "identities_list_for_user owner = acc_call (\<lambda>s.
     (Inr (sort_key si_created_at (filter (\<lambda>r. si_owner_id r = owner) (cd_identities s))), s))"

definition identities_rename :: "ssh_identity_id \<Rightarrow> user_id \<Rightarrow> string \<Rightarrow> ssh_identity cat" where
  "identities_rename iid owner name = acc_call (\<lambda>s.
     case find (\<lambda>r. si_id r = iid \<and> si_owner_id r = owner) (cd_identities s) of
       None \<Rightarrow> (Inl (RE_NotFound ''ssh_identity''), s)
     | Some old \<Rightarrow>
         let row = old\<lparr>si_name := name\<rparr>
         in (Inr row, s\<lparr>cd_identities := map (\<lambda>r. if si_id r = iid then row else r) (cd_identities s)\<rparr>))"

definition identities_delete :: "ssh_identity_id \<Rightarrow> user_id \<Rightarrow> unit cat" where
  "identities_delete iid owner = acc_call (\<lambda>s.
     if find (\<lambda>r. si_id r = iid \<and> si_owner_id r = owner) (cd_identities s) = None
     then (Inl (RE_NotFound ''ssh_identity''), s)
     else if list_ex (\<lambda>p. sp_ssh_identity_id p = iid) (cd_profiles s)
     then (Inl (RE_Conflict ''ssh_identity'' ''server_profiles_ssh_identity_id_fkey''), s)
     else (Inr (), s\<lparr>cd_identities := filter (\<lambda>r. si_id r \<noteq> iid) (cd_identities s)\<rparr>))"

definition identities_any_dependents :: "ssh_identity_id \<Rightarrow> user_id \<Rightarrow> bool cat" where
  "identities_any_dependents iid owner = acc_call (\<lambda>s.
     (Inr (list_ex (\<lambda>p. sp_ssh_identity_id p = iid \<and> sp_owner_id p = owner) (cd_profiles s)), s))"

section \<open>Server profiles\<close>

record create_server_profile =
  cp_owner_id :: user_id
  cp_name :: string
  cp_host_id :: host_id
  cp_ssh_identity_id :: ssh_identity_id
  cp_username_override :: "string option"
  cp_tags :: "string list"

datatype 'a set_optional = Unchanged | SetTo "'a option"

record update_server_profile =
  up_name :: "string option"
  up_host_id :: "host_id option"
  up_ssh_identity_id :: "ssh_identity_id option"
  up_username_override :: "string set_optional"
  up_tags :: "string list option"

definition name_taken :: "catalog_db \<Rightarrow> user_id \<Rightarrow> string \<Rightarrow> server_profile_id option \<Rightarrow> bool" where
  "name_taken s owner name except =
     list_ex (\<lambda>r. sp_owner_id r = owner \<and> sp_name r = name \<and> Some (sp_id r) \<noteq> except) (cd_profiles s)"

definition new_profile :: "catalog_db \<Rightarrow> create_server_profile \<Rightarrow> server_profile" where
  "new_profile s input =
     \<lparr>sp_id = ac_next_id s, sp_owner_id = cp_owner_id input, sp_name = cp_name input,
      sp_host_id = cp_host_id input, sp_ssh_identity_id = cp_ssh_identity_id input,
      sp_username_override = cp_username_override input, sp_tags = cp_tags input,
      sp_created_at = ac_now s, sp_updated_at = ac_now s, sp_last_connected_at = None, sp_disabled_at = None\<rparr>"

definition profiles_create :: "create_server_profile \<Rightarrow> server_profile cat" where
  "profiles_create input = acc_call (\<lambda>s.
     if name_taken s (cp_owner_id input) (cp_name input) None
     then (Inl (RE_Conflict ''server_profile'' ''server_profiles_owner_name_key''), s)
     else if user_row s (cp_owner_id input) = None
     then (Inl (RE_Conflict ''server_profile'' ''server_profiles_owner_id_fkey''), s)
     else if host_row s (cp_host_id input) = None
     then (Inl (RE_Conflict ''server_profile'' ''server_profiles_host_id_fkey''), s)
     else if identity_row s (cp_ssh_identity_id input) = None
     then (Inl (RE_Conflict ''server_profile'' ''server_profiles_ssh_identity_id_fkey''), s)
     else let row = new_profile s input
          in (Inr row, s\<lparr>ac_next_id := Suc (ac_next_id s), cd_profiles := cd_profiles s @ [row]\<rparr>))"

definition profiles_get :: "server_profile_id \<Rightarrow> server_profile option cat" where
  "profiles_get pid = acc_call (\<lambda>s. (Inr (profile_row s pid), s))"

primrec insert_by :: "('a \<Rightarrow> 'a \<Rightarrow> bool) \<Rightarrow> 'a \<Rightarrow> 'a list \<Rightarrow> 'a list" where
  "insert_by le x [] = [x]"
| "insert_by le x (y # ys) = (if le x y then x # y # ys else y # insert_by le x ys)"

definition sort_by :: "('a \<Rightarrow> 'a \<Rightarrow> bool) \<Rightarrow> 'a list \<Rightarrow> 'a list" where
  "sort_by le xs = foldr (insert_by le) xs []"

definition profiles_list_for_user ::
  "(string \<Rightarrow> string \<Rightarrow> bool) \<Rightarrow> user_id \<Rightarrow> server_profile list cat" where
  "profiles_list_for_user collate owner = acc_call (\<lambda>s.
     (Inr (sort_by (\<lambda>p q. collate (sp_name p) (sp_name q))
             (filter (\<lambda>r. sp_owner_id r = owner) (cd_profiles s))), s))"

definition patch_profile :: "instant \<Rightarrow> update_server_profile \<Rightarrow> server_profile \<Rightarrow> server_profile" where
  "patch_profile now input r =
     r\<lparr>sp_name := or_else (up_name input) (sp_name r),
       sp_host_id := or_else (up_host_id input) (sp_host_id r),
       sp_ssh_identity_id := or_else (up_ssh_identity_id input) (sp_ssh_identity_id r),
       sp_username_override :=
         (case up_username_override input of Unchanged \<Rightarrow> sp_username_override r | SetTo v \<Rightarrow> v),
       sp_tags := or_else (up_tags input) (sp_tags r),
       sp_updated_at := now\<rparr>"

definition profiles_update ::
  "server_profile_id \<Rightarrow> user_id \<Rightarrow> update_server_profile \<Rightarrow> server_profile cat" where
  "profiles_update pid owner input = acc_call (\<lambda>s.
     case find (\<lambda>r. sp_id r = pid \<and> sp_owner_id r = owner) (cd_profiles s) of
       None \<Rightarrow> (Inl (RE_NotFound ''server_profile''), s)
     | Some old \<Rightarrow>
         let row = patch_profile (ac_now s) input old in
         if name_taken s owner (sp_name row) (Some pid)
         then (Inl (RE_Conflict ''server_profile'' ''server_profiles_owner_name_key''), s)
         else if host_row s (sp_host_id row) = None
         then (Inl (RE_Conflict ''server_profile'' ''server_profiles_host_id_fkey''), s)
         else if identity_row s (sp_ssh_identity_id row) = None
         then (Inl (RE_Conflict ''server_profile'' ''server_profiles_ssh_identity_id_fkey''), s)
         else (Inr row, s\<lparr>cd_profiles := map (\<lambda>r. if sp_id r = pid then row else r) (cd_profiles s)\<rparr>))"

text \<open>\<open>terminal_sessions.server_profile_id\<close> restricts the delete.\<close>

definition profile_sessions :: "catalog_db \<Rightarrow> terminal_session list" where
  "profile_sessions s = db_sessions (mg_db (cd_manager s))"

definition profiles_delete :: "server_profile_id \<Rightarrow> user_id \<Rightarrow> unit cat" where
  "profiles_delete pid owner = acc_call (\<lambda>s.
     if find (\<lambda>r. sp_id r = pid \<and> sp_owner_id r = owner) (cd_profiles s) = None
     then (Inl (RE_NotFound ''server_profile''), s)
     else if list_ex (\<lambda>t. ts_server_profile_id t = pid) (profile_sessions s)
     then (Inl (RE_Conflict ''server_profile'' ''terminal_sessions_server_profile_id_fkey''), s)
     else (Inr (), s\<lparr>cd_profiles := filter (\<lambda>r. sp_id r \<noteq> pid) (cd_profiles s)\<rparr>))"

definition profiles_any_dependents :: "server_profile_id \<Rightarrow> user_id \<Rightarrow> bool cat" where
  "profiles_any_dependents pid owner = acc_call (\<lambda>s.
     (Inr (list_ex (\<lambda>t. ts_server_profile_id t = pid \<and> ts_owner_id t = owner) (profile_sessions s)), s))"

definition profiles_set_disabled_at ::
  "server_profile_id \<Rightarrow> user_id \<Rightarrow> instant option \<Rightarrow> server_profile cat" where
  "profiles_set_disabled_at pid owner disabled_at = acc_call (\<lambda>s.
     case find (\<lambda>r. sp_id r = pid \<and> sp_owner_id r = owner) (cd_profiles s) of
       None \<Rightarrow> (Inl (RE_NotFound ''server_profile''), s)
     | Some old \<Rightarrow>
         let row = old\<lparr>sp_updated_at := ac_now s, sp_disabled_at := disabled_at\<rparr>
         in (Inr row, s\<lparr>cd_profiles := map (\<lambda>r. if sp_id r = pid then row else r) (cd_profiles s)\<rparr>))"

section \<open>Known-host entries\<close>

record create_known_host_entry =
  ck_host_id :: host_id
  ck_key_type :: ssh_key_type
  ck_fingerprint_sha256 :: string
  ck_public_key :: "byte list"

definition pin_for :: "catalog_db \<Rightarrow> host_id \<Rightarrow> string \<Rightarrow> known_host_entry option" where
  "pin_for s hid fp = find (\<lambda>e. kh_host_id e = hid \<and> kh_fingerprint_sha256 e = fp) (cd_pins s)"

definition new_pin :: "catalog_db \<Rightarrow> create_known_host_entry \<Rightarrow> instant option \<Rightarrow> known_host_entry" where
  "new_pin s input trusted_at =
     \<lparr>kh_id = ac_next_id s, kh_host_id = ck_host_id input, kh_key_type = ck_key_type input,
      kh_fingerprint_sha256 = ck_fingerprint_sha256 input, kh_public_key = ck_public_key input,
      kh_first_seen_at = ac_now s, kh_trusted_at = trusted_at, kh_revoked_at = None, kh_revoked_by = None,
      kh_revoked_reason_code = None, kh_replaced_by_id = None\<rparr>"

definition pins_create :: "create_known_host_entry \<Rightarrow> known_host_entry cat" where
  "pins_create input = acc_call (\<lambda>s.
     if pin_for s (ck_host_id input) (ck_fingerprint_sha256 input) \<noteq> None
     then (Inl (RE_Conflict ''known_host_entry'' ''known_host_entries_host_fingerprint_key''), s)
     else if host_row s (ck_host_id input) = None
     then (Inl (RE_Conflict ''known_host_entry'' ''known_host_entries_host_id_fkey''), s)
     else let row = new_pin s input None
          in (Inr row, s\<lparr>ac_next_id := Suc (ac_next_id s), cd_pins := cd_pins s @ [row]\<rparr>))"

definition pins_list_for_host :: "host_id \<Rightarrow> known_host_entry list cat" where
  "pins_list_for_host hid = acc_call (\<lambda>s.
     (Inr (sort_key kh_first_seen_at (filter (\<lambda>e. kh_host_id e = hid) (cd_pins s))), s))"

definition pins_find_by_fingerprint :: "host_id \<Rightarrow> string \<Rightarrow> known_host_entry option cat" where
  "pins_find_by_fingerprint hid fp = acc_call (\<lambda>s. (Inr (pin_for s hid fp), s))"

text \<open>The upsert: its \<open>WHERE revoked_at IS NULL\<close> leaves a revoked entry alone, which returns no row.\<close>

definition pins_record_trusted :: "create_known_host_entry \<Rightarrow> known_host_entry cat" where
  "pins_record_trusted input = acc_call (\<lambda>s.
     case pin_for s (ck_host_id input) (ck_fingerprint_sha256 input) of
       Some old \<Rightarrow>
         if kh_revoked_at old \<noteq> None then (Inl (RE_Conflict ''known_host_entry'' ''revoked''), s)
         else let row = old\<lparr>kh_trusted_at := coalesce (kh_trusted_at old) (Some (ac_now s))\<rparr>
              in (Inr row, s\<lparr>cd_pins := map (\<lambda>e. if kh_id e = kh_id old then row else e) (cd_pins s)\<rparr>)
     | None \<Rightarrow>
         if host_row s (ck_host_id input) = None
         then (Inl (RE_Conflict ''known_host_entry'' ''known_host_entries_host_id_fkey''), s)
         else let row = new_pin s input (Some (ac_now s))
              in (Inr row, s\<lparr>ac_next_id := Suc (ac_next_id s), cd_pins := cd_pins s @ [row]\<rparr>))"

record replace_active_pin =
  ra_host_id :: host_id
  ra_expected_old_fingerprint :: string
  ra_new_key_type :: ssh_key_type
  ra_new_fingerprint_sha256 :: string
  ra_new_public_key :: "byte list"
  ra_revoked_by :: user_id
  ra_reason_code :: revocation_reason

record replaced_entries =
  re_revoked_old :: known_host_entry
  re_trusted_new :: known_host_entry

definition replace_payload :: "replace_active_pin \<Rightarrow> nat \<Rightarrow> nat \<Rightarrow> json" where
  "replace_payload input entry_id replacement_id =
     JObj [(''host_id'', JNum (int (ra_host_id input))),
           (''known_host_entry_id'', JNum (int entry_id)),
           (''replacement_known_host_entry_id'', JNum (int replacement_id)),
           (''old_fingerprint'', JStr (ra_expected_old_fingerprint input)),
           (''new_fingerprint'', JStr (ra_new_fingerprint_sha256 input)),
           (''key_type'', JStr (key_type_as_str (ra_new_key_type input))),
           (''reason_code'', JStr (revocation_reason_as_str (ra_reason_code input)))]"

definition revoke_pin :: "replace_active_pin \<Rightarrow> instant \<Rightarrow> known_host_entry_id \<Rightarrow> known_host_entry \<Rightarrow> known_host_entry" where
  "revoke_pin input now new_id old =
     old\<lparr>kh_revoked_at := Some now, kh_revoked_by := Some (ra_revoked_by input),
         kh_revoked_reason_code := Some (ra_reason_code input), kh_replaced_by_id := Some new_id\<rparr>"

definition audit_row :: "catalog_db \<Rightarrow> nat \<Rightarrow> user_id \<Rightarrow> audit_event_kind \<Rightarrow> json \<Rightarrow> audit_event" where
  "audit_row s aid actor kind payload =
     \<lparr>ae_id = aid, ae_actor_id = Some actor, ae_kind = kind, ae_payload = payload,
      ae_remote_addr = None, ae_recorded_at = ac_now s\<rparr>"

text \<open>The writes of the transaction: insert the new pin, revoke the old one, two audit rows.\<close>

definition replacement_pin :: "replace_active_pin \<Rightarrow> create_known_host_entry" where
  "replacement_pin input =
     \<lparr>ck_host_id = ra_host_id input, ck_key_type = ra_new_key_type input,
      ck_fingerprint_sha256 = ra_new_fingerprint_sha256 input, ck_public_key = ra_new_public_key input\<rparr>"

definition apply_replacement :: "replace_active_pin \<Rightarrow> known_host_entry \<Rightarrow> catalog_db \<Rightarrow> replaced_entries \<times> catalog_db" where
  "apply_replacement input old s =
     (let new_id = ac_next_id s;
          new_row = new_pin s (replacement_pin input) (Some (ac_now s));
          revoked = revoke_pin input (ac_now s) new_id old;
          audits = [audit_row s (new_id + 1) (ra_revoked_by input) AK_HostKeyRevoked
                      (replace_payload input (kh_id old) new_id),
                    audit_row s (new_id + 2) (ra_revoked_by input) AK_HostKeyAccepted
                      (replace_payload input new_id (kh_id old))]
      in (\<lparr>re_revoked_old = revoked, re_trusted_new = new_row\<rparr>,
          s\<lparr>ac_audit := ac_audit s @ audits, ac_next_id := new_id + 3,
            cd_pins := map (\<lambda>e. if kh_id e = kh_id old then revoked else e) (cd_pins s) @ [new_row]\<rparr>))"

definition pins_replace_active_pin :: "replace_active_pin \<Rightarrow> replaced_entries cat" where
  "pins_replace_active_pin input = acc_call (\<lambda>s.
     case find (\<lambda>e. kh_host_id e = ra_host_id input \<and> kh_fingerprint_sha256 e = ra_expected_old_fingerprint input
                  \<and> kh_revoked_at e = None \<and> kh_trusted_at e \<noteq> None) (cd_pins s) of
       None \<Rightarrow> (Inl (RE_Conflict ''known_host_entry'' ''active_pin_mismatch''), s)
     | Some old \<Rightarrow>
         (case pin_for s (ra_host_id input) (ra_new_fingerprint_sha256 input) of
            Some existing \<Rightarrow>
              (Inl (RE_Conflict ''known_host_entry''
                 (if kh_revoked_at existing \<noteq> None then ''new_fingerprint_revoked''
                  else ''new_fingerprint_already_active'')), s)
          | None \<Rightarrow>
              if host_row s (ra_host_id input) = None
              then (Inl (RE_Conflict ''known_host_entry'' ''known_host_entries_host_id_fkey''), s)
              else if user_row s (ra_revoked_by input) = None
              then (Inl (RE_Conflict ''known_host_entry'' ''known_host_entries_revoked_by_fkey''), s)
              else (case apply_replacement input old s of (entries, t) \<Rightarrow> (Inr entries, t))))"

end
