(* ===== verification/Catalog_Routes.thy ===== *)
theory Catalog_Routes
  imports Catalog_Dto
begin

text \<open>
  The inventory routes of \<^verbatim>\<open>crates/relayterm-api/src/routes/v1\<close>: \<^verbatim>\<open>hosts.rs\<close>, \<^verbatim>\<open>ssh_identities.rs\<close> and
  \<^verbatim>\<open>server_profiles.rs\<close> with its host-key and authentication checks. A handler is a program on
  \<open>catalog_db\<close>; the \<open>network\<close> argument is how the hosts behave during that request. The static
  message texts of the responses are left out.
\<close>

section \<open>Application state and plumbing\<close>

record 'k app =
  ap_auth :: auth_service
  ap_cfg :: auth_routes_config
  ap_vault :: "('k vault_env \<times> byte list) option"
  ap_keys :: key_parsers
  ap_collate :: "string \<Rightarrow> string \<Rightarrow> bool"

type_synonym 'a cat_route = "(catalog_db, api_error, 'a) prog"

definition reading :: "'k app \<Rightarrow> request_headers \<Rightarrow> (user_id \<Rightarrow> 'a cat_route) \<Rightarrow> 'a cat_route" where
  "reading app headers body = bindP (authenticate (ap_auth app) headers) (\<lambda>user. body (au_user_id user))"

definition mutating :: "'k app \<Rightarrow> request_headers \<Rightarrow> (user_id \<Rightarrow> 'a cat_route) \<Rightarrow> 'a cat_route" where
  "mutating app headers body =
     bindP (csrf_guard (ap_cfg app) headers) (\<lambda>_. reading app headers body)"

definition via_cat :: "'a cat \<Rightarrow> 'a cat_route" where
  "via_cat m = mapErrP api_error_from_repository m"

definition owned :: "('r \<Rightarrow> user_id) \<Rightarrow> user_id \<Rightarrow> 'r option \<Rightarrow> 'r option" where
  "owned owner uid r = (case r of Some x \<Rightarrow> if owner x = uid then Some x else None | None \<Rightarrow> None)"

text \<open>\<open>get(id).await?.filter(owner).ok_or(NotFound)?\<close>\<close>

definition owned_host :: "host_id \<Rightarrow> user_id \<Rightarrow> string \<Rightarrow> host cat_route" where
  "owned_host hid uid entity =
     bindP (via_cat (hosts_get hid)) (\<lambda>r. okOrP (owned ho_owner_id uid r) (AE_NotFound entity))"

definition owned_identity :: "ssh_identity_id \<Rightarrow> user_id \<Rightarrow> string \<Rightarrow> ssh_identity cat_route" where
  "owned_identity iid uid entity =
     bindP (via_cat (identities_get iid)) (\<lambda>r. okOrP (owned si_owner_id uid r) (AE_NotFound entity))"

definition owned_profile :: "server_profile_id \<Rightarrow> user_id \<Rightarrow> string \<Rightarrow> server_profile cat_route" where
  "owned_profile pid uid entity =
     bindP (via_cat (profiles_get pid)) (\<lambda>r. okOrP (owned sp_owner_id uid r) (AE_NotFound entity))"

definition lift_vault :: "'a vault \<Rightarrow> 'a cat_route" where
  "lift_vault m = (\<lambda>s.
     case m (cd_vault_draws s) of
       (Inl e, n) \<Rightarrow> (Inl (api_error_from_vault e), s\<lparr>cd_vault_draws := n\<rparr>)
     | (Inr x, n) \<Rightarrow> (Inr x, s\<lparr>cd_vault_draws := n\<rparr>))"

definition lift_preflight :: "(preflight_error, 'a) ssh \<Rightarrow> 'a cat_route" where
  "lift_preflight m = (\<lambda>s.
     case m new_conn of
       (Inl e, c) \<Rightarrow> (Inl (api_error_from_preflight e), s\<lparr>cd_wire := cd_wire s @ sc_wire c\<rparr>)
     | (Inr x, c) \<Rightarrow> (Inr x, s\<lparr>cd_wire := cd_wire s @ sc_wire c\<rparr>))"

definition lift_auth_check ::
  "(auth_check_service \<times> ssh_conn, auth_check_error, 'a) prog \<Rightarrow> 'a cat_route" where
  "lift_auth_check m = (\<lambda>s.
     case m (cd_auth_check s, new_conn) of
       (Inl e, (v, c)) \<Rightarrow>
         (Inl (api_error_from_auth_check e), s\<lparr>cd_auth_check := v, cd_wire := cd_wire s @ sc_wire c\<rparr>)
     | (Inr x, (v, c)) \<Rightarrow> (Inr x, s\<lparr>cd_auth_check := v, cd_wire := cd_wire s @ sc_wire c\<rparr>))"

section \<open>Hosts\<close>

definition hosts_route_create ::
  "'k app \<Rightarrow> request_headers \<Rightarrow> create_host_request \<Rightarrow> (nat \<times> host_response) cat_route" where
  "hosts_route_create app headers req = mutating app headers (\<lambda>uid.
     bindP (host_into_create req uid) (\<lambda>input.
     bindP (via_cat (hosts_create input)) (\<lambda>host.
     retP (201, host_response_from host))))"

definition hosts_route_list :: "'k app \<Rightarrow> request_headers \<Rightarrow> host_response list cat_route" where
  "hosts_route_list app headers = reading app headers (\<lambda>uid.
     bindP (via_cat (hosts_list_for_user uid)) (\<lambda>hosts. retP (map host_response_from hosts)))"

definition hosts_route_get :: "'k app \<Rightarrow> request_headers \<Rightarrow> host_id \<Rightarrow> host_response cat_route" where
  "hosts_route_get app headers hid = reading app headers (\<lambda>uid.
     bindP (owned_host hid uid ''host'') (\<lambda>host. retP (host_response_from host)))"

definition hosts_route_update ::
  "'k app \<Rightarrow> request_headers \<Rightarrow> host_id \<Rightarrow> update_host_request \<Rightarrow> host_response cat_route" where
  "hosts_route_update app headers hid req = mutating app headers (\<lambda>uid.
     bindP (host_into_update req) (\<lambda>input.
     bindP (owned_host hid uid ''host'') (\<lambda>_.
     bindP (via_cat (hosts_update hid uid input)) (\<lambda>updated.
     retP (host_response_from updated)))))"

definition hosts_route_delete :: "'k app \<Rightarrow> request_headers \<Rightarrow> host_id \<Rightarrow> nat cat_route" where
  "hosts_route_delete app headers hid = mutating app headers (\<lambda>uid.
     bindP (owned_host hid uid ''host'') (\<lambda>_.
     bindP (via_cat (hosts_any_dependents hid uid)) (\<lambda>dependents.
     if dependents then raiseP (AE_Conflict ''host'' (Some ''referenced''))
     else bindP (via_cat (hosts_delete hid uid)) (\<lambda>_. retP 204))))"

section \<open>SSH identities\<close>

datatype audit_source = Src_Generated | Src_Imported

primrec audit_source_as_str :: "audit_source \<Rightarrow> string" where
  "audit_source_as_str Src_Generated = ''generated''"
| "audit_source_as_str Src_Imported = ''imported''"

definition identity_audit_fields :: "ssh_identity \<Rightarrow> (string \<times> json) list" where
  "identity_audit_fields i =
     [(''ssh_identity_id'', JNum (int (si_id i))), (''name'', JStr (si_name i)),
      (''key_type'', JStr (key_type_as_str (si_key_type i))),
      (''fingerprint_sha256'', JStr (si_fingerprint_sha256 i)), (''created_at'', JNum (si_created_at i))]"

definition write_identity_create_audit :: "user_id \<Rightarrow> ssh_identity \<Rightarrow> audit_source \<Rightarrow> unit cat_route" where
  "write_identity_create_audit actor i source =
     bindP (via_cat (audit_create (Some actor) AK_SshIdentityCreated
              (JObj (identity_audit_fields i @ [(''source'', JStr (audit_source_as_str source))])) None)) (\<lambda>_. retP ())"

definition write_identity_delete_audit :: "user_id \<Rightarrow> ssh_identity \<Rightarrow> unit cat_route" where
  "write_identity_delete_audit actor i =
     bindP (via_cat (audit_create (Some actor) AK_SshIdentityDeleted (JObj (identity_audit_fields i)) None)) (\<lambda>_. retP ())"

definition vault_or_503 :: "'k app \<Rightarrow> string \<Rightarrow> ('k vault_env \<times> byte list) cat_route" where
  "vault_or_503 app detail = okOrP (ap_vault app) (AE_ServiceUnavailable detail)"

definition map_create_repository_error :: "repository_error \<Rightarrow> api_error" where
  "map_create_repository_error err =
     (if err = RE_Conflict ''ssh_identity'' ''ssh_identities_owner_fingerprint_key''
      then AE_Conflict ''ssh_identity'' (Some ''duplicate_fingerprint'')
      else api_error_from_repository err)"

definition store_identity ::
  "user_id \<Rightarrow> string \<Rightarrow> generated_ssh_identity \<Rightarrow> audit_source \<Rightarrow> (nat \<times> identity_response) cat_route" where
  "store_identity uid name generated source =
     bindP (mapErrP map_create_repository_error (identities_create
              \<lparr>ci_owner_id = uid, ci_name = name, ci_key_type = gi_key_type generated,
               ci_public_key = gi_public_key_openssh generated,
               ci_encrypted_private_key = gi_encrypted_private_key generated,
               ci_fingerprint_sha256 = gi_fingerprint_sha256 generated\<rparr>)) (\<lambda>i.
     bindP (write_identity_create_audit uid i source) (\<lambda>_.
     retP (201, identity_response_from i)))"

definition identities_route_create ::
  "'k app \<Rightarrow> request_headers \<Rightarrow> create_identity_request \<Rightarrow> (nat \<times> identity_response) cat_route" where
  "identities_route_create app headers req = mutating app headers (\<lambda>uid.
     bindP (create_identity_validate req) (\<lambda>(name, key_type).
     bindP (vault_or_503 app ''vault is disabled; backend-generated SSH identities require a master key'') (\<lambda>(env, key).
     bindP (lift_vault (generate_ssh_identity env key key_type name)) (\<lambda>generated.
     store_identity uid name generated Src_Generated))))"

definition identities_route_import ::
  "'k app \<Rightarrow> request_headers \<Rightarrow> import_identity_request \<Rightarrow> (nat \<times> identity_response) cat_route" where
  "identities_route_import app headers req = mutating app headers (\<lambda>uid.
     bindP (import_identity_validate req) (\<lambda>(name, pem).
     bindP (vault_or_503 app ''vault is disabled; backend-generated SSH identities require a master key'') (\<lambda>(env, key).
     bindP (lift_vault (import_ssh_identity env key pem name)) (\<lambda>imported.
     store_identity uid name imported Src_Imported))))"

definition identities_route_list :: "'k app \<Rightarrow> request_headers \<Rightarrow> identity_response list cat_route" where
  "identities_route_list app headers = reading app headers (\<lambda>uid.
     bindP (via_cat (identities_list_for_user uid)) (\<lambda>is. retP (map identity_response_from is)))"

definition identities_route_get :: "'k app \<Rightarrow> request_headers \<Rightarrow> ssh_identity_id \<Rightarrow> identity_response cat_route" where
  "identities_route_get app headers iid = reading app headers (\<lambda>uid.
     bindP (owned_identity iid uid ''ssh_identity'') (\<lambda>i. retP (identity_response_from i)))"

definition identities_route_update ::
  "'k app \<Rightarrow> request_headers \<Rightarrow> ssh_identity_id \<Rightarrow> string \<Rightarrow> identity_response cat_route" where
  "identities_route_update app headers iid req_name = mutating app headers (\<lambda>uid.
     bindP (validate_identity_name req_name) (\<lambda>name.
     bindP (owned_identity iid uid ''ssh_identity'') (\<lambda>_.
     bindP (via_cat (identities_rename iid uid name)) (\<lambda>updated.
     retP (identity_response_from updated)))))"

definition identities_route_delete :: "'k app \<Rightarrow> request_headers \<Rightarrow> ssh_identity_id \<Rightarrow> nat cat_route" where
  "identities_route_delete app headers iid = mutating app headers (\<lambda>uid.
     bindP (owned_identity iid uid ''ssh_identity'') (\<lambda>i.
     bindP (via_cat (identities_any_dependents iid uid)) (\<lambda>dependents.
     if dependents then raiseP (AE_Conflict ''ssh_identity'' (Some ''referenced''))
     else bindP (write_identity_delete_audit uid i) (\<lambda>_.
          bindP (via_cat (identities_delete iid uid)) (\<lambda>_. retP 204)))))"

section \<open>Server profiles\<close>

definition opt_instant :: "instant option \<Rightarrow> json" where
  "opt_instant v = (case v of None \<Rightarrow> JNull | Some t \<Rightarrow> JNum t)"

definition write_lifecycle_audit :: "user_id \<Rightarrow> audit_event_kind \<Rightarrow> server_profile \<Rightarrow> unit cat_route" where
  "write_lifecycle_audit actor kind p =
     bindP (via_cat (audit_create (Some actor) kind
              (JObj [(''server_profile_id'', JNum (int (sp_id p))), (''name'', JStr (sp_name p)),
                     (''host_id'', JNum (int (sp_host_id p))),
                     (''ssh_identity_id'', JNum (int (sp_ssh_identity_id p))),
                     (''disabled_at'', opt_instant (sp_disabled_at p))]) None)) (\<lambda>_. retP ())"

definition profiles_route_create ::
  "'k app \<Rightarrow> request_headers \<Rightarrow> create_profile_request \<Rightarrow> (nat \<times> profile_response) cat_route" where
  "profiles_route_create app headers req = mutating app headers (\<lambda>uid.
     bindP (profile_into_create req uid) (\<lambda>input.
     bindP (owned_host (cp_host_id input) uid ''host'') (\<lambda>_.
     bindP (owned_identity (cp_ssh_identity_id input) uid ''ssh_identity'') (\<lambda>_.
     bindP (via_cat (profiles_create input)) (\<lambda>profile.
     bindP (write_lifecycle_audit uid AK_ServerProfileCreated profile) (\<lambda>_.
     retP (201, profile_response_from profile)))))))"

definition profiles_route_list :: "'k app \<Rightarrow> request_headers \<Rightarrow> profile_response list cat_route" where
  "profiles_route_list app headers = reading app headers (\<lambda>uid.
     bindP (via_cat (profiles_list_for_user (ap_collate app) uid)) (\<lambda>ps. retP (map profile_response_from ps)))"

definition profiles_route_get :: "'k app \<Rightarrow> request_headers \<Rightarrow> server_profile_id \<Rightarrow> profile_response cat_route" where
  "profiles_route_get app headers pid = reading app headers (\<lambda>uid.
     bindP (owned_profile pid uid ''server_profile'') (\<lambda>p. retP (profile_response_from p)))"

definition when_some :: "'a option \<Rightarrow> ('a \<Rightarrow> 'b cat_route) \<Rightarrow> unit cat_route" where
  "when_some v k = (case v of None \<Rightarrow> retP () | Some x \<Rightarrow> bindP (k x) (\<lambda>_. retP ()))"

definition profiles_route_update ::
  "'k app \<Rightarrow> request_headers \<Rightarrow> server_profile_id \<Rightarrow> update_profile_request \<Rightarrow> profile_response cat_route" where
  "profiles_route_update app headers pid req = mutating app headers (\<lambda>uid.
     bindP (profile_into_update req) (\<lambda>input.
     bindP (owned_profile pid uid ''server_profile'') (\<lambda>_.
     bindP (when_some (up_host_id input) (\<lambda>hid. owned_host hid uid ''host'')) (\<lambda>_.
     bindP (when_some (up_ssh_identity_id input) (\<lambda>iid. owned_identity iid uid ''ssh_identity'')) (\<lambda>_.
     bindP (via_cat (profiles_update pid uid input)) (\<lambda>updated.
     bindP (write_lifecycle_audit uid AK_ServerProfileUpdated updated) (\<lambda>_.
     retP (profile_response_from updated))))))))"

definition profiles_route_delete :: "'k app \<Rightarrow> request_headers \<Rightarrow> server_profile_id \<Rightarrow> nat cat_route" where
  "profiles_route_delete app headers pid = mutating app headers (\<lambda>uid.
     bindP (owned_profile pid uid ''server_profile'') (\<lambda>profile.
     bindP (via_cat (profiles_any_dependents pid uid)) (\<lambda>dependents.
     if dependents then raiseP (AE_Conflict ''server_profile'' (Some ''referenced''))
     else bindP (write_lifecycle_audit uid AK_ServerProfileDeleted profile) (\<lambda>_.
          bindP (via_cat (profiles_delete pid uid)) (\<lambda>_. retP 204)))))"

definition profiles_route_disable ::
  "'k app \<Rightarrow> request_headers \<Rightarrow> server_profile_id \<Rightarrow> profile_response cat_route" where
  "profiles_route_disable app headers pid = mutating app headers (\<lambda>uid.
     bindP (owned_profile pid uid ''server_profile'') (\<lambda>current.
     if is_disabled current then retP (profile_response_from current)
     else
       bindP now_utc (\<lambda>now.
       bindP (via_cat (profiles_set_disabled_at pid uid (Some now))) (\<lambda>updated.
       bindP (write_lifecycle_audit uid AK_ServerProfileDisabled updated) (\<lambda>_.
       retP (profile_response_from updated))))))"

definition profiles_route_enable ::
  "'k app \<Rightarrow> request_headers \<Rightarrow> server_profile_id \<Rightarrow> profile_response cat_route" where
  "profiles_route_enable app headers pid = mutating app headers (\<lambda>uid.
     bindP (owned_profile pid uid ''server_profile'') (\<lambda>current.
     if \<not> is_disabled current then retP (profile_response_from current)
     else
       bindP (via_cat (profiles_set_disabled_at pid uid None)) (\<lambda>updated.
       bindP (write_lifecycle_audit uid AK_ServerProfileEnabled updated) (\<lambda>_.
       retP (profile_response_from updated)))))"

section \<open>Host keys\<close>

definition server_profile_disabled_conflict :: api_error where
  "server_profile_disabled_conflict = AE_Conflict ''server_profile'' (Some ''disabled'')"

definition resolve_owned_profile ::
  "user_id \<Rightarrow> server_profile_id \<Rightarrow> (server_profile \<times> host \<times> ssh_identity) cat_route" where
  "resolve_owned_profile uid pid =
     bindP (owned_profile pid uid ''server_profile'') (\<lambda>profile.
     bindP (owned_host (sp_host_id profile) uid ''server_profile'') (\<lambda>host.
     bindP (owned_identity (sp_ssh_identity_id profile) uid ''server_profile'') (\<lambda>identity.
     retP (profile, host, identity))))"

definition decrypt_with :: "'k vault_env \<times> byte list \<Rightarrow> ssh_identity \<Rightarrow> byte list cat_route" where
  "decrypt_with vault i =
     (case decrypt_private_key (fst vault) (snd vault) (si_encrypted_private_key i) of
        Inl e \<Rightarrow> raiseP (api_error_from_vault e) | Inr pem \<Rightarrow> retP pem)"

definition decrypt_identity :: "'k app \<Rightarrow> ssh_identity \<Rightarrow> byte list cat_route" where
  "decrypt_identity app i =
     bindP (vault_or_503 app ''vault is disabled; preflight requires a master key'') (\<lambda>vault.
     decrypt_with vault i)"

definition profile_username :: "server_profile \<Rightarrow> host \<Rightarrow> string" where
  "profile_username profile host = or_else (sp_username_override profile) (ho_default_username host)"

text \<open>What the host-key routes share: resolve, gate on disabled, decrypt, list the pins and probe.\<close>

definition probe_profile ::
  "'k app \<Rightarrow> network \<Rightarrow> user_id \<Rightarrow> server_profile_id
     \<Rightarrow> (server_profile \<times> host \<times> known_host_entry list \<times> preflight_result) cat_route" where
  "probe_profile app net uid pid =
     bindP (resolve_owned_profile uid pid) (\<lambda>(profile, host, identity).
     bindP (guardP (\<not> is_disabled profile) server_profile_disabled_conflict) (\<lambda>_.
     bindP (decrypt_identity app identity) (\<lambda>pem.
     bindP (via_cat (pins_list_for_host (ho_id host))) (\<lambda>known.
     bindP (lift_preflight (preflight (ap_keys app) net
              \<lparr>pq_host_id = ho_id host, pq_hostname = ho_hostname host, pq_port = ho_port host,
               pq_username = profile_username profile host, pq_private_key_pem = pem\<rparr> known)) (\<lambda>result.
     retP (profile, host, known, result))))))"

definition active_pin_to_replace :: "known_host_entry list \<Rightarrow> captured_host_key \<Rightarrow> string option" where
  "active_pin_to_replace known captured =
     map_option kh_fingerprint_sha256
       (find (\<lambda>e. kh_revoked_at e = None \<and> kh_trusted_at e \<noteq> None
                \<and> kh_key_type e = hk_key_type captured
                \<and> kh_fingerprint_sha256 e \<noteq> hk_fingerprint_sha256 captured) known)"

definition host_key_preflight ::
  "'k app \<Rightarrow> network \<Rightarrow> request_headers \<Rightarrow> server_profile_id \<Rightarrow> preflight_response cat_route" where
  "host_key_preflight app net headers pid = mutating app headers (\<lambda>uid.
     bindP (probe_profile app net uid pid) (\<lambda>(profile, host, known, result).
     retP \<lparr>pv_profile_id = sp_id profile, pv_host_id = ho_id host, pv_hostname = ho_hostname host,
           pv_port = ho_port host, pv_host_key_status = pf_status result,
           pv_host_key_type = hk_key_type (pf_captured result),
           pv_host_key_fingerprint = hk_fingerprint_sha256 (pf_captured result),
           pv_active_pin_fingerprint =
             (if pf_status result = HK_Changed then active_pin_to_replace known (pf_captured result) else None)\<rparr>))"

definition captured_is_revoked :: "known_host_entry list \<Rightarrow> captured_host_key \<Rightarrow> bool" where
  "captured_is_revoked known captured =
     list_ex (\<lambda>e. kh_key_type e = hk_key_type captured
                \<and> kh_fingerprint_sha256 e = hk_fingerprint_sha256 captured \<and> kh_revoked_at e \<noteq> None) known"

definition trust_host_key ::
  "'k app \<Rightarrow> network \<Rightarrow> request_headers \<Rightarrow> server_profile_id \<Rightarrow> string \<Rightarrow> trust_response cat_route" where
  "trust_host_key app net headers pid expected_fingerprint = mutating app headers (\<lambda>uid.
     bindP (validated_expected_fingerprint expected_fingerprint) (\<lambda>expected.
     bindP (probe_profile app net uid pid) (\<lambda>(profile, host, known, result).
     let captured = pf_captured result in
     if pf_status result = HK_Changed \<or> hk_fingerprint_sha256 captured \<noteq> expected
     then raiseP (AE_Conflict ''host_key'' None)
     else if captured_is_revoked known captured then raiseP (AE_Conflict ''host_key'' None)
     else
       bindP (via_cat (pins_record_trusted
                \<lparr>ck_host_id = ho_id host, ck_key_type = hk_key_type captured,
                 ck_fingerprint_sha256 = hk_fingerprint_sha256 captured,
                 ck_public_key = hk_public_key captured\<rparr>)) (\<lambda>entry.
       bindP (okOrP (kh_trusted_at entry)
                (AE_Internal ''known_host_entry.trusted_at NULL after record_trusted'')) (\<lambda>trusted_at.
       retP \<lparr>tr_known_host_entry_id = kh_id entry, tr_host_id = kh_host_id entry,
             tr_host_key_type = kh_key_type entry,
             tr_host_key_fingerprint = kh_fingerprint_sha256 entry, tr_trusted_at = trusted_at\<rparr>)))))"

definition map_replace_repository_error :: "repository_error \<Rightarrow> api_error" where
  "map_replace_repository_error err =
     (if err = RE_Conflict ''known_host_entry'' ''active_pin_mismatch''
      then AE_Conflict ''host_key'' (Some ''active_pin_mismatch'')
      else if err = RE_Conflict ''known_host_entry'' ''new_fingerprint_revoked''
      then AE_Conflict ''host_key'' (Some ''captured_revoked'')
      else if err = RE_Conflict ''known_host_entry'' ''new_fingerprint_already_active''
      then AE_Conflict ''host_key'' (Some ''new_fingerprint_already_active'')
      else api_error_from_repository err)"

definition replace_host_key ::
  "'k app \<Rightarrow> network \<Rightarrow> request_headers \<Rightarrow> server_profile_id \<Rightarrow> replace_request \<Rightarrow> replace_response cat_route" where
  "replace_host_key app net headers pid req = mutating app headers (\<lambda>uid.
     bindP (replace_validated req) (\<lambda>(expected_old, expected_new, reason_code).
     bindP (probe_profile app net uid pid) (\<lambda>(profile, host, known, result).
     let captured = pf_captured result in
     if hk_fingerprint_sha256 captured = expected_old
     then raiseP (AE_Conflict ''host_key'' (Some ''captured_unchanged''))
     else if hk_fingerprint_sha256 captured \<noteq> expected_new
     then raiseP (AE_Conflict ''host_key'' (Some ''captured_mismatch''))
     else if captured_is_revoked known captured
     then raiseP (AE_Conflict ''host_key'' (Some ''captured_revoked''))
     else
       bindP (mapErrP map_replace_repository_error (pins_replace_active_pin
                \<lparr>ra_host_id = ho_id host, ra_expected_old_fingerprint = expected_old,
                 ra_new_key_type = hk_key_type captured,
                 ra_new_fingerprint_sha256 = hk_fingerprint_sha256 captured,
                 ra_new_public_key = hk_public_key captured, ra_revoked_by = uid,
                 ra_reason_code = reason_code\<rparr>)) (\<lambda>replaced.
       bindP (okOrP (kh_trusted_at (re_trusted_new replaced))
                (AE_Internal ''known_host_entry.trusted_at NULL after replace_active_pin'')) (\<lambda>trusted_at.
       retP \<lparr>rx_profile_id = sp_id profile, rx_host_id = ho_id host,
             rx_revoked_known_host_entry_id = kh_id (re_revoked_old replaced),
             rx_revoked_fingerprint = kh_fingerprint_sha256 (re_revoked_old replaced),
             rx_trusted_known_host_entry_id = kh_id (re_trusted_new replaced),
             rx_trusted_fingerprint = kh_fingerprint_sha256 (re_trusted_new replaced),
             rx_host_key_type = kh_key_type (re_trusted_new replaced), rx_trusted_at = trusted_at\<rparr>)))))"

definition auth_check_route ::
  "'k app \<Rightarrow> network \<Rightarrow> request_headers \<Rightarrow> server_profile_id \<Rightarrow> auth_check_response cat_route" where
  "auth_check_route app net headers pid = mutating app headers (\<lambda>uid.
     bindP (resolve_owned_profile uid pid) (\<lambda>(profile, host, identity).
     bindP (guardP (\<not> is_disabled profile) server_profile_disabled_conflict) (\<lambda>_.
     bindP (decrypt_identity app identity) (\<lambda>pem.
     bindP (via_cat (pins_list_for_host (ho_id host))) (\<lambda>known.
     bindP (lift_auth_check (auth_check (ap_keys app) net
              \<lparr>aq_host_id = ho_id host, aq_hostname = ho_hostname host, aq_port = ho_port host,
               aq_username = profile_username profile host, aq_private_key_pem = pem\<rparr> known)) (\<lambda>status.
     bindP now_utc (\<lambda>now.
     retP \<lparr>av_profile_id = sp_id profile, av_host_id = ho_id host, av_ssh_identity_id = si_id identity,
           av_status = status, av_checked_at = now\<rparr>)))))))"

end
