(* ===== verification/Session_Routes.thy ===== *)
theory Session_Routes
  imports Catalog_Routes
begin

text \<open>
  The session routes of \<^verbatim>\<open>crates/relayterm-api/src/routes/v1/terminal_sessions.rs\<close> outside the
  WebSocket: create, list, get and close. Creation runs in two parts with the SSH handshake
  between them: \<open>create_admit\<close> checks the gates and writes the placeholder, \<open>create_launch\<close>
  starts the PTY and promotes or closes the session.
\<close>

section \<open>Shapes\<close>

record create_terminal_request =
  ct_server_profile_id :: server_profile_id
  ct_cols :: nat
  ct_rows :: nat

definition DEFAULT_COLS :: nat where "DEFAULT_COLS = 80"
definition DEFAULT_ROWS :: nat where "DEFAULT_ROWS = 24"

text \<open>The parsed body, with the defaults for absent dimensions.\<close>

definition create_terminal_request_of ::
  "server_profile_id \<Rightarrow> nat option \<Rightarrow> nat option \<Rightarrow> create_terminal_request" where
  "create_terminal_request_of pid cols rows =
     \<lparr>ct_server_profile_id = pid, ct_cols = or_else cols DEFAULT_COLS, ct_rows = or_else rows DEFAULT_ROWS\<rparr>"

record terminal_session_response =
  tx_id :: terminal_session_id
  tx_server_profile_id :: server_profile_id
  tx_status :: terminal_session_status
  tx_cols :: nat
  tx_rows :: nat
  tx_created_at :: instant
  tx_last_seen_at :: instant
  tx_closed_at :: "instant option"

definition session_response_from :: "terminal_session \<Rightarrow> terminal_session_response" where
  "session_response_from t =
     \<lparr>tx_id = ts_id t, tx_server_profile_id = ts_server_profile_id t, tx_status = ts_status t,
      tx_cols = ts_cols t, tx_rows = ts_rows t, tx_created_at = ts_created_at t,
      tx_last_seen_at = ts_last_seen_at t, tx_closed_at = ts_closed_at t\<rparr>"

definition via_manager :: "'a mgr \<Rightarrow> 'a cat_route" where
  "via_manager m = (\<lambda>s.
     case m (cd_manager s) of
       (Inl e, g) \<Rightarrow> (Inl (api_error_from_manager e), s\<lparr>cd_manager := g\<rparr>)
     | (Inr x, g) \<Rightarrow> (Inr x, s\<lparr>cd_manager := g\<rparr>))"

section \<open>Creation\<close>

definition map_pty_start_error :: "ssh_pty_error \<Rightarrow> api_error \<times> string" where
  "map_pty_start_error err =
     (case err of
        PE_InvalidIdentity \<Rightarrow> (AE_Internal ''ssh identity material is malformed'', ''invalid_identity'')
      | PE_Transport _ \<Rightarrow> (AE_BadGateway ''ssh transport failure during pty start'', ''transport'')
      | PE_HostKeyNotTrusted \<Rightarrow> (AE_Conflict ''host_key'' None, ''host_key_not_trusted'')
      | PE_AuthenticationFailed \<Rightarrow> (AE_Conflict ''ssh_auth'' None, ''authentication_failed'')
      | PE_PtyStartFailed \<Rightarrow> (AE_BadGateway ''ssh pty/shell start failed'', ''pty_alloc'')
      | PE_BridgeClosed \<Rightarrow> (AE_Internal ''bridge closed before start completed'', ''bridge_closed''))"

text \<open>The three ceilings, in the order of the code.\<close>

definition quota_gate :: "user_id \<Rightarrow> unit cat_route" where
  "quota_gate uid =
     bindP (readP (\<lambda>s. cd_manager s)) (\<lambda>g.
     bindP (guardP (count_live_pty_for_user uid g < mg_max_live_pty_per_user g) AE_TooManySessions) (\<lambda>_.
     bindP (guardP (count_live_pty_total g < mg_max_live_pty_per_deployment g) AE_TooManySessionsDeployment) (\<lambda>_.
     guardP (count_starting_for_user uid g < mg_max_starting_per_user g) AE_TooManyStartingSessions)))"

record launch =
  la_user_id :: user_id
  la_profile :: server_profile
  la_host :: host
  la_accept_pins :: "pin list"
  la_private_key_pem :: "byte list"
  la_session :: terminal_session

definition session_accept_pins :: "known_host_entry list \<Rightarrow> pin list" where
  "session_accept_pins known =
     map (\<lambda>e. (kh_key_type e, kh_fingerprint_sha256 e))
       (filter (\<lambda>e. kh_trusted_at e \<noteq> None \<and> kh_revoked_at e = None) known)"

definition create_admit :: "'k app \<Rightarrow> user_id \<Rightarrow> create_terminal_request \<Rightarrow> launch cat_route" where
  "create_admit app uid req =
     bindP (owned_profile (ct_server_profile_id req) uid ''terminal_session'') (\<lambda>profile.
     bindP (guardP (\<not> is_disabled profile) (AE_Conflict ''server_profile'' (Some ''disabled''))) (\<lambda>_.
     bindP (owned_host (sp_host_id profile) uid ''terminal_session'') (\<lambda>host.
     bindP (owned_identity (sp_ssh_identity_id profile) uid ''terminal_session'') (\<lambda>identity.
     bindP (via_cat (pins_list_for_host (ho_id host))) (\<lambda>known.
     let accept_pins = session_accept_pins known in
     bindP (guardP (accept_pins \<noteq> []) (AE_Conflict ''host_key'' None)) (\<lambda>_.
     bindP (quota_gate uid) (\<lambda>_.
     bindP (vault_or_503 app ''vault disabled: pty start not available'') (\<lambda>vault.
     bindP (decrypt_with vault identity) (\<lambda>pem.
     bindP (via_manager (create_session \<lparr>cr_owner_id = uid, cr_server_profile_id = sp_id profile,
              cr_cols = ct_cols req, cr_rows = ct_rows req\<rparr>)) (\<lambda>outcome.
     retP \<lparr>la_user_id = uid, la_profile = profile, la_host = host, la_accept_pins = accept_pins,
           la_private_key_pem = pem, la_session = co_session outcome\<rparr>))))))))))"

definition launch_config :: "launch \<Rightarrow> ssh_pty_config" where
  "launch_config l =
     pty_config_new (ho_hostname (la_host l)) (ho_port (la_host l)) (profile_username (la_profile l) (la_host l))
       (la_accept_pins l) (ts_cols (la_session l)) (ts_rows (la_session l))"

record create_response =
  cx_session :: terminal_session_response
  cx_pty_live :: bool

text \<open>\<open>None\<close>: the PTY start never returns, so neither does the request.\<close>

definition create_launch :: "'k app \<Rightarrow> network \<Rightarrow> launch \<Rightarrow> (nat \<times> create_response) option cat_route" where
  "create_launch app net l =
     bindP (\<lambda>s. case pty_start (ap_keys app) net (launch_config l) (la_private_key_pem l) new_conn of
                  (r, c) \<Rightarrow> (Inr r, s\<lparr>cd_wire := cd_wire s @ sc_wire c\<rparr>)) (\<lambda>started.
     case started of
       Inl Blocked \<Rightarrow> retP None
     | Inl (Stopped err) \<Rightarrow>
         (case map_pty_start_error err of (api_err, category) \<Rightarrow>
            bindP (attemptP (via_manager (record_pty_start_failed (la_user_id l) (ts_id (la_session l)) category))) (\<lambda>_.
            raiseP api_err))
     | Inr bridge \<Rightarrow>
         bindP (via_manager (start_live_pty (la_user_id l) (ts_id (la_session l)) bridge)) (\<lambda>session.
         retP (Some (201, \<lparr>cx_session = session_response_from session, cx_pty_live = True\<rparr>))))"

definition sessions_route_create ::
  "'k app \<Rightarrow> network \<Rightarrow> request_headers \<Rightarrow> create_terminal_request \<Rightarrow> (nat \<times> create_response) option cat_route" where
  "sessions_route_create app net headers req = mutating app headers (\<lambda>uid.
     bindP (create_admit app uid req) (\<lambda>l. create_launch app net l))"

section \<open>Reads and close\<close>

definition sessions_route_list :: "'k app \<Rightarrow> request_headers \<Rightarrow> terminal_session_response list cat_route" where
  "sessions_route_list app headers = reading app headers (\<lambda>uid.
     bindP (via_manager (liftDb (sessions_list_for_user uid))) (\<lambda>ts. retP (map session_response_from ts)))"

definition sessions_route_get ::
  "'k app \<Rightarrow> request_headers \<Rightarrow> terminal_session_id \<Rightarrow> terminal_session_response cat_route" where
  "sessions_route_get app headers sid = reading app headers (\<lambda>uid.
     bindP (via_manager (liftDb (sessions_get sid))) (\<lambda>r.
     bindP (okOrP (owned ts_owner_id uid r) (AE_NotFound ''terminal_session'')) (\<lambda>t.
     retP (session_response_from t))))"

definition sessions_route_close ::
  "'k app \<Rightarrow> request_headers \<Rightarrow> terminal_session_id \<Rightarrow> (terminal_session_response \<times> bool) cat_route" where
  "sessions_route_close app headers sid = mutating app headers (\<lambda>uid.
     bindP (via_manager (close_session sid uid)) (\<lambda>outcome.
     retP (session_response_from (cl_session outcome), cl_already_closed outcome)))"

end
