(* ===== verification/Catalog_Invariants.thy ===== *)
theory Catalog_Invariants
  imports Session_Routes Auth_Invariants Session_Invariants
begin

text \<open>
  The inventory, the accounts and the session manager as one step machine, and the locale
  \<open>catalog_stable\<close>: a predicate that every row operation keeps, under the conditions the handlers
  establish before it, is kept by every request. The table integrity of the inventory and the
  finality of a revoked host key are instances.
\<close>

section \<open>Requests\<close>

datatype catalog_label =
    KL_HostCreate request_headers create_host_request
  | KL_HostList request_headers
  | KL_HostGet request_headers host_id
  | KL_HostUpdate request_headers host_id update_host_request
  | KL_HostDelete request_headers host_id
  | KL_IdentityCreate request_headers create_identity_request
  | KL_IdentityImport request_headers import_identity_request
  | KL_IdentityList request_headers
  | KL_IdentityGet request_headers ssh_identity_id
  | KL_IdentityUpdate request_headers ssh_identity_id string
  | KL_IdentityDelete request_headers ssh_identity_id
  | KL_ProfileCreate request_headers create_profile_request
  | KL_ProfileList request_headers
  | KL_ProfileGet request_headers server_profile_id
  | KL_ProfileUpdate request_headers server_profile_id update_profile_request
  | KL_ProfileDelete request_headers server_profile_id
  | KL_ProfileDisable request_headers server_profile_id
  | KL_ProfileEnable request_headers server_profile_id
  | KL_Preflight network request_headers server_profile_id
  | KL_Trust network request_headers server_profile_id string
  | KL_Replace network request_headers server_profile_id replace_request
  | KL_AuthCheck network request_headers server_profile_id
  | KL_SessionCreate network request_headers create_terminal_request
  | KL_SessionList request_headers
  | KL_SessionGet request_headers terminal_session_id
  | KL_SessionClose request_headers terminal_session_id
  | KL_Auth auth_label
  | KL_Manager mgr_label

definition on_manager :: "(manager \<Rightarrow> manager) \<Rightarrow> catalog_db \<Rightarrow> catalog_db" where
  "on_manager f s = s\<lparr>cd_manager := f (cd_manager s)\<rparr>"

primrec catalog_step :: "'k app \<Rightarrow> catalog_db \<Rightarrow> catalog_label \<Rightarrow> catalog_db" where
  "catalog_step app s (KL_HostCreate h r) = snd (hosts_route_create app h r s)"
| "catalog_step app s (KL_HostList h) = snd (hosts_route_list app h s)"
| "catalog_step app s (KL_HostGet h i) = snd (hosts_route_get app h i s)"
| "catalog_step app s (KL_HostUpdate h i r) = snd (hosts_route_update app h i r s)"
| "catalog_step app s (KL_HostDelete h i) = snd (hosts_route_delete app h i s)"
| "catalog_step app s (KL_IdentityCreate h r) = snd (identities_route_create app h r s)"
| "catalog_step app s (KL_IdentityImport h r) = snd (identities_route_import app h r s)"
| "catalog_step app s (KL_IdentityList h) = snd (identities_route_list app h s)"
| "catalog_step app s (KL_IdentityGet h i) = snd (identities_route_get app h i s)"
| "catalog_step app s (KL_IdentityUpdate h i n) = snd (identities_route_update app h i n s)"
| "catalog_step app s (KL_IdentityDelete h i) = snd (identities_route_delete app h i s)"
| "catalog_step app s (KL_ProfileCreate h r) = snd (profiles_route_create app h r s)"
| "catalog_step app s (KL_ProfileList h) = snd (profiles_route_list app h s)"
| "catalog_step app s (KL_ProfileGet h i) = snd (profiles_route_get app h i s)"
| "catalog_step app s (KL_ProfileUpdate h i r) = snd (profiles_route_update app h i r s)"
| "catalog_step app s (KL_ProfileDelete h i) = snd (profiles_route_delete app h i s)"
| "catalog_step app s (KL_ProfileDisable h i) = snd (profiles_route_disable app h i s)"
| "catalog_step app s (KL_ProfileEnable h i) = snd (profiles_route_enable app h i s)"
| "catalog_step app s (KL_Preflight net h i) = snd (host_key_preflight app net h i s)"
| "catalog_step app s (KL_Trust net h i fp) = snd (trust_host_key app net h i fp s)"
| "catalog_step app s (KL_Replace net h i r) = snd (replace_host_key app net h i r s)"
| "catalog_step app s (KL_AuthCheck net h i) = snd (auth_check_route app net h i s)"
| "catalog_step app s (KL_SessionCreate net h r) = snd (sessions_route_create app net h r s)"
| "catalog_step app s (KL_SessionList h) = snd (sessions_route_list app h s)"
| "catalog_step app s (KL_SessionGet h i) = snd (sessions_route_get app h i s)"
| "catalog_step app s (KL_SessionClose h i) = snd (sessions_route_close app h i s)"
| "catalog_step app s (KL_Auth l) = auth_step (ap_auth app) (ap_cfg app) s l"
| "catalog_step app s (KL_Manager l) = on_manager (\<lambda>g. mgr_step g l) s"

text \<open>Sessions are created by their route only.\<close>

definition via_routes :: "catalog_db \<Rightarrow> catalog_label \<Rightarrow> bool" where
  "via_routes s l = (case l of KL_Manager (ML_Create _) \<Rightarrow> False | _ \<Rightarrow> True)"

text \<open>The two requests that may authenticate at a host.\<close>

definition signs_label :: "catalog_label \<Rightarrow> bool" where
  "signs_label l = (case l of KL_AuthCheck _ _ _ \<Rightarrow> True | KL_SessionCreate _ _ _ \<Rightarrow> True | _ \<Rightarrow> False)"

text \<open>Whose request it is: when authentication succeeds, it names a user the predicate allows.\<close>

primrec label_headers :: "catalog_label \<Rightarrow> request_headers option" where
  "label_headers (KL_HostCreate h x) = Some h"
| "label_headers (KL_HostList h) = Some h"
| "label_headers (KL_HostGet h x) = Some h"
| "label_headers (KL_HostUpdate h x y) = Some h"
| "label_headers (KL_HostDelete h x) = Some h"
| "label_headers (KL_IdentityCreate h x) = Some h"
| "label_headers (KL_IdentityImport h x) = Some h"
| "label_headers (KL_IdentityList h) = Some h"
| "label_headers (KL_IdentityGet h x) = Some h"
| "label_headers (KL_IdentityUpdate h x y) = Some h"
| "label_headers (KL_IdentityDelete h x) = Some h"
| "label_headers (KL_ProfileCreate h x) = Some h"
| "label_headers (KL_ProfileList h) = Some h"
| "label_headers (KL_ProfileGet h x) = Some h"
| "label_headers (KL_ProfileUpdate h x y) = Some h"
| "label_headers (KL_ProfileDelete h x) = Some h"
| "label_headers (KL_ProfileDisable h x) = Some h"
| "label_headers (KL_ProfileEnable h x) = Some h"
| "label_headers (KL_Preflight net h x) = Some h"
| "label_headers (KL_Trust net h x y) = Some h"
| "label_headers (KL_Replace net h x y) = Some h"
| "label_headers (KL_AuthCheck net h x) = Some h"
| "label_headers (KL_SessionCreate net h x) = Some h"
| "label_headers (KL_SessionList h) = Some h"
| "label_headers (KL_SessionGet h x) = Some h"
| "label_headers (KL_SessionClose h x) = Some h"
| "label_headers (KL_Auth x) = None"
| "label_headers (KL_Manager x) = None"

definition acted_by :: "'k app \<Rightarrow> (user_id \<Rightarrow> bool) \<Rightarrow> catalog_db \<Rightarrow> catalog_label \<Rightarrow> bool" where
  "acted_by app actor s l \<longleftrightarrow> (\<forall>h user t. label_headers l = Some h \<longrightarrow>
     authenticate (ap_auth app) h s = (Inr user, t) \<longrightarrow> actor (au_user_id user))"

lemma acted_by_anyone [simp]: "acted_by app (\<lambda>_. True) s l"
  by (simp add: acted_by_def)

section \<open>What the handlers establish\<close>

definition host_input_ok :: "create_host \<Rightarrow> bool" where
  "host_input_ok input \<longleftrightarrow> label_ok 128 (ch_display_name input) \<and> hostname_ok (ch_hostname input)
     \<and> port_chk (ch_port input) \<and> username_ok (ch_default_username input)"

definition host_edit_ok :: "update_host \<Rightarrow> bool" where
  "host_edit_ok input \<longleftrightarrow> pred_option (label_ok 128) (uh_display_name input)
     \<and> pred_option hostname_ok (uh_hostname input) \<and> pred_option port_chk (uh_port input)
     \<and> pred_option username_ok (uh_default_username input)"

definition tags_ok :: "string list \<Rightarrow> bool" where
  "tags_ok tags \<longleftrightarrow> length tags \<le> 32 \<and> list_all tag_ok tags \<and> distinct tags"

definition profile_input_ok :: "create_server_profile \<Rightarrow> bool" where
  "profile_input_ok input \<longleftrightarrow> label_ok 64 (cp_name input)
     \<and> pred_option username_ok (cp_username_override input) \<and> tags_ok (cp_tags input)"

definition profile_edit_ok :: "update_server_profile \<Rightarrow> bool" where
  "profile_edit_ok input \<longleftrightarrow> pred_option (label_ok 64) (up_name input)
     \<and> (case up_username_override input of SetTo (Some u) \<Rightarrow> username_ok u | _ \<Rightarrow> True)
     \<and> pred_option tags_ok (up_tags input)"

definition owns_host :: "user_id \<Rightarrow> host_id \<Rightarrow> catalog_db \<Rightarrow> bool" where
  "owns_host uid hid s \<longleftrightarrow> (\<exists>h \<in> set (cd_hosts s). ho_id h = hid \<and> ho_owner_id h = uid)"

definition owns_identity :: "user_id \<Rightarrow> ssh_identity_id \<Rightarrow> catalog_db \<Rightarrow> bool" where
  "owns_identity uid iid s \<longleftrightarrow> (\<exists>i \<in> set (cd_identities s). si_id i = iid \<and> si_owner_id i = uid)"

definition owns_profile :: "user_id \<Rightarrow> server_profile_id \<Rightarrow> catalog_db \<Rightarrow> bool" where
  "owns_profile uid pid s \<longleftrightarrow> (\<exists>p \<in> set (cd_profiles s). sp_id p = pid \<and> sp_owner_id p = uid)"

lemma ownsI:
  "h \<in> set (cd_hosts s) \<Longrightarrow> owns_host (ho_owner_id h) (ho_id h) s"
  "i \<in> set (cd_identities s) \<Longrightarrow> owns_identity (si_owner_id i) (si_id i) s"
  "p \<in> set (cd_profiles s) \<Longrightarrow> owns_profile (sp_owner_id p) (sp_id p) s"
  by (auto simp: owns_host_def owns_identity_def owns_profile_def)

definition session_refs :: "session_db \<Rightarrow> (user_id \<times> server_profile_id) set" where
  "session_refs d = (\<lambda>t. (ts_owner_id t, ts_server_profile_id t)) ` set (db_sessions d)"

definition profile_keys :: "catalog_db \<Rightarrow> (user_id \<times> server_profile_id) set" where
  "profile_keys s = (\<lambda>p. (sp_owner_id p, sp_id p)) ` set (cd_profiles s)"

text \<open>A sealed identity came out of the vault the application runs with.\<close>

definition vault_made :: "'k app \<Rightarrow> create_ssh_identity \<Rightarrow> bool" where
  "vault_made app input \<longleftrightarrow> (\<exists>env key gi n n'. ap_vault app = Some (env, key)
     \<and> ((\<exists>kt. generate_ssh_identity env key kt (ci_name input) n = (Inr gi, n'))
        \<or> (\<exists>pem. import_ssh_identity env key pem (ci_name input) n = (Inr gi, n')))
     \<and> ci_key_type input = gi_key_type gi \<and> ci_public_key input = gi_public_key_openssh gi
     \<and> ci_encrypted_private_key input = gi_encrypted_private_key gi
     \<and> ci_fingerprint_sha256 input = gi_fingerprint_sha256 gi)"

text \<open>What a validated request body guarantees.\<close>

lemma checked_Inr_iff: "checked r s = (Inr v, t) \<longleftrightarrow> r = Inr v \<and> t = s"
  by (cases r) (auto simp: checked_def)

lemma optionally_Inr_iff:
  "optionally f v s = (Inr w, t) \<longleftrightarrow> t = s \<and> (case v of None \<Rightarrow> w = None | Some x \<Rightarrow> \<exists>y. f x = Inr y \<and> w = Some y)"
  by (cases v) (auto simp: optionally_def Inr_iffs checked_Inr_iff)

lemma override_edit_ok:
  "override_edit v s = (Inr w, t) \<Longrightarrow> case w of SetTo (Some u) \<Rightarrow> username_ok u | _ \<Rightarrow> True"
  by (auto simp: override_edit_def Inr_iffs checked_Inr_iff validate_ssh_username_iff split: option.splits)

lemma preserves_checked [pres_intros]: "preserves I (checked r)"
  by (cases r) (simp_all add: checked_def preserves_ret preserves_raise)

lemma preserves_optionally [pres_intros]: "preserves I (optionally f v)"
  unfolding optionally_def by (intro pres_intros)

lemma preserves_override_edit [pres_intros]: "preserves I (override_edit v)"
  unfolding override_edit_def by (intro pres_intros)

lemmas validated_iffs = validate_host_display_name_iff validate_profile_name_iff validate_hostname_iff
  validate_ssh_username_iff validate_ssh_port_iff validate_tags_iff

lemma host_into_create_ok:
  "host_into_create req uid s = (Inr input, t) \<Longrightarrow> host_input_ok input \<and> ch_owner_id input = uid"
  by (auto simp: host_into_create_def Inr_iffs checked_Inr_iff validated_iffs host_input_ok_def port_chk_def)

lemma host_into_update_ok:
  "host_into_update req s = (Inr input, t) \<Longrightarrow> host_edit_ok input"
  by (auto simp: host_into_update_def Inr_iffs optionally_Inr_iff validated_iffs host_edit_ok_def port_chk_def
      split: if_splits option.splits)

lemma profile_into_create_ok:
  "profile_into_create req uid s = (Inr input, t) \<Longrightarrow> profile_input_ok input \<and> cp_owner_id input = uid"
  by (auto simp: profile_into_create_def Inr_iffs checked_Inr_iff optionally_Inr_iff validated_iffs
      profile_input_ok_def tags_ok_def split: option.splits)

lemma profile_into_update_ok:
  "profile_into_update req s = (Inr input, t) \<Longrightarrow> profile_edit_ok input"
  by (auto simp: profile_into_update_def Inr_iffs optionally_Inr_iff validated_iffs tags_ok_def profile_edit_ok_def
      dest!: override_edit_ok split: if_splits option.splits set_optional.splits)

lemma preserves_dtos [pres_intros]:
  "preserves I (host_into_create hq uid)" "preserves I (host_into_update hu)"
  "preserves I (profile_into_create pq uid)" "preserves I (profile_into_update pu)"
  "preserves I (validate_identity_name n)" "preserves I (create_identity_validate cq)"
  "preserves I (import_identity_validate iq)" "preserves I (validated_expected_fingerprint fp)"
  "preserves I (replace_validated rq)"
  unfolding host_into_create_def host_into_update_def profile_into_create_def profile_into_update_def
    validate_identity_name_def create_identity_validate_def parse_supported_key_type_def
    import_identity_validate_def validated_expected_fingerprint_def replace_validated_def
    validate_fingerprint_def Let_def
  by (intro pres_intros)+

text \<open>Sequencing with a fact about the first result, and with a fact about the state.\<close>

lemma preserves_bind_fact:
  assumes "preserves I m" and "\<And>x s t. m s = (Inr x, t) \<Longrightarrow> P x" and "\<And>x. P x \<Longrightarrow> preserves I (k x)"
  shows "preserves I (bindP m k)"
proof (rule preservesI)
  fix s assume "I s"
  then have "I (snd (m s))" using assms(1) by (simp add: preservesD)
  then show "I (snd (bindP m k s))"
    using assms(2) [of s] assms(3) by (auto simp: bindP_def preserves_def split: prod.splits sum.splits)
qed

lemma preserves_bind_triple:
  "triple I m Q I \<Longrightarrow> (\<And>x. triple (Q x) (k x) (\<lambda>_. I) I) \<Longrightarrow> preserves I (bindP m k)"
  by (rule preserves_triple, rule triple_bind)

lemma establishes_triple: "triple P m (\<lambda>_. I) I \<Longrightarrow> establishes P I m"
proof (rule establishesI)
  fix s assume "triple P m (\<lambda>_. I) I" "P s"
  then show "I (snd (m s))" by (cases "m s"; cases "fst (m s)") (auto simp: triple_def)
qed

lemma triple_establishes: "establishes P I m \<Longrightarrow> triple P m (\<lambda>_. I) I"
  by (rule tripleI) (metis establishesD snd_conv)+

text \<open>No session operation of the manager but creation adds a reference to a profile.\<close>

interpretation refs: db_rows "\<lambda>d. session_refs d \<subseteq> R" for R
proof unfold_locales
  show "preserves (\<lambda>d. session_refs d \<subseteq> R) (sessions_set_status sid st c)" for sid st c
    unfolding sessions_set_status_def by (rule preserves_db_callI) (auto simp: session_refs_def)
  show "preserves (\<lambda>d. session_refs d \<subseteq> R) (sessions_create_attachment sid ci ra)" for sid ci ra
    unfolding sessions_create_attachment_def by (rule preserves_db_callI) (auto simp: session_refs_def Let_def)
  show "preserves (\<lambda>d. session_refs d \<subseteq> R) (sessions_mark_attachment_detached aid t q)" for aid t q
    unfolding sessions_mark_attachment_detached_def by (rule preserves_db_callI) (auto simp: session_refs_def)
  show "preserves (\<lambda>d. session_refs d \<subseteq> R) (events_create sid k p)" for sid k p
    unfolding events_create_def by (rule preserves_db_callI) (auto simp: session_refs_def Let_def)
qed (auto simp: session_refs_def)

lemma create_session_refs:
  "session_refs (mg_db (snd (create_session req g))) \<subseteq>
     insert (cr_owner_id req, cr_server_profile_id req) (session_refs (mg_db g))"
proof -
  let ?R = "insert (cr_owner_id req, cr_server_profile_id req) (session_refs (mg_db g))"
  have c: "preserves (\<lambda>d. session_refs d \<subseteq> ?R) (sessions_create \<lparr>cs_owner_id = cr_owner_id req,
      cs_server_profile_id = cr_server_profile_id req, cs_status = st, cs_cols = x, cs_rows = y\<rparr>)" for st x y
    unfolding sessions_create_def by (rule preserves_db_callI) (auto simp: session_refs_def Let_def)
  have "preserves (refs.held ?R) (create_session req)"
    unfolding create_session_def validate_dim_def
    by (intro refs.held_rules refs.held_lift [OF c] refs.held_modify) simp_all
  then show ?thesis using preservesD by (fastforce simp: refs.held_def)
qed

section \<open>The locale\<close>

locale catalog_stable = account_stable svc I
  for svc :: auth_service and I :: "catalog_db \<Rightarrow> bool" +
  fixes app :: "'k app"
    and actor :: "user_id \<Rightarrow> bool"
    and may_sign :: bool
  assumes app_auth: "ap_auth app = svc"
    and vault_draws: "I s \<Longrightarrow> I (s\<lparr>cd_vault_draws := n\<rparr>)"
    and wire: "I s \<Longrightarrow> may_sign \<or> list_all (\<lambda>a. \<not> is_signature a) w \<Longrightarrow> I (s\<lparr>cd_wire := cd_wire s @ w\<rparr>)"
    and permits: "I s \<Longrightarrow> I (s\<lparr>cd_auth_check := v\<rparr>)"
    and manager: "I s \<Longrightarrow> session_refs (mg_db g) \<subseteq> session_refs (mg_db (cd_manager s)) \<union> profile_keys s \<Longrightarrow>
      I (s\<lparr>cd_manager := g\<rparr>)"
    and host_new: "I s \<Longrightarrow> host_input_ok hin \<Longrightarrow> actor (ch_owner_id hin) \<Longrightarrow>
      I (s\<lparr>ac_next_id := Suc (ac_next_id s), cd_hosts := cd_hosts s @ [new_host s hin]\<rparr>)"
    and host_patch: "I s \<Longrightarrow> host_edit_ok hed \<Longrightarrow> h \<in> set (cd_hosts s) \<Longrightarrow> actor (ho_owner_id h) \<Longrightarrow>
      I (s\<lparr>cd_hosts := map (\<lambda>r. if ho_id r = ho_id h then patch_host (ac_now s) hed h else r) (cd_hosts s)\<rparr>)"
    and host_del: "I s \<Longrightarrow> actor uid \<Longrightarrow> owns_host uid hid s \<Longrightarrow> (\<forall>p \<in> set (cd_profiles s). sp_host_id p \<noteq> hid) \<Longrightarrow>
      (\<forall>e \<in> set (cd_pins s). kh_host_id e \<noteq> hid) \<Longrightarrow>
      I (s\<lparr>cd_hosts := filter (\<lambda>r. ho_id r \<noteq> hid) (cd_hosts s)\<rparr>)"
    and identity_new: "I s \<Longrightarrow> vault_made app iin \<Longrightarrow> actor (ci_owner_id iin) \<Longrightarrow>
      \<not> list_ex (\<lambda>r. si_owner_id r = ci_owner_id iin \<and> si_fingerprint_sha256 r = ci_fingerprint_sha256 iin)
          (cd_identities s) \<Longrightarrow>
      I (s\<lparr>ac_next_id := Suc (ac_next_id s), cd_identities := cd_identities s @ [new_identity s iin]\<rparr>)"
    and identity_rename: "I s \<Longrightarrow> i \<in> set (cd_identities s) \<Longrightarrow> actor (si_owner_id i) \<Longrightarrow>
      I (s\<lparr>cd_identities := map (\<lambda>r. if si_id r = si_id i then i\<lparr>si_name := name\<rparr> else r) (cd_identities s)\<rparr>)"
    and identity_del: "I s \<Longrightarrow> actor uid \<Longrightarrow> owns_identity uid iid s \<Longrightarrow> (\<forall>p \<in> set (cd_profiles s). sp_ssh_identity_id p \<noteq> iid) \<Longrightarrow>
      I (s\<lparr>cd_identities := filter (\<lambda>r. si_id r \<noteq> iid) (cd_identities s)\<rparr>)"
    and profile_new: "I s \<Longrightarrow> profile_input_ok pin \<Longrightarrow> actor (cp_owner_id pin) \<Longrightarrow> \<not> name_taken s (cp_owner_id pin) (cp_name pin) None \<Longrightarrow>
      owns_host (cp_owner_id pin) (cp_host_id pin) s \<Longrightarrow>
      owns_identity (cp_owner_id pin) (cp_ssh_identity_id pin) s \<Longrightarrow>
      I (s\<lparr>ac_next_id := Suc (ac_next_id s), cd_profiles := cd_profiles s @ [new_profile s pin]\<rparr>)"
    and profile_patch: "I s \<Longrightarrow> profile_edit_ok ped \<Longrightarrow> p \<in> set (cd_profiles s) \<Longrightarrow> actor (sp_owner_id p) \<Longrightarrow>
      \<not> name_taken s (sp_owner_id p) (or_else (up_name ped) (sp_name p)) (Some (sp_id p)) \<Longrightarrow>
      pred_option (\<lambda>hid. owns_host (sp_owner_id p) hid s) (up_host_id ped) \<Longrightarrow>
      pred_option (\<lambda>iid. owns_identity (sp_owner_id p) iid s) (up_ssh_identity_id ped) \<Longrightarrow>
      I (s\<lparr>cd_profiles := map (\<lambda>r. if sp_id r = sp_id p then patch_profile (ac_now s) ped p else r) (cd_profiles s)\<rparr>)"
    and profile_stamp: "I s \<Longrightarrow> p \<in> set (cd_profiles s) \<Longrightarrow> actor (sp_owner_id p) \<Longrightarrow>
      I (s\<lparr>cd_profiles := map (\<lambda>r. if sp_id r = sp_id p
           then p\<lparr>sp_updated_at := ac_now s, sp_disabled_at := t\<rparr> else r) (cd_profiles s)\<rparr>)"
    and profile_del: "I s \<Longrightarrow> actor uid \<Longrightarrow> owns_profile uid pid s \<Longrightarrow> (\<forall>t \<in> set (profile_sessions s). ts_server_profile_id t \<noteq> pid) \<Longrightarrow>
      I (s\<lparr>cd_profiles := filter (\<lambda>r. sp_id r \<noteq> pid) (cd_profiles s)\<rparr>)"
    and pin_new: "I s \<Longrightarrow> actor uid \<Longrightarrow> owns_host uid (ck_host_id kin) s \<Longrightarrow> pin_for s (ck_host_id kin) (ck_fingerprint_sha256 kin) = None \<Longrightarrow>
      host_row s (ck_host_id kin) \<noteq> None \<Longrightarrow>
      I (s\<lparr>ac_next_id := Suc (ac_next_id s), cd_pins := cd_pins s @ [new_pin s kin (Some (ac_now s))]\<rparr>)"
    and pin_trust: "I s \<Longrightarrow> actor uid \<Longrightarrow> owns_host uid (kh_host_id e) s \<Longrightarrow> e \<in> set (cd_pins s) \<Longrightarrow> kh_revoked_at e = None \<Longrightarrow>
      I (s\<lparr>cd_pins := map (\<lambda>x. if kh_id x = kh_id e
           then e\<lparr>kh_trusted_at := coalesce (kh_trusted_at e) (Some (ac_now s))\<rparr> else x) (cd_pins s)\<rparr>)"
    and pin_replace: "I s \<Longrightarrow> actor uid \<Longrightarrow> owns_host uid (ra_host_id rin) s \<Longrightarrow> e \<in> set (cd_pins s) \<Longrightarrow> kh_host_id e = ra_host_id rin \<Longrightarrow>
      kh_revoked_at e = None \<Longrightarrow> kh_trusted_at e \<noteq> None \<Longrightarrow>
      pin_for s (ra_host_id rin) (ra_new_fingerprint_sha256 rin) = None \<Longrightarrow> host_row s (ra_host_id rin) \<noteq> None \<Longrightarrow>
      user_row s (ra_revoked_by rin) \<noteq> None \<Longrightarrow> I (snd (apply_replacement rin e s))"
begin

lemma pres_via: "preserves I m \<Longrightarrow> preserves I (via_cat m)"
  unfolding via_cat_def by (rule preserves_mapErr)

lemma pres_cat_read: "preserves I (via_cat (acc_call (\<lambda>s. (Inr (f s), s))))"
  by (rule pres_via, rule pres_read)

lemma pres_cat_reads:
  "preserves I (via_cat (hosts_get hid))" "preserves I (via_cat (hosts_list_for_user uid))"
  "preserves I (via_cat (hosts_any_dependents hid uid))"
  "preserves I (via_cat (identities_get iid))" "preserves I (via_cat (identities_list_for_user uid))"
  "preserves I (via_cat (identities_any_dependents iid uid))"
  "preserves I (via_cat (profiles_get pid))" "preserves I (via_cat (profiles_list_for_user c uid))"
  "preserves I (via_cat (profiles_any_dependents pid uid))" "preserves I (via_cat (pins_list_for_host hid))"
  unfolding hosts_get_def hosts_list_for_user_def hosts_any_dependents_def identities_get_def
    identities_list_for_user_def identities_any_dependents_def profiles_get_def profiles_list_for_user_def
    profiles_any_dependents_def pins_list_for_host_def
  by (rule pres_cat_read)+

lemma pres_owned:
  "preserves I (owned_host hid uid e)" "preserves I (owned_identity iid uid e)" "preserves I (owned_profile pid uid e)"
  unfolding owned_host_def owned_identity_def owned_profile_def by (intro pres_intros pres_cat_reads)+

text \<open>A request of an allowed user: the handler body runs for that user only.\<close>

definition guarded :: "request_headers \<Rightarrow> 'a cat_route \<Rightarrow> bool" where
  "guarded h m \<longleftrightarrow> (\<forall>s. I s \<longrightarrow> (\<forall>user t. authenticate svc h s = (Inr user, t) \<longrightarrow> actor (au_user_id user)) \<longrightarrow> I (snd (m s)))"

lemma guarded_reading:
  assumes "\<And>uid. actor uid \<Longrightarrow> preserves I (body uid)"
  shows "guarded h (reading app h body)"
  unfolding guarded_def
proof (intro allI impI)
  fix s assume i: "I s" and who: "\<forall>user t. authenticate svc h s = (Inr user, t) \<longrightarrow> actor (au_user_id user)"
  obtain r t where a: "authenticate svc h s = (r, t)" by (cases "authenticate svc h s")
  have t: "I t" using preservesD [OF pres_authenticate i, of svc h] a by simp
  show "I (snd (reading app h body s))"
  proof (cases r)
    case (Inl e)
    then show ?thesis using a t by (simp add: reading_def app_auth bindP_Inl)
  next
    case (Inr user)
    then have "preserves I (body (au_user_id user))" using who a assms by blast
    then show ?thesis using a t Inr by (simp add: reading_def app_auth bindP_def preservesD)
  qed
qed

lemma guarded_mutating:
  assumes "\<And>uid. actor uid \<Longrightarrow> preserves I (body uid)"
  shows "guarded h (mutating app h body)"
proof -
  have "snd (csrf_guard (ap_cfg app) h s) = s" for s :: catalog_db
    by (simp add: csrf_guard_def split: sum.split)
  moreover have "guarded h (reading app h body)" by (rule guarded_reading) (rule assms)
  ultimately show ?thesis
    by (auto simp: guarded_def mutating_def bindP_def split: prod.split sum.split) (metis snd_conv)+
qed

lemma pres_cat_audit: "preserves I (via_cat (audit_create a k payload None))"
  by (rule pres_via, rule pres_audit)

lemma pres_writes_audit:
  "preserves I (write_lifecycle_audit a k p)" "preserves I (write_identity_create_audit a i src)"
  "preserves I (write_identity_delete_audit a i)"
  unfolding write_lifecycle_audit_def write_identity_create_audit_def write_identity_delete_audit_def
  by (intro pres_intros pres_cat_audit)+

lemma probe_unsigned: "list_all (\<lambda>a. \<not> is_signature a) (sc_wire (snd (preflight kp net req known new_conn)))"
proof -
  have "preserves unsigned_wire (preflight kp net req known)"
    unfolding preflight_def by (intro pres_intros probe_never_signs)
  then have "unsigned_wire (snd (preflight kp net req known new_conn))" by (rule preservesD) simp
  then show ?thesis by (simp add: unsigned_wire_def)
qed

lemma pres_lifts:
  "preserves I (lift_vault m)" "preserves I (lift_preflight (preflight kp net req known))"
  "may_sign \<Longrightarrow> preserves I (lift_auth_check r)"
proof -
  show "preserves I (lift_vault m)"
    by (auto simp: preserves_def lift_vault_def split: prod.splits sum.splits intro: vault_draws)
  show "preserves I (lift_preflight (preflight kp net req known))"
    using probe_unsigned [of kp net req known]
    by (auto simp: preserves_def lift_preflight_def split: prod.splits sum.splits intro: wire)
  have "I (s\<lparr>cd_auth_check := v, cd_wire := cd_wire s @ w\<rparr>)" if "I s" may_sign for s v w
    using wire [of "s\<lparr>cd_auth_check := v\<rparr>" w] that permits by simp
  then show "may_sign \<Longrightarrow> preserves I (lift_auth_check r)"
    by (auto simp: preserves_def lift_auth_check_def split: prod.splits sum.splits)
qed

lemma pres_write: "(\<And>s. I s \<Longrightarrow> I (snd (body s))) \<Longrightarrow> preserves I (mapErrP f (acc_call body))"
  by (rule preserves_mapErr, rule pres_call, rule preservesI)

lemma pres_host_writes:
  "host_input_ok hin \<Longrightarrow> actor (ch_owner_id hin) \<Longrightarrow> preserves I (via_cat (hosts_create hin))"
  "host_edit_ok hed \<Longrightarrow> actor uid \<Longrightarrow> preserves I (via_cat (hosts_update hid uid hed))"
  unfolding hosts_create_def hosts_update_def via_cat_def
  by (auto simp: Let_def host_new host_patch dest!: find_SomeD split: option.splits intro!: pres_write)

lemma pres_identity_writes:
  "vault_made app iin \<Longrightarrow> actor (ci_owner_id iin) \<Longrightarrow> preserves I (mapErrP f (identities_create iin))"
  "actor uid \<Longrightarrow> preserves I (via_cat (identities_rename iid uid name))"
  "actor uid \<Longrightarrow> preserves I (via_cat (identities_delete iid uid))"
  unfolding identities_create_def identities_rename_def identities_delete_def via_cat_def
  by (auto simp: Let_def list_ex_iff identity_new identity_rename dest!: find_SomeD
      split: option.splits intro!: pres_write intro: identity_del [OF _ _ ownsI(2)])

lemma pres_profile_writes:
  "actor uid \<Longrightarrow> preserves I (via_cat (profiles_delete pid uid))"
  "actor uid \<Longrightarrow> preserves I (via_cat (profiles_set_disabled_at pid uid t))"
  unfolding profiles_delete_def profiles_set_disabled_at_def via_cat_def
  by (auto simp: Let_def list_ex_iff profile_stamp dest!: find_SomeD split: option.splits
      intro!: pres_write intro: profile_del [OF _ _ ownsI(3)])

text \<open>A read carries facts about the tables over, and says what it read.\<close>

lemma triple_cat_read:
  assumes "\<And>s fs. F (s\<lparr>ac_faults := fs\<rparr>) \<longleftrightarrow> F s" and "\<And>s fs. f (s\<lparr>ac_faults := fs\<rparr>) = f s"
  shows "triple (\<lambda>s. I s \<and> F s) (via_cat (acc_call (\<lambda>s. (Inr (f s), s)))) (\<lambda>x s. I s \<and> F s \<and> x = f s) I"
  unfolding via_cat_def
  by (rule triple_mapErr, rule tripleI)
    (auto simp: acc_call_def assms faults split: list.splits option.splits)

lemma triple_owned_row:
  assumes "\<And>s fs. F (s\<lparr>ac_faults := fs\<rparr>) \<longleftrightarrow> F s" and "\<And>s fs. f (s\<lparr>ac_faults := fs\<rparr>) = f s"
  shows "triple (\<lambda>s. I s \<and> F s)
     (bindP (via_cat (acc_call (\<lambda>s. (Inr (f s), s)))) (\<lambda>r. okOrP (owned own uid r) e))
     (\<lambda>x s. I s \<and> F s \<and> f s = Some x \<and> own x = uid) I"
  by (rule triple_bind, rule triple_cat_read [OF assms])
    (auto simp: triple_def okOrP_def owned_def split: option.split)

lemma triple_owned:
  assumes "\<And>s fs. F (s\<lparr>ac_faults := fs\<rparr>) \<longleftrightarrow> F s"
  shows "triple (\<lambda>s. I s \<and> F s) (owned_host hid uid e) (\<lambda>_ s. I s \<and> F s \<and> owns_host uid hid s) I"
    and "triple (\<lambda>s. I s \<and> F s) (owned_identity iid uid e) (\<lambda>_ s. I s \<and> F s \<and> owns_identity uid iid s) I"
    and "triple (\<lambda>s. I s \<and> F s) (owned_profile pid uid e)
      (\<lambda>p s. I s \<and> F s \<and> p \<in> set (cd_profiles s) \<and> sp_id p = pid \<and> sp_owner_id p = uid) I"
proof -
  note row = triple_weaken [OF triple_owned_row [OF assms]]
  show "triple (\<lambda>s. I s \<and> F s) (owned_host hid uid e) (\<lambda>_ s. I s \<and> F s \<and> owns_host uid hid s) I"
    unfolding owned_host_def hosts_get_def by (rule row) (auto simp: host_row_def owns_host_def dest!: find_SomeD)
  show "triple (\<lambda>s. I s \<and> F s) (owned_identity iid uid e) (\<lambda>_ s. I s \<and> F s \<and> owns_identity uid iid s) I"
    unfolding owned_identity_def identities_get_def
    by (rule row) (auto simp: identity_row_def owns_identity_def dest!: find_SomeD)
  show "triple (\<lambda>s. I s \<and> F s) (owned_profile pid uid e)
      (\<lambda>p s. I s \<and> F s \<and> p \<in> set (cd_profiles s) \<and> sp_id p = pid \<and> sp_owner_id p = uid) I"
    unfolding owned_profile_def profiles_get_def by (rule row) (auto simp: profile_row_def dest!: find_SomeD)
qed

lemma triple_write:
  assumes "\<And>s fs. F (s\<lparr>ac_faults := fs\<rparr>) \<longleftrightarrow> F s" and "\<And>s. I s \<Longrightarrow> F s \<Longrightarrow> I (snd (body s))"
  shows "triple (\<lambda>s. I s \<and> F s) (mapErrP f (acc_call body)) (\<lambda>_. I) I"
proof (rule triple_mapErr, rule tripleI)
  have "I (snd (acc_call body s))" if "I s" "F s" for s
    using that assms faults by (simp add: acc_call_def split: list.split option.split)
  then show "I s \<and> F s \<Longrightarrow> acc_call body s = (Inl e, t) \<Longrightarrow> I t"
    and "I s \<and> F s \<Longrightarrow> acc_call body s = (Inr x, t) \<Longrightarrow> I t" for s e x t
    by (metis snd_conv)+
qed

lemma triple_pin_writes:
  assumes "actor uid"
  shows "triple (\<lambda>s. I s \<and> owns_host uid (ck_host_id kin) s) (via_cat (pins_record_trusted kin)) (\<lambda>_. I) I"
    and "triple (\<lambda>s. I s \<and> owns_host uid (ra_host_id rin) s) (mapErrP f (pins_replace_active_pin rin)) (\<lambda>_. I) I"
proof -
  let ?body = "\<lambda>s. case pin_for s (ck_host_id kin) (ck_fingerprint_sha256 kin) of
       Some old \<Rightarrow>
         if kh_revoked_at old \<noteq> None then (Inl (RE_Conflict ''known_host_entry'' ''revoked''), s)
         else let row = old\<lparr>kh_trusted_at := coalesce (kh_trusted_at old) (Some (ac_now s))\<rparr>
              in (Inr row, s\<lparr>cd_pins := map (\<lambda>e. if kh_id e = kh_id old then row else e) (cd_pins s)\<rparr>)
     | None \<Rightarrow>
         if host_row s (ck_host_id kin) = None
         then (Inl (RE_Conflict ''known_host_entry'' ''known_host_entries_host_id_fkey''), s)
         else let row = new_pin s kin (Some (ac_now s))
              in (Inr row, s\<lparr>ac_next_id := Suc (ac_next_id s), cd_pins := cd_pins s @ [row]\<rparr>)"
  have "I (snd (?body s))" if i: "I s" and own: "owns_host uid (ck_host_id kin) s" for s
  proof (cases "pin_for s (ck_host_id kin) (ck_fingerprint_sha256 kin)")
    case None
    then show ?thesis using i pin_new [OF i assms own] by (auto simp: Let_def)
  next
    case (Some e)
    then have "e \<in> set (cd_pins s)" "kh_host_id e = ck_host_id kin" by (auto simp: pin_for_def dest: find_SomeD)
    then show ?thesis using i Some pin_trust [OF i assms, of e] own by (auto simp: Let_def)
  qed
  then show "triple (\<lambda>s. I s \<and> owns_host uid (ck_host_id kin) s) (via_cat (pins_record_trusted kin)) (\<lambda>_. I) I"
    unfolding pins_record_trusted_def via_cat_def by (intro triple_write) (simp_all add: owns_host_def)
  show "triple (\<lambda>s. I s \<and> owns_host uid (ra_host_id rin) s) (mapErrP f (pins_replace_active_pin rin)) (\<lambda>_. I) I"
    unfolding pins_replace_active_pin_def
    by (rule triple_write, simp add: owns_host_def)
      (auto simp: pin_replace [OF _ assms] split_def split: option.split dest!: find_SomeD)
qed

lemma triple_then: "triple P m (\<lambda>_. I) I \<Longrightarrow> (\<And>x. preserves I (k x)) \<Longrightarrow> triple P (bindP m k) (\<lambda>_. I) I"
  by (rule triple_bind [where R = "\<lambda>_. I"]) (auto intro: triple_preserves)

lemma pres_hosts_routes:
  "guarded h (hosts_route_create app h hq)" "guarded h (hosts_route_list app h)"
  "guarded h (hosts_route_get app h hid)" "guarded h (hosts_route_update app h hid hu)"
proof -
  show "guarded h (hosts_route_create app h hq)"
    unfolding hosts_route_create_def
    by (intro guarded_mutating preserves_bind_fact [OF preserves_dtos(1) host_into_create_ok] preserves_bind preserves_ret
        pres_host_writes) auto
  show "guarded h (hosts_route_update app h hid hu)"
    unfolding hosts_route_update_def
    by (intro guarded_mutating preserves_bind_fact [OF preserves_dtos(2) host_into_update_ok] preserves_bind preserves_ret
        pres_owned pres_host_writes)
qed (unfold hosts_route_list_def hosts_route_get_def,
    (intro guarded_reading pres_intros pres_owned pres_cat_reads)+)

lemma cascade_nothing: "(\<forall>e \<in> set pins. kh_host_id e \<noteq> hid) \<Longrightarrow> cascade_host hid pins = pins"
proof -
  assume "\<forall>e \<in> set pins. kh_host_id e \<noteq> hid"
  then have "filter (\<lambda>e. kh_host_id e \<noteq> hid) pins = pins" "filter (\<lambda>e. kh_host_id e = hid) pins = []"
    by (simp_all add: filter_id_conv filter_empty_conv)
  then show ?thesis by (simp add: cascade_host_def map_idI split: option.split)
qed

lemma pres_hosts_delete: "guarded h (hosts_route_delete app h hid)"
proof -
  let ?none = "\<lambda>s. \<forall>e \<in> set (cd_pins s). kh_host_id e \<noteq> hid"
  have "triple (\<lambda>s. I s \<and> ?none s) (via_cat (hosts_delete hid uid)) (\<lambda>_. I) I" if "actor uid" for uid
    unfolding hosts_delete_def via_cat_def
    by (rule triple_write)
      (auto simp: cascade_nothing list_ex_iff owns_host_def dest!: find_SomeD intro!: host_del [OF _ that])
  note del = triple_then [OF this]
  have chunk: "preserves I (bindP (via_cat (hosts_any_dependents hid uid)) (\<lambda>dep.
      if dep then raiseP e else bindP (via_cat (hosts_delete hid uid)) (\<lambda>_. retP x)))" if "actor uid" for uid e and x :: nat
    unfolding hosts_any_dependents_def
  proof (rule preserves_bind_triple)
    let ?dep = "\<lambda>s. list_ex (\<lambda>p. sp_host_id p = hid \<and> sp_owner_id p = uid) (cd_profiles s)
      \<or> list_ex (\<lambda>e. kh_host_id e = hid) (cd_pins s)"
    show "triple I (via_cat (acc_call (\<lambda>s. (Inr (?dep s), s)))) (\<lambda>x s. I s \<and> x = ?dep s) I"
      using triple_cat_read [of "\<lambda>_. True" ?dep] by simp
    show "triple (\<lambda>s. I s \<and> dep = ?dep s) (if dep then raiseP e else bindP (via_cat (hosts_delete hid uid))
        (\<lambda>_. retP x)) (\<lambda>_. I) I" for dep
    proof (cases dep)
      case False
      have "triple (\<lambda>s. I s \<and> dep = ?dep s) (bindP (via_cat (hosts_delete hid uid)) (\<lambda>_. retP x)) (\<lambda>_. I) I"
        by (rule triple_weaken [OF del [OF \<open>actor uid\<close> preserves_ret]]) (use False in \<open>auto simp: list_ex_iff\<close>)
      with False show ?thesis by simp
    qed (simp add: triple_def)
  qed
  show ?thesis unfolding hosts_route_delete_def by (intro guarded_mutating preserves_bind [OF pres_owned(1)] chunk)
qed

lemma pres_store_identity:
  assumes "ap_vault app = Some (env, key)" and "actor uid"
    and "(\<exists>kt. generate_ssh_identity env key kt name n = (Inr gi, n')) \<or> (\<exists>pem. import_ssh_identity env key pem name n = (Inr gi, n'))"
  shows "preserves I (store_identity uid name gi src)"
proof -
  have "vault_made app \<lparr>ci_owner_id = uid, ci_name = name, ci_key_type = gi_key_type gi,
      ci_public_key = gi_public_key_openssh gi, ci_encrypted_private_key = gi_encrypted_private_key gi,
      ci_fingerprint_sha256 = gi_fingerprint_sha256 gi\<rparr>"
    unfolding vault_made_def using assms(1,3) by simp blast
  then show ?thesis
    unfolding store_identity_def using assms(2)
    by (intro preserves_bind preserves_ret pres_identity_writes pres_writes_audit) simp_all
qed

lemma lift_vault_run: "lift_vault m s = (Inr x, t) \<Longrightarrow> \<exists>n n'. m n = (Inr x, n')"
  by (auto simp: lift_vault_def split: prod.splits sum.splits)

lemma pres_sealed:
  assumes "ap_vault app = Some (env, key)" and "actor uid"
  shows "preserves I (bindP (lift_vault (generate_ssh_identity env key kt name)) (\<lambda>gi. store_identity uid name gi src))"
    and "preserves I (bindP (lift_vault (import_ssh_identity env key pem name)) (\<lambda>gi. store_identity uid name gi src))"
  by (rule preserves_bind_fact [OF pres_lifts(1) lift_vault_run], assumption,
      elim exE, rule pres_store_identity [OF assms], blast)+

lemma pres_identities_routes:
  "guarded h (identities_route_create app h cq)" "guarded h (identities_route_import app h iq)"
  "guarded h (identities_route_list app h)" "guarded h (identities_route_get app h iid)"
  "guarded h (identities_route_update app h iid name)" "guarded h (identities_route_delete app h iid)"
proof -
  have vault: "preserves I (bindP (vault_or_503 app d) (\<lambda>(env, key). k env key))"
    if "\<And>env key. ap_vault app = Some (env, key) \<Longrightarrow> preserves I (k env key)"
    for d and k :: "_ \<Rightarrow> _ \<Rightarrow> (nat \<times> identity_response) cat_route"
    unfolding vault_or_503_def
    by (rule preserves_bind_fact [where P = "\<lambda>v. ap_vault app = Some v"])
      (auto simp: okOrP_Inr_iff that intro: pres_intros)
  show "guarded h (identities_route_create app h cq)"
    unfolding identities_route_create_def
    by (intro guarded_mutating preserves_bind [OF preserves_dtos(6)] preserves_case_prod vault pres_sealed)
  show "guarded h (identities_route_import app h iq)"
    unfolding identities_route_import_def
    by (intro guarded_mutating preserves_bind [OF preserves_dtos(7)] preserves_case_prod vault pres_sealed)
qed (unfold identities_route_list_def identities_route_get_def identities_route_update_def identities_route_delete_def,
    (intro guarded_mutating guarded_reading preserves_if pres_intros pres_owned pres_cat_reads pres_writes_audit
      pres_identity_writes; assumption)+)

lemma pres_profiles_quiet:
  "guarded h (profiles_route_list app h)" "guarded h (profiles_route_get app h pid)"
  "guarded h (profiles_route_delete app h pid)" "guarded h (profiles_route_disable app h pid)"
  "guarded h (profiles_route_enable app h pid)"
  unfolding profiles_route_list_def profiles_route_get_def profiles_route_delete_def profiles_route_disable_def
    profiles_route_enable_def now_utc_def
  by ((intro guarded_mutating guarded_reading pres_intros pres_owned pres_cat_reads pres_writes_audit
      pres_profile_writes; assumption)+)

lemma pres_profiles_create: "guarded h (profiles_route_create app h pq)"
proof -
  have insert: "triple (\<lambda>s. I s \<and> owns_host (cp_owner_id pin) (cp_host_id pin) s
        \<and> owns_identity (cp_owner_id pin) (cp_ssh_identity_id pin) s)
      (bindP (via_cat (profiles_create pin)) (\<lambda>p. bindP (write_lifecycle_audit uid K p) (\<lambda>_. retP (x p)))) (\<lambda>_. I) I"
    if "profile_input_ok pin" "actor (cp_owner_id pin)" for pin uid K and x :: "server_profile \<Rightarrow> nat \<times> profile_response"
  proof (rule triple_then)
    show "triple (\<lambda>s. I s \<and> owns_host (cp_owner_id pin) (cp_host_id pin) s
        \<and> owns_identity (cp_owner_id pin) (cp_ssh_identity_id pin) s) (via_cat (profiles_create pin)) (\<lambda>_. I) I"
      unfolding profiles_create_def via_cat_def
      by (rule triple_write) (auto simp: owns_host_def owns_identity_def Let_def that intro!: profile_new)
  qed (intro pres_intros pres_writes_audit)
  have "preserves I (bindP (owned_host (cp_host_id pin) uid e) (\<lambda>_.
      bindP (owned_identity (cp_ssh_identity_id pin) uid e') (\<lambda>_.
      bindP (via_cat (profiles_create pin)) (\<lambda>p. bindP (write_lifecycle_audit uid K p) (\<lambda>_. retP (x p))))))"
    if "profile_input_ok pin \<and> cp_owner_id pin = uid" "actor uid" for pin uid e e' K and x :: "server_profile \<Rightarrow> nat \<times> profile_response"
  proof (rule preserves_bind_triple)
    show "triple I (owned_host (cp_host_id pin) uid e) (\<lambda>_ s. I s \<and> owns_host uid (cp_host_id pin) s) I"
      using triple_owned(1) [of "\<lambda>_. True"] by simp
    show "triple (\<lambda>s. I s \<and> owns_host uid (cp_host_id pin) s) (bindP (owned_identity (cp_ssh_identity_id pin) uid e') (\<lambda>_.
      bindP (via_cat (profiles_create pin)) (\<lambda>p. bindP (write_lifecycle_audit uid K p) (\<lambda>_. retP (x p))))) (\<lambda>_. I) I" for h
      using insert that by (intro triple_bind [OF triple_owned(2)]) (auto simp: owns_host_def)
  qed
  note chunk = this
  show ?thesis
    unfolding profiles_route_create_def
    by (intro guarded_mutating preserves_bind_fact [OF preserves_dtos(3) profile_into_create_ok] chunk)
qed

lemma triple_when_owned:
  assumes "\<And>s fs. F (s\<lparr>ac_faults := fs\<rparr>) \<longleftrightarrow> F s"
  shows "triple (\<lambda>s. I s \<and> F s) (when_some v (\<lambda>hid. owned_host hid uid e))
      (\<lambda>_ s. I s \<and> F s \<and> pred_option (\<lambda>hid. owns_host uid hid s) v) I"
    and "triple (\<lambda>s. I s \<and> F s) (when_some w (\<lambda>iid. owned_identity iid uid e))
      (\<lambda>_ s. I s \<and> F s \<and> pred_option (\<lambda>iid. owns_identity uid iid s) w) I"
proof -
  show "triple (\<lambda>s. I s \<and> F s) (when_some v (\<lambda>hid. owned_host hid uid e))
      (\<lambda>_ s. I s \<and> F s \<and> pred_option (\<lambda>hid. owns_host uid hid s) v) I"
    by (cases v) (auto simp: when_some_def triple_def [of _ "retP _"] intro!: triple_bind [OF triple_owned(1) [OF assms]])
  show "triple (\<lambda>s. I s \<and> F s) (when_some w (\<lambda>iid. owned_identity iid uid e))
      (\<lambda>_ s. I s \<and> F s \<and> pred_option (\<lambda>iid. owns_identity uid iid s) w) I"
    by (cases w) (auto simp: when_some_def triple_def [of _ "retP _"] intro!: triple_bind [OF triple_owned(2) [OF assms]])
qed

lemma triple_profiles_update:
  assumes "profile_edit_ok ped" and "actor uid"
  shows "triple (\<lambda>s. I s \<and> pred_option (\<lambda>hid. owns_host uid hid s) (up_host_id ped)
       \<and> pred_option (\<lambda>iid. owns_identity uid iid s) (up_ssh_identity_id ped))
     (via_cat (profiles_update pid uid ped)) (\<lambda>_. I) I"
  unfolding profiles_update_def via_cat_def
proof (rule triple_write)
  have patch: "I (s\<lparr>cd_profiles := map (\<lambda>r. if sp_id r = pid then patch_profile (ac_now s) ped p else r) (cd_profiles s)\<rparr>)"
    if "I s" "find (\<lambda>r. sp_id r = pid \<and> sp_owner_id r = uid) (cd_profiles s) = Some p"
      "\<not> name_taken s uid (sp_name (patch_profile (ac_now s) ped p)) (Some pid)"
      "pred_option (\<lambda>hid. owns_host uid hid s) (up_host_id ped)"
      "pred_option (\<lambda>iid. owns_identity uid iid s) (up_ssh_identity_id ped)" for s p
    using profile_patch [OF that(1) assms(1), of p] that assms(2) by (auto simp: patch_profile_def dest!: find_SomeD)
  show "I (snd (case find (\<lambda>r. sp_id r = pid \<and> sp_owner_id r = uid) (cd_profiles s) of
       None \<Rightarrow> (Inl (RE_NotFound ''server_profile''), s)
     | Some old \<Rightarrow>
         let row = patch_profile (ac_now s) ped old in
         if name_taken s uid (sp_name row) (Some pid)
         then (Inl (RE_Conflict ''server_profile'' ''server_profiles_owner_name_key''), s)
         else if host_row s (sp_host_id row) = None
         then (Inl (RE_Conflict ''server_profile'' ''server_profiles_host_id_fkey''), s)
         else if identity_row s (sp_ssh_identity_id row) = None
         then (Inl (RE_Conflict ''server_profile'' ''server_profiles_ssh_identity_id_fkey''), s)
         else (Inr row, s\<lparr>cd_profiles := map (\<lambda>r. if sp_id r = pid then row else r) (cd_profiles s)\<rparr>)))"
    if "I s" "pred_option (\<lambda>hid. owns_host uid hid s) (up_host_id ped)
       \<and> pred_option (\<lambda>iid. owns_identity uid iid s) (up_ssh_identity_id ped)" for s
    using that patch [of s] by (simp add: Let_def split: option.split)
qed (simp add: owns_host_def owns_identity_def)

lemma pres_profiles_update: "guarded h (profiles_route_update app h pid pu)"
proof -
  have rest: "triple I (bindP (when_some (up_host_id ped) (\<lambda>hid. owned_host hid uid e)) (\<lambda>_.
     bindP (when_some (up_ssh_identity_id ped) (\<lambda>iid. owned_identity iid uid e')) (\<lambda>_.
     bindP (via_cat (profiles_update pid uid ped)) (\<lambda>p. bindP (write_lifecycle_audit uid K p) (\<lambda>_. retP (x p))))))
     (\<lambda>_. I) I" if "profile_edit_ok ped" "actor uid" for ped uid e e' K and x :: "server_profile \<Rightarrow> profile_response"
  proof (rule triple_bind)
    show "triple I (when_some (up_host_id ped) (\<lambda>hid. owned_host hid uid e))
        (\<lambda>_ s. I s \<and> pred_option (\<lambda>hid. owns_host uid hid s) (up_host_id ped)) I"
      using triple_when_owned(1) [of "\<lambda>_. True"] by simp
    show "triple (\<lambda>s. I s \<and> pred_option (\<lambda>hid. owns_host uid hid s) (up_host_id ped))
       (bindP (when_some (up_ssh_identity_id ped) (\<lambda>iid. owned_identity iid uid e')) (\<lambda>_.
        bindP (via_cat (profiles_update pid uid ped)) (\<lambda>p. bindP (write_lifecycle_audit uid K p) (\<lambda>_. retP (x p)))))
       (\<lambda>_. I) I" for y
      by (intro triple_bind [OF triple_when_owned(2)] triple_then [OF triple_profiles_update [OF that]]
          pres_intros pres_writes_audit) (simp add: owns_host_def)
  qed
  show ?thesis
    unfolding profiles_route_update_def
    by (intro guarded_mutating preserves_bind_fact [OF preserves_dtos(4) profile_into_update_ok]
        preserves_bind [OF pres_owned(3)] preserves_triple rest)
qed

lemma pres_resolve: "preserves I (resolve_owned_profile uid pid)"
  unfolding resolve_owned_profile_def by (intro pres_intros pres_owned)

lemma pres_decrypt: "preserves I (decrypt_with v i)" "preserves I (decrypt_identity app' i)"
  unfolding decrypt_identity_def decrypt_with_def vault_or_503_def by (intro pres_intros)+

lemma pres_fact_reads:
  assumes "\<And>s fs. F (s\<lparr>ac_faults := fs\<rparr>) \<longleftrightarrow> F s"
  shows "preserves (\<lambda>s. I s \<and> F s) (owned_host hid uid e)" and "preserves (\<lambda>s. I s \<and> F s) (owned_identity iid uid e)"
    and "preserves (\<lambda>s. I s \<and> F s) (via_cat (pins_list_for_host hid))"
proof -
  have read: "preserves (\<lambda>s. I s \<and> F s) (via_cat (acc_call (\<lambda>s. (Inr (f s), s))))" for f :: "catalog_db \<Rightarrow> 'x"
    unfolding via_cat_def
    by (rule preserves_mapErr, rule preservesI)
      (simp add: acc_call_def assms faults split: list.split option.split)
  show "preserves (\<lambda>s. I s \<and> F s) (owned_host hid uid e)" "preserves (\<lambda>s. I s \<and> F s) (owned_identity iid uid e)"
    "preserves (\<lambda>s. I s \<and> F s) (via_cat (pins_list_for_host hid))"
    unfolding owned_host_def hosts_get_def owned_identity_def identities_get_def pins_list_for_host_def
    by (intro pres_intros read)+
qed

text \<open>The host a profile resolves to belongs to the caller, and still does when its pins are written.\<close>

lemma triple_resolve:
  "triple I (resolve_owned_profile uid pid) (\<lambda>(p, h, i) s. I s \<and> owns_host uid (ho_id h) s) I"
proof -
  have host: "triple I (owned_host hid uid e) (\<lambda>h s. I s \<and> owns_host uid (ho_id h) s) I" for hid e
    unfolding owned_host_def hosts_get_def
    by (rule triple_weaken [OF triple_owned_row [of "\<lambda>_. True"]])
      (auto simp: host_row_def dest!: find_SomeD intro: ownsI)
  have rest: "triple (\<lambda>s. I s \<and> owns_host uid (ho_id h) s)
      (bindP (owned_identity iid uid e) (\<lambda>i. retP (p, h, i))) (\<lambda>(p, h, i) s. I s \<and> owns_host uid (ho_id h) s) I"
    for h iid e p
    by (rule triple_bind [OF triple_owned(2)]) (auto simp: owns_host_def triple_def)
  show ?thesis
    unfolding resolve_owned_profile_def
    by (intro triple_bind [OF triple_preserves [OF pres_owned(3)]] triple_bind [OF host] rest)
qed

lemma triple_keep:
  assumes "preserves (\<lambda>s. I s \<and> F s) m" and "\<And>x. triple (\<lambda>s. I s \<and> F s) (k x) Q I"
  shows "triple (\<lambda>s. I s \<and> F s) (bindP m k) Q I"
  by (rule triple_bind [where R = "\<lambda>_ s. I s \<and> F s"], rule triple_weaken [OF triple_preserves [OF assms(1)]])
    (simp_all add: assms(2))

lemma triple_probe:
  "triple I (probe_profile app net uid pid) (\<lambda>(p, h, known, r) s. I s \<and> owns_host uid (ho_id h) s) I"
  unfolding probe_profile_def
proof (rule triple_bind [OF triple_resolve], clarify)
  fix p :: server_profile and h :: host and i :: ssh_identity
  let ?F = "\<lambda>s. owns_host uid (ho_id h) s"
  have read: "preserves (\<lambda>s. I s \<and> ?F s) (via_cat (pins_list_for_host hid))" for hid
    by (rule pres_fact_reads(3)) (simp add: owns_host_def)
  have lift: "preserves (\<lambda>s. I s \<and> ?F s) (lift_preflight (preflight kp net req known))" for kp net req known
    using preservesD [OF pres_lifts(2) [of kp net req known]]
    by (auto simp: preserves_def lift_preflight_def owns_host_def split: prod.splits sum.splits)
  have pure: "preserves (\<lambda>s. I s \<and> ?F s) (guardP b e)" "preserves (\<lambda>s. I s \<and> ?F s) (decrypt_identity app i)" for b e
    unfolding decrypt_identity_def decrypt_with_def vault_or_503_def by (intro pres_intros)+
  have last: "triple (\<lambda>s. I s \<and> ?F s) (retP (p, h, known, r)) (\<lambda>(p, h, known, r) s. I s \<and> owns_host uid (ho_id h) s) I"
    for known :: "known_host_entry list" and r :: preflight_result by (simp add: triple_def)
  show "triple (\<lambda>s. I s \<and> ?F s)
     (bindP (guardP (\<not> is_disabled p) server_profile_disabled_conflict) (\<lambda>_.
      bindP (decrypt_identity app i) (\<lambda>pem.
      bindP (via_cat (pins_list_for_host (ho_id h))) (\<lambda>known.
      bindP (lift_preflight (preflight (ap_keys app) net
              \<lparr>pq_host_id = ho_id h, pq_hostname = ho_hostname h, pq_port = ho_port h,
               pq_username = profile_username p h, pq_private_key_pem = pem\<rparr> known)) (\<lambda>result.
      retP (p, h, known, result))))))
     (\<lambda>(p, h, known, r) s. I s \<and> owns_host uid (ho_id h) s) I"
    by (intro triple_keep pure read lift last)
qed

lemma pres_probe: "preserves I (probe_profile app net uid pid)"
  unfolding probe_profile_def by (intro pres_intros pres_resolve pres_decrypt pres_cat_reads pres_lifts)

lemma triple_raise: "(\<And>s. P s \<Longrightarrow> E s) \<Longrightarrow> triple P (raiseP e) Q E"
  by (simp add: triple_def)

lemma pres_after_probe:
  assumes "\<And>p h known r. triple (\<lambda>s. I s \<and> owns_host uid (ho_id h) s) (k p h known r) (\<lambda>_. I) I"
  shows "preserves I (bindP (probe_profile app net uid pid) (\<lambda>(p, h, known, r). k p h known r))"
  by (rule preserves_bind_triple [OF triple_probe]) (auto simp: assms split: prod.split)

lemma triple_if: "triple P m Q E \<Longrightarrow> triple P n Q E \<Longrightarrow> triple P (if b then m else n) Q E"
  by simp

lemma pres_trust: "guarded h (trust_host_key app net h pid fp)"
proof -
  have trust: "triple (\<lambda>s. I s \<and> owns_host uid (ho_id host) s)
      (bindP (via_cat (pins_record_trusted \<lparr>ck_host_id = ho_id host, ck_key_type = kt, ck_fingerprint_sha256 = f, ck_public_key = pk\<rparr>)) k)
      (\<lambda>_. I) I" if "actor uid" "\<And>x. preserves I (k x)"
    for uid host kt f pk and k :: "known_host_entry \<Rightarrow> trust_response cat_route"
    using triple_pin_writes(1) [OF that(1), of "\<lparr>ck_host_id = ho_id host, ck_key_type = kt,
        ck_fingerprint_sha256 = f, ck_public_key = pk\<rparr>"] that(2)
    by (intro triple_then) simp_all
  show ?thesis
    unfolding trust_host_key_def Let_def
    by (intro guarded_mutating preserves_bind [OF preserves_dtos(8)] pres_after_probe triple_if triple_raise
        trust preserves_bind preserves_okOr preserves_ret) simp_all
qed

lemma pres_replace: "guarded h (replace_host_key app net h pid rq)"
proof -
  have replace: "triple (\<lambda>s. I s \<and> owns_host uid (ho_id host) s)
      (bindP (mapErrP f (pins_replace_active_pin \<lparr>ra_host_id = ho_id host, ra_expected_old_fingerprint = old,
         ra_new_key_type = kt, ra_new_fingerprint_sha256 = new, ra_new_public_key = pk, ra_revoked_by = uid,
         ra_reason_code = rc\<rparr>)) k)
      (\<lambda>_. I) I" if "actor uid" "\<And>x. preserves I (k x)"
    for uid host f old kt new pk rc and k :: "replaced_entries \<Rightarrow> replace_response cat_route"
    using triple_pin_writes(2) [OF that(1), of "\<lparr>ra_host_id = ho_id host, ra_expected_old_fingerprint = old,
        ra_new_key_type = kt, ra_new_fingerprint_sha256 = new, ra_new_public_key = pk, ra_revoked_by = uid,
        ra_reason_code = rc\<rparr>" f] that(2)
    by (intro triple_then) simp_all
  show ?thesis
    unfolding replace_host_key_def Let_def
    by (intro guarded_mutating preserves_bind [OF preserves_dtos(9)] preserves_case_prod pres_after_probe triple_if
        triple_raise replace preserves_bind preserves_okOr preserves_ret) simp_all
qed

lemma pres_preflight: "guarded h (host_key_preflight app net h pid)"
  unfolding host_key_preflight_def by (intro guarded_mutating pres_intros pres_probe)

lemma pres_auth_check: "may_sign \<Longrightarrow> guarded h (auth_check_route app net h pid)"
  unfolding auth_check_route_def now_utc_def
  by (intro guarded_mutating pres_intros pres_resolve pres_decrypt pres_cat_reads pres_lifts)

lemma pres_via_manager:
  assumes "\<And>R. preserves (refs.held R) m"
  shows "preserves I (via_manager m)"
proof (rule preservesI)
  fix s assume i: "I s"
  have "session_refs (mg_db (snd (m (cd_manager s)))) \<subseteq> session_refs (mg_db (cd_manager s)) \<union> profile_keys s"
    using preservesD [OF assms [of "session_refs (mg_db (cd_manager s))"], of "cd_manager s"]
    by (auto simp: refs.held_def)
  then show "I (snd (via_manager m s))"
    using i manager by (auto simp: via_manager_def split: prod.splits sum.splits)
qed

lemma create_admitted:
  "triple (\<lambda>s. I s \<and> (uid, pid) \<in> profile_keys s)
     (via_manager (create_session \<lparr>cr_owner_id = uid, cr_server_profile_id = pid, cr_cols = c, cr_rows = r\<rparr>)) (\<lambda>_. I) I"
proof -
  let ?m = "create_session \<lparr>cr_owner_id = uid, cr_server_profile_id = pid, cr_cols = c, cr_rows = r\<rparr>"
  have "I (snd (via_manager ?m s))" if "I s" "(uid, pid) \<in> profile_keys s" for s
  proof -
    have "session_refs (mg_db (snd (?m (cd_manager s)))) \<subseteq> session_refs (mg_db (cd_manager s)) \<union> profile_keys s"
      using create_session_refs [of _ "cd_manager s"] that(2) by fastforce
    then show ?thesis using that manager by (auto simp: via_manager_def split: prod.splits sum.splits)
  qed
  then show ?thesis by (intro tripleI) (metis snd_conv)+
qed

lemma pres_create_admit: "preserves I (create_admit app uid req)"
  unfolding create_admit_def Let_def
proof (rule preserves_bind_triple)
  let ?J = "\<lambda>(p::server_profile) s. I s \<and> (uid, sp_id p) \<in> profile_keys s"
  show "triple I (owned_profile (ct_server_profile_id req) uid ''terminal_session'') ?J I"
    by (rule triple_weaken [OF triple_owned(3) [of "\<lambda>_. True"]]) (auto simp: profile_keys_def)
  fix p :: server_profile
  have reads: "preserves (?J p) (owned_host hid uid e)" "preserves (?J p) (owned_identity iid uid e)"
    "preserves (?J p) (via_cat (pins_list_for_host hid))" for hid iid e
    by (rule pres_fact_reads, simp add: profile_keys_def)+
  have pures: "preserves (?J p) (quota_gate uid)" "preserves (?J p) (vault_or_503 app d)" "preserves (?J p) (decrypt_with v i)"
    for d v i unfolding quota_gate_def vault_or_503_def decrypt_with_def by (intro pres_intros)+
  have last: "establishes (?J p) I (bindP (via_manager (create_session
      \<lparr>cr_owner_id = uid, cr_server_profile_id = sp_id p, cr_cols = c, cr_rows = r\<rparr>)) (\<lambda>x. retP (f x)))"
    for c r and f :: "create_session_outcome \<Rightarrow> launch"
    by (rule establishes_triple) (rule triple_then [OF create_admitted preserves_ret])
  note first = preserves_guard [of "?J p"]
  show "triple (?J p) (bindP (guardP (\<not> is_disabled p) (AE_Conflict ''server_profile'' (Some ''disabled''))) (\<lambda>_.
     bindP (owned_host (sp_host_id p) uid ''terminal_session'') (\<lambda>host.
     bindP (owned_identity (sp_ssh_identity_id p) uid ''terminal_session'') (\<lambda>identity.
     bindP (via_cat (pins_list_for_host (ho_id host))) (\<lambda>known.
     bindP (guardP (session_accept_pins known \<noteq> []) (AE_Conflict ''host_key'' None)) (\<lambda>_.
     bindP (quota_gate uid) (\<lambda>_.
     bindP (vault_or_503 app ''vault disabled: pty start not available'') (\<lambda>vault.
     bindP (decrypt_with vault identity) (\<lambda>pem.
     bindP (via_manager (create_session \<lparr>cr_owner_id = uid, cr_server_profile_id = sp_id p,
              cr_cols = ct_cols req, cr_rows = ct_rows req\<rparr>)) (\<lambda>outcome.
     retP \<lparr>la_user_id = uid, la_profile = p, la_host = host, la_accept_pins = session_accept_pins known,
           la_private_key_pem = pem, la_session = co_session outcome\<rparr>))))))))) ) (\<lambda>_. I) I"
    by (rule triple_establishes) (intro establishes_bind [of "?J p"] first reads pures last; simp)
qed

lemma pres_create_launch:
  assumes may_sign
  shows "preserves I (create_launch app net l)"
proof -
  have w: "preserves I (\<lambda>s. case pty_start keys net cfg pem new_conn of (r, c) \<Rightarrow> (Inr r, s\<lparr>cd_wire := cd_wire s @ sc_wire c\<rparr>))"
    for keys cfg pem by (simp add: preserves_def wire assms split: prod.split)
  show ?thesis
    unfolding create_launch_def
    by (intro preserves_bind w)
      (auto intro!: pres_intros pres_via_manager refs.held_ops split: sum.split stop.split prod.split)
qed

lemma pres_session_routes:
  "may_sign \<Longrightarrow> guarded h (sessions_route_create app net h ct)" "guarded h (sessions_route_list app h)"
  "guarded h (sessions_route_get app h sid)" "guarded h (sessions_route_close app h sid)"
proof -
  have reads: "preserves I (via_manager (liftDb (sessions_get sid)))" "preserves I (via_manager (liftDb (sessions_list_for_user uid)))"
    for sid uid
    by (rule pres_via_manager, rule refs.held_get)
      (rule pres_via_manager, rule refs.held_lift, unfold sessions_list_for_user_def,
       rule preserves_db_callI, simp_all add: session_refs_def)
  show "guarded h (sessions_route_create app net h ct)" if may_sign
    using that unfolding sessions_route_create_def by (intro guarded_mutating preserves_bind pres_create_admit pres_create_launch)
  show "guarded h (sessions_route_list app h)" "guarded h (sessions_route_get app h sid)"
    unfolding sessions_route_list_def sessions_route_get_def by (intro guarded_reading pres_intros reads)+
  show "guarded h (sessions_route_close app h sid)"
    unfolding sessions_route_close_def
    by (intro guarded_mutating pres_intros pres_via_manager refs.held_close_session)
qed

lemma manager_step:
  assumes "I s" and "\<And>req. l \<noteq> ML_Create req"
  shows "I (on_manager (\<lambda>g. mgr_step g l) s)"
proof -
  have "session_refs (mg_db (mgr_step (cd_manager s) l)) \<subseteq> session_refs (mg_db (cd_manager s))"
  proof (cases "\<exists>fs. l = ML_Faults fs")
    case True
    then show ?thesis by (auto simp: session_refs_def)
  next
    case False
    then show ?thesis
      using refs.held_step_rows [of "session_refs (mg_db (cd_manager s))" "cd_manager s" l] assms(2)
      by (auto simp: refs.held_def)
  qed
  then show ?thesis using manager [OF assms(1)] by (auto simp: on_manager_def)
qed

lemmas guarded_routes = pres_hosts_routes pres_hosts_delete pres_identities_routes pres_profiles_quiet pres_profiles_create
  pres_profiles_update pres_trust pres_replace pres_preflight pres_session_routes(2-)

lemma catalog_step_stable:
  assumes "I s" and "via_routes s l" and "acted_by app actor s l" and "signs_label l \<Longrightarrow> may_sign"
  shows "I (catalog_step app s l)"
proof -
  have run: "I (snd (m s))" if "guarded h m" "label_headers l = Some h" for h and m :: "'x cat_route"
    using that assms(1,3) by (auto simp: guarded_def acted_by_def app_auth)
  show ?thesis
  proof (cases l)
    case (KL_Auth al)
    then show ?thesis using assms step_stable app_auth by simp
  next
    case (KL_Manager ml)
    then show ?thesis using assms manager_step [of s ml] by (auto simp: via_routes_def split: mgr_label.splits)
  next
    case (KL_AuthCheck net h pid)
    then show ?thesis using run [OF pres_auth_check] assms(4) by (simp add: signs_label_def)
  next
    case (KL_SessionCreate net h ct)
    then show ?thesis using run [OF pres_session_routes(1)] assms(4) by (simp add: signs_label_def)
  qed (simp only: catalog_step.simps, rule run, rule guarded_routes, simp)+
qed

end

end
