(* ===== verification/Catalog_Behaviour.thy ===== *)
theory Catalog_Behaviour
  imports Catalog_Invariants
begin

text \<open>
  What holds of the inventory in every reachable state (the integrity of its tables, the finality
  of a revoked host key, the recoverability of every stored identity) and what single requests
  do: a resource of another user is invisible, a pin is the key the host proved, no SSH work is
  done for a disabled profile, and a session is signed for only at a host with a live pin.
\<close>

section \<open>Integrity of the tables\<close>

definition ids_ok :: "nat \<Rightarrow> ('r \<Rightarrow> nat) \<Rightarrow> 'r list \<Rightarrow> bool" where
  "ids_ok n key rows \<longleftrightarrow> distinct (map key rows) \<and> (\<forall>r \<in> set rows. key r < n)"

definition host_ok :: "host \<Rightarrow> bool" where
  "host_ok h \<longleftrightarrow> label_ok 128 (ho_display_name h) \<and> hostname_ok (ho_hostname h) \<and> port_chk (ho_port h)
     \<and> username_ok (ho_default_username h)"

definition profile_ok :: "server_profile \<Rightarrow> bool" where
  "profile_ok p \<longleftrightarrow> label_ok 64 (sp_name p) \<and> pred_option username_ok (sp_username_override p) \<and> tags_ok (sp_tags p)"

text \<open>A pin is trusted from its first row on; its four revocation columns are set together.\<close>

definition pin_ok :: "known_host_entry \<Rightarrow> bool" where
  "pin_ok e \<longleftrightarrow> kh_trusted_at e \<noteq> None \<and> (kh_revoked_at e = None \<longleftrightarrow> kh_revoked_by e = None)
     \<and> (kh_revoked_at e = None \<longleftrightarrow> kh_revoked_reason_code e = None)
     \<and> (kh_revoked_at e = None \<longleftrightarrow> kh_replaced_by_id e = None)"

definition host_keys :: "catalog_db \<Rightarrow> (user_id \<times> host_id) set" where
  "host_keys s = (\<lambda>h. (ho_owner_id h, ho_id h)) ` set (cd_hosts s)"

definition identity_keys :: "catalog_db \<Rightarrow> (user_id \<times> ssh_identity_id) set" where
  "identity_keys s = (\<lambda>i. (si_owner_id i, si_id i)) ` set (cd_identities s)"

definition hosts_wf :: "nat \<Rightarrow> host list \<Rightarrow> bool" where
  "hosts_wf n hs \<longleftrightarrow> ids_ok n ho_id hs \<and> list_all host_ok hs"

definition identities_wf :: "nat \<Rightarrow> ssh_identity list \<Rightarrow> bool" where
  "identities_wf n is \<longleftrightarrow> ids_ok n si_id is \<and> distinct (map (\<lambda>i. (si_owner_id i, si_fingerprint_sha256 i)) is)"

definition profiles_wf ::
  "nat \<Rightarrow> (user_id \<times> host_id) set \<Rightarrow> (user_id \<times> ssh_identity_id) set \<Rightarrow> server_profile list \<Rightarrow> bool" where
  "profiles_wf n hks iks ps \<longleftrightarrow> ids_ok n sp_id ps \<and> list_all profile_ok ps
     \<and> distinct (map (\<lambda>p. (sp_owner_id p, sp_name p)) ps)
     \<and> (\<forall>p \<in> set ps. (sp_owner_id p, sp_host_id p) \<in> hks \<and> (sp_owner_id p, sp_ssh_identity_id p) \<in> iks)"

definition pins_wf :: "nat \<Rightarrow> (user_id \<times> host_id) set \<Rightarrow> known_host_entry list \<Rightarrow> bool" where
  "pins_wf n hks es \<longleftrightarrow> ids_ok n kh_id es \<and> list_all pin_ok es
     \<and> distinct (map (\<lambda>e. (kh_host_id e, kh_fingerprint_sha256 e)) es)
     \<and> (\<forall>e \<in> set es. kh_host_id e \<in> snd ` hks
          \<and> pred_option (\<lambda>k. (kh_host_id e, k) \<in> (\<lambda>x. (kh_host_id x, kh_id x)) ` set es) (kh_replaced_by_id e))"

definition catalog_wf :: "catalog_db \<Rightarrow> bool" where
  "catalog_wf s \<longleftrightarrow> hosts_wf (ac_next_id s) (cd_hosts s) \<and> identities_wf (ac_next_id s) (cd_identities s)
     \<and> profiles_wf (ac_next_id s) (host_keys s) (identity_keys s) (cd_profiles s)
     \<and> pins_wf (ac_next_id s) (host_keys s) (cd_pins s)
     \<and> session_refs (mg_db (cd_manager s)) \<subseteq> profile_keys s"

lemmas key_sets = host_keys_def identity_keys_def profile_keys_def

lemma owns_iff:
  "owns_host uid hid s \<longleftrightarrow> (uid, hid) \<in> host_keys s" "owns_identity uid iid s \<longleftrightarrow> (uid, iid) \<in> identity_keys s"
  by (force simp: owns_host_def owns_identity_def key_sets)+

lemma ids_ok_mono: "ids_ok n key rows \<Longrightarrow> n \<le> m \<Longrightarrow> ids_ok m key rows"
  by (auto simp: ids_ok_def)

lemma ids_ok_append: "ids_ok n key rows \<Longrightarrow> key r = n \<Longrightarrow> ids_ok (Suc n) key (rows @ [r])"
  by (fastforce simp: ids_ok_def)

lemma ids_ok_filter: "ids_ok n key rows \<Longrightarrow> ids_ok n key (filter P rows)"
  by (auto simp: ids_ok_def distinct_map_filter)

lemma ids_ok_same:
  assumes "map key xs = map key ys"
  shows "ids_ok n key xs \<longleftrightarrow> ids_ok n key ys"
proof -
  have "key ` set xs = key ` set ys" using arg_cong [OF assms, of set] by simp
  then have "(\<forall>r \<in> set xs. key r < n) \<longleftrightarrow> (\<forall>r \<in> set ys. key r < n)" by (metis (no_types, lifting) image_iff)
  then show ?thesis by (simp add: ids_ok_def assms)
qed

lemma ids_ok_map: "(\<And>r. key (g r) = key r) \<Longrightarrow> ids_ok n key (map g rows) \<longleftrightarrow> ids_ok n key rows"
  by (simp add: ids_ok_def comp_def)

text \<open>Under unique keys, overwriting the row of a key is a map that changes this row only.\<close>

lemma overwrite_map:
  assumes "ids_ok n key rows" and "x \<in> set rows"
  shows "map (\<lambda>r. if key r = key x then f x else r) rows = map (\<lambda>r. if key r = key x then f r else r) rows"
  using assms by (fastforce simp: ids_ok_def distinct_map inj_on_def)

lemma tables_mono:
  assumes "n \<le> m"
  shows "hosts_wf n hs \<Longrightarrow> hosts_wf m hs" "identities_wf n is \<Longrightarrow> identities_wf m is"
    "profiles_wf n hks iks ps \<Longrightarrow> \<forall>p \<in> set ps. (sp_owner_id p, sp_host_id p) \<in> hks' \<and> (sp_owner_id p, sp_ssh_identity_id p) \<in> iks' \<Longrightarrow>
       profiles_wf m hks' iks' ps"
    "pins_wf n hks es \<Longrightarrow> \<forall>e \<in> set es. kh_host_id e \<in> snd ` hks' \<Longrightarrow> pins_wf m hks' es"
  using ids_ok_mono [OF _ assms]
  unfolding hosts_wf_def identities_wf_def profiles_wf_def pins_wf_def by blast+

lemmas tables_Suc = tables_mono [OF le_SucI [OF order_refl]]

lemma wf_links:
  assumes "catalog_wf s"
  shows "\<forall>p \<in> set (cd_profiles s). (sp_owner_id p, sp_host_id p) \<in> host_keys s \<and> (sp_owner_id p, sp_ssh_identity_id p) \<in> identity_keys s"
    and "\<forall>e \<in> set (cd_pins s). kh_host_id e \<in> snd ` host_keys s"
  using assms unfolding catalog_wf_def profiles_wf_def pins_wf_def by blast+

text \<open>One table changes, and the references into it still hold.\<close>

lemma wf_changed:
  assumes "catalog_wf s" and "ac_next_id s \<le> ac_next_id t"
    and "hosts_wf (ac_next_id t) (cd_hosts t)" and "identities_wf (ac_next_id t) (cd_identities t)"
    and "cd_profiles t = cd_profiles s" and "cd_pins t = cd_pins s" and "cd_manager t = cd_manager s"
    and "\<forall>p \<in> set (cd_profiles s). (sp_owner_id p, sp_host_id p) \<in> host_keys t \<and> (sp_owner_id p, sp_ssh_identity_id p) \<in> identity_keys t"
    and "\<forall>e \<in> set (cd_pins s). kh_host_id e \<in> snd ` host_keys t"
  shows "catalog_wf t"
  using assms tables_mono [OF assms(2)] by (auto simp: catalog_wf_def profile_keys_def)

lemma wf_frame:
  assumes "catalog_wf s" and "ac_next_id s \<le> ac_next_id t" and "cd_hosts t = cd_hosts s"
    and "cd_identities t = cd_identities s" and "cd_profiles t = cd_profiles s" and "cd_pins t = cd_pins s"
    and "session_refs (mg_db (cd_manager t)) \<subseteq> session_refs (mg_db (cd_manager s)) \<union> profile_keys s"
  shows "catalog_wf t"
  using assms tables_mono [OF assms(2)] wf_links [OF assms(1)]
  unfolding catalog_wf_def host_keys_def identity_keys_def profile_keys_def by auto

lemma wf_parts:
  assumes "catalog_wf s"
  shows "hosts_wf (ac_next_id s) (cd_hosts s)" "identities_wf (ac_next_id s) (cd_identities s)"
    "profiles_wf (ac_next_id s) (host_keys s) (identity_keys s) (cd_profiles s)"
    "pins_wf (ac_next_id s) (host_keys s) (cd_pins s)"
  using assms unfolding catalog_wf_def by blast+

lemma wf_ids:
  "hosts_wf n hs \<Longrightarrow> ids_ok n ho_id hs" "identities_wf n is \<Longrightarrow> ids_ok n si_id is"
  "profiles_wf n hks iks ps \<Longrightarrow> ids_ok n sp_id ps" "pins_wf n hks es \<Longrightarrow> ids_ok n kh_id es"
  by (simp_all add: hosts_wf_def identities_wf_def profiles_wf_def pins_wf_def)

lemma wf_host_new:
  assumes "catalog_wf s" and "host_input_ok hin"
  shows "catalog_wf (s\<lparr>ac_next_id := Suc (ac_next_id s), cd_hosts := cd_hosts s @ [new_host s hin]\<rparr>)" (is "catalog_wf ?t")
proof (rule wf_changed [OF assms(1)])
  have "host_ok (new_host s hin)" using assms(2) by (simp add: host_ok_def host_input_ok_def new_host_def)
  then show "hosts_wf (ac_next_id ?t) (cd_hosts ?t)"
    using wf_parts(1) [OF assms(1)] ids_ok_append [of _ ho_id _ "new_host s hin"]
    by (simp add: hosts_wf_def new_host_def)
qed (use wf_parts [OF assms(1)] wf_links [OF assms(1)] in \<open>auto simp: key_sets intro: tables_Suc\<close>)

lemma wf_host_patch:
  assumes "catalog_wf s" and "host_edit_ok hed" and "h \<in> set (cd_hosts s)"
  shows "catalog_wf (s\<lparr>cd_hosts := map (\<lambda>r. if ho_id r = ho_id h then patch_host (ac_now s) hed h else r) (cd_hosts s)\<rparr>)"
proof -
  define g where "g = (\<lambda>r. if ho_id r = ho_id h then patch_host (ac_now s) hed r else r)"
  have g: "ho_id (g r) = ho_id r" "ho_owner_id (g r) = ho_owner_id r" "host_ok r \<Longrightarrow> host_ok (g r)" for r
    using assms(2) by (auto simp: g_def patch_host_def host_ok_def host_edit_ok_def or_else_def split: option.splits)
  let ?t = "s\<lparr>cd_hosts := map g (cd_hosts s)\<rparr>"
  have "host_keys ?t = host_keys s" by (simp add: host_keys_def image_image g)
  moreover have "hosts_wf (ac_next_id s) (map g (cd_hosts s))"
    using wf_parts(1) [OF assms(1)] ids_ok_map [of ho_id g, OF g(1)] g(3) by (simp add: hosts_wf_def list_all_iff)
  ultimately have "catalog_wf ?t"
    using wf_parts [OF assms(1)] wf_links [OF assms(1)]
    by (intro wf_changed [OF assms(1)]) (simp_all add: identity_keys_def)
  then show ?thesis
    unfolding g_def by (simp only: overwrite_map [OF wf_ids(1) [OF wf_parts(1) [OF assms(1)]] assms(3)])
qed

lemma wf_host_del:
  assumes "catalog_wf s" and "\<forall>p \<in> set (cd_profiles s). sp_host_id p \<noteq> hid" and "\<forall>e \<in> set (cd_pins s). kh_host_id e \<noteq> hid"
  shows "catalog_wf (s\<lparr>cd_hosts := filter (\<lambda>r. ho_id r \<noteq> hid) (cd_hosts s)\<rparr>)" (is "catalog_wf ?t")
proof (rule wf_changed [OF assms(1)])
  have keys: "host_keys ?t = {k \<in> host_keys s. snd k \<noteq> hid}" by (auto simp: host_keys_def)
  show "hosts_wf (ac_next_id ?t) (cd_hosts ?t)"
    using wf_parts(1) [OF assms(1)] ids_ok_filter by (auto simp: hosts_wf_def list_all_iff)
  show "\<forall>p \<in> set (cd_profiles s). (sp_owner_id p, sp_host_id p) \<in> host_keys ?t \<and> (sp_owner_id p, sp_ssh_identity_id p) \<in> identity_keys ?t"
    using wf_links(1) [OF assms(1)] assms(2) keys by (simp add: identity_keys_def)
  show "\<forall>e \<in> set (cd_pins s). kh_host_id e \<in> snd ` host_keys ?t"
    using wf_links(2) [OF assms(1)] assms(3) keys by fastforce
qed (use wf_parts [OF assms(1)] in simp_all)

lemma wf_identity_new:
  assumes "catalog_wf s"
    and "\<not> list_ex (\<lambda>r. si_owner_id r = ci_owner_id iin \<and> si_fingerprint_sha256 r = ci_fingerprint_sha256 iin) (cd_identities s)"
  shows "catalog_wf (s\<lparr>ac_next_id := Suc (ac_next_id s), cd_identities := cd_identities s @ [new_identity s iin]\<rparr>)" (is "catalog_wf ?t")
proof (rule wf_changed [OF assms(1)])
  show "identities_wf (ac_next_id ?t) (cd_identities ?t)"
    using wf_parts(2) [OF assms(1)] ids_ok_append [of _ si_id _ "new_identity s iin"] assms(2)
    by (auto simp: identities_wf_def new_identity_def list_ex_iff)
qed (use wf_parts [OF assms(1)] wf_links [OF assms(1)] in \<open>auto simp: key_sets intro: tables_Suc\<close>)

lemma wf_identity_rename:
  assumes "catalog_wf s" and "i \<in> set (cd_identities s)"
  shows "catalog_wf (s\<lparr>cd_identities := map (\<lambda>r. if si_id r = si_id i then i\<lparr>si_name := name\<rparr> else r) (cd_identities s)\<rparr>)"
proof -
  define g :: "ssh_identity \<Rightarrow> ssh_identity" where "g = (\<lambda>r. if si_id r = si_id i then r\<lparr>si_name := name\<rparr> else r)"
  have g: "si_id (g r) = si_id r" "si_owner_id (g r) = si_owner_id r"
    "si_fingerprint_sha256 (g r) = si_fingerprint_sha256 r" for r by (simp_all add: g_def)
  let ?t = "s\<lparr>cd_identities := map g (cd_identities s)\<rparr>"
  have "identity_keys ?t = identity_keys s" by (simp add: identity_keys_def image_image g)
  moreover have "identities_wf (ac_next_id s) (map g (cd_identities s))"
    using wf_parts(2) [OF assms(1)] ids_ok_map [of si_id g, OF g(1)] by (simp add: identities_wf_def comp_def g)
  ultimately have "catalog_wf ?t"
    using wf_parts [OF assms(1)] wf_links [OF assms(1)] by (intro wf_changed [OF assms(1)]) (simp_all add: host_keys_def)
  then show ?thesis
    unfolding g_def
    by (simp only: overwrite_map [OF wf_ids(2) [OF wf_parts(2) [OF assms(1)]] assms(2), where f = "\<lambda>r. r\<lparr>si_name := name\<rparr>"])
qed

lemma wf_identity_del:
  assumes "catalog_wf s" and "\<forall>p \<in> set (cd_profiles s). sp_ssh_identity_id p \<noteq> iid"
  shows "catalog_wf (s\<lparr>cd_identities := filter (\<lambda>r. si_id r \<noteq> iid) (cd_identities s)\<rparr>)" (is "catalog_wf ?t")
proof (rule wf_changed [OF assms(1)])
  have keys: "identity_keys ?t = {k \<in> identity_keys s. snd k \<noteq> iid}" by (auto simp: identity_keys_def)
  show "identities_wf (ac_next_id ?t) (cd_identities ?t)"
    using wf_parts(2) [OF assms(1)] ids_ok_filter by (auto simp: identities_wf_def distinct_map_filter)
  show "\<forall>p \<in> set (cd_profiles s). (sp_owner_id p, sp_host_id p) \<in> host_keys ?t \<and> (sp_owner_id p, sp_ssh_identity_id p) \<in> identity_keys ?t"
    using wf_links(1) [OF assms(1)] assms(2) keys by (simp add: host_keys_def)
qed (use wf_parts [OF assms(1)] wf_links [OF assms(1)] in \<open>simp_all add: host_keys_def\<close>)

text \<open>Profiles and pins refer to other tables; nothing but the sessions refers to a profile.\<close>

lemma wf_profiles_changed:
  assumes "catalog_wf s" and "ac_next_id s \<le> ac_next_id t" and "cd_hosts t = cd_hosts s" and "cd_identities t = cd_identities s"
    and "cd_pins t = cd_pins s" and "cd_manager t = cd_manager s"
    and "profiles_wf (ac_next_id t) (host_keys s) (identity_keys s) (cd_profiles t)"
    and "session_refs (mg_db (cd_manager s)) \<subseteq> profile_keys t"
  shows "catalog_wf t"
  using assms tables_mono [OF assms(2)] wf_links [OF assms(1)] by (auto simp: catalog_wf_def host_keys_def identity_keys_def)

lemma wf_profile_new:
  assumes "catalog_wf s" and "profile_input_ok pin" and "\<not> name_taken s (cp_owner_id pin) (cp_name pin) None"
    and "owns_host (cp_owner_id pin) (cp_host_id pin) s" and "owns_identity (cp_owner_id pin) (cp_ssh_identity_id pin) s"
  shows "catalog_wf (s\<lparr>ac_next_id := Suc (ac_next_id s), cd_profiles := cd_profiles s @ [new_profile s pin]\<rparr>)" (is "catalog_wf ?t")
proof (rule wf_profiles_changed [OF assms(1)])
  have "profile_ok (new_profile s pin)" using assms(2) by (simp add: profile_ok_def profile_input_ok_def new_profile_def)
  moreover have "ids_ok (Suc (ac_next_id s)) sp_id (cd_profiles s @ [new_profile s pin])"
    by (rule ids_ok_append [OF wf_ids(3) [OF wf_parts(3) [OF assms(1)]]]) (simp add: new_profile_def)
  moreover have "(cp_owner_id pin, cp_host_id pin) \<in> host_keys s" "(cp_owner_id pin, cp_ssh_identity_id pin) \<in> identity_keys s"
    using assms(4,5) by (simp_all add: owns_iff)
  ultimately show "profiles_wf (ac_next_id ?t) (host_keys s) (identity_keys s) (cd_profiles ?t)"
    using wf_parts(3) [OF assms(1)] assms(3)
    by (auto simp: profiles_wf_def new_profile_def name_taken_def list_ex_iff)
  show "session_refs (mg_db (cd_manager s)) \<subseteq> profile_keys ?t"
    using assms(1) by (auto simp: catalog_wf_def profile_keys_def)
qed simp_all

lemma distinct_map_upd:
  assumes "distinct (map f xs)" and "x \<in> set xs" and "distinct (map key xs)"
    and "\<forall>r \<in> set xs. key r \<noteq> key x \<longrightarrow> f r \<noteq> f y"
  shows "distinct (map f (map (\<lambda>r. if key r = key x then y else r) xs))"
  using assms
proof (induction xs)
  case (Cons a xs)
  have "map (\<lambda>r. if key r = key x then y else r) xs = xs" if "key a = key x"
    using that Cons.prems(3) by (intro map_idI) (auto simp: image_iff)
  moreover have "f y \<notin> f ` set xs" if "key a = key x"
    using that Cons.prems(3,4) by (auto simp: image_iff) metis
  ultimately show ?case using Cons by (cases "key a = key x") (auto simp: image_iff split: if_splits)
qed simp

lemma wf_profile_row:
  assumes "catalog_wf s" and "p \<in> set (cd_profiles s)" and "sp_id q = sp_id p" and "sp_owner_id q = sp_owner_id p"
    and "profile_ok q" and "\<not> name_taken s (sp_owner_id p) (sp_name q) (Some (sp_id p))"
    and "(sp_owner_id p, sp_host_id q) \<in> host_keys s" and "(sp_owner_id p, sp_ssh_identity_id q) \<in> identity_keys s"
  shows "catalog_wf (s\<lparr>cd_profiles := map (\<lambda>r. if sp_id r = sp_id p then q else r) (cd_profiles s)\<rparr>)" (is "catalog_wf ?t")
proof (rule wf_profiles_changed [OF assms(1)])
  note wf = wf_parts(3) [OF assms(1)]
  have d: "distinct (map sp_id (cd_profiles s))" using wf_ids(3) [OF wf] by (simp add: ids_ok_def)
  have "map sp_id (cd_profiles ?t) = map sp_id (cd_profiles s)" using assms(3) by auto
  then have "ids_ok (ac_next_id s) sp_id (cd_profiles ?t)" using wf_ids(3) [OF wf] ids_ok_same by blast
  moreover have "distinct (map (\<lambda>p. (sp_owner_id p, sp_name p))
      (map (\<lambda>r. if sp_id r = sp_id p then q else r) (cd_profiles s)))"
    by (rule distinct_map_upd) (use wf d assms(2,4,6) in \<open>auto simp: profiles_wf_def name_taken_def list_ex_iff\<close>)
  ultimately show "profiles_wf (ac_next_id ?t) (host_keys s) (identity_keys s) (cd_profiles ?t)"
    using wf assms by (auto simp: profiles_wf_def list_all_iff)
  define g where "g = (\<lambda>r. if sp_id r = sp_id p then q else r)"
  have "sp_owner_id (g r) = sp_owner_id r \<and> sp_id (g r) = sp_id r" if "r \<in> set (cd_profiles s)" for r
    using d that assms(2,3,4) unfolding g_def by (metis distinct_map inj_onD)
  then have "profile_keys (s\<lparr>cd_profiles := map g (cd_profiles s)\<rparr>) = profile_keys s"
    by (simp add: profile_keys_def image_image cong: image_cong)
  then show "session_refs (mg_db (cd_manager s)) \<subseteq> profile_keys ?t" using assms(1) by (simp add: catalog_wf_def g_def)
qed simp_all

lemma wf_profile_patch:
  assumes "catalog_wf s" and "profile_edit_ok ped" and "p \<in> set (cd_profiles s)"
    and "\<not> name_taken s (sp_owner_id p) (or_else (up_name ped) (sp_name p)) (Some (sp_id p))"
    and "pred_option (\<lambda>hid. owns_host (sp_owner_id p) hid s) (up_host_id ped)"
    and "pred_option (\<lambda>iid. owns_identity (sp_owner_id p) iid s) (up_ssh_identity_id ped)"
  shows "catalog_wf (s\<lparr>cd_profiles := map (\<lambda>r. if sp_id r = sp_id p then patch_profile (ac_now s) ped p else r) (cd_profiles s)\<rparr>)"
proof (rule wf_profile_row [OF assms(1,3)])
  note wf = wf_parts(3) [OF assms(1)]
  have "profile_ok p" using wf assms(3) by (simp add: profiles_wf_def list_all_iff)
  then show "profile_ok (patch_profile (ac_now s) ped p)"
    using assms(2)
    by (auto simp: profile_ok_def profile_edit_ok_def patch_profile_def or_else_def pred_option_def
        split: option.splits set_optional.splits)
  show "(sp_owner_id p, sp_host_id (patch_profile (ac_now s) ped p)) \<in> host_keys s"
    "(sp_owner_id p, sp_ssh_identity_id (patch_profile (ac_now s) ped p)) \<in> identity_keys s"
    using wf_links(1) [OF assms(1)] assms(3,5,6)
    by (auto simp: patch_profile_def or_else_def owns_iff split: option.splits)
qed (use assms(4) in \<open>simp_all add: patch_profile_def\<close>)

lemma wf_profile_stamp:
  assumes "catalog_wf s" and "p \<in> set (cd_profiles s)"
  shows "catalog_wf (s\<lparr>cd_profiles := map (\<lambda>r. if sp_id r = sp_id p
           then p\<lparr>sp_updated_at := ac_now s, sp_disabled_at := t\<rparr> else r) (cd_profiles s)\<rparr>)"
proof (rule wf_profile_row [OF assms])
  note wf = wf_parts(3) [OF assms(1)]
  show "profile_ok (p\<lparr>sp_updated_at := ac_now s, sp_disabled_at := t\<rparr>)"
    using wf assms(2) by (auto simp: profiles_wf_def list_all_iff profile_ok_def)
  have "inj_on (\<lambda>p. (sp_owner_id p, sp_name p)) (set (cd_profiles s))"
    using wf by (simp add: profiles_wf_def distinct_map)
  then show "\<not> name_taken s (sp_owner_id p) (sp_name (p\<lparr>sp_updated_at := ac_now s, sp_disabled_at := t\<rparr>)) (Some (sp_id p))"
    using assms(2) by (auto simp: name_taken_def list_ex_iff dest: inj_onD)
qed (use wf_links(1) [OF assms(1)] assms(2) in simp_all)

lemma wf_profile_del:
  assumes "catalog_wf s" and "\<forall>t \<in> set (profile_sessions s). ts_server_profile_id t \<noteq> pid"
  shows "catalog_wf (s\<lparr>cd_profiles := filter (\<lambda>r. sp_id r \<noteq> pid) (cd_profiles s)\<rparr>)" (is "catalog_wf ?t")
proof (rule wf_profiles_changed [OF assms(1)])
  show "profiles_wf (ac_next_id ?t) (host_keys s) (identity_keys s) (cd_profiles ?t)"
    using wf_parts(3) [OF assms(1)] ids_ok_filter by (auto simp: profiles_wf_def distinct_map_filter list_all_iff)
  have "snd x \<noteq> pid" if "x \<in> session_refs (mg_db (cd_manager s))" for x
    using that assms(2) by (auto simp: session_refs_def profile_sessions_def)
  moreover have "profile_keys ?t = {k \<in> profile_keys s. snd k \<noteq> pid}" by (auto simp: profile_keys_def)
  ultimately show "session_refs (mg_db (cd_manager s)) \<subseteq> profile_keys ?t" using assms(1) by (auto simp: catalog_wf_def)
qed simp_all

lemma wf_pins_changed:
  assumes "catalog_wf s" and "ac_next_id s \<le> ac_next_id t" and "cd_hosts t = cd_hosts s" and "cd_identities t = cd_identities s"
    and "cd_profiles t = cd_profiles s" and "cd_manager t = cd_manager s" and "pins_wf (ac_next_id t) (host_keys s) (cd_pins t)"
  shows "catalog_wf t"
  using assms tables_mono [OF assms(2)] wf_links [OF assms(1)] by (auto simp: catalog_wf_def key_sets)

lemma pins_wf_append:
  assumes "pins_wf n hks es" and "kh_id e = n" and "pin_ok e" and "kh_revoked_at e = None" and "kh_host_id e \<in> snd ` hks"
    and "\<forall>x \<in> set es. \<not> (kh_host_id x = kh_host_id e \<and> kh_fingerprint_sha256 x = kh_fingerprint_sha256 e)"
  shows "pins_wf (Suc n) hks (es @ [e])"
proof -
  let ?keys = "\<lambda>es. (\<lambda>x. (kh_host_id x, kh_id x)) ` set es"
  have none: "kh_replaced_by_id e = None" using assms(3,4) by (simp add: pin_ok_def)
  have "ids_ok (Suc n) kh_id (es @ [e])" by (rule ids_ok_append [OF wf_ids(4) [OF assms(1)] assms(2)])
  moreover have "distinct (map (\<lambda>x. (kh_host_id x, kh_fingerprint_sha256 x)) (es @ [e]))"
    using assms(1,6) by (auto simp: pins_wf_def)
  moreover have "kh_host_id x \<in> snd ` hks \<and> pred_option (\<lambda>k. (kh_host_id x, k) \<in> ?keys (es @ [e])) (kh_replaced_by_id x)"
    if "x \<in> set (es @ [e])" for x
  proof (cases "x = e")
    case True
    then show ?thesis using assms(5) none by simp
  next
    case False
    then have "x \<in> set es" using that by simp
    moreover have "?keys es \<subseteq> ?keys (es @ [e])" by auto
    ultimately show ?thesis using assms(1) unfolding pins_wf_def by (cases "kh_replaced_by_id x") auto
  qed
  moreover have "list_all pin_ok (es @ [e])" using assms(1,3) by (simp add: pins_wf_def)
  ultimately show ?thesis unfolding pins_wf_def by blast
qed

lemma pins_wf_row:
  assumes "pins_wf n hks es" and "e \<in> set es" and "kh_id x = kh_id e" and "kh_host_id x = kh_host_id e"
    and "kh_fingerprint_sha256 x = kh_fingerprint_sha256 e" and "pin_ok x"
    and "pred_option (\<lambda>k. (kh_host_id e, k) \<in> (\<lambda>x. (kh_host_id x, kh_id x)) ` set es) (kh_replaced_by_id x)"
  shows "pins_wf n hks (map (\<lambda>r. if kh_id r = kh_id e then x else r) es)"
proof -
  define g where "g = (\<lambda>r. if kh_id r = kh_id e then x else r)"
  have d: "inj_on kh_id (set es)" using wf_ids(4) [OF assms(1)] by (simp add: ids_ok_def distinct_map)
  then have same: "kh_id (g r) = kh_id r" "kh_host_id (g r) = kh_host_id r"
    "kh_fingerprint_sha256 (g r) = kh_fingerprint_sha256 r" if "r \<in> set es" for r
    using assms(2-5) that unfolding g_def by (auto dest: inj_onD)
  have "map kh_id (map g es) = map kh_id es"
    "map (\<lambda>r. (kh_host_id r, kh_fingerprint_sha256 r)) (map g es) = map (\<lambda>r. (kh_host_id r, kh_fingerprint_sha256 r)) es"
    using same by simp_all
  moreover have "(\<lambda>r. (kh_host_id r, kh_id r)) ` set (map g es) = (\<lambda>r. (kh_host_id r, kh_id r)) ` set es"
    using same by (simp add: image_image cong: image_cong)
  moreover have "list_all pin_ok (map g es)" using assms(1,6) by (auto simp: pins_wf_def list_all_iff g_def)
  moreover have "\<forall>r \<in> set (map g es). kh_host_id r \<in> snd ` hks
      \<and> pred_option (\<lambda>k. (kh_host_id r, k) \<in> (\<lambda>x. (kh_host_id x, kh_id x)) ` set es) (kh_replaced_by_id r)"
    using assms(1,2,4,7) by (auto simp: pins_wf_def g_def)
  ultimately show ?thesis
    using assms(1) ids_ok_same [of kh_id "map g es" es] by (simp add: pins_wf_def flip: g_def del: set_map map_map)
qed

lemma host_row_keys: "host_row s hid \<noteq> None \<longleftrightarrow> hid \<in> snd ` host_keys s"
  by (force simp: host_row_def find_None_iff host_keys_def)

lemma pin_for_None:
  "pin_for s hid fp = None \<longleftrightarrow> (\<forall>e \<in> set (cd_pins s). \<not> (kh_host_id e = hid \<and> kh_fingerprint_sha256 e = fp))"
  by (auto simp: pin_for_def find_None_iff)

lemma pins_wf_new:
  assumes "catalog_wf s" and "pin_for s (ck_host_id kin) (ck_fingerprint_sha256 kin) = None" and "host_row s (ck_host_id kin) \<noteq> None"
  shows "pins_wf (Suc (ac_next_id s)) (host_keys s) (cd_pins s @ [new_pin s kin (Some (ac_now s))])"
  using wf_parts(4) [OF assms(1)] assms(2,3)
  by (intro pins_wf_append) (simp_all add: new_pin_def pin_ok_def host_row_keys pin_for_None del: not_None_eq)

lemma wf_pin_new:
  assumes "catalog_wf s" and "pin_for s (ck_host_id kin) (ck_fingerprint_sha256 kin) = None" and "host_row s (ck_host_id kin) \<noteq> None"
  shows "catalog_wf (s\<lparr>ac_next_id := Suc (ac_next_id s), cd_pins := cd_pins s @ [new_pin s kin (Some (ac_now s))]\<rparr>)"
  by (rule wf_pins_changed [OF assms(1)]) (simp_all add: pins_wf_new [OF assms])

lemma wf_pin_trust:
  assumes "catalog_wf s" and "e \<in> set (cd_pins s)" and "kh_revoked_at e = None"
  shows "catalog_wf (s\<lparr>cd_pins := map (\<lambda>x. if kh_id x = kh_id e
           then e\<lparr>kh_trusted_at := coalesce (kh_trusted_at e) (Some (ac_now s))\<rparr> else x) (cd_pins s)\<rparr>)"
proof -
  have "pin_ok e" using wf_parts(4) [OF assms(1)] assms(2) by (simp add: pins_wf_def list_all_iff)
  moreover from this have "kh_replaced_by_id e = None" using assms(3) by (simp add: pin_ok_def)
  ultimately have "pins_wf (ac_next_id s) (host_keys s) (map (\<lambda>x. if kh_id x = kh_id e
           then e\<lparr>kh_trusted_at := coalesce (kh_trusted_at e) (Some (ac_now s))\<rparr> else x) (cd_pins s))"
    using assms(2) by (intro pins_wf_row wf_parts(4) [OF assms(1)]) (auto simp: pin_ok_def coalesce_def split: option.splits)
  then show ?thesis by (intro wf_pins_changed [OF assms(1)]) simp_all
qed

lemma pins_wf_replace:
  assumes "catalog_wf s" and "e \<in> set (cd_pins s)" and "kh_host_id e = ck_host_id kin" and "kh_trusted_at e \<noteq> None"
    and "pin_for s (ck_host_id kin) (ck_fingerprint_sha256 kin) = None" and "host_row s (ck_host_id kin) \<noteq> None"
  shows "pins_wf (ac_next_id s + 3) (host_keys s)
     (map (\<lambda>x. if kh_id x = kh_id e then revoke_pin rin (ac_now s) (ac_next_id s) e else x) (cd_pins s)
        @ [new_pin s kin (Some (ac_now s))])"
proof -
  let ?new = "new_pin s kin (Some (ac_now s))"
  let ?row = "\<lambda>x. if kh_id x = kh_id e then revoke_pin rin (ac_now s) (ac_next_id s) e else x"
  have "kh_id e < ac_next_id s" using wf_ids(4) [OF wf_parts(4) [OF assms(1)]] assms(2) by (simp add: ids_ok_def)
  then have "map ?row (cd_pins s @ [?new]) = map ?row (cd_pins s) @ [?new]" by (simp add: new_pin_def)
  moreover have "pins_wf (Suc (ac_next_id s)) (host_keys s) (map ?row (cd_pins s @ [?new]))"
    using assms(2-4) by (intro pins_wf_row pins_wf_new assms) (auto simp: revoke_pin_def pin_ok_def new_pin_def)
  moreover from this have "\<forall>x \<in> set (map ?row (cd_pins s @ [?new])). kh_host_id x \<in> snd ` host_keys s"
    unfolding pins_wf_def by blast
  ultimately show ?thesis using tables_mono(4) [of "Suc (ac_next_id s)" "ac_next_id s + 3"] by simp
qed

lemma wf_pin_replace:
  assumes "catalog_wf s" and "e \<in> set (cd_pins s)" and "kh_host_id e = ra_host_id rin" and "kh_trusted_at e \<noteq> None"
    and "pin_for s (ra_host_id rin) (ra_new_fingerprint_sha256 rin) = None" and "host_row s (ra_host_id rin) \<noteq> None"
  shows "catalog_wf (snd (apply_replacement rin e s))"
  using pins_wf_replace [OF assms(1,2), of "replacement_pin rin" rin] assms
  by (intro wf_pins_changed [OF assms(1)]) (simp_all add: apply_replacement_def replacement_pin_def Let_def)

lemma upsert_catalog [simp]:
  "cd_hosts (snd (passwords_upsert_for_user uid h s)) = cd_hosts s"
  "cd_identities (snd (passwords_upsert_for_user uid h s)) = cd_identities s"
  "cd_profiles (snd (passwords_upsert_for_user uid h s)) = cd_profiles s"
  "cd_pins (snd (passwords_upsert_for_user uid h s)) = cd_pins s"
  "cd_manager (snd (passwords_upsert_for_user uid h s)) = cd_manager s"
  by (auto simp: passwords_upsert_for_user_def upsert_password_def acc_call_def Let_def split: list.splits option.splits)

interpretation inventory: catalog_stable "ap_auth app" catalog_wf app "\<lambda>_. True" True for app :: "'k app"
proof (unfold_locales, goal_cases)
  case (15 s g)
  show ?case by (rule wf_frame [OF 15(1)]) (use 15(2) in simp_all)
next
  case (23 s ped p)
  then show ?case by (intro wf_profile_patch)
next
  case (24 s p t)
  then show ?case by (intro wf_profile_stamp)
qed (auto intro: wf_frame wf_host_new wf_host_patch wf_host_del wf_identity_new wf_identity_rename wf_identity_del
    wf_profile_new wf_profile_del wf_pin_new wf_pin_trust wf_pin_replace)

interpretation inventory_run: step_machine "catalog_step app" catalog_wf via_routes for app :: "'k app"
  by unfold_locales (rule inventory.catalog_step_stable, simp_all)

text \<open>A new installation: no inventory and no sessions yet.\<close>

definition fresh_catalog :: "catalog_db \<Rightarrow> bool" where
  "fresh_catalog s \<longleftrightarrow> cd_hosts s = [] \<and> cd_identities s = [] \<and> cd_profiles s = [] \<and> cd_pins s = []
     \<and> db_sessions (mg_db (cd_manager s)) = []"

lemma fresh_catalog_wf: "fresh_catalog s \<Longrightarrow> catalog_wf s"
  by (simp add: fresh_catalog_def catalog_wf_def hosts_wf_def identities_wf_def profiles_wf_def pins_wf_def ids_ok_def
      session_refs_def)

text \<open>
  C12. The integrity of the inventory over every run of a new installation, requests, logins and
  session events in any order and with any database failures: primary keys are unique and
  fresh, profile names and identity fingerprints are unique per owner and fingerprints per host,
  every stored field has the grammar its validator promises, a profile's host and identity exist
  and belong to the profile's owner, a pin's host exists, a pin is trusted and its revocation
  columns are set together with an existing successor at the same host, and every terminal
  session belongs to an existing profile of its owner.
\<close>

theorem inventory_stays_consistent:
  assumes "fresh_catalog s" and "legal (catalog_step app) via_routes s ls"
  shows "catalog_wf (foldl (catalog_step app) s ls)"
  using inventory_run.fold_step_invar [OF fresh_catalog_wf [OF assms(1)] assms(2)] .

text \<open>
  A concrete run: Ann adds a host, a key and a profile, trusts the host key, replaces it after a
  reinstallation and opens a session.
\<close>

definition demo_app :: "string app" where
  "demo_app = \<lparr>ap_auth = demo_service, ap_cfg = demo_routes, ap_vault = Some (demo_vault, [9]),
     ap_keys = demo_keys, ap_collate = (\<lambda>_ _. True)\<rparr>"

definition demo_catalog :: catalog_db where
  "demo_catalog = auth_state.extend demo_state
     (catalog_db.fields [] [] [] [] (manager_new
        \<lparr>db_sessions = [], db_attachments = [], db_events = [], db_chunks = [], db_markers = [],
         db_next_id = 0, db_now = 100, db_faults = []\<rparr> DETACHED_LIVE_PTY_TTL) 0 auth_check_service_new [])"

definition demo_ann :: request_headers where
  "demo_ann = demo_headers ''relayterm_session=tok2''"

definition demo_net :: "string \<Rightarrow> network" where
  "demo_net fp = (\<lambda>_ _. demo_peer\<lparr>pr_presented :=
     Some \<lparr>sk_algorithm = Alg_Ed25519, sk_fingerprint = fp, sk_bytes = Some [1]\<rparr>\<rparr>)"

definition demo_setup :: "catalog_label list" where
  "demo_setup =
     [KL_HostCreate demo_ann \<lparr>hq_display_name = ''box'', hq_hostname = ''box.lan'', hq_port = None,
        hq_default_username = ''ops''\<rparr>,
      KL_IdentityCreate demo_ann \<lparr>iq_name = ''key'', iq_key_type = None\<rparr>,
      KL_ProfileCreate demo_ann \<lparr>sq_name = ''box'', sq_host_id = 7, sq_ssh_identity_id = 8,
        sq_username_override = None, sq_tags = [''prod'']\<rparr>,
      KL_Trust (demo_net ''SHA256:AA'') demo_ann 10 ''SHA256:AA'',
      KL_Replace (demo_net ''SHA256:BB'') demo_ann 10 \<lparr>rr_expected_old_fingerprint = ''SHA256:AA'',
        rr_expected_new_fingerprint = ''SHA256:BB'', rr_reason_code = ''server_reinstalled''\<rparr>]"

definition demo_open :: catalog_label where
  "demo_open = KL_SessionCreate (demo_net ''SHA256:BB'') demo_ann (create_terminal_request_of 10 None None)"

definition demo_inventory :: catalog_db where
  "demo_inventory = foldl (catalog_step demo_app) demo_catalog demo_setup"

theorem inventory_stays_consistent_witness:
  "map ts_status (profile_sessions (foldl (catalog_step demo_app) demo_catalog (demo_setup @ [demo_open]))) = [TS_Active]
   \<and> catalog_wf (foldl (catalog_step demo_app) demo_catalog (demo_setup @ [demo_open]))"
proof -
  have "fresh_catalog demo_catalog" by code_simp
  moreover have "legal (catalog_step demo_app) via_routes demo_catalog (demo_setup @ [demo_open])"
    by (simp add: demo_setup_def demo_open_def via_routes_def)
  ultimately have "catalog_wf (foldl (catalog_step demo_app) demo_catalog (demo_setup @ [demo_open]))"
    by (rule inventory_stays_consistent)
  moreover have "map ts_status (profile_sessions (foldl (catalog_step demo_app) demo_catalog (demo_setup @ [demo_open]))) = [TS_Active]"
    by code_simp
  ultimately show ?thesis by blast
qed

section \<open>A revoked host key\<close>

text \<open>No statement touches a row that is revoked: each names its row by a key of an active pin.\<close>

lemma revoked_row_kept:
  assumes "catalog_wf s" and "e \<in> set (cd_pins s)" and "kh_revoked_at e \<noteq> None" and "x \<in> set (cd_pins s)" and "kh_revoked_at x = None"
  shows "e \<in> set (map (\<lambda>r. if kh_id r = kh_id x then y else r) (cd_pins s))"
proof -
  have inj: "inj_on kh_id (set (cd_pins s))" using wf_ids(4) [OF wf_parts(4) [OF assms(1)]] by (simp add: ids_ok_def distinct_map)
  have "kh_id e \<noteq> kh_id x"
  proof
    assume "kh_id e = kh_id x"
    then have "e = x" by (rule inj_onD [OF inj _ assms(2,4)])
    then show False using assms(3,5) by simp
  qed
  then show ?thesis unfolding set_map by (intro image_eqI [OF _ assms(2)]) simp
qed

interpretation revoked: catalog_stable "ap_auth app"
  "\<lambda>s. catalog_wf s \<and> (kh_revoked_at e \<noteq> None \<longrightarrow> e \<in> set (cd_pins s))" app "\<lambda>_. True" True
  for app :: "'k app" and e :: known_host_entry
proof (unfold_locales, goal_cases)
  case (26 s uid kin)
  then show ?case by (auto intro: wf_pin_new)
next
  case (27 s uid x)
  then show ?case using revoked_row_kept [of s e x] by (auto intro: wf_pin_trust)
next
  case (28 s uid rin x)
  then show ?case
    using revoked_row_kept [of s e x] wf_pin_replace [of s x rin] by (auto simp: apply_replacement_def Let_def)
next
  case (15 s g)
  then show ?case using wf_frame [of s "s\<lparr>cd_manager := g\<rparr>"] by simp
next
  case (23 s ped p)
  then show ?case using wf_profile_patch [of s ped p] by simp
next
  case (24 s p t)
  then show ?case using wf_profile_stamp [of s p] by simp
qed (auto intro: wf_frame wf_host_new wf_host_patch wf_host_del wf_identity_new wf_identity_rename wf_identity_del
    wf_profile_new wf_profile_del)

interpretation revoked_run: step_machine "catalog_step app"
  "\<lambda>s. catalog_wf s \<and> (kh_revoked_at e \<noteq> None \<longrightarrow> e \<in> set (cd_pins s))" via_routes for app :: "'k app" and e
  by unfold_locales (rule revoked.catalog_step_stable, simp_all)

text \<open>Fingerprints are unique per host, so a revoked row leaves no active one beside it.\<close>

lemma revoked_excludes:
  assumes "catalog_wf s" and "e \<in> set (cd_pins s)" and "kh_revoked_at e \<noteq> None"
    and "x \<in> set (cd_pins s)" and "kh_host_id x = kh_host_id e" and "kh_fingerprint_sha256 x = kh_fingerprint_sha256 e"
  shows "kh_revoked_at x \<noteq> None"
proof -
  have "inj_on (\<lambda>e. (kh_host_id e, kh_fingerprint_sha256 e)) (set (cd_pins s))"
    using wf_parts(4) [OF assms(1)] by (simp add: pins_wf_def distinct_map)
  from inj_onD [OF this _ assms(4,2)] assms(3,5,6) show ?thesis by simp
qed

text \<open>
  C5. A revoked host key stays revoked. Once a pin is revoked its row is never changed and never
  deleted, whatever requests follow, and its key is never accepted at that host again: it is in
  no list of pins a session or an authentication check may sign for, a preflight that sees it
  never reports it as trusted, and an attempt to trust it is refused.
\<close>

theorem revoked_host_key_is_final:
  assumes "catalog_wf s" and "e \<in> set (cd_pins s)" and "kh_revoked_at e \<noteq> None"
    and "legal (catalog_step app) via_routes s ls" and "t = foldl (catalog_step app) s ls"
    and "known = filter (\<lambda>x. kh_host_id x = kh_host_id e) (cd_pins t)"
  shows "e \<in> set (cd_pins t)
    \<and> (kt, kh_fingerprint_sha256 e) \<notin> set (session_accept_pins known) \<union> set (accept_pins_of known)
    \<and> (hk_fingerprint_sha256 captured = kh_fingerprint_sha256 e \<longrightarrow> classify_host_key captured known \<noteq> HK_Trusted)
    \<and> (ck_host_id kin = kh_host_id e \<and> ck_fingerprint_sha256 kin = kh_fingerprint_sha256 e \<longrightarrow>
         (\<exists>err. fst (pins_record_trusted kin t) = Inl err))"
proof -
  have t: "catalog_wf t" "e \<in> set (cd_pins t)"
    using revoked_run.fold_step_invar [of s e app ls] assms by auto
  have none: "kh_revoked_at x \<noteq> None" if "x \<in> set known" "kh_fingerprint_sha256 x = kh_fingerprint_sha256 e" for x
    using revoked_excludes [OF t assms(3)] that assms(6) by simp
  have "classify_host_key captured known \<noteq> HK_Trusted" if "hk_fingerprint_sha256 captured = kh_fingerprint_sha256 e"
    using that by (auto simp: classify_host_key_def Let_def split: option.splits dest!: find_SomeD dest: none)
  moreover have "\<exists>err. fst (pins_record_trusted kin t) = Inl err"
    if "ck_host_id kin = kh_host_id e" "ck_fingerprint_sha256 kin = kh_fingerprint_sha256 e"
  proof -
    have "pin_for t (ck_host_id kin) (ck_fingerprint_sha256 kin) \<noteq> None"
      unfolding pin_for_None using t(2) that by auto
    then obtain old where old: "pin_for t (ck_host_id kin) (ck_fingerprint_sha256 kin) = Some old" by blast
    then have "kh_revoked_at old \<noteq> None"
      using revoked_excludes [OF t assms(3), of old] that by (auto simp: pin_for_def dest!: find_SomeD)
    with old show ?thesis
      by (auto simp: pins_record_trusted_def acc_call_def pin_for_def split: list.splits option.splits)
  qed
  moreover have "(kt, kh_fingerprint_sha256 e) \<notin> set (session_accept_pins known) \<union> set (accept_pins_of known)"
    by (auto simp: session_accept_pins_def accept_pins_of_def dest: none [OF _ sym])
  ultimately show ?thesis using t(2) by blast
qed

lemma demo_inventory_wf: "catalog_wf demo_inventory"
proof -
  have "fresh_catalog demo_catalog" by code_simp
  then show ?thesis
    unfolding demo_inventory_def
    by (intro inventory_run.fold_step_invar fresh_catalog_wf) (simp_all add: demo_setup_def via_routes_def)
qed

theorem revoked_host_key_is_final_witness:
  "let e = hd (cd_pins demo_inventory);
       t = foldl (catalog_step demo_app) demo_inventory [KL_Trust (demo_net ''SHA256:AA'') demo_ann 10 ''SHA256:AA'', demo_open]
   in kh_fingerprint_sha256 e = ''SHA256:AA'' \<and> e \<in> set (cd_pins t)
      \<and> (KT_Ed25519, ''SHA256:AA'') \<notin> set (session_accept_pins (filter (\<lambda>x. kh_host_id x = kh_host_id e) (cd_pins t)))"
proof -
  let ?e = "hd (cd_pins demo_inventory)"
  let ?ls = "[KL_Trust (demo_net ''SHA256:AA'') demo_ann 10 ''SHA256:AA'', demo_open]"
  have "?e \<in> set (cd_pins demo_inventory)" "kh_revoked_at ?e \<noteq> None" by code_simp+
  note final = revoked_host_key_is_final [OF demo_inventory_wf this, of demo_app ?ls, OF _ refl refl, of KT_Ed25519]
  have "legal (catalog_step demo_app) via_routes demo_inventory ?ls" by (simp add: demo_open_def via_routes_def)
  from final [OF this] have "?e \<in> set (cd_pins (foldl (catalog_step demo_app) demo_inventory ?ls))"
    "(KT_Ed25519, kh_fingerprint_sha256 ?e) \<notin> set (session_accept_pins (filter (\<lambda>x. kh_host_id x = kh_host_id ?e)
        (cd_pins (foldl (catalog_step demo_app) demo_inventory ?ls))))" by blast+
  moreover have "kh_fingerprint_sha256 ?e = ''SHA256:AA''" by code_simp
  ultimately show ?thesis unfolding Let_def by simp
qed

section \<open>Stored identities\<close>

text \<open>The row holds the public half of a key whose private half the application's vault can open.\<close>

definition identity_sealed :: "'k vault_env \<Rightarrow> byte list \<Rightarrow> ssh_identity \<Rightarrow> bool" where
  "identity_sealed env key i \<longleftrightarrow> (\<exists>k. identity_of env key k
     \<lparr>gi_key_type = si_key_type i, gi_public_key_openssh = si_public_key i,
      gi_fingerprint_sha256 = si_fingerprint_sha256 i, gi_encrypted_private_key = si_encrypted_private_key i\<rparr>)"

definition all_sealed :: "'k app \<Rightarrow> catalog_db \<Rightarrow> bool" where
  "all_sealed app s \<longleftrightarrow> (\<forall>env key. ap_vault app = Some (env, key) \<longrightarrow> aead_laws env \<longrightarrow> draws_have_length env \<longrightarrow>
     (\<forall>i \<in> set (cd_identities s). identity_sealed env key i))"

lemma vault_made_sealed:
  assumes "vault_made app iin" and "ap_vault app = Some (env, key)" and "aead_laws env" and "draws_have_length env"
  shows "identity_sealed env key (new_identity s iin)"
proof -
  obtain gi n n' where gi: "(\<exists>kt. generate_ssh_identity env key kt (ci_name iin) n = (Inr gi, n'))
      \<or> (\<exists>pem. import_ssh_identity env key pem (ci_name iin) n = (Inr gi, n'))"
    and "ci_key_type iin = gi_key_type gi" "ci_public_key iin = gi_public_key_openssh gi"
    "ci_encrypted_private_key iin = gi_encrypted_private_key gi" "ci_fingerprint_sha256 iin = gi_fingerprint_sha256 gi"
    using assms(1,2) unfolding vault_made_def by simp blast
  moreover have "\<exists>k. identity_of env key k gi"
    using gi generated_is_recoverable [OF assms(3,4)] imported_is_recoverable [OF assms(3,4)] by blast
  ultimately show ?thesis by (auto simp: identity_sealed_def new_identity_def identity_of_def)
qed

interpretation sealed: catalog_stable "ap_auth app" "all_sealed app" app "\<lambda>_. True" True for app :: "'k app"
proof (unfold_locales, goal_cases)
  case (7 s uid h)
  then show ?case by (simp add: all_sealed_def)
next
  case (19 s iin)
  then show ?case using vault_made_sealed [of app iin] by (auto simp: all_sealed_def)
next
  case (20 s i name)
  then show ?case by (auto simp: all_sealed_def identity_sealed_def)
next
  case (28 s uid rin e)
  then show ?case by (simp add: all_sealed_def apply_replacement_def Let_def)
qed (auto simp: all_sealed_def)

interpretation sealed_run: step_machine "catalog_step app" "all_sealed app" via_routes for app :: "'k app"
  by unfold_locales (rule sealed.catalog_step_stable, simp_all)

text \<open>
  C14. Every stored identity stays usable: in every state of every run, each row of the identity
  table is the public half (type, public key and fingerprint) of an Ed25519 key whose OpenSSH
  private key is exactly what the vault of the application decrypts from that row.
\<close>

theorem stored_identities_stay_usable:
  assumes "ap_vault app = Some (env, key)" and "aead_laws env" and "draws_have_length env"
    and "cd_identities s = []" and "legal (catalog_step app) via_routes s ls"
    and "i \<in> set (cd_identities (foldl (catalog_step app) s ls))"
  shows "si_key_type i = KT_Ed25519
    \<and> (\<exists>k pem. ve_public_openssh env k = Some (si_public_key i) \<and> ve_fingerprint env k = si_fingerprint_sha256 i
         \<and> ve_private_openssh env k = Some pem
         \<and> (\<forall>t. decrypt_identity app i t = (Inr pem, t)))"
proof -
  have "all_sealed app (foldl (catalog_step app) s ls)"
    using sealed_run.fold_step_invar [OF _ assms(5)] assms(4) by (simp add: all_sealed_def)
  then have "identity_sealed env key i" using assms unfolding all_sealed_def by blast
  then show ?thesis
    using assms(1)
    by (auto simp: identity_sealed_def identity_of_def decrypt_identity_def vault_or_503_def decrypt_with_def prog_simps)
qed

theorem stored_identities_stay_usable_witness:
  "\<exists>i. cd_identities demo_inventory = [i] \<and> si_key_type i = KT_Ed25519
     \<and> (\<exists>k pem. ve_public_openssh demo_vault k = Some (si_public_key i) \<and> ve_fingerprint demo_vault k = si_fingerprint_sha256 i
         \<and> ve_private_openssh demo_vault k = Some pem \<and> (\<forall>t. decrypt_identity demo_app i t = (Inr pem, t)))"
proof -
  obtain i where i: "cd_identities demo_inventory = [i]"
  proof -
    have "length (cd_identities demo_inventory) = 1" by code_simp
    then show thesis using that by (auto simp: length_Suc_conv)
  qed
  moreover have "ap_vault demo_app = Some (demo_vault, [9])" "aead_laws demo_vault" "draws_have_length demo_vault"
    by (simp_all add: demo_app_def aead_laws_def draws_have_length_def demo_vault_def TAG_LEN_def)
  moreover have "cd_identities demo_catalog = []" by code_simp
  moreover have "legal (catalog_step demo_app) via_routes demo_catalog demo_setup" by (simp add: demo_setup_def via_routes_def)
  ultimately show ?thesis
    using stored_identities_stay_usable [of demo_app demo_vault "[9]" demo_catalog demo_setup i] by (simp add: demo_inventory_def)
qed

end
