(* ===== verification/Catalog_Access.thy ===== *)
theory Catalog_Access
  imports Catalog_Behaviour
begin

text \<open>
  Who may do what: a request changes only the inventory of the user it authenticates as, and a
  resource of another user answers like one that does not exist.
\<close>

section \<open>Other users' rows\<close>

definition foreign_rows ::
  "user_id \<Rightarrow> catalog_db \<Rightarrow> host list \<times> ssh_identity list \<times> server_profile list \<times> known_host_entry list" where
  "foreign_rows uid s =
     (filter (\<lambda>h. ho_owner_id h \<noteq> uid) (cd_hosts s), filter (\<lambda>i. si_owner_id i \<noteq> uid) (cd_identities s),
      filter (\<lambda>p. sp_owner_id p \<noteq> uid) (cd_profiles s), filter (\<lambda>e. (uid, kh_host_id e) \<notin> host_keys s) (cd_pins s))"

lemma filter_overwrite:
  assumes "\<forall>r \<in> set xs. key r = k \<longrightarrow> \<not> P r" and "\<not> P y"
  shows "filter P (map (\<lambda>r. if key r = k then y else r) xs) = filter P xs"
  using assms by (induction xs) auto

lemma filter_other_key:
  assumes "\<forall>r \<in> set xs. key r = k \<longrightarrow> \<not> P r"
  shows "filter P (filter (\<lambda>r. key r \<noteq> k) xs) = filter P xs"
  using assms by (induction xs) auto

text \<open>Rows of one key are one row, so they have one owner.\<close>

lemma same_key_same:
  assumes "ids_ok n key rows" and "x \<in> set rows"
  shows "\<forall>r \<in> set rows. key r = key x \<longrightarrow> \<not> f r \<noteq> f x"
  using assms by (metis distinct_map ids_ok_def inj_onD)

lemma foreign_frame:
  assumes "cd_hosts t = cd_hosts s" and "cd_identities t = cd_identities s" and "cd_profiles t = cd_profiles s" and "cd_pins t = cd_pins s"
  shows "foreign_rows uid t = foreign_rows uid s"
  using assms by (simp add: foreign_rows_def host_keys_def)

text \<open>New rows of the caller, and changes of rows the caller owns.\<close>

lemma foreign_host_new:
  assumes "catalog_wf s" and "ch_owner_id hin = uid"
  shows "foreign_rows uid (s\<lparr>ac_next_id := Suc (ac_next_id s), cd_hosts := cd_hosts s @ [new_host s hin]\<rparr>) = foreign_rows uid s"
    (is "foreign_rows uid ?t = _")
proof -
  have old: "k \<noteq> ac_next_id s" if "k \<in> snd ` host_keys s" for k
    using that wf_ids(1) [OF wf_parts(1) [OF assms(1)]] by (auto simp: host_keys_def ids_ok_def)
  have "(uid, kh_host_id e) \<notin> host_keys ?t \<longleftrightarrow> (uid, kh_host_id e) \<notin> host_keys s" if "e \<in> set (cd_pins s)" for e
    using old [of "kh_host_id e"] wf_links(2) [OF assms(1)] that by (auto simp: host_keys_def new_host_def)
  then have "filter (\<lambda>e. (uid, kh_host_id e) \<notin> host_keys ?t) (cd_pins s) = filter (\<lambda>e. (uid, kh_host_id e) \<notin> host_keys s) (cd_pins s)"
    by (rule filter_cong [OF refl])
  then show ?thesis using assms(2) by (simp add: foreign_rows_def new_host_def)
qed

lemma host_keys_patch:
  assumes "catalog_wf s" and "h \<in> set (cd_hosts s)" and "ho_id h' = ho_id h" and "ho_owner_id h' = ho_owner_id h"
  shows "host_keys (s\<lparr>cd_hosts := map (\<lambda>r. if ho_id r = ho_id h then h' else r) (cd_hosts s)\<rparr>) = host_keys s"
proof -
  define g where "g = (\<lambda>r. if ho_id r = ho_id h then h' else r)"
  have "ho_owner_id (g r) = ho_owner_id r \<and> ho_id (g r) = ho_id r" if "r \<in> set (cd_hosts s)" for r
    using same_key_same [OF wf_ids(1) [OF wf_parts(1) [OF assms(1)]] assms(2), of ho_owner_id] that assms(3,4)
    by (auto simp: g_def)
  then have "host_keys (s\<lparr>cd_hosts := map g (cd_hosts s)\<rparr>) = host_keys s"
    by (simp add: host_keys_def image_image cong: image_cong)
  then show ?thesis by (simp add: g_def)
qed

lemma foreign_host_patch:
  assumes "catalog_wf s" and "h \<in> set (cd_hosts s)" and "ho_owner_id h = uid"
  shows "foreign_rows uid (s\<lparr>cd_hosts := map (\<lambda>r. if ho_id r = ho_id h then patch_host now hed h else r) (cd_hosts s)\<rparr>) = foreign_rows uid s"
proof -
  have "filter (\<lambda>h. ho_owner_id h \<noteq> uid) (map (\<lambda>r. if ho_id r = ho_id h then patch_host now hed h else r) (cd_hosts s))
      = filter (\<lambda>h. ho_owner_id h \<noteq> uid) (cd_hosts s)"
    using same_key_same [OF wf_ids(1) [OF wf_parts(1) [OF assms(1)]] assms(2), of ho_owner_id] assms(3)
    by (intro filter_overwrite) (auto simp: patch_host_def)
  moreover have "ho_id (patch_host now hed h) = ho_id h" "ho_owner_id (patch_host now hed h) = ho_owner_id h"
    by (simp_all add: patch_host_def)
  ultimately show ?thesis using host_keys_patch [OF assms(1,2)] by (simp add: foreign_rows_def)
qed

lemma foreign_host_del:
  assumes "catalog_wf s" and "owns_host uid hid s" and "\<forall>e \<in> set (cd_pins s). kh_host_id e \<noteq> hid"
  shows "foreign_rows uid (s\<lparr>cd_hosts := filter (\<lambda>r. ho_id r \<noteq> hid) (cd_hosts s)\<rparr>) = foreign_rows uid s" (is "foreign_rows uid ?t = _")
proof -
  obtain h where h: "h \<in> set (cd_hosts s)" "ho_id h = hid" "ho_owner_id h = uid" using assms(2) by (auto simp: owns_host_def)
  have "filter (\<lambda>h. ho_owner_id h \<noteq> uid) (cd_hosts ?t) = filter (\<lambda>h. ho_owner_id h \<noteq> uid) (cd_hosts s)"
    using same_key_same [OF wf_ids(1) [OF wf_parts(1) [OF assms(1)]] h(1), of ho_owner_id] h(2,3)
    by (simp add: filter_other_key del: filter_filter)
  moreover have "host_keys ?t = {k \<in> host_keys s. snd k \<noteq> hid}" by (auto simp: host_keys_def)
  then have "filter (\<lambda>e. (uid, kh_host_id e) \<notin> host_keys ?t) (cd_pins s) = filter (\<lambda>e. (uid, kh_host_id e) \<notin> host_keys s) (cd_pins s)"
    using assms(3) by (intro filter_cong) auto
  ultimately show ?thesis by (simp add: foreign_rows_def)
qed

lemma foreign_identity_new:
  "ci_owner_id iin = uid \<Longrightarrow>
    foreign_rows uid (s\<lparr>ac_next_id := Suc (ac_next_id s), cd_identities := cd_identities s @ [new_identity s iin]\<rparr>) = foreign_rows uid s"
  by (simp add: foreign_rows_def new_identity_def host_keys_def)

lemma foreign_identity_rename:
  assumes "catalog_wf s" and "i \<in> set (cd_identities s)" and "si_owner_id i = uid"
  shows "foreign_rows uid (s\<lparr>cd_identities := map (\<lambda>r. if si_id r = si_id i then i\<lparr>si_name := name\<rparr> else r) (cd_identities s)\<rparr>) = foreign_rows uid s"
proof -
  have "filter (\<lambda>i. si_owner_id i \<noteq> uid) (map (\<lambda>r. if si_id r = si_id i then i\<lparr>si_name := name\<rparr> else r) (cd_identities s))
      = filter (\<lambda>i. si_owner_id i \<noteq> uid) (cd_identities s)"
    using same_key_same [OF wf_ids(2) [OF wf_parts(2) [OF assms(1)]] assms(2), of si_owner_id] assms(3)
    by (intro filter_overwrite) auto
  then show ?thesis by (simp add: foreign_rows_def host_keys_def)
qed

lemma foreign_identity_del:
  assumes "catalog_wf s" and "owns_identity uid iid s"
  shows "foreign_rows uid (s\<lparr>cd_identities := filter (\<lambda>r. si_id r \<noteq> iid) (cd_identities s)\<rparr>) = foreign_rows uid s"
proof -
  obtain i where i: "i \<in> set (cd_identities s)" "si_id i = iid" "si_owner_id i = uid" using assms(2) by (auto simp: owns_identity_def)
  have "filter (\<lambda>i. si_owner_id i \<noteq> uid) (filter (\<lambda>r. si_id r \<noteq> iid) (cd_identities s)) = filter (\<lambda>i. si_owner_id i \<noteq> uid) (cd_identities s)"
    using same_key_same [OF wf_ids(2) [OF wf_parts(2) [OF assms(1)]] i(1), of si_owner_id] i(2,3)
    by (simp add: filter_other_key del: filter_filter)
  then show ?thesis by (simp add: foreign_rows_def host_keys_def del: filter_filter)
qed

lemma foreign_profile_new:
  "cp_owner_id pin = uid \<Longrightarrow>
    foreign_rows uid (s\<lparr>ac_next_id := Suc (ac_next_id s), cd_profiles := cd_profiles s @ [new_profile s pin]\<rparr>) = foreign_rows uid s"
  by (simp add: foreign_rows_def new_profile_def host_keys_def)

lemma foreign_profile_row:
  assumes "catalog_wf s" and "p \<in> set (cd_profiles s)" and "sp_owner_id p = uid" and "sp_owner_id q = uid"
  shows "foreign_rows uid (s\<lparr>cd_profiles := map (\<lambda>r. if sp_id r = sp_id p then q else r) (cd_profiles s)\<rparr>) = foreign_rows uid s"
proof -
  have "filter (\<lambda>p. sp_owner_id p \<noteq> uid) (map (\<lambda>r. if sp_id r = sp_id p then q else r) (cd_profiles s))
      = filter (\<lambda>p. sp_owner_id p \<noteq> uid) (cd_profiles s)"
    using same_key_same [OF wf_ids(3) [OF wf_parts(3) [OF assms(1)]] assms(2), of sp_owner_id] assms(3,4)
    by (intro filter_overwrite) auto
  then show ?thesis by (simp add: foreign_rows_def host_keys_def)
qed

lemma foreign_profile_del:
  assumes "catalog_wf s" and "owns_profile uid pid s"
  shows "foreign_rows uid (s\<lparr>cd_profiles := filter (\<lambda>r. sp_id r \<noteq> pid) (cd_profiles s)\<rparr>) = foreign_rows uid s"
proof -
  obtain p where p: "p \<in> set (cd_profiles s)" "sp_id p = pid" "sp_owner_id p = uid" using assms(2) by (auto simp: owns_profile_def)
  have "filter (\<lambda>p. sp_owner_id p \<noteq> uid) (filter (\<lambda>r. sp_id r \<noteq> pid) (cd_profiles s)) = filter (\<lambda>p. sp_owner_id p \<noteq> uid) (cd_profiles s)"
    using same_key_same [OF wf_ids(3) [OF wf_parts(3) [OF assms(1)]] p(1), of sp_owner_id] p(2,3)
    by (simp add: filter_other_key del: filter_filter)
  then show ?thesis by (simp add: foreign_rows_def host_keys_def del: filter_filter)
qed

lemma foreign_pins_changed:
  assumes "cd_hosts t = cd_hosts s" and "cd_identities t = cd_identities s" and "cd_profiles t = cd_profiles s"
    and "filter (\<lambda>e. (uid, kh_host_id e) \<notin> host_keys s) (cd_pins t) = filter (\<lambda>e. (uid, kh_host_id e) \<notin> host_keys s) (cd_pins s)"
  shows "foreign_rows uid t = foreign_rows uid s"
  using assms by (simp add: foreign_rows_def host_keys_def)

lemma filter_pin_row:
  assumes "catalog_wf s" and "e \<in> set (cd_pins s)" and "owns_host uid (kh_host_id e) s" and "kh_host_id x = kh_host_id e"
  shows "filter (\<lambda>e. (uid, kh_host_id e) \<notin> host_keys s) (map (\<lambda>r. if kh_id r = kh_id e then x else r) (cd_pins s))
    = filter (\<lambda>e. (uid, kh_host_id e) \<notin> host_keys s) (cd_pins s)"
  using same_key_same [OF wf_ids(4) [OF wf_parts(4) [OF assms(1)]] assms(2), of kh_host_id] assms(3,4)
  by (intro filter_overwrite) (auto simp: owns_iff)

interpretation isolated: catalog_stable "ap_auth app" "\<lambda>s. catalog_wf s \<and> foreign_rows uid s = F" app "\<lambda>u. u = uid" True
  for app :: "'k app" and uid F
proof (unfold_locales, goal_cases)
  case (15 s g)
  then show ?case using wf_frame [of s "s\<lparr>cd_manager := g\<rparr>"] by (simp add: foreign_rows_def host_keys_def)
next
  case (16 s hin)
  then show ?case by (simp add: wf_host_new foreign_host_new)
next
  case (17 s hed h)
  then show ?case by (simp add: wf_host_patch foreign_host_patch)
next
  case (18 s u hid)
  then show ?case by (simp add: wf_host_del foreign_host_del)
next
  case (19 s iin)
  then show ?case by (simp add: wf_identity_new foreign_identity_new)
next
  case (20 s i name)
  then show ?case by (simp add: wf_identity_rename foreign_identity_rename)
next
  case (21 s u iid)
  then show ?case by (simp add: wf_identity_del foreign_identity_del)
next
  case (22 s pin)
  then show ?case by (simp add: wf_profile_new foreign_profile_new)
next
  case (23 s ped p)
  then show ?case by (simp add: wf_profile_patch foreign_profile_row patch_profile_def)
next
  case (24 s p t)
  then show ?case by (simp add: wf_profile_stamp foreign_profile_row)
next
  case (25 s u pid)
  then show ?case by (simp add: wf_profile_del foreign_profile_del)
next
  case (26 s u kin)
  then show ?case
    using wf_pin_new [of s kin]
    by (auto simp: new_pin_def owns_iff intro!: foreign_pins_changed)
next
  case (27 s u e)
  then show ?case using wf_pin_trust [of s e] filter_pin_row [of s e uid] by (auto intro!: foreign_pins_changed)
next
  case (28 s u rin e)
  then have "filter (\<lambda>e. (uid, kh_host_id e) \<notin> host_keys s)
      (map (\<lambda>r. if kh_id r = kh_id e then revoke_pin rin (ac_now s) (ac_next_id s) e else r) (cd_pins s))
    = filter (\<lambda>e. (uid, kh_host_id e) \<notin> host_keys s) (cd_pins s)"
    by (intro filter_pin_row) (simp_all add: revoke_pin_def)
  with 28 show ?case
    using wf_pin_replace [of s e rin]
    by (auto simp: apply_replacement_def Let_def new_pin_def replacement_pin_def owns_iff intro!: foreign_pins_changed)
qed (auto simp: foreign_rows_def host_keys_def intro: wf_frame)

text \<open>
  C6. A request changes only the inventory of the user it authenticates as. Whatever the request
  is, every host, identity and profile of any other user and every pin of a host that is not the
  caller's is exactly as before; and a request that does not authenticate, like a login or a
  session event, changes nobody's.
\<close>

theorem requests_keep_to_their_user:
  assumes "catalog_wf s" and "via_routes s l" and "acted_by app (\<lambda>u. u = uid) s l"
  shows "foreign_rows uid (catalog_step app s l) = foreign_rows uid s"
  using isolated.catalog_step_stable [of s uid "foreign_rows uid s" l app] assms by simp

text \<open>Bob's host beside Ann's, and Ann deleting it.\<close>

definition demo_shared :: catalog_db where
  "demo_shared = demo_inventory\<lparr>cd_hosts := cd_hosts demo_inventory @
     [\<lparr>ho_id = 1, ho_owner_id = 3, ho_display_name = ''lab'', ho_hostname = ''lab.lan'', ho_port = 22,
       ho_default_username = ''bob'', ho_created_at = 2, ho_updated_at = 2\<rparr>]\<rparr>"

lemma pred_option_code [code]: "pred_option P None = True" "pred_option P (Some x) = P x"
  by simp_all

lemma demo_shared_wf: "catalog_wf demo_shared"
  by code_simp

theorem requests_keep_to_their_user_witness:
  "foreign_rows 0 (catalog_step demo_app demo_shared (KL_HostDelete demo_ann 1)) = foreign_rows 0 demo_shared
   \<and> map ho_id (fst (foreign_rows 0 demo_shared)) = [1]"
proof -
  have "fst (authenticate demo_service demo_ann demo_shared) = Inr u \<Longrightarrow> au_user_id u = 0" for u
  proof -
    have "case fst (authenticate demo_service demo_ann demo_shared) of Inl _ \<Rightarrow> True | Inr u \<Rightarrow> au_user_id u = 0" by code_simp
    then show "fst (authenticate demo_service demo_ann demo_shared) = Inr u \<Longrightarrow> au_user_id u = 0" by simp
  qed
  then have "acted_by demo_app (\<lambda>u. u = 0) demo_shared (KL_HostDelete demo_ann 1)"
    by (auto simp: acted_by_def demo_app_def)
  from requests_keep_to_their_user [OF demo_shared_wf _ this]
  have "foreign_rows 0 (catalog_step demo_app demo_shared (KL_HostDelete demo_ann 1)) = foreign_rows 0 demo_shared"
    by (simp add: via_routes_def)
  moreover have "map ho_id (fst (foreign_rows 0 demo_shared)) = [1]" by code_simp
  ultimately show ?thesis ..
qed

section \<open>Resources of others answer as if they did not exist\<close>

lemma reading_run:
  "authenticate (ap_auth app) h s = (Inr user, t) \<Longrightarrow> reading app h body s = body (au_user_id user) t"
  by (simp add: reading_def bindP_def)

lemma mutating_run:
  assumes "check_origin h (rc_allowed_origins (ap_cfg app)) = Inr x" and "authenticate (ap_auth app) h s = (Inr user, t)"
  shows "mutating app h body s = body (au_user_id user) t"
  using assms by (simp add: mutating_def csrf_guard_def reading_run bindP_def)

lemma not_owned:
  assumes "ac_faults s = []"
  shows "\<not> owns_host uid hid s \<Longrightarrow> owned_host hid uid e s = (Inl (AE_NotFound e), s)"
    and "\<not> owns_identity uid iid s \<Longrightarrow> owned_identity iid uid e s = (Inl (AE_NotFound e), s)"
    and "\<not> owns_profile uid pid s \<Longrightarrow> owned_profile pid uid e s = (Inl (AE_NotFound e), s)"
  unfolding owned_host_def hosts_get_def owned_identity_def identities_get_def owned_profile_def profiles_get_def
  by (auto simp: acc_call_def assms via_cat_def mapErrP_def bindP_def host_row_def identity_row_def profile_row_def owned_def
      owns_host_def owns_identity_def owns_profile_def split: option.split dest!: find_SomeD)

interpretation account_frame: account_stable svc "\<lambda>s. (cd_hosts s, cd_identities s, cd_profiles s, cd_pins s, cd_wire s) = C" for svc C
proof (unfold_locales, goal_cases)
  case (7 s uid h)
  then show ?case
    by (auto simp: passwords_upsert_for_user_def upsert_password_def acc_call_def Let_def split: list.splits option.splits)
qed simp_all

lemma authenticate_keeps_catalog:
  assumes "authenticate svc h s = (r, t)"
  shows "cd_hosts t = cd_hosts s" "cd_identities t = cd_identities s" "cd_profiles t = cd_profiles s" "cd_pins t = cd_pins s"
    "cd_wire t = cd_wire s"
  using preservesD [OF account_frame.pres_authenticate refl, of svc h s] assms by auto



end
