(* ===== verification/Catalog_Signing.thy ===== *)
theory Catalog_Signing
  imports Catalog_Access
begin

text \<open>
  Which signatures leave the program: only the authentication check and the creation of a
  session sign at all, and they sign for the host, the key and the active pins of an enabled
  profile of the caller.
\<close>

section \<open>What is signed, and for whom\<close>

text \<open>Every signature of a connection uses the user name and the key it was given.\<close>

definition signs_as :: "string \<Rightarrow> byte list \<Rightarrow> ssh_conn \<Rightarrow> bool" where
  "signs_as user pem c \<longleftrightarrow> (\<forall>a \<in> set (sc_wire c). is_signature a \<longrightarrow> a = WA_Authenticate user pem)"

lemma signs_as_send: "\<not> is_signature a \<or> a = WA_Authenticate user pem \<Longrightarrow> preserves (signs_as user pem) (send_wire a)"
  by (auto simp: send_wire_def signs_as_def intro!: preserves_modify)

lemma signs_as_waits:
  "preserves (signs_as user pem) (timeout b call)" "preserves (signs_as user pem) (untimed call')"
  by (auto simp: preserves_def timeout_def untimed_def signs_as_def split: awaited.splits)

lemma auth_check_signs_as:
  "preserves (signs_as (at_username target) (at_private_key_pem target)) (run_auth_check kp net target)"
  unfolding run_auth_check_def attempt_auth_def Let_def
  by (intro pres_intros signs_as_send signs_as_waits) simp_all

lemma pty_start_signs_as: "preserves (signs_as (pcf_username config) pem) (pty_start kp net config pem)"
  unfolding pty_start_def start_auth_def open_shell_def Let_def
  by (intro pres_intros signs_as_send signs_as_waits) simp_all

section \<open>Requests that never sign\<close>

definition only_unsigned :: "wire_action list \<Rightarrow> catalog_db \<Rightarrow> bool" where
  "only_unsigned w0 s \<longleftrightarrow> (\<exists>w. cd_wire s = w0 @ w \<and> list_all (\<lambda>a. \<not> is_signature a) w)"

interpretation quiet: catalog_stable "ap_auth app" "only_unsigned w0" app "\<lambda>_. True" False
  for app :: "'k app" and w0
proof (unfold_locales, goal_cases)
  case (7 s uid h)
  then show ?case
    by (auto simp: only_unsigned_def passwords_upsert_for_user_def upsert_password_def acc_call_def Let_def
        split: list.splits option.splits)
next
  case (13 s w)
  then show ?case by (auto simp: only_unsigned_def)
next
  case (28 s uid rin e)
  then show ?case by (simp add: only_unsigned_def apply_replacement_def Let_def)
qed (auto simp: only_unsigned_def)

section \<open>Why a request may sign\<close>

definition signing_allowed ::
  "'k app \<Rightarrow> network \<Rightarrow> user_id \<Rightarrow> server_profile_id \<Rightarrow> catalog_db \<Rightarrow> string \<Rightarrow> byte list \<Rightarrow> bool" where
  "signing_allowed app net uid pid s user pem \<longleftrightarrow>
     (\<exists>p \<in> set (cd_profiles s). \<exists>h \<in> set (cd_hosts s). \<exists>i \<in> set (cd_identities s). \<exists>e \<in> set (cd_pins s). \<exists>env mk key cap.
        sp_id p = pid \<and> sp_owner_id p = uid \<and> \<not> is_disabled p
      \<and> ho_id h = sp_host_id p \<and> ho_owner_id h = uid \<and> si_id i = sp_ssh_identity_id p \<and> si_owner_id i = uid
      \<and> user = profile_username p h
      \<and> ap_vault app = Some (env, mk) \<and> decrypt_private_key env mk (si_encrypted_private_key i) = Inr pem
      \<and> kh_host_id e = ho_id h \<and> kh_trusted_at e \<noteq> None \<and> kh_revoked_at e = None
      \<and> pr_presented (net (ho_hostname h) (ho_port h)) = Some key \<and> captured_of key = Some cap
      \<and> kh_key_type e = hk_key_type cap \<and> kh_fingerprint_sha256 e = hk_fingerprint_sha256 cap)"

text \<open>Reads keep a fact that does not mention the fault list, and say what they read.\<close>

lemma triple_read:
  assumes "\<And>s fs. P (s\<lparr>ac_faults := fs\<rparr>) \<longleftrightarrow> P s" and "\<And>s fs. f (s\<lparr>ac_faults := fs\<rparr>) = f s"
  shows "triple P (via_cat (acc_call (\<lambda>s. (Inr (f s), s)))) (\<lambda>x s. P s \<and> x = f s) P"
  unfolding via_cat_def
  by (rule triple_mapErr, rule tripleI) (auto simp: acc_call_def assms split: list.splits option.splits)

lemma triple_read_owned:
  assumes "\<And>s fs. P (s\<lparr>ac_faults := fs\<rparr>) \<longleftrightarrow> P s" and "\<And>s fs. f (s\<lparr>ac_faults := fs\<rparr>) = f s"
  shows "triple P (bindP (via_cat (acc_call (\<lambda>s. (Inr (f s), s)))) (\<lambda>r. okOrP (owned own uid r) e))
     (\<lambda>x s. P s \<and> f s = Some x \<and> own x = uid) P"
  by (rule triple_bind [OF triple_read [OF assms]]) (auto simp: triple_def okOrP_def owned_def split: option.split)

text \<open>The tables and the wire as the request found them.\<close>

definition as_found :: "catalog_db \<Rightarrow> catalog_db \<Rightarrow> bool" where
  "as_found s0 s \<longleftrightarrow> cd_hosts s = cd_hosts s0 \<and> cd_identities s = cd_identities s0 \<and> cd_profiles s = cd_profiles s0
     \<and> cd_pins s = cd_pins s0 \<and> cd_wire s = cd_wire s0"

lemma as_found_faults [simp]: "as_found s0 (s\<lparr>ac_faults := fs\<rparr>) \<longleftrightarrow> as_found s0 s"
  by (simp add: as_found_def)

lemma triple_found_owned:
  "triple (as_found s0) (owned_host hid uid e) (\<lambda>h s. as_found s0 s \<and> h \<in> set (cd_hosts s0) \<and> ho_id h = hid \<and> ho_owner_id h = uid) (as_found s0)"
  "triple (as_found s0) (owned_identity iid uid e) (\<lambda>i s. as_found s0 s \<and> i \<in> set (cd_identities s0) \<and> si_id i = iid \<and> si_owner_id i = uid) (as_found s0)"
  "triple (as_found s0) (owned_profile pid uid e) (\<lambda>p s. as_found s0 s \<and> p \<in> set (cd_profiles s0) \<and> sp_id p = pid \<and> sp_owner_id p = uid) (as_found s0)"
proof -
  note row = triple_weaken [OF triple_read_owned [OF as_found_faults]]
  show "triple (as_found s0) (owned_host hid uid e) (\<lambda>h s. as_found s0 s \<and> h \<in> set (cd_hosts s0) \<and> ho_id h = hid \<and> ho_owner_id h = uid) (as_found s0)"
    unfolding owned_host_def hosts_get_def by (rule row) (auto simp: host_row_def as_found_def dest!: find_SomeD)
  show "triple (as_found s0) (owned_identity iid uid e) (\<lambda>i s. as_found s0 s \<and> i \<in> set (cd_identities s0) \<and> si_id i = iid \<and> si_owner_id i = uid) (as_found s0)"
    unfolding owned_identity_def identities_get_def by (rule row) (auto simp: identity_row_def as_found_def dest!: find_SomeD)
  show "triple (as_found s0) (owned_profile pid uid e) (\<lambda>p s. as_found s0 s \<and> p \<in> set (cd_profiles s0) \<and> sp_id p = pid \<and> sp_owner_id p = uid) (as_found s0)"
    unfolding owned_profile_def profiles_get_def by (rule row) (auto simp: profile_row_def as_found_def dest!: find_SomeD)
qed

lemma triple_pull: "(b \<Longrightarrow> triple P m Q E) \<Longrightarrow> triple (\<lambda>s. P s \<and> b) m Q E"
  by (auto simp: triple_def)

definition resolved :: "catalog_db \<Rightarrow> user_id \<Rightarrow> server_profile_id \<Rightarrow> server_profile \<Rightarrow> host \<Rightarrow> ssh_identity \<Rightarrow> bool" where
  "resolved s uid pid p h i \<longleftrightarrow>
     p \<in> set (cd_profiles s) \<and> sp_id p = pid \<and> sp_owner_id p = uid \<and> h \<in> set (cd_hosts s) \<and> ho_id h = sp_host_id p
     \<and> ho_owner_id h = uid \<and> i \<in> set (cd_identities s) \<and> si_id i = sp_ssh_identity_id p \<and> si_owner_id i = uid"

definition opens :: "'k app \<Rightarrow> ssh_identity \<Rightarrow> byte list \<Rightarrow> bool" where
  "opens app i pem \<longleftrightarrow> (\<exists>env mk. ap_vault app = Some (env, mk) \<and> decrypt_private_key env mk (si_encrypted_private_key i) = Inr pem)"

lemma opened: "decrypt_with v i s = (Inr pem, t) \<Longrightarrow> ap_vault app = Some v \<Longrightarrow> opens app i pem \<and> t = s"
  by (cases v) (auto simp: decrypt_with_def opens_def split: sum.splits)

lemma triple_found_decrypt:
  "triple (as_found s0) (decrypt_identity app i) (\<lambda>pem s. as_found s0 s \<and> opens app i pem) (as_found s0)"
proof (rule tripleI)
  fix s t e pem
  assume s: "as_found s0 s"
  show "as_found s0 t" if "decrypt_identity app i s = (Inl e, t)"
    using s that by (auto simp: decrypt_identity_def vault_or_503_def decrypt_with_def okOrP_run bindP_def split: option.splits sum.splits)
  show "as_found s0 t \<and> opens app i pem" if "decrypt_identity app i s = (Inr pem, t)"
    using s that opened by (fastforce simp: decrypt_identity_def vault_or_503_def Inr_iffs)
qed

lemma triple_found_pins:
  "triple (as_found s0) (via_cat (pins_list_for_host hid))
     (\<lambda>known s. as_found s0 s \<and> set known = {e \<in> set (cd_pins s0). kh_host_id e = hid}) (as_found s0)"
  unfolding pins_list_for_host_def
  by (rule triple_weaken [OF triple_read [OF as_found_faults]]) (auto simp: as_found_def)

lemma triple_found_resolve:
  "triple (as_found s0) (resolve_owned_profile uid pid) 
     (\<lambda>x s. as_found s0 s \<and> (case x of (p, h, i) \<Rightarrow> resolved s0 uid pid p h i)) (as_found s0)"
  unfolding resolve_owned_profile_def
  by (intro triple_bind [OF triple_found_owned(3)] triple_pull triple_bind [OF triple_found_owned(1)]
      triple_bind [OF triple_found_owned(2)]) (auto simp: triple_def resolved_def)

text \<open>Every signature added to the wire since the request began has its reason.\<close>

definition accounted :: "'k app \<Rightarrow> network \<Rightarrow> user_id \<Rightarrow> server_profile_id \<Rightarrow> catalog_db \<Rightarrow> catalog_db \<Rightarrow> bool" where
  "accounted app net uid pid s0 s \<longleftrightarrow> (\<forall>u k. WA_Authenticate u k \<in> set (drop (length (cd_wire s0)) (cd_wire s)) \<longrightarrow>
     signing_allowed app net uid pid s0 u k)"

lemma accounted_found: "as_found s0 s \<Longrightarrow> accounted app net uid pid s0 s"
  by (simp add: accounted_def as_found_def)

lemma accounted_wire:
  assumes "as_found s0 s" and "\<And>u k. WA_Authenticate u k \<in> set w \<Longrightarrow> signing_allowed app net uid pid s0 u k"
  shows "cd_wire t = cd_wire s @ w \<Longrightarrow> accounted app net uid pid s0 t"
  using assms by (simp add: accounted_def as_found_def)

lemma allowedI:
  assumes "resolved s0 uid pid p h i" and "\<not> is_disabled p" and "opens app i pem"
    and "set known = {e \<in> set (cd_pins s0). kh_host_id e = ho_id h}"
    and "presents_pinned (session_accept_pins known) (net (ho_hostname h) (ho_port h))"
  shows "signing_allowed app net uid pid s0 (profile_username p h) pem"
  using assms
  unfolding signing_allowed_def resolved_def opens_def presents_pinned_def session_accept_pins_def
  by (fastforce split: option.splits)

lemma accept_pins_same: "accept_pins_of known = session_accept_pins known"
  by (simp add: accept_pins_of_def session_accept_pins_def conj_commute)

lemma auth_check_signs:
  assumes "WA_Authenticate u k \<in> set (sc_wire (snd (snd (auth_check kp net req known (v, new_conn)))))"
  shows "u = aq_username req \<and> k = aq_private_key_pem req"
proof (cases "auth_check_begin kp req known v")
  case (Pair r v1)
  show ?thesis
  proof (cases r)
    case (Inl e)
    with Pair assms show ?thesis by (simp add: auth_check_def new_conn_def)
  next
    case (Inr target)
    with Pair have t: "at_username target = aq_username req" "at_private_key_pem target = aq_private_key_pem req"
      by (auto simp: auth_check_begin_def Let_def Inr_iffs)
    have "sc_wire (snd (snd (auth_check kp net req known (v, new_conn)))) = sc_wire (snd (run_auth_check kp net target new_conn))"
      using Pair Inr within_wire [of "av_timeout v" "run_auth_check kp net target" new_conn]
      by (auto simp: auth_check_def split: prod.splits)
    moreover have "signs_as (at_username target) (at_private_key_pem target) (snd (run_auth_check kp net target new_conn))"
      by (rule preservesD [OF auth_check_signs_as]) (simp add: signs_as_def new_conn_def)
    ultimately show ?thesis using assms t by (auto simp: signs_as_def)
  qed
qed

text \<open>A step that leaves the tables as found, inside a program that ends with every signature accounted for.\<close>

lemma triple_found_bind:
  assumes "triple (as_found s0) m (\<lambda>x s. as_found s0 s \<and> b x) (as_found s0)"
    and "\<And>x. b x \<Longrightarrow> triple (as_found s0) (k x) Q (accounted app net uid pid s0)"
  shows "triple (as_found s0) (bindP m k) Q (accounted app net uid pid s0)"
  by (rule triple_bind [OF triple_weaken [OF assms(1)] triple_pull [OF assms(2)]]) (auto intro: accounted_found)

lemma triple_found_keep:
  assumes "preserves (as_found s0) m" and "\<And>x. triple (as_found s0) (k x) Q (accounted app net uid pid s0)"
  shows "triple (as_found s0) (bindP m k) Q (accounted app net uid pid s0)"
  by (rule triple_bind [OF triple_weaken [OF triple_preserves [OF assms(1)]] assms(2)]) (auto intro: accounted_found)

lemma triple_found_guard:
  assumes "b \<Longrightarrow> triple (as_found s0) (k ()) Q (accounted app net uid pid s0)"
  shows "triple (as_found s0) (bindP (guardP b e) k) Q (accounted app net uid pid s0)"
  using assms by (cases b) (auto simp: triple_def bindP_def accounted_found)

lemma auth_check_accounted:
  "triple (as_found s0)
     (bindP (resolve_owned_profile uid pid) (\<lambda>(profile, host, identity).
      bindP (guardP (\<not> is_disabled profile) server_profile_disabled_conflict) (\<lambda>_.
      bindP (decrypt_identity app identity) (\<lambda>pem.
      bindP (via_cat (pins_list_for_host (ho_id host))) (\<lambda>known.
      bindP (lift_auth_check (auth_check (ap_keys app) net
              \<lparr>aq_host_id = ho_id host, aq_hostname = ho_hostname host, aq_port = ho_port host,
               aq_username = profile_username profile host, aq_private_key_pem = pem\<rparr> known)) (\<lambda>status.
      bindP now_utc (\<lambda>now. retP (f profile host identity status now))))))))
     (\<lambda>_. accounted app net uid pid s0) (accounted app net uid pid s0)"
proof (rule triple_found_bind [OF triple_found_resolve], goal_cases)
  case (1 x)
  obtain p h i where x: "x = (p, h, i)" by (cases x)
  have r: "resolved s0 uid pid p h i" using 1 x by simp
  have last: "triple (as_found s0) (bindP (lift_auth_check (auth_check (ap_keys app) net
              \<lparr>aq_host_id = ho_id h, aq_hostname = ho_hostname h, aq_port = ho_port h,
               aq_username = profile_username p h, aq_private_key_pem = pem\<rparr> known)) (\<lambda>status.
      bindP now_utc (\<lambda>now. retP (f p h i status now))))
     (\<lambda>_. accounted app net uid pid s0) (accounted app net uid pid s0)"
    if d: "\<not> is_disabled p" and o: "opens app i pem" and k: "set known = {e \<in> set (cd_pins s0). kh_host_id e = ho_id h}" for pem known
  proof (rule triple_establishes, rule establishesI)
    fix s assume s: "as_found s0 s"
    let ?req = "\<lparr>aq_host_id = ho_id h, aq_hostname = ho_hostname h, aq_port = ho_port h,
               aq_username = profile_username p h, aq_private_key_pem = pem\<rparr>"
    let ?c = "snd (snd (auth_check (ap_keys app) net ?req known (cd_auth_check s, new_conn)))"
    have allowed: "signing_allowed app net uid pid s0 u k" if a: "WA_Authenticate u k \<in> set (sc_wire ?c)" for u k
    proof -
      have "presents_pinned (session_accept_pins known) (net (ho_hostname h) (ho_port h))"
        using auth_check_wire [of "ap_keys app" net ?req known] a signed_iff by (force simp: accept_pins_same)
      from allowedI [OF r d o k, of net, OF this] show ?thesis using auth_check_signs [OF a] by simp
    qed
    have "cd_wire (snd (bindP (lift_auth_check (auth_check (ap_keys app) net ?req known)) (\<lambda>status.
        bindP now_utc (\<lambda>now. retP (f p h i status now))) s)) = cd_wire s @ sc_wire ?c"
      by (auto simp: bindP_def lift_auth_check_def now_utc_def split: prod.splits sum.splits)
    then show "accounted app net uid pid s0 (snd (bindP (lift_auth_check (auth_check (ap_keys app) net ?req known)) (\<lambda>status.
        bindP now_utc (\<lambda>now. retP (f p h i status now))) s))"
      using accounted_wire [OF s, of "sc_wire ?c" app net uid pid] allowed by blast
  qed
  show ?case
    unfolding x prod.case
    by (intro triple_found_guard triple_found_bind [OF triple_found_decrypt] triple_found_bind [OF triple_found_pins] last)
qed

text \<open>What an admitted session start knows.\<close>

definition admitted :: "'k app \<Rightarrow> catalog_db \<Rightarrow> user_id \<Rightarrow> server_profile_id \<Rightarrow> launch \<Rightarrow> bool" where
  "admitted app s uid pid l \<longleftrightarrow> (\<exists>i known. resolved s uid pid (la_profile l) (la_host l) i \<and> \<not> is_disabled (la_profile l)
     \<and> opens app i (la_private_key_pem l) \<and> la_accept_pins l = session_accept_pins known
     \<and> set known = {e \<in> set (cd_pins s). kh_host_id e = ho_id (la_host l)})"

lemma via_manager_frame: "as_found s0 s \<Longrightarrow> as_found s0 (snd (via_manager m s))"
  by (simp add: via_manager_def as_found_def split: prod.split sum.split)

lemma via_manager_wire [simp]: "cd_wire (snd (via_manager m s)) = cd_wire s"
  by (simp add: via_manager_def split: prod.split sum.split)

lemma via_manager_wireD: "via_manager m s = (r, t) \<Longrightarrow> cd_wire t = cd_wire s"
  using via_manager_wire [of m s] by simp

lemma found_admit:
  "triple (as_found s0) (create_admit app uid req)
     (\<lambda>l s. as_found s0 s \<and> admitted app s0 uid (ct_server_profile_id req) l) (as_found s0)"
proof -
  have mgr: "triple (as_found s0) (via_manager m) (\<lambda>_. as_found s0) (as_found s0)" for m :: "create_session_outcome mgr"
    by (rule triple_preserves, rule preservesI) (rule via_manager_frame)
  have vault: "triple (as_found s0) (vault_or_503 app d) (\<lambda>v s. as_found s0 s \<and> ap_vault app = Some v) (as_found s0)" for d
    unfolding vault_or_503_def by (auto simp: triple_def okOrP_def split: option.split)
  have dec: "triple (as_found s0) (decrypt_with v i) (\<lambda>pem s. as_found s0 s \<and> opens app i pem) (as_found s0)" if "ap_vault app = Some v" for v i
    using that by (cases v) (auto simp: triple_def decrypt_with_def opens_def split: sum.split)
  have guard: "triple (as_found s0) (guardP b e) (\<lambda>_ s. as_found s0 s \<and> b) (as_found s0)" for b and e :: api_error
    by (cases b) (simp_all add: triple_def)
  have quota: "triple (as_found s0) (quota_gate uid) (\<lambda>_. as_found s0) (as_found s0)"
    by (rule triple_preserves) (unfold quota_gate_def, intro pres_intros)
  have "triple (as_found s0) (bindP (via_manager (create_session r)) (\<lambda>out. retP (f out)))
      (\<lambda>l s. as_found s0 s \<and> (\<exists>out. l = f out)) (as_found s0)" for r and f :: "create_session_outcome \<Rightarrow> launch"
    by (rule triple_bind [OF mgr]) (auto simp: triple_def)
  note last = triple_weaken [OF this]
  show ?thesis
    unfolding create_admit_def Let_def
    by (intro triple_bind [OF triple_found_owned(1)] triple_bind [OF triple_found_owned(2)] triple_bind [OF triple_found_owned(3)]
        triple_bind [OF triple_found_pins] triple_bind [OF guard] triple_bind [OF quota] triple_bind [OF vault]
        triple_bind [OF dec] triple_pull last; (clarsimp simp: admitted_def resolved_def; blast)?)
qed

lemma launch_accounted:
  assumes "admitted app s0 uid pid l"
  shows "triple (as_found s0) (create_launch app net l) (\<lambda>_. accounted app net uid pid s0) (accounted app net uid pid s0)"
proof (rule triple_establishes, rule establishesI)
  fix s assume s: "as_found s0 s"
  let ?c = "snd (pty_start (ap_keys app) net (launch_config l) (la_private_key_pem l) new_conn)"
  obtain i known where l: "resolved s0 uid pid (la_profile l) (la_host l) i" "\<not> is_disabled (la_profile l)"
    "opens app i (la_private_key_pem l)" "set known = {e \<in> set (cd_pins s0). kh_host_id e = ho_id (la_host l)}"
    and pins: "la_accept_pins l = session_accept_pins known"
    using assms by (auto simp: admitted_def)
  have "signing_allowed app net uid pid s0 u k" if a: "WA_Authenticate u k \<in> set (sc_wire ?c)" for u k
  proof -
    have "\<not> unsigned_wire ?c" using a signed_iff by blast
    then have "presents_pinned (session_accept_pins known) (net (ho_hostname (la_host l)) (ho_port (la_host l)))"
      using preservesD [OF pty_start_unpinned [of "launch_config l" net] unsigned_new] pins
      by (fastforce simp: launch_config_def pty_config_new_def)
    moreover have "signs_as (pcf_username (launch_config l)) (la_private_key_pem l) ?c"
      by (rule preservesD [OF pty_start_signs_as]) (simp add: signs_as_def new_conn_def)
    then have "u = profile_username (la_profile l) (la_host l) \<and> k = la_private_key_pem l"
      using a by (auto simp: signs_as_def launch_config_def pty_config_new_def)
    ultimately show ?thesis using allowedI [OF l, of net] by simp
  qed
  moreover have "cd_wire (snd (create_launch app net l s)) = cd_wire s @ sc_wire ?c"
    by (auto simp: create_launch_def bindP_run attemptP_run Let_def split: prod.split sum.split stop.split
        dest!: via_manager_wireD)
  ultimately show "accounted app net uid pid s0 (snd (create_launch app net l s))"
    using accounted_wire [OF s, of "sc_wire ?c" app net uid pid] by blast
qed

lemma mutating_cases:
  obtains (stopped) "cd_wire (snd (mutating app h body s)) = cd_wire s"
  | (ran) user t where "authenticate (ap_auth app) h s = (Inr user, t)" "mutating app h body s = body (au_user_id user) t"
      "as_found s t"
proof (cases "check_origin h (rc_allowed_origins (ap_cfg app))")
  case (Inl e)
  then show thesis by (intro stopped) (simp add: mutating_def csrf_guard_def bindP_def)
next
  case (Inr x)
  obtain r t where a: "authenticate (ap_auth app) h s = (r, t)" by (cases "authenticate (ap_auth app) h s")
  note frame = authenticate_keeps_catalog [OF a]
  show thesis
  proof (cases r)
    case (Inl e)
    then show thesis
      using a frame \<open>check_origin _ _ = Inr x\<close>
      by (intro stopped) (simp add: mutating_def csrf_guard_def reading_def bindP_def)
  next
    case (Inr user)
    then show thesis
      using a frame mutating_run [OF \<open>check_origin _ _ = Inr x\<close>, of s user t body]
      by (intro ran [of user t]) (simp_all add: as_found_def)
  qed
qed

lemma mutating_reasons:
  assumes "WA_Authenticate u pem \<in> set (drop (length (cd_wire s)) (cd_wire (snd (mutating app h body s))))"
    and "\<And>uid. triple (as_found s) (body uid) (\<lambda>_. accounted app net uid pid s) (accounted app net uid pid s)"
  shows "\<exists>user t. authenticate (ap_auth app) h s = (Inr user, t) \<and> signing_allowed app net (au_user_id user) pid s u pem"
proof (cases rule: mutating_cases [of app h body s])
  case stopped
  then show ?thesis using assms(1) by simp
next
  case (ran user t)
  have "accounted app net (au_user_id user) pid s (snd (mutating app h body s))"
    unfolding ran(2) by (rule establishesD [OF establishes_triple [OF assms(2)] ran(3)])
  then show ?thesis using assms(1) ran(1) by (auto simp: accounted_def)
qed

lemma auth_check_reasons:
  assumes "WA_Authenticate u pem \<in> set (drop (length (cd_wire s)) (cd_wire (snd (auth_check_route app net h pid s))))"
  shows "\<exists>user t. authenticate (ap_auth app) h s = (Inr user, t) \<and> signing_allowed app net (au_user_id user) pid s u pem"
  using assms unfolding auth_check_route_def by (rule mutating_reasons) (rule auth_check_accounted)

lemma session_create_reasons:
  assumes "WA_Authenticate u pem \<in> set (drop (length (cd_wire s)) (cd_wire (snd (sessions_route_create app net h req s))))"
  shows "\<exists>user t. authenticate (ap_auth app) h s = (Inr user, t)
    \<and> signing_allowed app net (au_user_id user) (ct_server_profile_id req) s u pem"
  using assms unfolding sessions_route_create_def
  by (rule mutating_reasons) (rule triple_found_bind [OF found_admit launch_accounted])

text \<open>
  C2. Every signature has its reason, over all requests. A request puts an authentication request
  on the wire only if it is an authentication check or the creation of a session, the caller is
  authenticated, the profile it names is the caller's and enabled, the user name is that
  profile's, the key is the private key the vault decrypts from the profile's own identity, and
  the host at the profile's address presented a key that is, by type and fingerprint, a trusted
  and unrevoked pin of that host. Nothing else the program does ever signs.
\<close>

theorem every_signature_has_a_reason:
  assumes "via_routes s l"
    and "WA_Authenticate u pem \<in> set (drop (length (cd_wire s)) (cd_wire (catalog_step app s l)))"
  shows "\<exists>net h pid user t.
      (l = KL_AuthCheck net h pid \<or> (\<exists>req. l = KL_SessionCreate net h req \<and> ct_server_profile_id req = pid))
    \<and> authenticate (ap_auth app) h s = (Inr user, t) \<and> signing_allowed app net (au_user_id user) pid s u pem"
proof (cases "signs_label l")
  case False
  have "only_unsigned (cd_wire s) (catalog_step app s l)"
    by (rule quiet.catalog_step_stable) (use assms(1) False in \<open>simp_all add: only_unsigned_def\<close>)
  then show ?thesis using assms(2) by (fastforce simp: only_unsigned_def list_all_iff)
next
  case True
  then show ?thesis
    using assms(2) auth_check_reasons session_create_reasons
    by (cases l) (fastforce simp: signs_label_def)+
qed

theorem every_signature_has_a_reason_witness:
  "\<exists>user t. authenticate demo_service demo_ann demo_inventory = (Inr user, t)
     \<and> signing_allowed demo_app (demo_net ''SHA256:BB'') (au_user_id user) 10 demo_inventory ''ops'' [107, 101, 121, 107, 101, 121]"
proof -
  have "WA_Authenticate ''ops'' [107, 101, 121, 107, 101, 121]
      \<in> set (drop (length (cd_wire demo_inventory)) (cd_wire (catalog_step demo_app demo_inventory demo_open)))" by code_simp
  moreover have "via_routes demo_inventory demo_open" by (simp add: via_routes_def demo_open_def)
  ultimately show ?thesis
    using every_signature_has_a_reason [of demo_inventory demo_open "''ops''" "[107, 101, 121, 107, 101, 121]" demo_app]
    by (auto simp: demo_open_def create_terminal_request_of_def demo_app_def)
qed

end
