(* ===== verification/Catalog_Limits.thy ===== *)
theory Catalog_Limits
  imports Catalog_Signing
begin

text \<open>
  Runs at the edge of what the code promises: a host with two active pins of one key type, a
  replacement that names an active key, and session creations that overlap.
\<close>

section \<open>Host keys\<close>

definition demo_key :: "ssh_algorithm \<Rightarrow> string \<Rightarrow> network" where
  "demo_key alg fp = (\<lambda>_ _. demo_peer\<lparr>pr_presented :=
     Some \<lparr>sk_algorithm = alg, sk_fingerprint = fp, sk_bytes = Some [1]\<rparr>\<rparr>)"

text \<open>The host of the demonstration inventory with an RSA pin beside its Ed25519 one.\<close>

definition demo_two_types :: catalog_db where
  "demo_two_types = catalog_step demo_app demo_inventory (KL_Trust (demo_key Alg_Rsa ''SHA256:RR'') demo_ann 10 ''SHA256:RR'')"

definition demo_cross_replace :: catalog_label where
  "demo_cross_replace = KL_Replace (demo_key Alg_Ed25519 ''SHA256:CC'') demo_ann 10
     \<lparr>rr_expected_old_fingerprint = ''SHA256:RR'', rr_expected_new_fingerprint = ''SHA256:CC'',
      rr_reason_code = ''host_key_rotated''\<rparr>"

definition active_pins :: "catalog_db \<Rightarrow> (ssh_key_type \<times> string) list" where
  "active_pins s = session_accept_pins (cd_pins s)"

text \<open>
  Replacing the pin of one key type by a captured key of another leaves two active pins of the
  second type, which the preflight route excludes in a comment.
\<close>

theorem two_active_pins_of_one_type:
  "active_pins (catalog_step demo_app demo_two_types demo_cross_replace)
   = [(KT_Ed25519, ''SHA256:BB''), (KT_Ed25519, ''SHA256:CC'')]"
  by code_simp

text \<open>A replacement that names one active pin while the host presents the other reaches the repository's refusal.\<close>

theorem replacement_may_name_an_active_key:
  "fst (replace_host_key demo_app (demo_key Alg_Ed25519 ''SHA256:BB'') demo_ann 10
     \<lparr>rr_expected_old_fingerprint = ''SHA256:RR'', rr_expected_new_fingerprint = ''SHA256:BB'',
      rr_reason_code = ''operator_other''\<rparr> demo_two_types)
   = Inl (AE_Conflict ''host_key'' (Some ''new_fingerprint_already_active''))"
  by code_simp

section \<open>Overlapping session creations\<close>

text \<open>Two requests of one user, both admitted before either has its PTY.\<close>

definition overlapping :: "(nat \<times> create_response) option cat_route" where
  "overlapping =
     bindP (create_admit demo_app 0 (create_terminal_request_of 10 None None)) (\<lambda>l1.
     bindP (create_admit demo_app 0 (create_terminal_request_of 10 None None)) (\<lambda>l2.
     bindP (create_launch demo_app (demo_net ''SHA256:BB'') l1) (\<lambda>_.
     create_launch demo_app (demo_net ''SHA256:BB'') l2)))"

text \<open>
  The ceiling on live sessions is checked at admission only, so with a ceiling of one, two
  overlapping requests end with two live sessions; the same requests one after the other do not.
\<close>

theorem live_ceiling_passed_by_overlap:
  "let s = on_manager (\<lambda>g. g\<lparr>mg_max_live_pty_per_user := 1\<rparr>) demo_inventory
   in count_live_pty_for_user 0 (cd_manager (snd (overlapping s))) = 2
    \<and> count_live_pty_for_user 0 (cd_manager (foldl (catalog_step demo_app) s [demo_open, demo_open])) = 1"
  by code_simp

end
