(* ===== verification/Backend_Boot.thy ===== *)
theory Backend_Boot
  imports Config_Behaviour Retention_Behaviour Session_Manager Auth_Routes
begin

text \<open>
  The start of the backend, \<^verbatim>\<open>apps/backend/src/main.rs\<close>: loading and validating the configuration,
  connecting, reconciling orphaned sessions, the startup retention sweep, the first-user check,
  the vault key, the recording runtime, the session manager and the periodic worker, up to the
  bound listener. The connection, the clock, the file system and the listener are arguments.
\<close>

section \<open>The database at start\<close>

text \<open>
  The session repository works on its own view of the tables; \<open>via_sessions\<close> runs it on the
  whole database and stores what it wrote, new markers with their row columns.
\<close>

record boot_db = retention_state +
  bd_attachments :: "session_attachment list"
  bd_events :: "session_event list"

type_synonym 'a booting = "(boot_db, repository_error, 'a) prog"

definition session_view :: "boot_db \<Rightarrow> session_db" where
  "session_view s =
     \<lparr>db_sessions = rd_sessions s, db_attachments = bd_attachments s, db_events = bd_events s,
      db_chunks = map recording_chunk.truncate (rd_chunks s),
      db_markers = map recording_marker.truncate (rd_markers s),
      db_next_id = ac_next_id s, db_now = ac_now s, db_faults = ac_faults s\<rparr>"

definition stored_markers :: "instant \<Rightarrow> nat \<Rightarrow> recording_marker list \<Rightarrow> terminal_recording_marker list" where
  "stored_markers now next ms =
     map (\<lambda>(i, m). recording_marker.extend m (terminal_recording_marker.fields i now)) (enumerate next ms)"

definition via_sessions :: "'a db \<Rightarrow> 'a booting" where
  "via_sessions m = (\<lambda>s.
     case m (session_view s) of
       (r, t) \<Rightarrow>
         let added = drop (length (rd_markers s)) (db_markers t)
         in (r, s\<lparr>rd_sessions := db_sessions t, bd_attachments := db_attachments t, bd_events := db_events t,
                  rd_markers := rd_markers s @ stored_markers (ac_now s) (db_next_id t) added,
                  ac_next_id := db_next_id t + length added, ac_faults := db_faults t\<rparr>))"

section \<open>The stages of the start\<close>

datatype boot_error =
    BE_Config string config_error
  | BE_Connect string
  | BE_Reconcile repository_error
  | BE_FirstUserState repository_error
  | BE_NoFirstUser
  | BE_RecordingWriterMissing
  | BE_Panic string
  | BE_Bind string

type_synonym 'a boot = "(boot_db, boot_error, 'a) prog"

record ('a, 'k) boot_env =
  bw_config :: "'a config_world"
  bw_connect :: "string \<Rightarrow> nat \<Rightarrow> string option"
  bw_vault :: "'k vault_env"
  bw_add_days :: day_shift
  bw_reconcile_at :: instant
  bw_sweep_at :: instant
  bw_bind :: "'a \<Rightarrow> string option"

record 'a app_state =
  app_manager :: manager
  app_vault_key :: "byte list option"
  app_auth_routes :: auth_routes_config
  app_worker :: "periodic_config option"
  app_listening_on :: 'a

definition from_result :: "string \<Rightarrow> config_error + 'v \<Rightarrow> 'v boot" where
  "from_result ctx r = (case r of Inl e \<Rightarrow> raiseP (BE_Config ctx e) | Inr v \<Rightarrow> retP v)"

definition validate_stages :: "'a config \<Rightarrow> unit boot" where
  "validate_stages cfg =
     bindP (from_result ''validate auth config'' (validate_auth cfg)) (\<lambda>_.
     bindP (from_result ''validate production secrets'' (validate_production_secrets cfg)) (\<lambda>_.
     bindP (from_result ''validate terminal recording config'' (validate_terminal_recording cfg)) (\<lambda>_.
     from_result ''validate terminal session config'' (validate_terminal_sessions cfg))))"

definition connect_stage :: "('a, 'k) boot_env \<Rightarrow> 'a config \<Rightarrow> unit boot" where
  "connect_stage env cfg =
     (case bw_connect env (dc_url (cf_database cfg)) (dc_max_connections (cf_database cfg)) of
        Some e \<Rightarrow> raiseP (BE_Connect e)
      | None \<Rightarrow> retP ())"

definition reconcile_stage :: "('a, 'k) boot_env \<Rightarrow> reconciled_session list boot" where
  "reconcile_stage env = mapErrP BE_Reconcile (via_sessions (reconcile_orphaned_on_startup (bw_reconcile_at env)))"

definition startup_sweep_stage :: "('a, 'k) boot_env \<Rightarrow> 'a config \<Rightarrow> unit boot" where
  "startup_sweep_stage env cfg =
     (let rec = cf_terminal_recording cfg; cleanup = rcf_cleanup rec
      in if cln_enabled cleanup \<and> cln_startup_sweep_enabled cleanup
         then modifyP (\<lambda>s. snd (run_recording_retention_startup_sweep (bw_add_days env) (rcf_retention_days rec)
                            (cln_batch_size cleanup) (bw_sweep_at env) s))
         else retP ())"

definition first_user_stage :: "'a config \<Rightarrow> unit boot" where
  "first_user_stage cfg =
     (if ath_mode (cf_auth cfg) = AM_Production \<and> ath_first_user_bootstrap_token (cf_auth cfg) = None
      then bindP (mapErrP BE_FirstUserState passwords_any_exists) (\<lambda>exists. guardP exists BE_NoFirstUser)
      else retP ())"

text \<open>\<open>cfg\<close> is mutable: the key sources are gone from the configuration that is returned.\<close>

definition vault_stage :: "('a, 'k) boot_env \<Rightarrow> 'a config \<Rightarrow> (byte list option \<times> 'a config) boot" where
  "vault_stage env cfg =
     (case vault_master_key (bw_vault env) (read_to_string (bw_config env)) cfg of
        (Inl e, _) \<Rightarrow> raiseP (BE_Config ''resolve vault master key'' e)
      | (Inr key, cfg') \<Rightarrow> retP (key, cfg'))"

definition build_recording_runtime :: "'a config \<Rightarrow> boot_error + recording_writer_config option" where
  "build_recording_runtime cfg =
     (let rec = cf_terminal_recording cfg
      in if \<not> rcf_enabled rec then Inr None
         else case ec_mode (rcf_encryption rec) of
                EM_Disabled \<Rightarrow> Inr (Some \<lparr>chunk_target_bytes = rcf_chunk_target_bytes rec,
                                        chunk_hard_cap_bytes = rcf_chunk_hard_cap_bytes rec\<rparr>)
              | EM_Required \<Rightarrow> Inl BE_RecordingWriterMissing)"

text \<open>\<open>NonZeroU32::new(n).expect(...)\<close>\<close>

definition non_zero :: "nat \<Rightarrow> nat boot" where
  "non_zero n = (if n = 0 then raiseP (BE_Panic ''validate_terminal_sessions rejects 0'') else retP n)"

definition manager_stage :: "'a config \<Rightarrow> manager boot" where
  "manager_stage cfg =
     (let ts = cf_terminal_sessions cfg in
      bindP (case build_recording_runtime cfg of Inl e \<Rightarrow> raiseP e | Inr r \<Rightarrow> retP r) (\<lambda>recording_runtime.
      bindP (non_zero (tsc_max_live_pty_sessions_per_user ts)) (\<lambda>max_live.
      bindP (non_zero (tsc_max_starting_sessions_per_user ts)) (\<lambda>max_starting.
      bindP (non_zero (tsc_max_live_pty_sessions_per_deployment ts)) (\<lambda>max_deployment.
      readP (\<lambda>s. (manager_new (session_view s) (detached_live_pty_ttl cfg))
        \<lparr>mg_max_live_pty_per_user := max_live, mg_max_starting_per_user := max_starting,
         mg_max_live_pty_per_deployment := max_deployment, mg_recording := recording_runtime\<rparr>))))))"

definition auth_routes_of :: "'a config \<Rightarrow> auth_routes_config" where
  "auth_routes_of cfg =
     \<lparr>rc_cookie_secure = ath_cookie_secure (cf_auth cfg), rc_cookie_domain = ath_cookie_domain (cf_auth cfg),
      rc_allowed_origins = ath_allowed_origins (cf_auth cfg),
      rc_bootstrap_token = ath_first_user_bootstrap_token (cf_auth cfg)\<rparr>"

definition worker_of :: "'a config \<Rightarrow> periodic_config option" where
  "worker_of cfg =
     (let rec = cf_terminal_recording cfg; cleanup = rcf_cleanup rec
      in periodic_worker_config_if_enabled (cln_enabled cleanup) (cln_periodic_sweep_enabled cleanup)
           (cln_sweep_interval_seconds cleanup) (rcf_retention_days rec) (cln_batch_size cleanup))"

definition bind_stage :: "('a, 'k) boot_env \<Rightarrow> 'a config \<Rightarrow> 'a boot" where
  "bind_stage env cfg =
     (let addr = svc_bind (cf_server cfg)
      in case bw_bind env addr of Some e \<Rightarrow> raiseP (BE_Bind e) | None \<Rightarrow> retP addr)"

definition boot_main :: "('a, 'k) boot_env \<Rightarrow> 'a app_state boot" where
  "boot_main env =
     bindP (from_result ''load config'' (config_load (bw_config env))) (\<lambda>cfg.
     bindP (validate_stages cfg) (\<lambda>_.
     bindP (connect_stage env cfg) (\<lambda>_.
     bindP (reconcile_stage env) (\<lambda>_.
     bindP (startup_sweep_stage env cfg) (\<lambda>_.
     bindP (first_user_stage cfg) (\<lambda>_.
     bindP (vault_stage env cfg) (\<lambda>(vault_key, cfg).
     bindP (manager_stage cfg) (\<lambda>mgr.
     bindP (bind_stage env cfg) (\<lambda>addr.
     retP \<lparr>app_manager = mgr, app_vault_key = vault_key, app_auth_routes = auth_routes_of cfg,
           app_worker = worker_of cfg, app_listening_on = addr\<rparr>)))))))))"

section \<open>What the validators accept\<close>

text \<open>The documented configurations, field by field.\<close>

definition sound_auth :: "auth_config \<Rightarrow> bool" where
  "sound_auth a \<longleftrightarrow> (ath_mode a = AM_Production \<longrightarrow>
     (ath_session_signing_key_b64 a = None) \<noteq> (ath_session_signing_key_file a = None)
     \<and> ath_allowed_origins a \<noteq> [] \<and> ath_cookie_secure a)"

definition no_placeholder :: "'a config \<Rightarrow> bool" where
  "no_placeholder c \<longleftrightarrow> (ath_mode (cf_auth c) = AM_Production \<longrightarrow>
     (\<forall>v \<in> set_option (ath_session_signing_key_b64 (cf_auth c)) \<union> set_option (ath_first_user_bootstrap_token (cf_auth c))
         \<union> {dc_url (cf_database c)} \<union> set_option (vc_master_key_b64 (cf_vault c))
         \<union> set_option (ec_master_key_b64 (rcf_encryption (cf_terminal_recording c))).
        \<not> str_contains ''CHANGE_ME'' v))"

definition sound_cleanup :: "recording_cleanup_config \<Rightarrow> bool" where
  "sound_cleanup l \<longleftrightarrow> 1 \<le> cln_batch_size l \<and> cln_batch_size l \<le> 10000
     \<and> (cln_sweep_interval_seconds l = 0 \<or> 60 \<le> cln_sweep_interval_seconds l \<and> cln_sweep_interval_seconds l \<le> 604800)
     \<and> (cln_periodic_sweep_enabled l \<longrightarrow> cln_sweep_interval_seconds l \<noteq> 0)"

definition sound_encryption :: "auth_mode \<Rightarrow> recording_encryption_config \<Rightarrow> vault_config \<Rightarrow> bool" where
  "sound_encryption mode e v \<longleftrightarrow>
     (case ec_mode e of
        EM_Disabled \<Rightarrow> mode = AM_Dev \<and> ec_master_key_b64 e = None \<and> ec_master_key_file e = None
      | EM_Required \<Rightarrow> (ec_master_key_b64 e = None) \<noteq> (ec_master_key_file e = None))
     \<and> (ec_master_key_b64 e \<noteq> None \<longrightarrow> ec_master_key_b64 e \<noteq> vc_master_key_b64 v)
     \<and> (ec_master_key_file e \<noteq> None \<longrightarrow> ec_master_key_file e \<noteq> vc_master_key_file v)"

definition sound_recording :: "'a config \<Rightarrow> bool" where
  "sound_recording c \<longleftrightarrow> (let r = cf_terminal_recording c in
     1 \<le> rcf_retention_days r \<and> rcf_retention_days r \<le> 3650
     \<and> 1114112 \<le> rcf_chunk_hard_cap_bytes r
     \<and> 1 \<le> rcf_chunk_target_bytes r \<and> rcf_chunk_target_bytes r \<le> rcf_chunk_hard_cap_bytes r
     \<and> rcf_chunk_hard_cap_bytes r \<le> rcf_max_bytes_per_session r \<and> rcf_max_bytes_per_session r \<le> 2 ^ 40
     \<and> sound_cleanup (rcf_cleanup r)
     \<and> (rcf_enabled r \<longrightarrow> sound_encryption (ath_mode (cf_auth c)) (rcf_encryption r) (cf_vault c)))"

definition sound_sessions :: "sessions_config \<Rightarrow> bool" where
  "sound_sessions t \<longleftrightarrow>
     5 \<le> tsc_detached_live_pty_ttl_seconds t \<and> tsc_detached_live_pty_ttl_seconds t \<le> 86400
     \<and> 1 \<le> tsc_max_live_pty_sessions_per_user t \<and> tsc_max_live_pty_sessions_per_user t \<le> 256
     \<and> 1 \<le> tsc_max_starting_sessions_per_user t \<and> tsc_max_starting_sessions_per_user t \<le> 32
     \<and> tsc_max_live_pty_sessions_per_user t \<le> tsc_max_live_pty_sessions_per_deployment t
     \<and> tsc_max_starting_sessions_per_user t \<le> tsc_max_live_pty_sessions_per_deployment t
     \<and> tsc_max_live_pty_sessions_per_deployment t \<le> 4096"

definition sound_config :: "'a config \<Rightarrow> bool" where
  "sound_config c \<longleftrightarrow> sound_auth (cf_auth c) \<and> no_placeholder c \<and> sound_recording c \<and> sound_sessions (cf_terminal_sessions c)"

lemma bail_on_Inr: "bail_on gs = Inr u \<longleftrightarrow> (\<forall>g \<in> set gs. \<not> fst g)"
  by (induction gs) (simp_all split: prod.split)

lemma and_then_Inr: "and_then r k = Inr u \<longleftrightarrow> r = Inr () \<and> k = Inr ()"
  by (cases r) (simp_all add: and_then_def)

lemma validate_auth_iff: "validate_auth c = Inr u \<longleftrightarrow> sound_auth (cf_auth c)"
  by (cases "ath_mode (cf_auth c)") (auto simp: validate_auth_def sound_auth_def Let_def bail_on_Inr)

lemma validate_production_secrets_iff: "validate_production_secrets c = Inr u \<longleftrightarrow> no_placeholder c"
  by (auto simp: validate_production_secrets_def no_placeholder_def bail_on_Inr opt_placeholder_def
      contains_production_placeholder_def PRODUCTION_PLACEHOLDER_MARKER_def split: option.split)

lemma validate_cleanup_iff: "validate_terminal_recording_cleanup l = Inr u \<longleftrightarrow> sound_cleanup l"
  by (auto simp: validate_terminal_recording_cleanup_def sound_cleanup_def bail_on_Inr recording_bounds)

lemma recording_mode_iff:
  "recording_mode_check mode e = Inr u \<longleftrightarrow>
     (case ec_mode e of
        EM_Disabled \<Rightarrow> mode = AM_Dev \<and> ec_master_key_b64 e = None \<and> ec_master_key_file e = None
      | EM_Required \<Rightarrow> (ec_master_key_b64 e = None) \<noteq> (ec_master_key_file e = None))"
  by (cases mode; cases "ec_mode e") (auto simp: recording_mode_check_def Let_def bail_on_Inr)

lemma both_equal_iff: "both_equal x y \<longleftrightarrow> x \<noteq> None \<and> x = y"
  by (auto simp: both_equal_def split: option.split)

lemma encryption_iff:
  "and_then (recording_mode_check mode e)
     (bail_on [(both_equal (ec_master_key_b64 e) (vc_master_key_b64 v), e1), (both_equal (ec_master_key_file e) (vc_master_key_file v), e2)])
     = Inr u \<longleftrightarrow> sound_encryption mode e v"
  unfolding and_then_Inr recording_mode_iff bail_on_Inr both_equal_iff sound_encryption_def list.set ball_simps fst_conv
  by blast

lemma validate_recording_iff: "validate_terminal_recording c = Inr u \<longleftrightarrow> sound_recording c"
proof -
  have "recording_numbers r = Inr () \<longleftrightarrow>
     1 \<le> rcf_retention_days r \<and> rcf_retention_days r \<le> 3650 \<and> 1114112 \<le> rcf_chunk_hard_cap_bytes r
     \<and> 1 \<le> rcf_chunk_target_bytes r \<and> rcf_chunk_target_bytes r \<le> rcf_chunk_hard_cap_bytes r
     \<and> rcf_chunk_hard_cap_bytes r \<le> rcf_max_bytes_per_session r \<and> rcf_max_bytes_per_session r \<le> 2 ^ 40" for r
    by (auto simp: recording_numbers_def bail_on_Inr recording_bounds)
  then show ?thesis
    by (simp add: validate_terminal_recording_def sound_recording_def Let_def and_then_Inr [of "recording_numbers r" for r]
        and_then_Inr [of "validate_terminal_recording_cleanup l" for l] validate_cleanup_iff encryption_iff
        del: bail_on.simps)
qed

lemma validate_sessions_iff: "validate_terminal_sessions c = Inr u \<longleftrightarrow> sound_sessions (cf_terminal_sessions c)"
  by (auto simp: validate_terminal_sessions_def sound_sessions_def Let_def bail_on_Inr session_bounds)

lemma from_result_run:
  "from_result ctx r s = (case r of Inl e \<Rightarrow> (Inl (BE_Config ctx e), s) | Inr v \<Rightarrow> (Inr v, s))"
  by (simp add: from_result_def split: sum.split)

lemma from_result_Inr_iff: "from_result ctx r s = (Inr v, t) \<longleftrightarrow> r = Inr v \<and> t = s"
  by (auto simp: from_result_run split: sum.splits)

lemma validate_stages_iff: "validate_stages c s = (Inr u, t) \<longleftrightarrow> sound_config c \<and> t = s"
  by (auto simp: validate_stages_def Inr_iffs from_result_Inr_iff validate_auth_iff validate_production_secrets_iff
      validate_recording_iff validate_sessions_iff sound_config_def)

section \<open>What a started backend is\<close>

lemma startup_sweep_keeps:
  assumes "distinct (map ts_id (rd_sessions s))" and "startup_sweep_stage env cfg s = (Inr u, t)"
  shows "rd_sessions t = rd_sessions s" and "ac_passwords t = ac_passwords s"
proof -
  let ?rec = "cf_terminal_recording cfg"
  obtain rs fs where sw: "snd (run_recording_retention_sweep (bw_add_days env) (rcf_retention_days ?rec)
      (cln_batch_size (rcf_cleanup ?rec)) (bw_sweep_at env) s)
    = purged_state (rcf_retention_days ?rec) (bw_sweep_at env) rs (s\<lparr>ac_faults := fs\<rparr>)"
    by (rule sweep_frame [OF assms(1)])
  show "rd_sessions t = rd_sessions s" "ac_passwords t = ac_passwords s"
    using assms(2)
    by (auto simp: sw startup_sweep_stage_def Let_def run_recording_retention_startup_sweep_def purged_state_def
        split: if_splits)
qed

lemma reconcile_stage_closes:
  assumes "distinct (map ts_id (rd_sessions s))" and "reconcile_stage env s = (Inr rs, t)"
  shows "\<forall>r \<in> set (rd_sessions t). ts_status r = TS_Closed" and "map ts_id (rd_sessions t) = map ts_id (rd_sessions s)"
    and "ac_passwords t = ac_passwords s"
proof -
  let ?v = "session_view s"
  have f: "orphaned (?v\<lparr>db_faults := fs\<rparr>) = orphaned ?v" for fs by (simp add: orphaned_def)
  have t: "rd_sessions t = map (\<lambda>r. if ts_id r \<in> ts_id ` set (orphaned ?v) then close_row (bw_reconcile_at env) (db_now ?v) r
        else r) (db_sessions ?v)" "ac_passwords t = ac_passwords s"
    using assms(2)
    by (auto simp: reconcile_stage_def mapErrP_Inr_iff via_sessions_def reconcile_orphaned_on_startup_def db_call_def Let_def
        f reconcile_fold_fields split: list.splits option.splits prod.splits)
  have v: "distinct (map ts_id (db_sessions ?v))" using assms(1) by (simp add: session_view_def)
  have "ts_status r \<noteq> TS_Closed \<Longrightarrow> r \<in> set (db_sessions ?v) \<Longrightarrow> ts_id r \<in> ts_id ` set (orphaned ?v)" for r
    using orphaned_iff [OF v] by blast
  then show "\<forall>r \<in> set (rd_sessions t). ts_status r = TS_Closed"
    unfolding t(1) by (auto simp: close_row_def)
  show "map ts_id (rd_sessions t) = map ts_id (rd_sessions s)" "ac_passwords t = ac_passwords s"
    unfolding t by (simp_all add: session_view_def comp_def if_distrib [of ts_id] cong: if_cong)
qed

lemma first_user_stage_reachable:
  assumes "first_user_stage cfg s = (Inr u, t)" and "ath_mode (cf_auth cfg) = AM_Production"
  shows "ath_first_user_bootstrap_token (cf_auth cfg) \<noteq> None \<or> ac_passwords t \<noteq> []"
  using assms
  by (auto simp: first_user_stage_def Inr_iffs passwords_any_exists_def acc_call_def split: if_splits list.splits option.splits)

lemma first_user_stage_frame: "first_user_stage cfg s = (Inr u, t) \<Longrightarrow> rd_sessions t = rd_sessions s"
  by (auto simp: first_user_stage_def Inr_iffs passwords_any_exists_def acc_call_def split: if_splits list.splits option.splits)

lemma vault_stage_result:
  assumes "vault_stage env cfg s = (Inr (key, cfg'), t)"
  shows "t = s" and "cfg' = cfg\<lparr>cf_vault := (cf_vault cfg)\<lparr>vc_master_key_b64 := None, vc_master_key_file := None\<rparr>\<rparr>"
    and "key = None \<longleftrightarrow> \<not> vc_enabled (cf_vault cfg)" and "key = Some k \<Longrightarrow> length k = 32"
  using assms
  by (auto simp: vault_stage_def vault_master_key_def bindP_def master_key_from_file_def master_key_from_base64_def Let_def
      MASTER_KEY_LEN_def split: prod.splits sum.splits option.splits if_splits)

lemma manager_stage_result:
  assumes "sound_sessions (cf_terminal_sessions cfg)"
  shows "manager_stage cfg s =
     (case build_recording_runtime cfg of
        Inl e \<Rightarrow> (Inl e, s)
      | Inr r \<Rightarrow> (Inr ((manager_new (session_view s) (detached_live_pty_ttl cfg))
          \<lparr>mg_max_live_pty_per_user := tsc_max_live_pty_sessions_per_user (cf_terminal_sessions cfg),
           mg_max_starting_per_user := tsc_max_starting_sessions_per_user (cf_terminal_sessions cfg),
           mg_max_live_pty_per_deployment := tsc_max_live_pty_sessions_per_deployment (cf_terminal_sessions cfg),
           mg_recording := r\<rparr>), s))"
  using assms
  by (auto simp: manager_stage_def Let_def bindP_def non_zero_def sound_sessions_def split: sum.split)

lemma connect_bind_frame:
  "connect_stage env cfg s = (Inr u, t) \<Longrightarrow> t = s" "bind_stage env cfg s = (Inr a, t) \<Longrightarrow> t = s"
  by (auto simp: connect_stage_def bind_stage_def Let_def split: option.splits)

text \<open>The stages a successful start has gone through, with the states between them.\<close>

lemma boot_mainE:
  assumes "boot_main env s = (Inr app, t)"
  obtains cfg s1 rs s2 u v where "config_load (bw_config env) = Inr cfg" and "sound_config cfg"
    and "reconcile_stage env s = (Inr rs, s1)" and "startup_sweep_stage env cfg s1 = (Inr u, s2)"
    and "first_user_stage cfg s2 = (Inr v, t)"
    and "vault_stage env cfg t = (Inr (app_vault_key app, cfg\<lparr>cf_vault := (cf_vault cfg)\<lparr>vc_master_key_b64 := None, vc_master_key_file := None\<rparr>\<rparr>), t)"
    and "manager_stage cfg t = (Inr (app_manager app), t)"
    and "app_auth_routes app = auth_routes_of cfg" and "app_worker app = worker_of cfg"
  using assms
  unfolding boot_main_def bindP_Inr_iff from_result_Inr_iff validate_stages_iff case_prod_beta retP_run prod.inject
    sum.inject
proof (elim exE conjE)
  fix cfg sa ua sb ub s0 rs s1 u2 s2 u3 s3 kc s4 mgr s5 addr s6
  assume b: "config_load (bw_config env) = Inr cfg" "sound_config cfg" and eq: "sa = s" "sb = sa" "s6 = t"
    and c: "connect_stage env cfg sb = (Inr ub, s0)" "reconcile_stage env s0 = (Inr rs, s1)"
      "startup_sweep_stage env cfg s1 = (Inr u2, s2)" "first_user_stage cfg s2 = (Inr u3, s3)"
      "vault_stage env cfg s3 = (Inr kc, s4)" "manager_stage (snd kc) s4 = (Inr mgr, s5)"
      "bind_stage env (snd kc) s5 = (Inr addr, s6)"
    and app: "\<lparr>app_manager = mgr, app_vault_key = fst kc, app_auth_routes = auth_routes_of (snd kc),
      app_worker = worker_of (snd kc), app_listening_on = addr\<rparr> = app"
  have kc: "vault_stage env cfg s3 = (Inr (fst kc, snd kc), s4)" using c(5) by simp
  note v = vault_stage_result(1,2) [OF kc]
  have m: "manager_stage (snd kc) s4 = manager_stage cfg s4"
    unfolding v(2) by (simp add: manager_stage_def build_recording_runtime_def detached_live_pty_ttl_def Let_def)
  have e: "s0 = s" "s5 = t" using connect_bind_frame c(1,7) eq by metis+
  have "s4 = s5"
    using c(6) b(2) unfolding m by (simp add: manager_stage_result sound_config_def split: sum.splits)
  with e v(1) have t: "s4 = t" "s3 = t" by simp_all
  show thesis
  proof (rule that [OF b])
    show "reconcile_stage env s = (Inr rs, s1)" "startup_sweep_stage env cfg s1 = (Inr u2, s2)"
      using c(2,3) e(1) by simp_all
    show "first_user_stage cfg s2 = (Inr u3, t)" using c(4) t by simp
    show "vault_stage env cfg t = (Inr (app_vault_key app, cfg\<lparr>cf_vault := (cf_vault cfg)
        \<lparr>vc_master_key_b64 := None, vc_master_key_file := None\<rparr>\<rparr>), t)"
      using kc t v(2) app by auto
    show "manager_stage cfg t = (Inr (app_manager app), t)" using c(6) m t e(2) app by auto
    show "app_auth_routes app = auth_routes_of cfg" "app_worker app = worker_of cfg"
      using app v(2) by (auto simp: auth_routes_of_def worker_of_def Let_def)
  qed
qed

lemma production_never_records:
  assumes "sound_config cfg" and "ath_mode (cf_auth cfg) = AM_Production" and "build_recording_runtime cfg = Inr r"
  shows "r = None"
  using assms
  by (auto simp: sound_config_def sound_recording_def sound_encryption_def build_recording_runtime_def Let_def
      split: if_splits encryption_mode.splits)

lemma worker_of_sound:
  assumes "sound_config cfg" and "worker_of cfg = Some w"
  shows "1 \<le> pf_batch_size w" and "pf_retention_days w \<le> 3650"
    and "seconds 60 \<le> pf_interval w \<and> pf_interval w \<le> seconds 604800"
  using assms
  by (auto simp: worker_of_def periodic_worker_config_if_enabled_def sound_config_def sound_recording_def sound_cleanup_def
      seconds_def Let_def split: if_splits)


text \<open>
  A production start: the environment selects production mode with a signing key, one origin and
  a vault key, the tables hold a user and a session a crashed process left active.
\<close>

definition demo_getenv :: "string \<Rightarrow> string option" where
  "demo_getenv = map_of
     [(''RELAYTERM_AUTH__MODE'', ''production''), (''RELAYTERM_AUTH__SESSION_SIGNING_KEY_B64'', ''c2lnbg=''),
      (''RELAYTERM_AUTH__ALLOWED_ORIGINS'', ''https://relay.lan, ,''), (''RELAYTERM_VAULT__MASTER_KEY_B64'', '' a2V5 ''),
      (''RELAYTERM_TERMINAL_SESSIONS__MAX_LIVE_PTY_SESSIONS_PER_USER'', ''+16'')]"

definition demo_boot_env :: "(nat, string) boot_env" where
  "demo_boot_env =
     \<lparr>bw_config = \<lparr>cw_getenv = demo_getenv, cw_file = (\<lambda>_. None), cw_toml = (\<lambda>_. Inl ''toml''),
        cw_parse_addr = (\<lambda>_. None), cw_default_addr = 8080\<rparr>,
      bw_connect = (\<lambda>_ _. None), bw_vault = demo_vault\<lparr>ve_base64_decode := (\<lambda>_. Inr (replicate 32 7))\<rparr>,
      bw_add_days = ten_per_day, bw_reconcile_at = 600, bw_sweep_at = 600, bw_bind = (\<lambda>_. None)\<rparr>"

definition demo_boot_db :: boot_db where
  "demo_boot_db = retention_state.extend
     (demo_recordings\<lparr>ac_passwords := [\<lparr>pc_user_id = 7, pc_password_hash = ''h'', pc_password_changed_at = 0, pc_created_at = 0,
                                  pc_updated_at = 0\<rparr>],
                      rd_sessions := [demo_row 1 (Some 90), (demo_row 3 None)\<lparr>ts_status := TS_Active\<rparr>]\<rparr>)
     (boot_db.fields [] [])"


lemma validate_stages_fails:
  "\<not> sound_config cfg \<Longrightarrow> \<exists>ctx e. validate_stages cfg s = (Inl (BE_Config ctx e), s)"
  using validate_stages_iff [of cfg s "()" s]
  by (auto simp: validate_stages_def bindP_def from_result_run split: sum.splits)

lemma stages_do_not_panic:
  "fst (validate_stages cfg s) \<noteq> Inl (BE_Panic m)" "fst (connect_stage env cfg s) \<noteq> Inl (BE_Panic m)"
  "fst (reconcile_stage env s) \<noteq> Inl (BE_Panic m)" "fst (startup_sweep_stage env cfg s) \<noteq> Inl (BE_Panic m)"
  "fst (first_user_stage cfg s) \<noteq> Inl (BE_Panic m)" "fst (vault_stage env cfg s) \<noteq> Inl (BE_Panic m)"
  "fst (bind_stage env cfg s) \<noteq> Inl (BE_Panic m)"
proof -
  show "fst (validate_stages cfg s) \<noteq> Inl (BE_Panic m)"
    by (simp add: validate_stages_def bindP_def from_result_run split: sum.splits)
  show "fst (connect_stage env cfg s) \<noteq> Inl (BE_Panic m)" by (simp add: connect_stage_def split: option.splits)
  show "fst (reconcile_stage env s) \<noteq> Inl (BE_Panic m)"
    by (simp add: reconcile_stage_def mapErrP_def split: prod.splits sum.splits)
  show "fst (startup_sweep_stage env cfg s) \<noteq> Inl (BE_Panic m)" by (simp add: startup_sweep_stage_def Let_def)
  show "fst (first_user_stage cfg s) \<noteq> Inl (BE_Panic m)"
    by (simp add: first_user_stage_def bindP_def mapErrP_def guardP_def split: prod.splits sum.splits)
  show "fst (vault_stage env cfg s) \<noteq> Inl (BE_Panic m)" by (simp add: vault_stage_def split: prod.splits sum.splits)
  show "fst (bind_stage env cfg s) \<noteq> Inl (BE_Panic m)" by (simp add: bind_stage_def Let_def split: option.splits)
qed

lemma bindP_no_panic:
  "fst (m s) \<noteq> Inl p \<Longrightarrow> (\<And>x t. m s = (Inr x, t) \<Longrightarrow> fst (k x t) \<noteq> Inl p) \<Longrightarrow> fst (bindP m k s) \<noteq> Inl p"
  by (auto simp: bindP_def split: prod.splits sum.splits)

lemma manager_stage_no_panic:
  assumes "sound_config cfg" and "vault_stage env cfg s = (Inr (key, cfg'), t)"
  shows "fst (manager_stage cfg' t) \<noteq> Inl (BE_Panic m)"
proof -
  from vault_stage_result(2) [OF assms(2)] assms(1) have "sound_sessions (cf_terminal_sessions cfg')"
    by (simp add: sound_config_def)
  then show ?thesis
    by (simp add: manager_stage_result build_recording_runtime_def Let_def split: sum.splits encryption_mode.splits if_splits)
qed



end
