(* ===== verification/Row_Mapping.thy ===== *)
theory Row_Mapping
  imports Catalog_Store Recording_Store
begin

text \<open>
  The row structs of \<^verbatim>\<open>relayterm-db/src/rows.rs\<close>, with the columns PostgreSQL returns, and their
  conversions to the domain records; the columns the repositories bind when they insert; the
  \<open>CHECK\<close> constraints of the migrations on those columns; and the error mapping of
  \<^verbatim>\<open>relayterm-db/src/error.rs\<close>. A \<open>Uuid\<close> is its number, an \<open>i32\<close> or \<open>i64\<close> an integer.
\<close>

section \<open>Database errors\<close>

text \<open>What the driver reports: the two violations it recognises, other database errors, and the rest.\<close>

datatype sqlx_error =
    SQ_RowNotFound
  | SQ_UniqueViolation "string option"
  | SQ_ForeignKeyViolation "string option"
  | SQ_Database "string option"
  | SQ_Other string

definition unwrap_or :: "'v option \<Rightarrow> 'v \<Rightarrow> 'v" where
  "unwrap_or v d = (case v of None \<Rightarrow> d | Some x \<Rightarrow> x)"

definition map_sqlx_error :: "string \<Rightarrow> sqlx_error \<Rightarrow> repository_error" where
  "map_sqlx_error entity err =
     (case err of
        SQ_RowNotFound \<Rightarrow> RE_NotFound entity
      | SQ_UniqueViolation c \<Rightarrow> RE_Conflict entity (unwrap_or c ''unique'')
      | SQ_ForeignKeyViolation c \<Rightarrow> RE_Conflict entity (unwrap_or c ''foreign_key'')
      | SQ_Database c \<Rightarrow> RE_Database (entity @ '': database constraint failed ('' @ unwrap_or c ''unknown'' @ '')'')
      | SQ_Other other \<Rightarrow> RE_Database (entity @ '': '' @ other))"

section \<open>Rows without conversions\<close>

record user_row =
  ur_id :: nat
  ur_email :: string
  ur_display_name :: string
  ur_created_at :: instant
  ur_last_login_at :: "instant option"

definition user_into_domain :: "user_row \<Rightarrow> user" where
  "user_into_domain r =
     \<lparr>us_id = ur_id r, us_email = ur_email r, us_display_name = ur_display_name r, us_created_at = ur_created_at r,
      us_last_login_at = ur_last_login_at r\<rparr>"

record password_credential_row =
  pr_user_id :: nat
  pr_password_hash :: string
  pr_password_changed_at :: instant
  pr_created_at :: instant
  pr_updated_at :: instant

definition credential_into_domain :: "password_credential_row \<Rightarrow> password_credential" where
  "credential_into_domain r =
     \<lparr>pc_user_id = pr_user_id r, pc_password_hash = pr_password_hash r, pc_password_changed_at = pr_password_changed_at r,
      pc_created_at = pr_created_at r, pc_updated_at = pr_updated_at r\<rparr>"

record user_session_row =
  wr_id :: nat
  wr_user_id :: nat
  wr_token_hash :: "byte list"
  wr_created_at :: instant
  wr_last_seen_at :: instant
  wr_expires_at :: instant
  wr_revoked_at :: "instant option"
  wr_revoked_reason :: "string option"

definition user_session_into_domain :: "user_session_row \<Rightarrow> user_session" where
  "user_session_into_domain r =
     \<lparr>ws_id = wr_id r, ws_user_id = wr_user_id r, ws_token_hash = wr_token_hash r, ws_created_at = wr_created_at r,
      ws_last_seen_at = wr_last_seen_at r, ws_expires_at = wr_expires_at r, ws_revoked_at = wr_revoked_at r,
      ws_revoked_reason = wr_revoked_reason r\<rparr>"

record attachment_row_struct =
  tr_id :: nat
  tr_session_id :: nat
  tr_attached_at :: instant
  tr_detached_at :: "instant option"
  tr_client_info :: "string option"
  tr_remote_addr :: "string option"
  tr_last_seen_seq :: "int option"

definition attachment_into_domain :: "attachment_row_struct \<Rightarrow> session_attachment" where
  "attachment_into_domain r =
     \<lparr>sa_id = tr_id r, sa_session_id = tr_session_id r, sa_attached_at = tr_attached_at r, sa_detached_at = tr_detached_at r,
      sa_client_info = tr_client_info r, sa_remote_addr = tr_remote_addr r, sa_last_seen_seq = tr_last_seen_seq r\<rparr>"

text \<open>The validated newtypes of a profile are rebuilt without a check.\<close>

record server_profile_row =
  qr_id :: nat
  qr_owner_id :: nat
  qr_name :: string
  qr_host_id :: nat
  qr_ssh_identity_id :: nat
  qr_username_override :: "string option"
  qr_tags :: "string list"
  qr_created_at :: instant
  qr_updated_at :: instant
  qr_last_connected_at :: "instant option"
  qr_disabled_at :: "instant option"

definition profile_into_domain :: "server_profile_row \<Rightarrow> server_profile" where
  "profile_into_domain r =
     \<lparr>sp_id = qr_id r, sp_owner_id = qr_owner_id r, sp_name = qr_name r, sp_host_id = qr_host_id r,
      sp_ssh_identity_id = qr_ssh_identity_id r, sp_username_override = qr_username_override r, sp_tags = qr_tags r,
      sp_created_at = qr_created_at r, sp_updated_at = qr_updated_at r, sp_last_connected_at = qr_last_connected_at r,
      sp_disabled_at = qr_disabled_at r\<rparr>"

section \<open>Rows with conversions\<close>

definition show_int :: "int \<Rightarrow> string" where
  "show_int n = (if n < 0 then ''-'' @ show_nat (nat (- n)) else show_nat (nat n))"

definition u16_try_from :: "int \<Rightarrow> nat option" where
  "u16_try_from n = (if 0 \<le> n \<and> n \<le> 65535 then Some (nat n) else None)"

text \<open>\<open>ok_or_else(|| RepositoryError::Database(format!("row integrity: ..., value")))\<close>\<close>

definition integrity_or :: "'v option \<Rightarrow> string \<Rightarrow> string \<Rightarrow> repository_error + 'v" where
  "integrity_or v what shown =
     (case v of Some x \<Rightarrow> Inr x | None \<Rightarrow> Inl (RE_Database (''row integrity: '' @ what @ '' ('' @ shown @ '')'')))"

definition bindS :: "'e + 'a \<Rightarrow> ('a \<Rightarrow> 'e + 'b) \<Rightarrow> 'e + 'b" where
  "bindS r k = (case r of Inl e \<Rightarrow> Inl e | Inr x \<Rightarrow> k x)"

record host_row_struct =
  hr_id :: nat
  hr_owner_id :: nat
  hr_display_name :: string
  hr_hostname :: string
  hr_port :: int
  hr_default_username :: string
  hr_created_at :: instant
  hr_updated_at :: instant

definition host_try_into_domain :: "host_row_struct \<Rightarrow> repository_error + host" where
  "host_try_into_domain r =
     bindS (integrity_or (u16_try_from (hr_port r)) ''host.port out of u16 range'' (show_int (hr_port r))) (\<lambda>port.
     if port = 0 then Inl (RE_Database ''row integrity: host.port (zero is not a valid SSH port)'')
     else Inr \<lparr>ho_id = hr_id r, ho_owner_id = hr_owner_id r, ho_display_name = hr_display_name r, ho_hostname = hr_hostname r,
               ho_port = port, ho_default_username = hr_default_username r, ho_created_at = hr_created_at r,
               ho_updated_at = hr_updated_at r\<rparr>)"

definition host_columns :: "host \<Rightarrow> host_row_struct" where
  "host_columns h =
     \<lparr>hr_id = ho_id h, hr_owner_id = ho_owner_id h, hr_display_name = ho_display_name h, hr_hostname = ho_hostname h,
      hr_port = int (ho_port h), hr_default_username = ho_default_username h, hr_created_at = ho_created_at h,
      hr_updated_at = ho_updated_at h\<rparr>"

definition hosts_chk :: "host_row_struct \<Rightarrow> bool" where
  "hosts_chk r = (1 \<le> hr_port r \<and> hr_port r \<le> 65535)"

definition key_type_chk :: "string \<Rightarrow> bool" where
  "key_type_chk t = (t \<in> set [''ed25519'', ''rsa'', ''ecdsa_p256'', ''ecdsa_p384'', ''ecdsa_p521''])"

record ssh_identity_row =
  ir_id :: nat
  ir_owner_id :: nat
  ir_name :: string
  ir_key_type :: string
  ir_public_key :: "byte list"
  ir_encrypted_private_key :: "byte list"
  ir_fingerprint_sha256 :: string
  ir_created_at :: instant
  ir_last_used_at :: "instant option"

definition identity_try_into_domain :: "ssh_identity_row \<Rightarrow> repository_error + ssh_identity" where
  "identity_try_into_domain r =
     bindS (integrity_or (key_type_from_str_tag (ir_key_type r)) ''ssh_identity.key_type unknown'' (ir_key_type r)) (\<lambda>key_type.
     Inr \<lparr>si_id = ir_id r, si_owner_id = ir_owner_id r, si_name = ir_name r, si_key_type = key_type,
          si_public_key = ir_public_key r, si_encrypted_private_key = ir_encrypted_private_key r,
          si_fingerprint_sha256 = ir_fingerprint_sha256 r, si_created_at = ir_created_at r,
          si_last_used_at = ir_last_used_at r\<rparr>)"

definition identity_columns :: "ssh_identity \<Rightarrow> ssh_identity_row" where
  "identity_columns i =
     \<lparr>ir_id = si_id i, ir_owner_id = si_owner_id i, ir_name = si_name i, ir_key_type = key_type_as_str (si_key_type i),
      ir_public_key = si_public_key i, ir_encrypted_private_key = si_encrypted_private_key i,
      ir_fingerprint_sha256 = si_fingerprint_sha256 i, ir_created_at = si_created_at i, ir_last_used_at = si_last_used_at i\<rparr>"

record known_host_entry_row =
  kr_id :: nat
  kr_host_id :: nat
  kr_key_type :: string
  kr_fingerprint_sha256 :: string
  kr_public_key :: "byte list"
  kr_first_seen_at :: instant
  kr_trusted_at :: "instant option"
  kr_revoked_at :: "instant option"
  kr_revoked_by :: "nat option"
  kr_revoked_reason_code :: "string option"
  kr_replaced_by_id :: "nat option"

definition entry_try_into_domain :: "known_host_entry_row \<Rightarrow> repository_error + known_host_entry" where
  "entry_try_into_domain r =
     bindS (integrity_or (key_type_from_str_tag (kr_key_type r)) ''known_host_entry.key_type unknown'' (kr_key_type r)) (\<lambda>key_type.
     bindS (case kr_revoked_reason_code r of
              None \<Rightarrow> Inr None
            | Some tag \<Rightarrow> bindS (integrity_or (revocation_reason_from_str_tag tag)
                                  ''known_host_entry.revoked_reason_code unknown'' tag) (\<lambda>reason. Inr (Some reason))) (\<lambda>reason_code.
     Inr \<lparr>kh_id = kr_id r, kh_host_id = kr_host_id r, kh_key_type = key_type,
          kh_fingerprint_sha256 = kr_fingerprint_sha256 r, kh_public_key = kr_public_key r,
          kh_first_seen_at = kr_first_seen_at r, kh_trusted_at = kr_trusted_at r, kh_revoked_at = kr_revoked_at r,
          kh_revoked_by = kr_revoked_by r, kh_revoked_reason_code = reason_code, kh_replaced_by_id = kr_replaced_by_id r\<rparr>))"

definition entry_columns :: "known_host_entry \<Rightarrow> known_host_entry_row" where
  "entry_columns e =
     \<lparr>kr_id = kh_id e, kr_host_id = kh_host_id e, kr_key_type = key_type_as_str (kh_key_type e),
      kr_fingerprint_sha256 = kh_fingerprint_sha256 e, kr_public_key = kh_public_key e,
      kr_first_seen_at = kh_first_seen_at e, kr_trusted_at = kh_trusted_at e, kr_revoked_at = kh_revoked_at e,
      kr_revoked_by = kh_revoked_by e, kr_revoked_reason_code = map_option revocation_reason_as_str (kh_revoked_reason_code e),
      kr_replaced_by_id = kh_replaced_by_id e\<rparr>"

definition revoked_reason_chk :: "string option \<Rightarrow> bool" where
  "revoked_reason_chk v =
     (case v of None \<Rightarrow> True
      | Some t \<Rightarrow> t \<in> set [''server_reinstalled'', ''host_key_rotated'', ''lab_target_recreated'', ''operator_other''])"

definition revoked_columns_set_together :: "known_host_entry_row \<Rightarrow> bool" where
  "revoked_columns_set_together r =
     ((kr_revoked_at r = None \<and> kr_revoked_by r = None \<and> kr_revoked_reason_code r = None)
      \<or> (kr_revoked_at r \<noteq> None \<and> kr_revoked_by r \<noteq> None \<and> kr_revoked_reason_code r \<noteq> None))"

definition known_host_entries_chk :: "known_host_entry_row \<Rightarrow> bool" where
  "known_host_entries_chk r =
     (key_type_chk (kr_key_type r) \<and> revoked_reason_chk (kr_revoked_reason_code r) \<and> revoked_columns_set_together r)"

record terminal_session_row =
  xr_id :: nat
  xr_owner_id :: nat
  xr_server_profile_id :: nat
  xr_status :: string
  xr_cols :: int
  xr_rows :: int
  xr_created_at :: instant
  xr_last_seen_at :: instant
  xr_closed_at :: "instant option"

definition session_try_into_domain :: "terminal_session_row \<Rightarrow> repository_error + terminal_session" where
  "session_try_into_domain r =
     bindS (integrity_or (status_from_str_tag (xr_status r)) ''terminal_session.status unknown'' (xr_status r)) (\<lambda>status.
     bindS (integrity_or (u16_try_from (xr_cols r)) ''terminal_session.cols out of u16 range'' (show_int (xr_cols r))) (\<lambda>cols.
     bindS (integrity_or (u16_try_from (xr_rows r)) ''terminal_session.rows out of u16 range'' (show_int (xr_rows r))) (\<lambda>rows.
     Inr \<lparr>ts_id = xr_id r, ts_owner_id = xr_owner_id r, ts_server_profile_id = xr_server_profile_id r, ts_status = status,
          ts_cols = cols, ts_rows = rows, ts_created_at = xr_created_at r, ts_last_seen_at = xr_last_seen_at r,
          ts_closed_at = xr_closed_at r\<rparr>)))"

definition session_columns :: "terminal_session \<Rightarrow> terminal_session_row" where
  "session_columns t =
     \<lparr>xr_id = ts_id t, xr_owner_id = ts_owner_id t, xr_server_profile_id = ts_server_profile_id t,
      xr_status = status_as_str (ts_status t), xr_cols = int (ts_cols t), xr_rows = int (ts_rows t),
      xr_created_at = ts_created_at t, xr_last_seen_at = ts_last_seen_at t, xr_closed_at = ts_closed_at t\<rparr>"

text \<open>The status list of the later migration replaces the first one; the sizes stay as they were.\<close>

definition session_status_chk :: "string \<Rightarrow> bool" where
  "session_status_chk t = (t \<in> set [''starting'', ''active'', ''detached'', ''closed''])"

definition session_size_chk :: "int \<Rightarrow> int \<Rightarrow> bool" where
  "session_size_chk cols rows = ((1 \<le> cols \<and> cols \<le> 4096) \<and> (1 \<le> rows \<and> rows \<le> 4096))"

definition terminal_sessions_chk :: "terminal_session_row \<Rightarrow> bool" where
  "terminal_sessions_chk r = (session_status_chk (xr_status r) \<and> session_size_chk (xr_cols r) (xr_rows r))"

text \<open>As in the domain record, the id of a session event is left out.\<close>

record session_event_row =
  vr_session_id :: nat
  vr_kind :: string
  vr_payload :: json
  vr_recorded_at :: instant

definition event_try_into_domain :: "session_event_row \<Rightarrow> repository_error + session_event" where
  "event_try_into_domain r =
     bindS (integrity_or (event_kind_from_str_tag (vr_kind r)) ''session_event.kind unknown'' (vr_kind r)) (\<lambda>kind.
     Inr \<lparr>se_session_id = vr_session_id r, se_kind = kind, se_payload = vr_payload r, se_recorded_at = vr_recorded_at r\<rparr>)"

definition event_columns :: "session_event \<Rightarrow> session_event_row" where
  "event_columns e =
     \<lparr>vr_session_id = se_session_id e, vr_kind = event_kind_as_str (se_kind e), vr_payload = se_payload e,
      vr_recorded_at = se_recorded_at e\<rparr>"

definition session_events_chk :: "session_event_row \<Rightarrow> bool" where
  "session_events_chk r =
     (vr_kind r \<in> set [''created'', ''attached'', ''detached'', ''reattached'', ''resized'', ''replay_started'',
                      ''replay_completed'', ''closed''])"

record audit_event_row =
  ar_id :: nat
  ar_actor_id :: "nat option"
  ar_kind :: string
  ar_payload :: json
  ar_remote_addr :: "string option"
  ar_recorded_at :: instant

definition audit_try_into_domain :: "audit_event_row \<Rightarrow> repository_error + audit_event" where
  "audit_try_into_domain r =
     bindS (integrity_or (audit_kind_from_str_tag (ar_kind r)) ''audit_event.kind unknown'' (ar_kind r)) (\<lambda>kind.
     Inr \<lparr>ae_id = ar_id r, ae_actor_id = ar_actor_id r, ae_kind = kind, ae_payload = ar_payload r,
          ae_remote_addr = ar_remote_addr r, ae_recorded_at = ar_recorded_at r\<rparr>)"

definition audit_columns :: "audit_event \<Rightarrow> audit_event_row" where
  "audit_columns e =
     \<lparr>ar_id = ae_id e, ar_actor_id = ae_actor_id e, ar_kind = audit_kind_as_str (ae_kind e), ar_payload = ae_payload e,
      ar_remote_addr = ae_remote_addr e, ar_recorded_at = ae_recorded_at e\<rparr>"

definition audit_events_chk :: "audit_event_row \<Rightarrow> bool" where
  "audit_events_chk r =
     (ar_kind r \<in> set
       [''login_succeeded'', ''login_failed'', ''logout_succeeded'', ''first_user_created'', ''password_changed'',
        ''session_revoked'', ''sessions_revoked'', ''key_vault_access'', ''key_vault_decrypt_failed'',
        ''host_key_accepted'', ''host_key_mismatch'', ''host_key_revoked'', ''server_profile_created'',
        ''server_profile_updated'', ''server_profile_disabled'', ''server_profile_enabled'', ''server_profile_deleted'',
        ''ssh_identity_created'', ''ssh_identity_deleted'', ''session_opened'', ''session_closed'', ''recording_purged'',
        ''other''])"

record chunk_row =
  nr_id :: nat
  nr_terminal_session_id :: nat
  nr_seq_start :: int
  nr_seq_end :: int
  nr_byte_len :: int
  nr_payload :: "byte list"
  nr_encryption :: string
  nr_compression :: string
  nr_created_at :: instant

definition chunk_try_into_domain :: "chunk_row \<Rightarrow> repository_error + terminal_recording_chunk" where
  "chunk_try_into_domain r =
     bindS (integrity_or (encryption_from_str_tag (nr_encryption r)) ''terminal_recording_chunk.encryption unknown''
              (nr_encryption r)) (\<lambda>encryption.
     bindS (integrity_or (compression_from_str_tag (nr_compression r)) ''terminal_recording_chunk.compression unknown''
              (nr_compression r)) (\<lambda>compression.
     Inr \<lparr>ck_session = nr_terminal_session_id r, ck_seq_start = nr_seq_start r, ck_seq_end = nr_seq_end r,
          ck_byte_len = nr_byte_len r, ck_payload = nr_payload r, ck_id = nr_id r, ck_encryption = encryption,
          ck_compression = compression, ck_created_at = nr_created_at r\<rparr>))"

definition chunk_columns :: "terminal_recording_chunk \<Rightarrow> chunk_row" where
  "chunk_columns c =
     \<lparr>nr_id = ck_id c, nr_terminal_session_id = ck_session c, nr_seq_start = ck_seq_start c, nr_seq_end = ck_seq_end c,
      nr_byte_len = ck_byte_len c, nr_payload = ck_payload c, nr_encryption = encryption_as_str (ck_encryption c),
      nr_compression = compression_as_str (ck_compression c), nr_created_at = ck_created_at c\<rparr>"

definition recording_chunks_chk :: "chunk_row \<Rightarrow> bool" where
  "recording_chunks_chk r =
     (nr_seq_start r \<ge> 1 \<and> nr_seq_end r \<ge> nr_seq_start r \<and> nr_byte_len r > 0 \<and> nr_byte_len r \<le> 2097152
      \<and> int (length (nr_payload r)) = nr_byte_len r \<and> nr_encryption r \<in> set [''none''] \<and> nr_compression r \<in> set [''none''])"

record marker_row =
  mw_id :: nat
  mw_terminal_session_id :: nat
  mw_kind :: string
  mw_seq :: int
  mw_payload :: json
  mw_created_at :: instant

definition marker_try_into_domain :: "marker_row \<Rightarrow> repository_error + terminal_recording_marker" where
  "marker_try_into_domain r =
     bindS (integrity_or (marker_kind_from_str_tag (mw_kind r)) ''terminal_recording_marker.kind unknown'' (mw_kind r)) (\<lambda>kind.
     Inr \<lparr>mr_session = mw_terminal_session_id r, mr_kind = kind, mr_seq = mw_seq r, mr_payload = mw_payload r,
          mr_id = mw_id r, mr_created_at = mw_created_at r\<rparr>)"

definition marker_columns :: "terminal_recording_marker \<Rightarrow> marker_row" where
  "marker_columns m =
     \<lparr>mw_id = mr_id m, mw_terminal_session_id = mr_session m, mw_kind = marker_kind_as_str (mr_kind m), mw_seq = mr_seq m,
      mw_payload = mr_payload m, mw_created_at = mr_created_at m\<rparr>"

definition recording_markers_chk :: "marker_row \<Rightarrow> bool" where
  "recording_markers_chk r =
     (mw_seq r \<ge> 0
      \<and> mw_kind r \<in> set [''started'', ''attached'', ''detached'', ''reattached'', ''resized'', ''closed'', ''replay_gap'']
      \<and> (mw_kind r = ''started'' \<or> mw_seq r \<ge> 1) \<and> json_is_object (mw_payload r))"

text \<open>\<open>rows.into_iter().map(try_into_domain).collect()\<close>: the first row that fails decides.\<close>

primrec collect_rows :: "('r \<Rightarrow> 'e + 'd) \<Rightarrow> 'r list \<Rightarrow> 'e + 'd list" where
  "collect_rows f [] = Inr []"
| "collect_rows f (r # rs) = bindS (f r) (\<lambda>x. bindS (collect_rows f rs) (\<lambda>xs. Inr (x # xs)))"

section \<open>The contract of a table\<close>

text \<open>
  \<open>columns\<close> writes a record, \<open>into_domain\<close> reads a row, \<open>chk\<close> is what the table admits and \<open>valid\<close>
  the records that satisfy it. The two laws make reading and writing inverse bijections.
\<close>

locale row_codec =
  fixes columns :: "'d \<Rightarrow> 'r" and into_domain :: "'r \<Rightarrow> repository_error + 'd"
    and chk :: "'r \<Rightarrow> bool" and valid :: "'d \<Rightarrow> bool"
  assumes written: "valid x \<Longrightarrow> chk (columns x) \<and> into_domain (columns x) = Inr x"
    and stored: "chk r \<Longrightarrow> \<exists>x. valid x \<and> columns x = r"
begin

lemma read_iff: "chk r \<Longrightarrow> into_domain r = Inr x \<longleftrightarrow> valid x \<and> columns x = r"
  using written stored by (metis sum.inject(2))

lemma readable: "chk r \<Longrightarrow> \<exists>x. into_domain r = Inr x"
  using written stored by metis

lemma codec_bij: "bij_betw columns {x. valid x} {r. chk r}"
proof (rule bij_betw_imageI)
  show "inj_on columns {x. valid x}"
    by (rule inj_onI) (metis mem_Collect_eq sum.inject(2) written)
  show "columns ` {x. valid x} = {r. chk r}" using written stored by auto
qed

lemma collect_columns: "list_all valid xs \<Longrightarrow> collect_rows into_domain (map columns xs) = Inr xs"
  by (induction xs) (auto simp: written bindS_def)

lemma admitted_columns: "list_all chk rs \<longleftrightarrow> (\<exists>xs. list_all valid xs \<and> rs = map columns xs)"
proof (induction rs)
  case (Cons r rs)
  have "chk r \<longleftrightarrow> (\<exists>x. valid x \<and> r = columns x)" using written stored by metis
  with Cons.IH show ?case by (simp add: Cons_eq_map_conv) (metis list.pred_inject(2))
qed simp

text \<open>Over whole tables, the graph of the reader on what the schema admits is the converse of the writer's.\<close>

lemma table_graph:
  "{(rs, collect_rows into_domain rs) | rs. list_all chk rs} = {(map columns xs, Inr xs) | xs. list_all valid xs}"
  by (auto simp: admitted_columns collect_columns)

end

lemmas decode_simps = bindS_def integrity_or_def u16_try_from_def status_tag.tag_roundtrip event_tag.tag_roundtrip
  audit_tag.tag_roundtrip key_type_tag.tag_roundtrip marker_tag.tag_roundtrip reason_tag.tag_roundtrip

text \<open>The tag columns: the lists of the migrations are the tags of the enumerations.\<close>

lemma kinds_enumerated:
  "(UNIV :: ssh_key_type set) = {KT_Ed25519, KT_Rsa, KT_EcdsaP256, KT_EcdsaP384, KT_EcdsaP521}"
  "(UNIV :: revocation_reason set) = {RR_ServerReinstalled, RR_HostKeyRotated, RR_LabTargetRecreated, RR_OperatorOther}"
  "(UNIV :: terminal_session_status set) = {TS_Starting, TS_Active, TS_Detached, TS_Closed}"
  "(UNIV :: session_event_kind set) = {EV_Created, EV_Attached, EV_Detached, EV_Reattached, EV_Resized, EV_ReplayStarted,
     EV_ReplayCompleted, EV_Closed}"
  "(UNIV :: marker_kind set) = {MK_Started, MK_Attached, MK_Detached, MK_Reattached, MK_Resized, MK_Closed, MK_ReplayGap}"
  "(UNIV :: audit_event_kind set) = {AK_LoginSucceeded, AK_LoginFailed, AK_LogoutSucceeded, AK_FirstUserCreated, AK_PasswordChanged, AK_SessionRevoked, 
     AK_SessionsRevoked, AK_KeyVaultAccess, AK_KeyVaultDecryptFailed, 
     AK_HostKeyAccepted, AK_HostKeyMismatch, AK_HostKeyRevoked, AK_ServerProfileCreated, AK_ServerProfileUpdated, 
     AK_ServerProfileDisabled, AK_ServerProfileEnabled, AK_ServerProfileDeleted, 
     AK_SshIdentityCreated, AK_SshIdentityDeleted, AK_SessionOpened, AK_SessionClosed, AK_RecordingPurged, AK_Other}"
  by (rule UNIV_eq_I, case_tac x, simp_all)+

lemma revoked_reason_chk_iff: "revoked_reason_chk v \<longleftrightarrow> v \<in> range (map_option revocation_reason_as_str)"
proof -
  have "range (map_option revocation_reason_as_str) = insert None (Some ` range revocation_reason_as_str)"
    unfolding UNIV_option_conv by (simp add: image_image)
  then show ?thesis by (cases v) (auto simp: revoked_reason_chk_def kinds_enumerated)
qed

lemma tag_lists:
  "key_type_chk t \<longleftrightarrow> t \<in> range key_type_as_str"
  "session_status_chk t \<longleftrightarrow> t \<in> range status_as_str"
  "session_events_chk e \<longleftrightarrow> vr_kind e \<in> range event_kind_as_str"
  "audit_events_chk a \<longleftrightarrow> ar_kind a \<in> range audit_kind_as_str"
  "t \<in> set [''started'', ''attached'', ''detached'', ''reattached'', ''resized'', ''closed'', ''replay_gap'']
     \<longleftrightarrow> t \<in> range marker_kind_as_str"
  by (simp_all add: key_type_chk_def session_status_chk_def session_events_chk_def audit_events_chk_def kinds_enumerated)

section \<open>The tables\<close>

text \<open>
  In each interpretation the record behind an admitted row is the one the conversion reads off it.
\<close>

interpretation hosts_table: row_codec host_columns host_try_into_domain hosts_chk "\<lambda>h. port_chk (ho_port h)"
proof
  show "port_chk (ho_port x) \<Longrightarrow> hosts_chk (host_columns x) \<and> host_try_into_domain (host_columns x) = Inr x" for x
    by (simp add: host_columns_def hosts_chk_def host_try_into_domain_def decode_simps port_chk_def)
  show "\<exists>x. port_chk (ho_port x) \<and> host_columns x = r" if "hosts_chk r" for r
    using that by (intro exI [of _ "projr (host_try_into_domain r)"])
      (auto simp: host_columns_def hosts_chk_def host_try_into_domain_def decode_simps port_chk_def)
qed

interpretation identities_table:
  row_codec identity_columns identity_try_into_domain "\<lambda>r. key_type_chk (ir_key_type r)" "\<lambda>_. True"
proof
  show "key_type_chk (ir_key_type (identity_columns x)) \<and> identity_try_into_domain (identity_columns x) = Inr x" for x
    by (simp add: identity_columns_def identity_try_into_domain_def decode_simps tag_lists)
  show "\<exists>x. True \<and> identity_columns x = r" if "key_type_chk (ir_key_type r)" for r
    using that by (intro exI [of _ "projr (identity_try_into_domain r)"])
      (auto simp: identity_columns_def identity_try_into_domain_def decode_simps tag_lists)
qed

text \<open>An entry is revoked with all three of time, user and reason, or with none of them.\<close>

definition revocation_complete :: "known_host_entry \<Rightarrow> bool" where
  "revocation_complete e =
     ((kh_revoked_at e = None \<and> kh_revoked_by e = None \<and> kh_revoked_reason_code e = None)
      \<or> (kh_revoked_at e \<noteq> None \<and> kh_revoked_by e \<noteq> None \<and> kh_revoked_reason_code e \<noteq> None))"

interpretation entries_table:
  row_codec entry_columns entry_try_into_domain known_host_entries_chk revocation_complete
proof
  show "known_host_entries_chk (entry_columns x) \<and> entry_try_into_domain (entry_columns x) = Inr x"
    if "revocation_complete x" for x
    using that by (simp add: entry_columns_def entry_try_into_domain_def known_host_entries_chk_def revocation_complete_def
        revoked_columns_set_together_def revoked_reason_chk_iff decode_simps tag_lists split: option.split)
  show "\<exists>x. revocation_complete x \<and> entry_columns x = r" if admitted: "known_host_entries_chk r" for r
  proof -
    obtain k v where "kr_key_type r = key_type_as_str k"
      "kr_revoked_reason_code r = map_option revocation_reason_as_str v"
      using admitted by (auto simp: known_host_entries_chk_def tag_lists revoked_reason_chk_iff)
    with admitted show ?thesis
      by (intro exI [of _ "projr (entry_try_into_domain r)"])
        (cases v; simp add: entry_columns_def entry_try_into_domain_def known_host_entries_chk_def
          revocation_complete_def revoked_columns_set_together_def decode_simps)
  qed
qed

interpretation sessions_table:
  row_codec session_columns session_try_into_domain terminal_sessions_chk "\<lambda>t. dims_chk (ts_cols t) \<and> dims_chk (ts_rows t)"
proof
  show "terminal_sessions_chk (session_columns x) \<and> session_try_into_domain (session_columns x) = Inr x"
    if "dims_chk (ts_cols x) \<and> dims_chk (ts_rows x)" for x
    using that by (simp add: session_columns_def session_try_into_domain_def terminal_sessions_chk_def session_size_chk_def dims_chk_def
        decode_simps tag_lists)
  show "\<exists>x. (dims_chk (ts_cols x) \<and> dims_chk (ts_rows x)) \<and> session_columns x = r" if "terminal_sessions_chk r" for r
    using that by (intro exI [of _ "projr (session_try_into_domain r)"])
      (auto simp: session_columns_def session_try_into_domain_def terminal_sessions_chk_def session_size_chk_def dims_chk_def
        decode_simps tag_lists)
qed

interpretation events_table: row_codec event_columns event_try_into_domain session_events_chk "\<lambda>_. True"
proof
  show "session_events_chk (event_columns x) \<and> event_try_into_domain (event_columns x) = Inr x" for x
    by (simp add: event_columns_def event_try_into_domain_def decode_simps tag_lists)
  show "\<exists>x. True \<and> event_columns x = r" if "session_events_chk r" for r
    using that by (intro exI [of _ "projr (event_try_into_domain r)"])
      (auto simp: event_columns_def event_try_into_domain_def decode_simps tag_lists)
qed

interpretation audits_table: row_codec audit_columns audit_try_into_domain audit_events_chk "\<lambda>_. True"
proof
  show "audit_events_chk (audit_columns x) \<and> audit_try_into_domain (audit_columns x) = Inr x" for x
    by (simp add: audit_columns_def audit_try_into_domain_def decode_simps tag_lists)
  show "\<exists>x. True \<and> audit_columns x = r" if "audit_events_chk r" for r
    using that by (intro exI [of _ "projr (audit_try_into_domain r)"])
      (auto simp: audit_columns_def audit_try_into_domain_def decode_simps tag_lists)
qed

interpretation chunks_table:
  row_codec chunk_columns chunk_try_into_domain recording_chunks_chk "\<lambda>c. chunk_constraint (recording_chunk.truncate c) = None"
proof
  show "recording_chunks_chk (chunk_columns x) \<and> chunk_try_into_domain (chunk_columns x) = Inr x"
    if "chunk_constraint (recording_chunk.truncate x) = None" for x
    using that by (cases "ck_encryption x"; cases "ck_compression x")
      (auto simp: chunk_columns_def chunk_try_into_domain_def recording_chunks_chk_def chunk_constraint_def
        recording_chunk.truncate_def encryption_from_str_tag_def compression_from_str_tag_def decode_simps split: if_splits)
  show "\<exists>x. chunk_constraint (recording_chunk.truncate x) = None \<and> chunk_columns x = r" if "recording_chunks_chk r" for r
    using that by (intro exI [of _ "projr (chunk_try_into_domain r)"])
      (auto simp: chunk_columns_def chunk_try_into_domain_def recording_chunks_chk_def chunk_constraint_def
        recording_chunk.truncate_def encryption_from_str_tag_def compression_from_str_tag_def decode_simps)
qed

lemma started_tag: "marker_kind_as_str k = ''started'' \<longleftrightarrow> k = MK_Started"
  by (cases k) simp_all

interpretation markers_table:
  row_codec marker_columns marker_try_into_domain recording_markers_chk "\<lambda>m. marker_constraint (recording_marker.truncate m) = None"
proof
  show "recording_markers_chk (marker_columns x) \<and> marker_try_into_domain (marker_columns x) = Inr x"
    if "marker_constraint (recording_marker.truncate x) = None" for x
    using that by (auto simp: marker_columns_def marker_try_into_domain_def recording_markers_chk_def marker_constraint_def
        recording_marker.truncate_def started_tag decode_simps tag_lists simp del: set_simps split: if_splits)
  show "\<exists>x. marker_constraint (recording_marker.truncate x) = None \<and> marker_columns x = r" if admitted: "recording_markers_chk r" for r
  proof -
    obtain k where "mw_kind r = marker_kind_as_str k"
      using admitted unfolding recording_markers_chk_def tag_lists by blast
    with admitted show ?thesis
      by (intro exI [of _ "projr (marker_try_into_domain r)"])
        (auto simp: marker_columns_def marker_try_into_domain_def recording_markers_chk_def marker_constraint_def
          recording_marker.truncate_def started_tag decode_simps)
  qed
qed

section \<open>Corrupt rows\<close>

lemma bindS_Inl_iff: "bindS r k = Inl e \<longleftrightarrow> r = Inl e \<or> (\<exists>x. r = Inr x \<and> k x = Inl e)"
  by (simp add: bindS_def split: sum.split)

lemma integrity_or_Inl: "integrity_or v what shown = Inl e \<Longrightarrow> \<exists>m. e = RE_Database m"
  by (auto simp: integrity_or_def split: option.splits)

text \<open>A row that does not convert is a database error, never \<open>NotFound\<close> or \<open>Conflict\<close>.\<close>

lemma corrupt_row_is_database_error:
  "host_try_into_domain h = Inl e \<Longrightarrow> \<exists>m. e = RE_Database m"
  "identity_try_into_domain i = Inl e \<Longrightarrow> \<exists>m. e = RE_Database m"
  "entry_try_into_domain k = Inl e \<Longrightarrow> \<exists>m. e = RE_Database m"
  "session_try_into_domain t = Inl e \<Longrightarrow> \<exists>m. e = RE_Database m"
  "event_try_into_domain v = Inl e \<Longrightarrow> \<exists>m. e = RE_Database m"
  "audit_try_into_domain a = Inl e \<Longrightarrow> \<exists>m. e = RE_Database m"
  "chunk_try_into_domain c = Inl e \<Longrightarrow> \<exists>m. e = RE_Database m"
  "marker_try_into_domain n = Inl e \<Longrightarrow> \<exists>m. e = RE_Database m"
  by (auto simp: host_try_into_domain_def identity_try_into_domain_def entry_try_into_domain_def
      session_try_into_domain_def event_try_into_domain_def audit_try_into_domain_def chunk_try_into_domain_def
      marker_try_into_domain_def bindS_Inl_iff split: if_splits option.splits dest!: integrity_or_Inl)

text \<open>The reader accepts more sessions than the schema: any \<open>u16\<close> size, zero included.\<close>

lemma session_read_domain:
  "(\<exists>x. session_try_into_domain r = Inr x) \<longleftrightarrow>
     xr_status r \<in> range status_as_str \<and> xr_cols r \<in> {0..65535} \<and> xr_rows r \<in> {0..65535}"
  by (auto simp: session_try_into_domain_def bindS_def integrity_or_def u16_try_from_def status_tag.parse_iff
      status_tag.parse_None_iff split: option.split)

section \<open>Every table reads back\<close>

text \<open>
  C21. The schema and the row conversions agree: for each table whose rows are converted with a check,
  the lists of rows the \<open>CHECK\<close> constraints of the migrations admit, paired with what reading all of
  them gives, are exactly the lists of valid records paired the other way with the columns written for
  them. So every admitted table reads without an error, the records it gives write back the same rows,
  and every list of valid records is admitted and reads back unchanged.
\<close>

theorem schema_and_rows_agree:
  "{(rs, collect_rows host_try_into_domain rs) | rs. list_all hosts_chk rs}
       = {(map host_columns xs, Inr xs) | xs. list_all (\<lambda>h. port_chk (ho_port h)) xs}
   \<and> {(rs, collect_rows identity_try_into_domain rs) | rs. list_all (\<lambda>r. key_type_chk (ir_key_type r)) rs}
       = {(map identity_columns xs, Inr xs) | xs. list_all (\<lambda>_. True) xs}
   \<and> {(rs, collect_rows entry_try_into_domain rs) | rs. list_all known_host_entries_chk rs}
       = {(map entry_columns xs, Inr xs) | xs. list_all revocation_complete xs}
   \<and> {(rs, collect_rows session_try_into_domain rs) | rs. list_all terminal_sessions_chk rs}
       = {(map session_columns xs, Inr xs) | xs. list_all (\<lambda>t. dims_chk (ts_cols t) \<and> dims_chk (ts_rows t)) xs}
   \<and> {(rs, collect_rows event_try_into_domain rs) | rs. list_all session_events_chk rs}
       = {(map event_columns xs, Inr xs) | xs. list_all (\<lambda>_. True) xs}
   \<and> {(rs, collect_rows audit_try_into_domain rs) | rs. list_all audit_events_chk rs}
       = {(map audit_columns xs, Inr xs) | xs. list_all (\<lambda>_. True) xs}
   \<and> {(rs, collect_rows chunk_try_into_domain rs) | rs. list_all recording_chunks_chk rs}
       = {(map chunk_columns xs, Inr xs) | xs. list_all (\<lambda>c. chunk_constraint (recording_chunk.truncate c) = None) xs}
   \<and> {(rs, collect_rows marker_try_into_domain rs) | rs. list_all recording_markers_chk rs}
       = {(map marker_columns xs, Inr xs) | xs. list_all (\<lambda>m. marker_constraint (recording_marker.truncate m) = None) xs}"
  by (intro conjI; rule hosts_table.table_graph identities_table.table_graph entries_table.table_graph sessions_table.table_graph
      events_table.table_graph audits_table.table_graph chunks_table.table_graph markers_table.table_graph)

end
