(* ===== verification/Audit_Feed.thy ===== *)
theory Audit_Feed
  imports Auth_Behaviour Session_Manager Backend_Config Recording_Store "HOL-Library.Multiset"
begin

text \<open>
  The read-only routes: the audit feed of \<^verbatim>\<open>routes/v1/audit_events.rs\<close> with its redaction in
  \<^verbatim>\<open>dto/audit_event.rs\<close>, the session policy of \<^verbatim>\<open>routes/v1/session_policy.rs\<close>, and \<^verbatim>\<open>routes/health.rs\<close>.
  \<open>DateTime::parse_from_rfc3339\<close> is an argument. The lemmas show whose events the feed carries, in
  which order and how many, and which part of the audit table it depends on.
\<close>

section \<open>The response of one event\<close>

datatype audit_payload_summary =
    ServerProfileLifecycle "string option" "string option" "string option" "string option" "instant option"
  | Generic

record audit_event_response =
  ar_event_id :: nat
  ar_event_kind :: string
  ar_event_recorded_at :: instant
  ar_event_summary :: audit_payload_summary

text \<open>\<open>JsonValue::get\<close> and \<open>JsonValue::as_str\<close>\<close>

definition json_get :: "json \<Rightarrow> string \<Rightarrow> json option" where
  "json_get j field = (case j of JObj kvs \<Rightarrow> map_of kvs field | _ \<Rightarrow> None)"

definition json_as_str :: "json \<Rightarrow> string option" where
  "json_as_str j = (case j of JStr t \<Rightarrow> Some t | _ \<Rightarrow> None)"

definition copy_string_field :: "json \<Rightarrow> string \<Rightarrow> string option" where
  "copy_string_field payload field = Option.bind (json_get payload field) json_as_str"

definition copy_timestamp_field :: "(string \<Rightarrow> instant option) \<Rightarrow> json \<Rightarrow> string \<Rightarrow> instant option" where
  "copy_timestamp_field parse_rfc3339 payload field =
     Option.bind (Option.bind (json_get payload field) json_as_str) parse_rfc3339"

definition sanitize_payload ::
  "(string \<Rightarrow> instant option) \<Rightarrow> audit_event_kind \<Rightarrow> json \<Rightarrow> audit_payload_summary" where
  "sanitize_payload parse_rfc3339 kind payload =
     (if kind \<in> {AK_ServerProfileCreated, AK_ServerProfileDisabled, AK_ServerProfileEnabled}
      then ServerProfileLifecycle
             (copy_string_field payload ''server_profile_id'')
             (copy_string_field payload ''name'')
             (copy_string_field payload ''host_id'')
             (copy_string_field payload ''ssh_identity_id'')
             (copy_timestamp_field parse_rfc3339 payload ''disabled_at'')
      else Generic)"

definition from_event :: "(string \<Rightarrow> instant option) \<Rightarrow> audit_event \<Rightarrow> audit_event_response" where
  "from_event parse_rfc3339 event =
     \<lparr>ar_event_id = ae_id event, ar_event_kind = audit_kind_as_str (ae_kind event),
      ar_event_recorded_at = ae_recorded_at event,
      ar_event_summary = sanitize_payload parse_rfc3339 (ae_kind event) (ae_payload event)\<rparr>"

section \<open>The routes\<close>

definition AUDIT_DEFAULT_LIMIT :: nat where "AUDIT_DEFAULT_LIMIT = 20"
definition AUDIT_MAX_LIMIT :: nat where "AUDIT_MAX_LIMIT = 100"

definition audit_clamp_limit :: "nat option \<Rightarrow> nat" where
  "audit_clamp_limit raw = clamp 1 AUDIT_MAX_LIMIT (case raw of Some n \<Rightarrow> n | None \<Rightarrow> AUDIT_DEFAULT_LIMIT)"

definition audit_recent_route ::
  "(string \<Rightarrow> instant option) \<Rightarrow> auth_service \<Rightarrow> request_headers \<Rightarrow> nat option \<Rightarrow> ('z, audit_event_response list) route" where
  "audit_recent_route parse_rfc3339 svc headers raw =
     bindP (authenticate svc headers) (\<lambda>user.
     bindP (via_repo (audit_recent_for_actor (au_user_id user) (audit_clamp_limit raw))) (\<lambda>events.
     retP (map (from_event parse_rfc3339) events)))"

record session_policy_response =
  po_detached_live_pty_ttl_seconds :: nat
  po_max_live_pty_sessions_per_user :: nat
  po_max_starting_sessions_per_user :: nat

definition session_policy_route ::
  "manager \<Rightarrow> auth_service \<Rightarrow> request_headers \<Rightarrow> ('z, session_policy_response) route" where
  "session_policy_route m svc headers =
     bindP (authenticate svc headers) (\<lambda>_.
     retP \<lparr>po_detached_live_pty_ttl_seconds = nat (mg_detach_ttl m div seconds 1),
           po_max_live_pty_sessions_per_user = mg_max_live_pty_per_user m,
           po_max_starting_sessions_per_user = mg_max_starting_per_user m\<rparr>)"

definition healthz :: string where "healthz = ''ok''"

section \<open>Programs that do not look at the audit table\<close>

definition audit_blind :: "('z account_db_scheme, 'e, 'a) prog \<Rightarrow> bool" where
  "audit_blind p = (\<forall>s a. p (s\<lparr>ac_audit := a\<rparr>) = (fst (p s), (snd (p s))\<lparr>ac_audit := a\<rparr>))"

lemma audit_blindI:
  "(\<And>s a. p (s\<lparr>ac_audit := a\<rparr>) = (fst (p s), (snd (p s))\<lparr>ac_audit := a\<rparr>)) \<Longrightarrow> audit_blind p"
  by (simp add: audit_blind_def)

lemma audit_blind_run: "audit_blind p \<Longrightarrow> p s = (r, t) \<Longrightarrow> p (s\<lparr>ac_audit := a\<rparr>) = (r, t\<lparr>ac_audit := a\<rparr>)"
  by (simp add: audit_blind_def)

lemma audit_blind_keeps:
  assumes "audit_blind p" and "p s = (r, t)"
  shows "ac_audit t = ac_audit s"
proof -
  have "t = t\<lparr>ac_audit := ac_audit s\<rparr>" using audit_blind_run [OF assms, of "ac_audit s"] assms(2) by simp
  from arg_cong [OF this, of ac_audit] show ?thesis by simp
qed

named_theorems blind_intros

lemma blind_pure [blind_intros]: "audit_blind (retP x)" "audit_blind (raiseP e)" "audit_blind (okOrP v e)" "audit_blind now_utc"
  by (auto simp: audit_blind_def prog_defs now_utc_def split: option.split)

lemma blind_bind [blind_intros]: "audit_blind m \<Longrightarrow> (\<And>x. audit_blind (k x)) \<Longrightarrow> audit_blind (bindP m k)"
  by (auto simp: audit_blind_def bindP_def split: prod.split sum.split)

lemma blind_wrap [blind_intros]: "audit_blind m \<Longrightarrow> audit_blind (attemptP m)" "audit_blind m \<Longrightarrow> audit_blind (mapErrP f m)"
  by (auto simp: audit_blind_def attemptP_def mapErrP_def split: prod.split sum.split)

lemma blind_call [blind_intros]:
  fixes body :: "('z, 'a) acc"
  assumes blind: "audit_blind body"
  shows "audit_blind (acc_call body)"
proof (rule audit_blindI)
  fix s :: "'z account_db_scheme" and a
  have swap: "s\<lparr>ac_audit := a, ac_faults := fs\<rparr> = s\<lparr>ac_faults := fs, ac_audit := a\<rparr>" for fs by simp
  show "acc_call body (s\<lparr>ac_audit := a\<rparr>) = (fst (acc_call body s), (snd (acc_call body s))\<lparr>ac_audit := a\<rparr>)"
    using blind [unfolded audit_blind_def] by (simp add: acc_call_def swap split: list.split option.split)
qed

lemma blind_repositories [blind_intros]:
  "audit_blind (user_sessions_get_by_token_hash d)" "audit_blind (users_get uid)" "audit_blind (user_sessions_touch_last_seen sid now)"
  unfolding user_sessions_get_by_token_hash_def users_get_def user_sessions_touch_last_seen_def
  by ((rule blind_call, simp add: audit_blind_def user_row_def user_session_row_def)+)

lemma blind_authenticate: "audit_blind (authenticate svc headers)"
proof -
  have "audit_blind (via_service (validate_session_token svc token now))" for token now
    unfolding via_service_def validate_session_token_def repo_def
    by (intro blind_intros) (auto split: option.split intro!: blind_intros)
  then show ?thesis unfolding authenticate_def via_repo_def by (intro blind_intros)
qed

section \<open>What the feed depends on\<close>

text \<open>
  The part of an event a response may show: number, kind and time, and for the three lifecycle kinds
  of a server profile the five fields of the payload that are listed.
\<close>

definition PUBLIC_FIELDS :: "string list" where
  "PUBLIC_FIELDS = [''server_profile_id'', ''name'', ''host_id'', ''ssh_identity_id'', ''disabled_at'']"

definition visible_part :: "audit_event \<Rightarrow> nat \<times> audit_event_kind \<times> instant \<times> json option list" where
  "visible_part e = (ae_id e, ae_kind e, ae_recorded_at e,
     if ae_kind e \<in> {AK_ServerProfileCreated, AK_ServerProfileDisabled, AK_ServerProfileEnabled}
     then map (json_get (ae_payload e)) PUBLIC_FIELDS else [])"

lemma from_event_visible: "visible_part d = visible_part e \<Longrightarrow> from_event parse d = from_event parse e"
  by (auto simp: visible_part_def from_event_def sanitize_payload_def copy_string_field_def copy_timestamp_field_def
      PUBLIC_FIELDS_def split: if_splits)

lemma map_insort_key: "map g (insort_key (\<lambda>y. f (g y)) x xs) = insort_key f (g x) (map g xs)"
  by (induction xs) auto

lemma map_sort_key: "map g (sort_key (\<lambda>y. f (g y)) xs) = sort_key f (map g xs)"
  by (induction xs) (simp_all add: map_insort_key)

lemma newest_first_visible:
  "map visible_part (newest_first es)
     = rev (sort_key (\<lambda>v. fst (snd (snd v))) (sort_key fst (map visible_part es)))"
proof -
  have keys: "ae_recorded_at = (\<lambda>e. fst (snd (snd (visible_part e))))" "ae_id = (\<lambda>e. fst (visible_part e))"
    by (simp_all add: visible_part_def)
  show ?thesis
    unfolding newest_first_def keys rev_map [symmetric]
    by (simp only: map_sort_key [where f = "\<lambda>v. fst (snd (snd v))"] map_sort_key [where f = fst])
qed

text \<open>The feed factors through the visible part of the caller's events.\<close>

lemma feed_visible:
  assumes "map visible_part ds = map visible_part es"
  shows "map (from_event parse) (take n (newest_first ds)) = map (from_event parse) (take n (newest_first es))"
proof -
  have factor: "map (from_event parse) xs = map (\<lambda>v. from_event parse (inv visible_part v)) (map visible_part xs)" for xs
  proof -
    have "from_event parse e = from_event parse (inv visible_part (visible_part e))" for e
      by (rule from_event_visible) (simp add: f_inv_into_f)
    then show ?thesis by simp
  qed
  have "map visible_part (take n (newest_first ds)) = map visible_part (take n (newest_first es))"
    unfolding take_map [symmetric] newest_first_visible assms ..
  then show ?thesis unfolding factor by simp
qed

lemma newest_first_sorted: "sorted_wrt (\<lambda>d e. ae_recorded_at e \<le> ae_recorded_at d) (newest_first es)"
  unfolding newest_first_def sorted_wrt_rev
  using sorted_sort_key [of ae_recorded_at "sort_key ae_id es"] by (simp only: sorted_map)

lemma mset_newest_first: "mset (newest_first es) = mset es"
  by (simp add: newest_first_def)

definition events_of :: "user_id \<Rightarrow> audit_event list \<Rightarrow> audit_event list" where
  "events_of uid es = filter (\<lambda>e. ae_actor_id e = Some uid) es"

lemma audit_recent_for_actor_Inr:
  assumes "audit_recent_for_actor uid n s = (Inr es, t)"
  shows "es = take n (newest_first (events_of uid (ac_audit s)))" and "ac_audit t = ac_audit s"
    and "audit_recent_for_actor uid n (s\<lparr>ac_audit := a\<rparr>) = (Inr (take n (newest_first (events_of uid a))), t\<lparr>ac_audit := a\<rparr>)"
  using assms by (auto simp: audit_recent_for_actor_def acc_call_def events_of_def split: list.splits option.splits)

lemma audit_recent_route_Inr:
  assumes "audit_recent_route parse svc h raw s = (Inr feed, t)"
  obtains u s1 es where "authenticate svc h s = (Inr u, s1)"
    and "audit_recent_for_actor (au_user_id u) (audit_clamp_limit raw) s1 = (Inr es, t)"
    and "feed = map (from_event parse) es"
  using assms unfolding audit_recent_route_def via_repo_def Inr_iffs by (auto simp: retP_def)

lemma audit_clamp_limit_range: "1 \<le> audit_clamp_limit raw" "audit_clamp_limit raw \<le> 100"
  by (auto simp: audit_clamp_limit_def clamp_def AUDIT_MAX_LIMIT_def AUDIT_DEFAULT_LIMIT_def split: option.split)

text \<open>
  C22. A successful read of the audit feed carries the newest events of the signed-in user only, never one
  of another user or one without an actor, ordered from the newest, at most the clamped limit and so
  at most a hundred; the table stays as it is. And it is redacted: whatever else the table holds, another
  table whose events of this user have the same numbers, kinds, times and listed payload fields gives the
  same answer, so no other payload field, no address and no foreign event can show through.
\<close>

theorem audit_feed_is_own_and_redacted:
  assumes "audit_recent_route parse svc h raw s = (Inr feed, t)"
  shows "\<exists>u s1. authenticate svc h s = (Inr u, s1)
     \<and> feed = take (audit_clamp_limit raw) (map (from_event parse) (newest_first (events_of (au_user_id u) (ac_audit s))))
     \<and> mset feed \<subseteq># image_mset (from_event parse) {#e \<in># mset (ac_audit s). ae_actor_id e = Some (au_user_id u)#}
     \<and> length feed \<le> 100
     \<and> sorted_wrt (\<lambda>x y. ar_event_recorded_at y \<le> ar_event_recorded_at x) feed
     \<and> ac_audit t = ac_audit s
     \<and> (\<forall>a. map visible_part (events_of (au_user_id u) a) = map visible_part (events_of (au_user_id u) (ac_audit s))
            \<longrightarrow> fst (audit_recent_route parse svc h raw (s\<lparr>ac_audit := a\<rparr>)) = Inr feed)"
proof -
  obtain u s1 es where u: "authenticate svc h s = (Inr u, s1)"
    and es: "audit_recent_for_actor (au_user_id u) (audit_clamp_limit raw) s1 = (Inr es, t)"
    and feed: "feed = map (from_event parse) es"
    using assms by (rule audit_recent_route_Inr)
  let ?n = "audit_clamp_limit raw"
  let ?own = "events_of (au_user_id u) (ac_audit s)"
  have kept: "ac_audit s1 = ac_audit s" by (rule audit_blind_keeps [OF blind_authenticate u])
  have eq: "feed = map (from_event parse) (take ?n (newest_first ?own))"
    using audit_recent_for_actor_Inr(1) [OF es] feed kept by simp
  have "mset feed \<subseteq># image_mset (from_event parse) (mset ?own)"
    unfolding eq mset_map by (rule image_mset_subseteq_mono) (metis append_take_drop_id mset_append mset_newest_first mset_subset_eq_add_left)
  moreover have "length feed \<le> 100" using audit_clamp_limit_range(2) [of raw] by (simp add: eq)
  moreover have "sorted_wrt (\<lambda>x y. ar_event_recorded_at y \<le> ar_event_recorded_at x) feed"
    unfolding eq sorted_wrt_map using sorted_wrt_take [OF newest_first_sorted] by (simp add: from_event_def)
  moreover have "fst (audit_recent_route parse svc h raw (s\<lparr>ac_audit := a\<rparr>)) = Inr feed"
    if "map visible_part (events_of (au_user_id u) a) = map visible_part ?own" for a
    using audit_blind_run [OF blind_authenticate u] audit_recent_for_actor_Inr(3) [OF es] feed_visible [OF that]
    by (simp add: audit_recent_route_def bindP_def via_repo_def mapErrP_def retP_def eq)
  ultimately show ?thesis
    using u audit_recent_for_actor_Inr(2) [OF es] kept by (simp add: eq take_map events_of_def)
qed

definition demo_event :: "nat \<Rightarrow> nat option \<Rightarrow> string \<Rightarrow> audit_event" where
  "demo_event n actor secret =
     \<lparr>ae_id = n, ae_actor_id = actor, ae_kind = AK_ServerProfileCreated,
      ae_payload = JObj [(''name'', JStr ''web''), (''private_key'', JStr secret)],
      ae_remote_addr = Some secret, ae_recorded_at = int n\<rparr>"

definition demo_table :: "string \<Rightarrow> audit_event list" where
  "demo_table secret = [demo_event 7 (Some 0) secret, demo_event 8 (Some 1) secret, demo_event 9 None secret, demo_event 10 (Some 0) secret]"

theorem audit_feed_is_own_and_redacted_witness:
  "\<exists>feed. map ar_event_id feed = [10, 7] \<and>
     fst (audit_recent_route (\<lambda>_. None) demo_service (demo_headers ''relayterm_session=tok2'') None
       (demo_state\<lparr>ac_audit := demo_table ''other''\<rparr>)) = Inr feed"
proof -
  let ?h = "demo_headers ''relayterm_session=tok2''"
  let ?s = "demo_state\<lparr>ac_audit := demo_table ''key''\<rparr>"
  let ?u = "\<lparr>au_user = hd (ac_users demo_state), au_session_id = 4\<rparr>"
  let ?run = "audit_recent_route (\<lambda>_. None) demo_service ?h None ?s"
  have "\<not> isl (fst ?run)" by code_simp
  then have "?run = (Inr (projr (fst ?run)), snd ?run)" by (simp add: prod_eq_iff)
  from audit_feed_is_own_and_redacted [OF this] obtain u s1 where u: "authenticate demo_service ?h ?s = (Inr u, s1)"
    and redacted: "\<forall>a. map visible_part (events_of (au_user_id u) a) = map visible_part (events_of (au_user_id u) (ac_audit ?s))
      \<longrightarrow> fst (audit_recent_route (\<lambda>_. None) demo_service ?h None (?s\<lparr>ac_audit := a\<rparr>)) = Inr (projr (fst ?run))"
    by (elim exE conjE) (rule that)
  have "fst (authenticate demo_service ?h ?s) = Inr ?u" by code_simp
  then have u: "u = ?u" unfolding u by simp
  have collapse: "?s\<lparr>ac_audit := a\<rparr> = demo_state\<lparr>ac_audit := a\<rparr>" for a by simp
  have "map visible_part (events_of (au_user_id u) (demo_table ''other''))
    = map visible_part (events_of (au_user_id u) (ac_audit ?s))" unfolding u by code_simp
  then have other: "fst (audit_recent_route (\<lambda>_. None) demo_service ?h None (demo_state\<lparr>ac_audit := demo_table ''other''\<rparr>))
    = Inr (projr (fst ?run))"
    by (rule redacted [rule_format, unfolded collapse])
  have "map ar_event_id (projr (fst ?run)) = [10, 7]" by code_simp
  from conjI [OF this other] show ?thesis by (rule exI)
qed

section \<open>The session policy\<close>

text \<open>The policy a client reads is the configured one, in whole seconds, when the manager was built from it.\<close>

lemma session_policy_reports_configuration:
  assumes "authenticate svc h s = (Inr u, t)" and "mg_detach_ttl m = detached_live_pty_ttl cfg"
  shows "session_policy_route m svc h s =
    (Inr \<lparr>po_detached_live_pty_ttl_seconds = tsc_detached_live_pty_ttl_seconds (cf_terminal_sessions cfg),
          po_max_live_pty_sessions_per_user = mg_max_live_pty_per_user m,
          po_max_starting_sessions_per_user = mg_max_starting_per_user m\<rparr>, t)"
  using assms by (simp add: session_policy_route_def bindP_def retP_def detached_live_pty_ttl_def seconds_def)

end
