(* ===== verification/Debug_Redaction.thy ===== *)
theory Debug_Redaction
  imports Attach_Socket Recording_Reads Catalog_Routes Backend_Config
begin

text \<open>
  The hand-written \<open>Debug\<close> renderings outside the configuration: terminal bytes, passwords and their
  hashes, session digests, bootstrap tokens and private keys must reach no log through them. A rendering
  is the tree a formatter is given; an identifier is rendered as its number and an instant as an integer.
  For each type \<open>conceal\<close> names what a reader may not learn, by blanking it to its length, and the
  contract of the locale \<open>redacting\<close> is that a rendering shows everything else and nothing more.
\<close>

section \<open>Renderings\<close>

definition redacted_bytes :: "byte list \<Rightarrow> 'x dbg" where
  "redacted_bytes bs = D_Raw (''<redacted: '' @ show_nat (length bs) @ '' bytes>'')"

definition redacted_chars :: "string \<Rightarrow> 'x dbg" where
  "redacted_chars v = D_Raw (''<redacted: '' @ show_nat (str_len v) @ '' chars>'')"

definition debug_key_type :: "ssh_key_type \<Rightarrow> 'x dbg" where
  "debug_key_type k = D_Variant (case k of KT_Ed25519 \<Rightarrow> ''Ed25519'' | KT_Rsa \<Rightarrow> ''Rsa'' | KT_EcdsaP256 \<Rightarrow> ''EcdsaP256''
     | KT_EcdsaP384 \<Rightarrow> ''EcdsaP384'' | KT_EcdsaP521 \<Rightarrow> ''EcdsaP521'')"

text \<open>Terminal bytes. The model's attach message carries the sequence number only.\<close>

definition debug_client_msg :: "client_msg \<Rightarrow> 'x dbg" where
  "debug_client_msg m =
     (case m of
        CL_Ping \<Rightarrow> D_Struct ''Ping'' []
      | CL_Attach last_seen_seq \<Rightarrow> D_Struct ''Attach'' [(''last_seen_seq'', d_opt D_Nat last_seen_seq)]
      | CL_Input data \<Rightarrow> D_Struct ''Input'' [(''data_len'', D_Nat (length data)), (''data'', D_Str ''<redacted terminal input>'')]
      | CL_Resize cols rows \<Rightarrow> D_Struct ''Resize'' [(''cols'', D_Nat cols), (''rows'', D_Nat rows)]
      | CL_Detach \<Rightarrow> D_Struct ''Detach'' []
      | CL_Close \<Rightarrow> D_Struct ''Close'' [])"

definition debug_binary_frame :: "binary_frame \<Rightarrow> 'x dbg" where
  "debug_binary_frame fr = D_Struct ''BinaryFrame''
     [(''kind'', D_Variant (case bf_kind fr of BF_Output \<Rightarrow> ''Output'' | BF_Input \<Rightarrow> ''Input'')),
      (''seq'', D_Nat (unat (bf_seq fr))), (''payload_len'', D_Nat (length (bf_payload fr))),
      (''payload'', D_Str ''<redacted terminal bytes>'')]"

definition debug_output_frame :: "output_frame \<Rightarrow> 'x dbg" where
  "debug_output_frame fr = D_Struct ''OutputFrame''
     [(''seq'', D_Nat (of_seq fr)), (''len'', D_Nat (length (of_data fr))), (''data'', D_Str ''<redacted pty output>'')]"

definition debug_replay_range :: "replay_range \<Rightarrow> 'x dbg" where
  "debug_replay_range r = D_Struct ''ReplayRange''
     [(''frame_count'', D_Nat (length (rr_frames r))), (''latest_seq'', D_Nat (rr_latest_seq r))]"

definition debug_replay_buffer :: "replay_buffer \<Rightarrow> 'x dbg" where
  "debug_replay_buffer b = D_Struct ''ReplayBuffer''
     [(''frame_count'', D_Nat (length (rb_frames b))), (''bytes'', D_Nat (rb_bytes b)), (''latest_seq'', D_Nat (rb_latest_seq b)),
      (''config'', D_Struct ''ReplayBufferConfig''
         [(''max_frames'', D_Nat (max_frames (rb_config b))), (''max_bytes'', D_Nat (max_bytes (rb_config b)))])]"

definition debug_pty_event :: "ssh_pty_event \<Rightarrow> 'x dbg" where
  "debug_pty_event ev =
     (case ev of
        PtyOutput bytes \<Rightarrow> D_Struct ''Output'' [(''len'', D_Nat (length bytes)), (''data'', D_Str ''<redacted pty output>'')]
      | PtyExit status \<Rightarrow> D_Struct ''Exit'' [(''status'', D_Int status)]
      | PtyClosed reason \<Rightarrow> D_Struct ''Closed'' [(''reason'', D_Variant (case reason of CR_RemoteEof \<Rightarrow> ''RemoteEof''
           | CR_LocalClose \<Rightarrow> ''LocalClose'' | CR_TransportError \<Rightarrow> ''TransportError''))])"

definition debug_recording_chunk :: "terminal_recording_chunk \<Rightarrow> 'x dbg" where
  "debug_recording_chunk c = D_Struct ''TerminalRecordingChunk''
     [(''id'', D_Nat (ck_id c)), (''terminal_session_id'', D_Nat (ck_session c)), (''seq_start'', D_Int (ck_seq_start c)),
      (''seq_end'', D_Int (ck_seq_end c)), (''byte_len'', D_Int (ck_byte_len c)), (''payload'', redacted_bytes (ck_payload c)),
      (''encryption'', D_Variant (case ck_encryption c of ENC_None \<Rightarrow> ''None'')),
      (''compression'', D_Variant (case ck_compression c of CMP_None \<Rightarrow> ''None'')), (''created_at'', D_Int (ck_created_at c))]"

definition debug_chunk_response :: "chunk_response \<Rightarrow> 'x dbg" where
  "debug_chunk_response c = D_Struct ''TerminalRecordingChunkResponse''
     [(''seq_start'', D_Int (cr_seq_start c)), (''seq_end'', D_Int (cr_seq_end c)), (''byte_len'', D_Int (cr_byte_len c)),
      (''data_b64'', redacted_chars (cr_data_b64 c)), (''encryption'', D_Str (cr_encryption c)),
      (''compression'', D_Str (cr_compression c)), (''created_at'', D_Int (cr_created_at c))]"

text \<open>Passwords, digests and tokens.\<close>

definition debug_password_credential :: "password_credential \<Rightarrow> 'x dbg" where
  "debug_password_credential c = D_Struct ''PasswordCredential''
     [(''user_id'', D_Nat (pc_user_id c)), (''password_hash'', redacted_chars (pc_password_hash c)),
      (''password_changed_at'', D_Int (pc_password_changed_at c)), (''created_at'', D_Int (pc_created_at c)),
      (''updated_at'', D_Int (pc_updated_at c))]"

definition debug_user_session :: "user_session \<Rightarrow> 'x dbg" where
  "debug_user_session r = D_Struct ''UserSession''
     [(''id'', D_Nat (ws_id r)), (''user_id'', D_Nat (ws_user_id r)), (''token_hash'', redacted_bytes (ws_token_hash r)),
      (''created_at'', D_Int (ws_created_at r)), (''last_seen_at'', D_Int (ws_last_seen_at r)),
      (''expires_at'', D_Int (ws_expires_at r)), (''revoked_at'', d_opt D_Int (ws_revoked_at r)),
      (''revoked_reason'', d_opt D_Str (ws_revoked_reason r))]"

definition debug_bootstrap_request :: "bootstrap_request \<Rightarrow> 'x dbg" where
  "debug_bootstrap_request r = D_Struct ''BootstrapRequest''
     [(''bootstrap_token'', redacted_chars (br_bootstrap_token r)), (''email'', D_Str (br_email r)),
      (''display_name'', D_Str (br_display_name r)), (''password'', redacted_chars (br_password r))]"

definition debug_login_request :: "login_request \<Rightarrow> 'x dbg" where
  "debug_login_request r = D_Struct ''LoginRequest''
     [(''email'', D_Str (lr_email r)), (''password'', redacted_chars (lr_password r))]"

definition debug_change_password_request :: "change_password_request \<Rightarrow> 'x dbg" where
  "debug_change_password_request r = D_Struct ''ChangePasswordRequest''
     [(''current_password'', redacted_chars (pr_current_password r)), (''new_password'', redacted_chars (pr_new_password r))]"

definition debug_auth_routes_config :: "auth_routes_config \<Rightarrow> 'x dbg" where
  "debug_auth_routes_config c = D_Struct ''AuthRoutesConfig''
     [(''cookie_secure'', D_Bool (rc_cookie_secure c)), (''cookie_domain'', d_opt D_Str (rc_cookie_domain c)),
      (''allowed_origins'', D_List (map D_Str (rc_allowed_origins c))), (''bootstrap_token_set'', d_set (rc_bootstrap_token c))]"

definition debug_password_hasher_config :: "password_hasher_config \<Rightarrow> 'x dbg" where
  "debug_password_hasher_config c = D_Struct ''PasswordHasherConfig''
     [(''m_cost'', D_Str ''<redacted>''), (''t_cost'', D_Str ''<redacted>''), (''p_cost'', D_Str ''<redacted>'')]"

text \<open>Keys.\<close>

definition debug_ssh_identity :: "ssh_identity \<Rightarrow> 'x dbg" where
  "debug_ssh_identity i = D_Struct ''SshIdentity''
     [(''id'', D_Nat (si_id i)), (''owner_id'', D_Nat (si_owner_id i)), (''name'', D_Str (si_name i)),
      (''key_type'', debug_key_type (si_key_type i)), (''public_key_len'', D_Nat (length (si_public_key i))),
      (''encrypted_private_key'', redacted_bytes (si_encrypted_private_key i)),
      (''fingerprint_sha256'', D_Str (si_fingerprint_sha256 i)), (''created_at'', D_Int (si_created_at i)),
      (''last_used_at'', d_opt D_Int (si_last_used_at i))]"

definition debug_create_ssh_identity :: "create_ssh_identity \<Rightarrow> 'x dbg" where
  "debug_create_ssh_identity i = D_Struct ''CreateSshIdentity''
     [(''owner_id'', D_Nat (ci_owner_id i)), (''name'', D_Str (ci_name i)), (''key_type'', debug_key_type (ci_key_type i)),
      (''public_key_len'', D_Nat (length (ci_public_key i))),
      (''encrypted_private_key'', redacted_bytes (ci_encrypted_private_key i)),
      (''fingerprint_sha256'', D_Str (ci_fingerprint_sha256 i))]"

definition debug_encrypted_blob :: "byte list \<Rightarrow> 'x dbg" where
  "debug_encrypted_blob b = D_Struct ''EncryptedBlob'' [(''len'', D_Nat (length b)), (''bytes'', D_Raw ''<redacted ciphertext>'')]"

definition debug_generated_identity :: "generated_ssh_identity \<Rightarrow> 'x dbg" where
  "debug_generated_identity g = D_Struct ''GeneratedSshIdentity''
     [(''key_type'', debug_key_type (gi_key_type g)), (''public_key_len'', D_Nat (length (gi_public_key_openssh g))),
      (''fingerprint_sha256'', D_Str (gi_fingerprint_sha256 g)),
      (''encrypted_private_key'', debug_encrypted_blob (gi_encrypted_private_key g))]"

definition debug_master_key :: "byte list \<Rightarrow> 'x dbg" where
  "debug_master_key k = D_Struct ''VaultMasterKey'' [(''bytes'', D_Raw (''<redacted: '' @ show_nat MASTER_KEY_LEN @ '' bytes>''))]"

definition debug_import_request :: "import_identity_request \<Rightarrow> 'x dbg" where
  "debug_import_request r = D_Struct ''ImportSshIdentityRequest''
     [(''name'', D_Str (im_name r)),
      (''private_key_openssh'', D_Raw (''<redacted: '' @ show_nat (str_len (im_private_key_openssh r)) @ '' bytes>''))]"

definition debug_preflight_request :: "preflight_request \<Rightarrow> 'x dbg" where
  "debug_preflight_request r = D_Struct ''HostKeyPreflightRequest''
     [(''host_id'', D_Nat (pq_host_id r)), (''hostname'', D_Str (pq_hostname r)), (''port'', D_Nat (pq_port r)),
      (''username'', D_Str (pq_username r)), (''private_key_pem'', redacted_bytes (pq_private_key_pem r))]"

definition debug_auth_check_request :: "auth_check_request \<Rightarrow> 'x dbg" where
  "debug_auth_check_request r = D_Struct ''SshAuthCheckRequest''
     [(''host_id'', D_Nat (aq_host_id r)), (''hostname'', D_Str (aq_hostname r)), (''port'', D_Nat (aq_port r)),
      (''username'', D_Str (aq_username r)), (''private_key_pem'', redacted_bytes (aq_private_key_pem r))]"

text \<open>A tuple is a struct without names.\<close>

definition debug_pin :: "pin \<Rightarrow> 'x dbg" where
  "debug_pin p = D_Struct [] [([], debug_key_type (fst p)), ([], D_Str (snd p))]"

definition debug_auth_check_target :: "auth_check_target \<Rightarrow> 'x dbg" where
  "debug_auth_check_target t = D_Struct ''AuthCheckTarget''
     [(''hostname'', D_Str (at_hostname t)), (''port'', D_Nat (at_port t)), (''username'', D_Str (at_username t)),
      (''accept_pins'', D_List (map debug_pin (at_accept_pins t))), (''private_key_pem'', redacted_bytes (at_private_key_pem t))]"

section \<open>What is concealed\<close>

definition blank_bytes :: "byte list \<Rightarrow> byte list" where
  "blank_bytes bs = replicate (length bs) 0"

definition blank_chars :: "string \<Rightarrow> string" where
  "blank_chars v = replicate (str_len v) CHR ''*''"

text \<open>The length is all that a blank keeps and all that a redacted field shows.\<close>

lemma blank_iff [simp]:
  "blank_bytes a = blank_bytes b \<longleftrightarrow> length a = length b" "blank_chars v = blank_chars w \<longleftrightarrow> str_len v = str_len w"
  by (simp_all add: blank_bytes_def blank_chars_def replicate_eq_replicate)

definition read_digits :: "string \<Rightarrow> nat" where
  "read_digits v = foldl (\<lambda>n c. 10 * n + (of_char c - 48)) 0 v"

lemma read_show: "read_digits (show_nat n) = n"
proof (induction n rule: show_nat.induct)
  case (1 n)
  then show ?case by (subst show_nat.simps) (auto simp: read_digits_def)
qed

lemma show_nat_iff [simp]: "show_nat m = show_nat n \<longleftrightarrow> m = n"
  by (metis read_show)

lemma redacted_iff [simp]:
  "redacted_bytes a = redacted_bytes b \<longleftrightarrow> length a = length b" "redacted_chars v = redacted_chars w \<longleftrightarrow> str_len v = str_len w"
  by (simp_all add: redacted_bytes_def redacted_chars_def)

lemma debug_key_type_iff [simp]: "debug_key_type k = debug_key_type l \<longleftrightarrow> k = l"
  by (simp add: debug_key_type_def split: ssh_key_type.split)

lemma d_opt_iff [simp]: "(\<And>a b. f a = f b \<longleftrightarrow> a = b) \<Longrightarrow> d_opt f v = d_opt f w \<longleftrightarrow> v = w"
  by (cases v; cases w) (simp_all add: d_opt_def)

lemma debug_pins_iff [simp]: "map debug_pin ps = map debug_pin qs \<longleftrightarrow> ps = qs"
  by (rule inj_map_eq_map) (auto simp: debug_pin_def intro: injI prod_eqI)

lemma debug_strings_iff [simp]: "map D_Str vs = map D_Str ws \<longleftrightarrow> vs = ws"
  by (rule inj_map_eq_map) (auto intro: injI)

lemma presence_iff [simp]: "map_option (\<lambda>_. c) v = map_option (\<lambda>_. c) w \<longleftrightarrow> (v = None \<longleftrightarrow> w = None)"
  by (cases v; cases w) simp_all

lemma count_iff [simp]: "map (\<lambda>_. c) xs = map (\<lambda>_. c) ys \<longleftrightarrow> length xs = length ys"
  by (simp add: map_replicate_const)

locale redacting =
  fixes render :: "'v \<Rightarrow> 'x dbg" and conceal :: "'v \<Rightarrow> 'v"
  assumes exact: "render x = render y \<longleftrightarrow> conceal x = conceal y"
begin

lemma exact_list: "map render xs = map render ys \<longleftrightarrow> map conceal xs = map conceal ys"
  by (simp add: list_eq_iff_nth_eq exact cong: conj_cong)

end

definition conceal_client_msg :: "client_msg \<Rightarrow> client_msg" where
  "conceal_client_msg m = (case m of CL_Input data \<Rightarrow> CL_Input (blank_bytes data) | _ \<Rightarrow> m)"

definition conceal_pty_event :: "ssh_pty_event \<Rightarrow> ssh_pty_event" where
  "conceal_pty_event ev = (case ev of PtyOutput bytes \<Rightarrow> PtyOutput (blank_bytes bytes) | _ \<Rightarrow> ev)"

definition conceal_binary_frame :: "binary_frame \<Rightarrow> binary_frame" where
  "conceal_binary_frame v = v\<lparr>bf_payload := blank_bytes (bf_payload v)\<rparr>"

definition conceal_output_frame :: "output_frame \<Rightarrow> output_frame" where
  "conceal_output_frame v = v\<lparr>of_data := blank_bytes (of_data v)\<rparr>"

definition conceal_recording_chunk :: "terminal_recording_chunk \<Rightarrow> terminal_recording_chunk" where
  "conceal_recording_chunk v = v\<lparr>ck_payload := blank_bytes (ck_payload v)\<rparr>"

definition conceal_chunk_response :: "chunk_response \<Rightarrow> chunk_response" where
  "conceal_chunk_response v = v\<lparr>cr_data_b64 := blank_chars (cr_data_b64 v)\<rparr>"

definition conceal_password_credential :: "password_credential \<Rightarrow> password_credential" where
  "conceal_password_credential v = v\<lparr>pc_password_hash := blank_chars (pc_password_hash v)\<rparr>"

definition conceal_user_session :: "user_session \<Rightarrow> user_session" where
  "conceal_user_session v = v\<lparr>ws_token_hash := blank_bytes (ws_token_hash v)\<rparr>"

definition conceal_bootstrap_request :: "bootstrap_request \<Rightarrow> bootstrap_request" where
  "conceal_bootstrap_request v = v\<lparr>br_bootstrap_token := blank_chars (br_bootstrap_token v), br_password := blank_chars (br_password v)\<rparr>"

definition conceal_login_request :: "login_request \<Rightarrow> login_request" where
  "conceal_login_request v = v\<lparr>lr_password := blank_chars (lr_password v)\<rparr>"

definition conceal_change_password_request :: "change_password_request \<Rightarrow> change_password_request" where
  "conceal_change_password_request v = v\<lparr>pr_current_password := blank_chars (pr_current_password v), pr_new_password := blank_chars (pr_new_password v)\<rparr>"

definition conceal_ssh_identity :: "ssh_identity \<Rightarrow> ssh_identity" where
  "conceal_ssh_identity v = v\<lparr>si_public_key := blank_bytes (si_public_key v), si_encrypted_private_key := blank_bytes (si_encrypted_private_key v)\<rparr>"

definition conceal_create_ssh_identity :: "create_ssh_identity \<Rightarrow> create_ssh_identity" where
  "conceal_create_ssh_identity v = v\<lparr>ci_public_key := blank_bytes (ci_public_key v), ci_encrypted_private_key := blank_bytes (ci_encrypted_private_key v)\<rparr>"

definition conceal_generated_identity :: "generated_ssh_identity \<Rightarrow> generated_ssh_identity" where
  "conceal_generated_identity v = v\<lparr>gi_public_key_openssh := blank_bytes (gi_public_key_openssh v), gi_encrypted_private_key := blank_bytes (gi_encrypted_private_key v)\<rparr>"

definition conceal_import_request :: "import_identity_request \<Rightarrow> import_identity_request" where
  "conceal_import_request v = v\<lparr>im_private_key_openssh := blank_chars (im_private_key_openssh v)\<rparr>"

definition conceal_preflight_request :: "preflight_request \<Rightarrow> preflight_request" where
  "conceal_preflight_request v = v\<lparr>pq_private_key_pem := blank_bytes (pq_private_key_pem v)\<rparr>"

definition conceal_auth_check_request :: "auth_check_request \<Rightarrow> auth_check_request" where
  "conceal_auth_check_request v = v\<lparr>aq_private_key_pem := blank_bytes (aq_private_key_pem v)\<rparr>"

definition conceal_auth_check_target :: "auth_check_target \<Rightarrow> auth_check_target" where
  "conceal_auth_check_target v = v\<lparr>at_private_key_pem := blank_bytes (at_private_key_pem v)\<rparr>"

definition conceal_frames :: "output_frame list \<Rightarrow> output_frame list" where
  "conceal_frames frs = map (\<lambda>_. \<lparr>of_seq = 0, of_data = []\<rparr>) frs"

definition conceal_replay_range :: "replay_range \<Rightarrow> replay_range" where
  "conceal_replay_range v = v\<lparr>rr_frames := conceal_frames (rr_frames v)\<rparr>"

definition conceal_replay_buffer :: "replay_buffer \<Rightarrow> replay_buffer" where
  "conceal_replay_buffer v = v\<lparr>rb_frames := conceal_frames (rb_frames v)\<rparr>"

definition conceal_auth_routes_config :: "auth_routes_config \<Rightarrow> auth_routes_config" where
  "conceal_auth_routes_config v = v\<lparr>rc_bootstrap_token := map_option (\<lambda>_. []) (rc_bootstrap_token v)\<rparr>"

section \<open>Every rendering is exact\<close>

interpretation client_msgs: redacting debug_client_msg conceal_client_msg
  by unfold_locales (auto simp: debug_client_msg_def conceal_client_msg_def split: client_msg.splits)

interpretation pty_events: redacting debug_pty_event conceal_pty_event
  by unfold_locales (auto simp: debug_pty_event_def conceal_pty_event_def split: ssh_pty_event.splits closed_reason.splits)

interpretation binary_frames: redacting debug_binary_frame conceal_binary_frame
  by (intro redacting.intro, case_tac x, case_tac y) (auto simp: debug_binary_frame_def conceal_binary_frame_def simp flip: word_unat_eq_iff
      split: binary_frame_kind.splits)

interpretation output_frames: redacting debug_output_frame conceal_output_frame
  by (intro redacting.intro, case_tac x, case_tac y) (auto simp: debug_output_frame_def conceal_output_frame_def)

interpretation recording_chunks: redacting debug_recording_chunk conceal_recording_chunk
  by (intro redacting.intro, case_tac x, case_tac y) (auto simp: debug_recording_chunk_def conceal_recording_chunk_def split: payload_encryption.splits payload_compression.splits)

interpretation chunk_responses: redacting debug_chunk_response conceal_chunk_response
  by (intro redacting.intro, case_tac x, case_tac y) (auto simp: debug_chunk_response_def conceal_chunk_response_def)

interpretation password_credentials: redacting debug_password_credential conceal_password_credential
  by (intro redacting.intro, case_tac x, case_tac y) (auto simp: debug_password_credential_def conceal_password_credential_def)

interpretation user_sessions: redacting debug_user_session conceal_user_session
  by (intro redacting.intro, case_tac x, case_tac y) (auto simp: debug_user_session_def conceal_user_session_def)

interpretation bootstrap_requests: redacting debug_bootstrap_request conceal_bootstrap_request
  by (intro redacting.intro, case_tac x, case_tac y) (auto simp: debug_bootstrap_request_def conceal_bootstrap_request_def)

interpretation login_requests: redacting debug_login_request conceal_login_request
  by (intro redacting.intro, case_tac x, case_tac y) (auto simp: debug_login_request_def conceal_login_request_def)

interpretation change_password_requests: redacting debug_change_password_request conceal_change_password_request
  by (intro redacting.intro, case_tac x, case_tac y) (auto simp: debug_change_password_request_def conceal_change_password_request_def)

interpretation ssh_identities: redacting debug_ssh_identity conceal_ssh_identity
  by (intro redacting.intro, case_tac x, case_tac y) (auto simp: debug_ssh_identity_def conceal_ssh_identity_def)

interpretation create_ssh_identities: redacting debug_create_ssh_identity conceal_create_ssh_identity
  by (intro redacting.intro, case_tac x, case_tac y) (auto simp: debug_create_ssh_identity_def conceal_create_ssh_identity_def)

interpretation generated_identities: redacting debug_generated_identity conceal_generated_identity
  by (intro redacting.intro, case_tac x, case_tac y) (auto simp: debug_generated_identity_def conceal_generated_identity_def debug_encrypted_blob_def)

interpretation import_requests: redacting debug_import_request conceal_import_request
  by (intro redacting.intro, case_tac x, case_tac y) (auto simp: debug_import_request_def conceal_import_request_def)

interpretation preflight_requests: redacting debug_preflight_request conceal_preflight_request
  by (intro redacting.intro, case_tac x, case_tac y) (auto simp: debug_preflight_request_def conceal_preflight_request_def)

interpretation auth_check_requests: redacting debug_auth_check_request conceal_auth_check_request
  by (intro redacting.intro, case_tac x, case_tac y) (auto simp: debug_auth_check_request_def conceal_auth_check_request_def)

interpretation auth_check_targets: redacting debug_auth_check_target conceal_auth_check_target
  by (intro redacting.intro, case_tac x, case_tac y) (auto simp: debug_auth_check_target_def conceal_auth_check_target_def)

interpretation auth_routes_configs: redacting debug_auth_routes_config conceal_auth_routes_config
  by (intro redacting.intro, case_tac x, case_tac y) (auto simp: debug_auth_routes_config_def conceal_auth_routes_config_def d_set_def)

interpretation replay_ranges: redacting debug_replay_range conceal_replay_range
  by (intro redacting.intro, case_tac x, case_tac y) (auto simp: debug_replay_range_def conceal_replay_range_def conceal_frames_def)

interpretation replay_buffers: redacting debug_replay_buffer conceal_replay_buffer
  by (intro redacting.intro, case_tac x, case_tac y) (auto simp: debug_replay_buffer_def conceal_replay_buffer_def conceal_frames_def
      intro: replay_buffer_config.equality)


end
