(* ===== verification/Spec2Isabelle.thy ===== *)
theory Spec2Isabelle
  imports Recording_Coverage Socket_Behaviour Auth_Login Retention_Behaviour Recording_Reads
    Catalog_Limits Backend_Boot Row_Mapping Audit_Feed Debug_Redaction
begin

text \<open>
  \<^bold>\<open>RelayTerm: the terminal backend.\<close>

  RelayTerm keeps SSH terminal sessions alive on a server while browsers come and go. A session
  is a row in PostgreSQL plus, while its shell runs, a runtime in the session manager: an SSH
  channel bridge, a forwarder task that stamps each chunk of output with a sequence number, a
  bounded replay ring, a broadcast channel to the attached WebSockets, and a tee into a recording
  writer. When the last client detaches the manager schedules a close after a time to live; a
  client that comes back in time names the last sequence number it saw and gets the missed output
  replayed before it joins the live stream.

  \<^bold>\<open>Theories and the code they model.\<close>

  \<^item> \<open>Relay_Prelude\<close>: the program monad (an error keeps the effects made before it), the calculus of
    preserved predicates, step machines, saturating and wrapping machine arithmetic, list lemmas.
  \<^item> \<open>Core_Types\<close>: enumerations with their persisted tags and the persisted rows of
    \<^verbatim>\<open>crates/relayterm-core\<close>.
  \<^item> \<open>Binary_Frame\<close>: \<^verbatim>\<open>relayterm-protocol/src/binary.rs\<close>.
  \<^item> \<open>Replay_Buffer\<close>: \<^verbatim>\<open>relayterm-terminal/src/replay.rs\<close>.
  \<^item> \<open>Recording_Writer\<close> and \<open>Recording_Coverage\<close>: \<^verbatim>\<open>relayterm-terminal/src/recording.rs\<close>, the
    producer, its bounded queue and the writer task as one step machine.
  \<^item> \<open>Session_Store\<close>: the PostgreSQL repositories for sessions, attachments and events
    (\<^verbatim>\<open>relayterm-db/src/repositories\<close>) on row lists, with startup reconciliation.
  \<^item> \<open>Pty_Bridge\<close>: \<^verbatim>\<open>relayterm-ssh/src/russh_pty.rs\<close>, the handle and the driver of one SSH channel.
  \<^item> \<open>Session_Manager\<close>: \<^verbatim>\<open>relayterm-terminal/src/manager.rs\<close>; \<open>Session_Lifecycle\<close>,
    \<open>Session_Invariants\<close> and \<open>Session_Behaviour\<close> hold its properties.
  \<^item> \<open>Attach_Socket\<close>: the WebSocket part of \<^verbatim>\<open>relayterm-api/src/routes/v1/terminal_sessions.rs\<close> with
    the messages of \<^verbatim>\<open>relayterm-protocol/src/lib.rs\<close>; \<open>Socket_Behaviour\<close> holds its properties.
  \<^item> \<open>Rust_Text\<close>: the string functions of the Rust library the code uses, on lists of Unicode scalars.
  \<^item> \<open>Login_Throttle\<close>: \<^verbatim>\<open>relayterm-auth/src/throttle.rs\<close>.
  \<^item> \<open>Account_Store\<close>: the repositories for users, password credentials, user sessions and audit
    events; \<open>Auth_Service\<close>: \<^verbatim>\<open>relayterm-auth/src/service.rs\<close> with session tokens and passwords.
  \<^item> \<open>Identity_Vault\<close>: \<^verbatim>\<open>relayterm-vault\<close>, the sealed private keys.
  \<^item> \<open>Api_Error\<close>: \<^verbatim>\<open>relayterm-api/src/error.rs\<close>; \<open>Auth_Routes\<close>: cookies, the origin check, the
    session extractor and every handler of \<^verbatim>\<open>relayterm-api/src/routes/v1/auth.rs\<close>;
    \<open>Auth_Invariants\<close>, \<open>Auth_Behaviour\<close> and \<open>Auth_Login\<close> hold their properties.
  \<^item> \<open>Recording_Store\<close>: the repository of recording chunks and markers with its retention deletes
    and the table constraints of the migrations; \<open>Retention\<close>:
    \<^verbatim>\<open>relayterm-terminal/src/retention_worker.rs\<close>, the sweep, its advisory lock and its audit
    records; \<open>Retention_Behaviour\<close> holds their properties. \<open>Recording_Reads\<close>: the metadata and
    chunk page routes of \<^verbatim>\<open>relayterm-api/src/routes/v1/recordings.rs\<close>. The day arithmetic of
    PostgreSQL and base64 are parameters.
  \<^item> \<open>Field_Validation\<close>: \<^verbatim>\<open>relayterm-core/src/validation.rs\<close>.
  \<^item> \<open>Ssh_Client\<close>: the three uses of russh (\<^verbatim>\<open>relayterm-ssh/src/russh_probe.rs\<close>, \<^verbatim>\<open>russh_auth.rs\<close> and the
    start of \<^verbatim>\<open>russh_pty.rs\<close>) against a peer that may answer, fail or stay silent, with a trace of what
    is put on the wire; \<open>Ssh_Services\<close>: \<^verbatim>\<open>preflight.rs\<close> and \<^verbatim>\<open>auth_check.rs\<close> with their properties.
  \<^item> \<open>Catalog_Store\<close>: the repositories for hosts, identities, profiles and known-host entries;
    \<open>Catalog_Dto\<close> and \<open>Catalog_Routes\<close>: \<^verbatim>\<open>relayterm-api/src/dto\<close> and the routes \<^verbatim>\<open>hosts.rs\<close>,
    \<^verbatim>\<open>ssh_identities.rs\<close> and \<^verbatim>\<open>server_profiles.rs\<close>; \<open>Session_Routes\<close>: create, list, get and close of
    \<^verbatim>\<open>terminal_sessions.rs\<close>.
  \<^item> \<open>Catalog_Invariants\<close>: requests, logins and session events as one step machine \<open>catalog_step\<close>, and
    the locale \<open>catalog_stable\<close>; \<open>Catalog_Behaviour\<close>, \<open>Catalog_Access\<close>, \<open>Catalog_Signing\<close> and
    \<open>Catalog_Limits\<close> hold the properties of the inventory.
  \<^item> \<open>Backend_Config\<close>: \<^verbatim>\<open>apps/backend/src/config.rs\<close>, the defaults, the file and environment layers, the
    validation rules and the debug rendering; \<open>Config_Behaviour\<close> holds its properties. \<open>Backend_Boot\<close>:
    \<^verbatim>\<open>apps/backend/src/main.rs\<close>, the stages of a start with their properties. The process environment,
    the file system, the TOML parser and the socket-address type are arguments.
  \<^item> \<open>Row_Mapping\<close>: \<^verbatim>\<open>relayterm-db/src/rows.rs\<close> and \<^verbatim>\<open>error.rs\<close>, with the \<open>CHECK\<close> constraints of the
    migrations; it justifies that the other theories keep the tables as lists of domain records.
  \<^item> \<open>Audit_Feed\<close>: \<^verbatim>\<open>routes/v1/audit_events.rs\<close>, \<^verbatim>\<open>dto/audit_event.rs\<close>, \<^verbatim>\<open>routes/v1/session_policy.rs\<close> and
    \<^verbatim>\<open>routes/health.rs\<close>. \<open>Debug_Redaction\<close>: the hand-written \<open>Debug\<close> renderings of the types that carry secrets.

  \<^bold>\<open>How state and concurrency are modelled.\<close> The manager's state is one record: the tables, the
  runtime and attachment registries (hash maps as association lists) and the configuration. Each
  asynchronous method is a program on that record. Every repository call first takes the next
  entry of a fault list, so a theorem without an assumption on it holds for every pattern of
  database failures. \<open>mgr_step\<close> is the interleaving: one label per method, forwarder turn,
  driver turn, timer expiry, clock change and failure pattern; a run is a list of labels. Methods
  are atomic in it, except that \<open>attach_session\<close> is also given in the two parts that its database
  write separates, which is where the overlap of two clients matters. A broadcast channel is the
  list of everything sent on it and a subscriber is a position. Sequence numbers are natural
  numbers with the \<open>u64\<close> wrap-around written out, frame headers are machine words, time is an
  integer. JSON text is parsed by a library, so a text frame is its parse result. All loops are
  structural recursions, so no fuel is used.

  \<^bold>\<open>What is shown.\<close> The wire format is a bijection (\<open>Binary_Frame\<close>). The ring keeps exactly the
  longest suffix of the history within its bounds and answers resume queries completely or as
  lost (\<open>Replay_Buffer\<close>). Persisted chunks and gap markers cover the stream exactly once
  (\<open>Recording_Coverage\<close>). Keystrokes are delivered in order and the bridge ends with one last
  event (\<open>Pty_Bridge\<close>). Orphaned sessions are closed at startup (\<open>Session_Store\<close>). Foreign sessions
  are invisible and untouchable, a close is final, history is append-only, live streams are
  consistent, detach windows are bounded and never hit an attached client when operations do
  not overlap (\<open>Session_Lifecycle\<close>, \<open>Session_Invariants\<close>, \<open>Session_Behaviour\<close>). A resumed client
  gets every frame exactly once, a socket is confined to its own session and leaves no
  registration behind (\<open>Socket_Behaviour\<close>). The throttle blocks exactly as the sliding window policy
  says within bounded memory (\<open>Login_Throttle\<close>). A request is authenticated exactly when its cookie
  names a live session, a revoked token never works again, a password change ends the other
  sessions, failed logins are indistinguishable, foreign origins change nothing, and the account
  tables stay well formed under every request and failure pattern (\<open>Auth_Invariants\<close>,
  \<open>Auth_Behaviour\<close>, \<open>Auth_Login\<close>). What the vault stored can be recovered, and only under the same
  key and identity (\<open>Identity_Vault\<close>). A recording is deleted only by the retention policy, a sweep
  deletes exactly what the policy names, a backlog drains in finitely many sweeps, and two
  backends never sweep at once (\<open>Retention_Behaviour\<close>). The pages of a recording put together are
  the recording (\<open>Recording_Reads\<close>). The validators accept exactly their grammars
  (\<open>Field_Validation\<close>). Network checks end in bounded time, at most the configured number run at
  once, and the classifier agrees with the pins handed to the SSH client (\<open>Ssh_Services\<close>). The
  inventory stays consistent, a revoked host key stays revoked and every stored identity stays
  usable under every run of requests, logins, session events and failures (\<open>Catalog_Behaviour\<close>); a
  request changes only its own user's rows and a foreign resource answers like a missing one
  (\<open>Catalog_Access\<close>); every signature is for an enabled profile of the caller, with its own key,
  at a host that presented an active pin (\<open>Catalog_Signing\<close>). The environment overrides the file
  and the file the defaults, field by field, and a debug rendering shows no secret
  (\<open>Config_Behaviour\<close>); a backend that starts runs with a sound configuration, and an unsound one is
  refused before the database is touched (\<open>Backend_Boot\<close>). Every table the schema admits reads back
  as the records that were written (\<open>Row_Mapping\<close>). The audit feed shows its reader's own events and
  depends on nothing but their public fields (\<open>Audit_Feed\<close>). The hand-written renderings for logs
  show everything but the secrets (\<open>Debug_Redaction\<close>). Several theorems exhibit runs in which the code departs
  from its documentation: lost trailing gaps, a closed session that comes back, leaked PTYs,
  a timer that closes a session under a client, duplicated output, a leaked registration, an
  advisory lock that a failed unlock leaves held, a PTY start without a time limit, two active
  pins of one key type, and a ceiling on sessions that overlapping creations pass.

  \<^bold>\<open>Interfaces.\<close> The locales \<open>frame_codec\<close>, \<open>replay_log\<close>, \<open>write_once\<close>, \<open>step_machine\<close>,
  \<open>db_rows\<close>, \<open>db_stable\<close>, \<open>entry_invariant\<close>, \<open>socket_exit\<close>, \<open>socket_invariant\<close>, \<open>delivery\<close>,
  \<open>account_stable\<close>, \<open>catalog_stable\<close>, \<open>tag_codec\<close>, \<open>row_codec\<close> and \<open>redacting\<close> state what one part
  relies on of another; each is interpreted on the definitions of the model.

  \<^bold>\<open>Not modelled.\<close> Network and cryptographic libraries, logging, serialisation (the static message
  texts of responses and the rendering of public keys as text included), the connection pool, the
  TypeScript client and the application shells. A request is atomic in \<open>catalog_step\<close>; the overlap of
  session creations is modelled by their two parts in \<open>Session_Routes\<close>.
\<close>

end
